(* ===== verification/Prelude.thy ===== *)
theory Prelude
  imports Main "HOL-Library.Word" "HOL-Library.AList" "HOL-Library.List_Lexorder"
    "HOL-Library.Char_ord" "HOL-Library.Product_Lexorder" "HOL-Library.Sublist"
begin

text \<open>
  What the component theories share: Go's maps, its machine integers, its time and duration
  values, and the list lemmas the loops need.

  \<^item> A Go map with string keys is an association list with one entry per key (\<open>gomap\<close>). Reading an
    absent key yields the zero value of the element type, which \<open>gget\<close> takes as its first
    argument. Go iterates over a map in an unspecified order; the order of the list stands for
    the order of one run, so a theorem over every such list holds for every order.
  \<^item> Go's \<open>uint64\<close> and \<open>ByteSize\<close> are \<open>64 word\<close>. Go's \<open>int\<close> is \<open>int\<close> where the code counts
    workers and jobs, and \<open>int\<close> reduced by \<open>wrap64\<close> where the code relies on its width.
  \<^item> A \<open>time.Time\<close> is the number of nanoseconds since Go's zero time and a \<open>time.Duration\<close> a
    number of nanoseconds.

  The collection \<open>gomap_simps\<close> rewrites lookups after updates, \<open>plan_defs\<close> unfolds the small
  predicates of the planner.
\<close>

named_theorems gomap_simps "lookups in Go maps after updates"
named_theorems plan_defs "definitions of the small planner predicates"

section \<open>Machine integers, time\<close>

type_synonym u64 = "64 word"
type_synonym time = int
type_synonym duration = int

definition maxInt64 :: int where "maxInt64 = 2 ^ 63 - 1"
definition minInt64 :: int where "minInt64 = - (2 ^ 63)"

text \<open>Signed 64-bit wrap-around, for arithmetic whose overflow the code tests.\<close>

definition wrap64 :: "int \<Rightarrow> int" where
  "wrap64 x = (x + 2 ^ 63) mod 2 ^ 64 - 2 ^ 63"

definition isInt64 :: "int \<Rightarrow> bool" where
  "isInt64 x \<longleftrightarrow> minInt64 \<le> x \<and> x \<le> maxInt64"

text \<open>Go's integer division and remainder truncate towards zero.\<close>

definition godiv :: "int \<Rightarrow> int \<Rightarrow> int" where
  "godiv a b = sgn a * sgn b * (\<bar>a\<bar> div \<bar>b\<bar>)"

definition gomod :: "int \<Rightarrow> int \<Rightarrow> int" where
  "gomod a b = a - godiv a b * b"

abbreviation second :: duration where "second \<equiv> 1000000000"
abbreviation minute :: duration where "minute \<equiv> 60000000000"

text \<open>\<open>Time.Sub\<close> saturates at the bounds of \<open>Duration\<close>.\<close>

definition timeSub :: "time \<Rightarrow> time \<Rightarrow> duration" where
  "timeSub t u = max minInt64 (min maxInt64 (t - u))"

definition timeIsZero :: "time \<Rightarrow> bool" where
  "timeIsZero t \<longleftrightarrow> t = 0"

lemma wrap64_id [simp]: "isInt64 x \<Longrightarrow> wrap64 x = x"
  by (simp add: wrap64_def isInt64_def minInt64_def maxInt64_def)

lemma isInt64_wrap64 [simp]: "isInt64 (wrap64 x)"
proof -
  have "0 \<le> (x + 2 ^ 63) mod (2 ^ 64 :: int)" "(x + 2 ^ 63) mod (2 ^ 64 :: int) < 2 ^ 64"
    by simp_all
  then show ?thesis
    unfolding isInt64_def wrap64_def minInt64_def maxInt64_def by simp
qed

lemma timeSub_mono: "t \<le> t' \<Longrightarrow> timeSub t u \<le> timeSub t' u"
  by (auto simp: timeSub_def max_def min_def)

lemma timeSub_ge_iff:
  "minInt64 < d \<Longrightarrow> d \<le> maxInt64 \<Longrightarrow> d \<le> timeSub t u \<longleftrightarrow> d \<le> t - u"
  by (auto simp: timeSub_def)

text \<open>Products of a count and a word that stay below the word's bound do not wrap.\<close>

lemma uint_word_of_int_times:
  fixes m :: u64
  assumes "0 \<le> n" and "n * uint m < 2 ^ 64"
  shows "uint (word_of_int n * m) = n * uint m"
proof -
  have "uint (word_of_int n * m) = (n * uint m) mod 2 ^ 64"
    by (simp add: uint_word_arith_bintrs take_bit_eq_mod uint_word_of_int mod_mult_left_eq)
  then show ?thesis
    using assms by simp
qed

lemma uint_minus_le:
  fixes a b :: u64
  assumes "uint b \<le> uint a"
  shows "uint (a - b) = uint a - uint b"
  using assms by (simp add: uint_sub_lem)

lemma uint_lt64: "uint (w :: u64) < 2 ^ 64"
  using uint_lt2p [of w] by simp

lemma add_uint_le: "x + uint (w :: u64) = y \<Longrightarrow> x \<le> y"
  using unsigned_greater_eq [of w, where ?'a = int] by linarith

section \<open>Numerals\<close>

text \<open>\<open>strconv.FormatUint\<close> in a base of at most 36, and the decimal numerals of \<open>fmt\<close>.\<close>

definition digitChar :: "nat \<Rightarrow> char" where
  "digitChar d = (if d < 10 then char_of (48 + d) else char_of (87 + d))"

fun formatNat :: "nat \<Rightarrow> nat \<Rightarrow> string" where
  "formatNat base n =
     (if n < base \<or> base < 2 then [digitChar n] else formatNat base (n div base) @ [digitChar (n mod base)])"

declare formatNat.simps [simp del]

abbreviation natString :: "nat \<Rightarrow> string" where "natString \<equiv> formatNat 10"

definition formatInt :: "nat \<Rightarrow> int \<Rightarrow> string" where
  "formatInt base n = (if n < 0 then CHR ''-'' # formatNat base (nat (- n)) else formatNat base (nat n))"

section \<open>Go maps\<close>

type_synonym 'v gomap = "(string \<times> 'v) list"

definition gget :: "'v \<Rightarrow> 'v gomap \<Rightarrow> string \<Rightarrow> 'v" where
  "gget z m k = (case map_of m k of None \<Rightarrow> z | Some v \<Rightarrow> v)"

definition gput :: "'v gomap \<Rightarrow> string \<Rightarrow> 'v \<Rightarrow> 'v gomap" where
  "gput m k v = AList.update k v m"

definition gdelete :: "'v gomap \<Rightarrow> string \<Rightarrow> 'v gomap" where
  "gdelete m k = AList.delete k m"

definition ghas :: "'v gomap \<Rightarrow> string \<Rightarrow> bool" where
  "ghas m k \<longleftrightarrow> map_of m k \<noteq> None"

definition gkeys :: "'v gomap \<Rightarrow> string list" where
  "gkeys m = map fst m"

definition gsum :: "int gomap \<Rightarrow> int" where
  "gsum m = sum_list (map snd m)"

abbreviation geti :: "int gomap \<Rightarrow> string \<Rightarrow> int" where "geti \<equiv> gget 0"
abbreviation getb :: "bool gomap \<Rightarrow> string \<Rightarrow> bool" where "getb \<equiv> gget False"

lemma gget_Nil [simp, gomap_simps]: "gget z [] k = z"
  by (simp add: gget_def)

lemma gget_gput [simp, gomap_simps]: "gget z (gput m k v) k' = (if k' = k then v else gget z m k')"
  by (simp add: gget_def gput_def update_conv')

lemma map_of_gput [simp, gomap_simps]: "map_of (gput m k v) k' = (if k' = k then Some v else map_of m k')"
  by (simp add: gput_def update_conv')

lemma map_of_gdelete [simp, gomap_simps]: "map_of (gdelete m k) k' = (if k' = k then None else map_of m k')"
  by (simp add: gdelete_def delete_conv')

lemma gget_gdelete [simp, gomap_simps]:
  "gget z (gdelete m k) k' = (if k' = k then z else gget z m k')"
  by (simp add: gget_def gdelete_def delete_conv')

lemma ghas_gput [simp, gomap_simps]: "ghas (gput m k v) k' \<longleftrightarrow> k' = k \<or> ghas m k'"
  by (simp add: ghas_def gput_def update_conv')

lemma ghas_gdelete [simp, gomap_simps]: "ghas (gdelete m k) k' \<longleftrightarrow> k' \<noteq> k \<and> ghas m k'"
  by (simp add: ghas_def gdelete_def delete_conv')

lemma ghas_Nil [simp, gomap_simps]: "\<not> ghas [] k"
  by (simp add: ghas_def)

lemma gkeys_Nil [simp]: "gkeys [] = []"
  by (simp add: gkeys_def)

lemma ghas_iff_gkeys: "ghas m k \<longleftrightarrow> k \<in> set (gkeys m)"
  by (simp add: ghas_def gkeys_def map_of_eq_None_iff)

lemma gget_not_has: "\<not> ghas m k \<Longrightarrow> gget z m k = z"
  by (simp add: ghas_def gget_def)

lemma gkeys_gput: "gkeys (gput m k v) = (if ghas m k then gkeys m else gkeys m @ [k])"
  unfolding gkeys_def gput_def ghas_def
  by (induction m) (auto simp: map_of_eq_None_iff)

lemma gkeys_gput_has [simp]: "ghas m k \<Longrightarrow> gkeys (gput m k v) = gkeys m"
  by (simp add: gkeys_gput)

lemma distinct_gkeys_gput [simp]: "distinct (gkeys m) \<Longrightarrow> distinct (gkeys (gput m k v))"
  by (auto simp: gkeys_gput ghas_iff_gkeys)

lemma gsum_eq_sum_keys: "distinct (gkeys m) \<Longrightarrow> gsum m = (\<Sum>k\<leftarrow>gkeys m. geti m k)"
proof (induction m)
  case Nil
  then show ?case by (simp add: gsum_def gkeys_def)
next
  case (Cons x m)
  then have fresh: "fst x \<notin> set (gkeys m)" and IH: "gsum m = (\<Sum>k\<leftarrow>gkeys m. geti m k)"
    by (auto simp: gkeys_def)
  have "(\<Sum>k\<leftarrow>gkeys m. geti (x # m) k) = (\<Sum>k\<leftarrow>gkeys m. geti m k)"
    using fresh by (intro arg_cong [where f = sum_list] map_cong) (auto simp: gget_def split: prod.splits)
  then show ?case
    using IH by (cases x) (simp add: gsum_def gkeys_def gget_def)
qed

text \<open>
  A weighted sum over items with distinct keys changes by the weighted change at the one item
  whose key is updated.
\<close>

lemma sum_list_update:
  assumes "distinct (map f xs)" and "x \<in> set xs"
    and "\<And>y. y \<in> set xs \<Longrightarrow> g' y = g y + (if f y = f x then d else (0 :: int))"
  shows "(\<Sum>y\<leftarrow>xs. g' y * c y) = (\<Sum>y\<leftarrow>xs. g y * c y) + d * c x"
  using assms
proof (induction xs)
  case Nil
  then show ?case by simp
next
  case (Cons a xs)
  show ?case
  proof (cases "x = a")
    case True
    with Cons.prems have "f x \<notin> f ` set xs" by simp
    then have "\<forall>y \<in> set xs. f y \<noteq> f x" by (metis image_eqI)
    then have "(\<Sum>y\<leftarrow>xs. g' y * c y) = (\<Sum>y\<leftarrow>xs. g y * c y)"
      using Cons.prems(3) by (intro arg_cong [where f = sum_list] map_cong) auto
    then show ?thesis
      using True Cons.prems(3) [of a] by (simp add: algebra_simps)
  next
    case False
    with Cons.prems have "x \<in> set xs" and "f a \<noteq> f x" by auto
    then show ?thesis
      using Cons by simp
  qed
qed

lemma sum_list_update_1:
  assumes "distinct (map f xs)" and "x \<in> set xs"
    and "\<And>y. y \<in> set xs \<Longrightarrow> g' y = g y + (if f y = f x then d else (0 :: int))"
  shows "(\<Sum>y\<leftarrow>xs. g' y) = (\<Sum>y\<leftarrow>xs. g y) + d"
  using sum_list_update [OF assms, of "\<lambda>_. 1"] by simp

section \<open>Lists\<close>

lemma sum_list_nonneg_int: "(\<And>x. x \<in> set xs \<Longrightarrow> 0 \<le> f x) \<Longrightarrow> 0 \<le> (\<Sum>x\<leftarrow>xs. f x :: int)"
  by (induction xs) auto

lemma sum_list_mono_int:
  "(\<And>x. x \<in> set xs \<Longrightarrow> f x \<le> g x) \<Longrightarrow> (\<Sum>x\<leftarrow>xs. f x :: int) \<le> (\<Sum>x\<leftarrow>xs. g x)"
  by (induction xs) (auto intro: add_mono)

lemma sum_list_member_le:
  assumes "\<And>y. y \<in> set xs \<Longrightarrow> 0 \<le> (f y :: int)" and "x \<in> set xs"
  shows "f x \<le> (\<Sum>y\<leftarrow>xs. f y)"
  using assms by (induction xs) (auto intro: sum_list_nonneg_int add_increasing add_increasing2)

lemma sum_list_indicator:
  "distinct ks \<Longrightarrow> (\<Sum>k\<leftarrow>ks. if x = k then c else 0) = (if x \<in> set ks then c else (0 :: int))"
  by (induction ks) auto

lemma subseq_set: "subseq xs ys \<Longrightarrow> set xs \<subseteq> set ys"
  by (induction rule: list_emb.induct) auto

lemma subseq_distinct: "subseq xs ys \<Longrightarrow> distinct ys \<Longrightarrow> distinct xs"
  by (induction rule: list_emb.induct) (auto dest: subseq_set)

text \<open>A fold keeps whatever each of its steps keeps.\<close>

lemma foldl_invariant:
  assumes "P s" and "\<And>s x. x \<in> set xs \<Longrightarrow> P s \<Longrightarrow> P (f s x)"
  shows "P (foldl f s xs)"
  using assms by (induction xs arbitrary: s) auto

end
