(* ===== verification/Float64.thy ===== *)
theory Float64
  imports Prelude Complex_Main "HOL-Library.Log_Nat"
begin

text \<open>
  Go's \<open>float64\<close>: a finite value is the rational number it stands for, and every operation rounds
  its exact result to the nearest double, ties to even (\<open>round64\<close>: 53 significant bits, exponents
  down to \<open>- 1074\<close>, overflow to an infinity). Zeros of either sign are the same value: no code
  under \<open>src/\<close> that is modelled here divides by a computed zero or reads a sign bit. Comparisons
  with NaN are false, as in Go. The definitions compute, so a witness evaluates them.
\<close>

datatype float64 = Fin rat | NaN | PInf | NInf

section \<open>Rounding\<close>

definition pow2 :: "int \<Rightarrow> rat" where
  "pow2 k = (if 0 \<le> k then 2 ^ nat k else 1 / 2 ^ nat (- k))"

text \<open>The exponent of the leading bit of a positive rational.\<close>

definition ilog2 :: "rat \<Rightarrow> int" where
  "ilog2 q = (let (n, d) = quotient_of q; k = bitlen n - bitlen d
              in if pow2 k \<le> q then k else k - 1)"

definition roundHalfEven :: "rat \<Rightarrow> int" where
  "roundHalfEven q =
     (let f = \<lfloor>q\<rfloor>; r = q - of_int f
      in if r < 1 / 2 then f else if 1 / 2 < r then f + 1 else if even f then f else f + 1)"

definition round64 :: "rat \<Rightarrow> float64" where
  "round64 x =
     (if x = 0 then Fin 0
      else let a = \<bar>x\<bar>; e = max (- 1074) (ilog2 a - 52);
               r = of_int (roundHalfEven (a / pow2 e)) * pow2 e
           in if 1024 \<le> ilog2 r then (if 0 < x then PInf else NInf)
              else Fin (if 0 < x then r else - r))"

section \<open>Comparisons and tests\<close>

fun f64Lt :: "float64 \<Rightarrow> float64 \<Rightarrow> bool" where
  "f64Lt (Fin a) (Fin b) = (a < b)"
| "f64Lt NaN _ = False"
| "f64Lt _ NaN = False"
| "f64Lt PInf _ = False"
| "f64Lt _ NInf = False"
| "f64Lt _ _ = True"

fun f64Le :: "float64 \<Rightarrow> float64 \<Rightarrow> bool" where
  "f64Le (Fin a) (Fin b) = (a \<le> b)"
| "f64Le NaN _ = False"
| "f64Le _ NaN = False"
| "f64Le NInf _ = True"
| "f64Le _ PInf = True"
| "f64Le _ _ = False"

fun f64Eq :: "float64 \<Rightarrow> float64 \<Rightarrow> bool" where
  "f64Eq NaN _ = False"
| "f64Eq x y = (x = y)"

definition isNaN :: "float64 \<Rightarrow> bool" where "isNaN x \<longleftrightarrow> x = NaN"
definition isInf :: "float64 \<Rightarrow> bool" where "isInf x \<longleftrightarrow> x = PInf \<or> x = NInf"

section \<open>Arithmetic\<close>

fun f64Add :: "float64 \<Rightarrow> float64 \<Rightarrow> float64" where
  "f64Add (Fin a) (Fin b) = round64 (a + b)"
| "f64Add NaN _ = NaN"
| "f64Add _ NaN = NaN"
| "f64Add PInf NInf = NaN"
| "f64Add NInf PInf = NaN"
| "f64Add PInf _ = PInf"
| "f64Add _ PInf = PInf"
| "f64Add NInf _ = NInf"
| "f64Add _ NInf = NInf"

definition f64Sgn :: "float64 \<Rightarrow> int" where
  "f64Sgn x = (case x of Fin a \<Rightarrow> (if a = 0 then 0 else if 0 < a then 1 else - 1)
     | PInf \<Rightarrow> 1 | NInf \<Rightarrow> - 1 | NaN \<Rightarrow> 0)"

fun f64Mul :: "float64 \<Rightarrow> float64 \<Rightarrow> float64" where
  "f64Mul (Fin a) (Fin b) = round64 (a * b)"
| "f64Mul NaN _ = NaN"
| "f64Mul _ NaN = NaN"
| "f64Mul x y =
     (let s = f64Sgn x * f64Sgn y in if s = 0 then NaN else if 0 < s then PInf else NInf)"

text \<open>Division of a value by a nonzero constant, the only division the code performs.\<close>

fun f64DivBy :: "float64 \<Rightarrow> rat \<Rightarrow> float64" where
  "f64DivBy (Fin a) c = round64 (a / c)"
| "f64DivBy NaN c = NaN"
| "f64DivBy PInf c = (if 0 < c then PInf else NInf)"
| "f64DivBy NInf c = (if 0 < c then NInf else PInf)"

text \<open>\<open>math.Ceil\<close>: the ceiling of a double is a double, so no rounding happens.\<close>

fun f64Ceil :: "float64 \<Rightarrow> float64" where
  "f64Ceil (Fin a) = Fin (of_int \<lceil>a\<rceil>)"
| "f64Ceil x = x"

section \<open>Conversions\<close>

definition f64OfInt :: "int \<Rightarrow> float64" where
  "f64OfInt n = round64 (of_int n)"

definition f64OfU64 :: "u64 \<Rightarrow> float64" where
  "f64OfU64 w = f64OfInt (uint w)"

text \<open>
  A conversion to an integer truncates. Go leaves the result of an out-of-range conversion to the
  implementation; \<open>2 ^ 63\<close> is what the supported amd64 target yields. No theorem of the
  development rests on that case.
\<close>

definition truncRat :: "rat \<Rightarrow> int" where
  "truncRat a = (if 0 \<le> a then \<lfloor>a\<rfloor> else \<lceil>a\<rceil>)"

definition u64OfF64 :: "float64 \<Rightarrow> u64" where
  "u64OfF64 x = (case x of
       Fin a \<Rightarrow> if 0 \<le> truncRat a \<and> truncRat a < 2 ^ 64 then word_of_int (truncRat a) else 2 ^ 63
     | _ \<Rightarrow> 2 ^ 63)"

definition int64OfF64 :: "float64 \<Rightarrow> int" where
  "int64OfF64 x = (case x of
       Fin a \<Rightarrow> if isInt64 (truncRat a) then truncRat a else minInt64
     | _ \<Rightarrow> minInt64)"

text \<open>\<open>Duration.Seconds\<close>.\<close>

definition durationSeconds :: "duration \<Rightarrow> float64" where
  "durationSeconds d =
     f64Add (f64OfInt (godiv d second)) (f64DivBy (f64OfInt (gomod d second)) 1000000000)"

section \<open>Lemmas\<close>

lemma f64Le_Lt_disj: "f64Lt x y \<Longrightarrow> \<not> f64Le y x"
  by (cases x; cases y) auto

lemma f64_not_Le: "\<not> isNaN x \<Longrightarrow> \<not> isNaN y \<Longrightarrow> \<not> f64Le x y \<longleftrightarrow> f64Lt y x"
  by (cases x; cases y) (auto simp: isNaN_def)

lemma pow2_pos [simp]: "0 < pow2 k"
  by (simp add: pow2_def)

lemma roundHalfEven_int [simp]: "roundHalfEven (of_int n) = n"
  by (simp add: roundHalfEven_def)

lemma roundHalfEven_bounds: "\<lfloor>q\<rfloor> \<le> roundHalfEven q \<and> roundHalfEven q \<le> \<lfloor>q\<rfloor> + 1"
  by (simp add: roundHalfEven_def Let_def)

lemma isInt64_int64OfF64 [simp]: "isInt64 (int64OfF64 x)"
  by (simp add: int64OfF64_def isInt64_def minInt64_def maxInt64_def split: float64.split)

end
