(* ===== verification/Model.thy ===== *)
theory Model
  imports Float64
begin

text \<open>
  The platform-neutral state of \<open>src/internal/model/model.go\<close>, shared by the controller, its
  adapters and the command line, and the identity and statistics records of
  \<open>src/internal/scaleset/scaleset.go\<close>. Go's string types with named constants are datatypes with
  one constructor per constant and one, carrying the string, for every other value, because the
  code tests for unknown values. An empty reason is a constructor of its own. A pointer that may
  be nil is an option.
\<close>

section \<open>Lifecycle vocabulary\<close>

datatype Mode = ModeEnabled | ModeDisabled | ModeGaming | ModeOther string

fun modeValid :: "Mode \<Rightarrow> bool" where
  "modeValid ModeEnabled = True"
| "modeValid ModeDisabled = True"
| "modeValid ModeGaming = True"
| "modeValid (ModeOther _) = False"

datatype Phase =
    PhaseStarting | PhaseReady | PhaseResourceConstrained | PhasePowerSuspended
  | PhaseDraining | PhaseDisabled | PhaseGaming | PhaseDegraded | PhaseOther string

datatype QuiesceReason =
    NoQuiesceReason
  | QuiesceReasonOperatorDisabled
  | QuiesceReasonGamingActiveWork
  | QuiesceReasonGamingHostTeardown
  | QuiesceReasonExcessWorkers
  | QuiesceReasonAdvertisementBudgetExhausted
  | QuiesceReasonOther string

record DesiredState =
  dsSchemaVersion :: int
  dsMode :: Mode
  dsTemporaryCapacityOverride :: "int option"
  dsUpdatedAt :: time

record RestartReceipt =
  rrSchemaVersion :: int
  rrRequestID :: string
  rrProcessID :: "32 word"
  rrVersion :: string
  rrCompletedAt :: time

section \<open>Workers and pools\<close>

datatype WorkerState =
  WorkerStarting | WorkerIdle | WorkerBusy | WorkerUnregistered | WorkerExited | WorkerOther string

record Worker =
  wID :: string
  wAdapterID :: string
  wPoolID :: string
  wName :: string
  wState :: WorkerState
  wJobID :: string
  wRunnerID :: int
  wStartedAt :: time
  wMemoryLimitBytes :: int

definition workerActive :: "Worker \<Rightarrow> bool" where
  "workerActive w \<longleftrightarrow> wState w = WorkerStarting \<or> wState w = WorkerIdle \<or> wState w = WorkerBusy"

record PoolObservation =
  poID :: string
  poScaleSetID :: int
  poListenerID :: string
  poTotalAssignedJobs :: int
  poMaxCapacity :: int
  poCapacityAcknowledged :: bool
  poZeroCapacityConfirmations :: int
  poDrainServiceCapacity :: int
  poDesiredWorkers :: int
  poUpdatedAt :: time

text \<open>The zero value of a struct, which reading an absent map key yields.\<close>

definition zeroPoolObservation :: PoolObservation where
  "zeroPoolObservation = \<lparr>poID = [], poScaleSetID = 0, poListenerID = [], poTotalAssignedJobs = 0,
     poMaxCapacity = 0, poCapacityAcknowledged = False, poZeroCapacityConfirmations = 0,
     poDrainServiceCapacity = 0, poDesiredWorkers = 0, poUpdatedAt = 0\<rparr>"

record Identity =
  idScaleSetID :: int
  idListenerID :: string

definition zeroIdentity :: Identity where
  "zeroIdentity = \<lparr>idScaleSetID = 0, idListenerID = []\<rparr>"

record Statistics =
  statTotalAssignedJobs :: int

section \<open>Host observations and gates\<close>

record ResourceSnapshot =
  rsTotalMemoryBytes :: u64
  rsAvailableMemoryBytes :: u64
  rsCPUUtilizationPercent :: float64

definition zeroResourceSnapshot :: ResourceSnapshot where
  "zeroResourceSnapshot =
     \<lparr>rsTotalMemoryBytes = 0, rsAvailableMemoryBytes = 0, rsCPUUtilizationPercent = Fin 0\<rparr>"

record PowerSnapshot =
  pwACConnected :: bool
  pwObservedAt :: time

record DesktopStatus =
  dtDesktopRunning :: bool
  dtEngineReachable :: bool
  dtRunningWSLCount :: int

datatype ResourceGateReason =
    ResourceGateReasonEmpty | ResourceGateReasonCPU | ResourceGateReasonInvalidObservation
  | ResourceGateReasonOther string

record ResourceGateState =
  rgBlocked :: bool
  rgReason :: ResourceGateReason
  rgHighCPUSince :: "time option"
  rgHealthySince :: "time option"

definition zeroResourceGate :: ResourceGateState where
  "zeroResourceGate = \<lparr>rgBlocked = False, rgReason = ResourceGateReasonEmpty,
     rgHighCPUSince = None, rgHealthySince = None\<rparr>"

record PowerGateState =
  pgACSince :: "time option"

record Problem =
  prCode :: string
  prMessage :: string
  prPoolID :: string
  prRetryable :: bool
  prAt :: time

record ControllerCost =
  ccLastTickDurationSeconds :: float64
  ccProcessCPUSeconds :: float64

record Presence =
  prsInputIdleSeconds :: "float64 option"
  prsInteractiveCapActive :: bool

record ObservedState =
  osSchemaVersion :: int
  osPhase :: Phase
  osHeartbeatAt :: time
  osDrainStartedAt :: "time option"
  osQuiesceReason :: QuiesceReason
  osVersion :: string
  osPools :: "PoolObservation list"
  osWorkers :: "Worker list"
  osResources :: ResourceSnapshot
  osPower :: PowerSnapshot
  osDesktop :: DesktopStatus
  osResourceGate :: ResourceGateState
  osPowerGate :: PowerGateState
  osController :: ControllerCost
  osPresence :: Presence
  osProblems :: "Problem list"

definition zeroObservedState :: ObservedState where
  "zeroObservedState = \<lparr>osSchemaVersion = 0, osPhase = PhaseOther [], osHeartbeatAt = 0,
     osDrainStartedAt = None, osQuiesceReason = NoQuiesceReason, osVersion = [], osPools = [],
     osWorkers = [], osResources = zeroResourceSnapshot,
     osPower = \<lparr>pwACConnected = False, pwObservedAt = 0\<rparr>,
     osDesktop = \<lparr>dtDesktopRunning = False, dtEngineReachable = False, dtRunningWSLCount = 0\<rparr>,
     osResourceGate = zeroResourceGate, osPowerGate = \<lparr>pgACSince = None\<rparr>,
     osController = \<lparr>ccLastTickDurationSeconds = Fin 0, ccProcessCPUSeconds = Fin 0\<rparr>,
     osPresence = \<lparr>prsInputIdleSeconds = None, prsInteractiveCapActive = False\<rparr>,
     osProblems = []\<rparr>"

lemma workerActive_simps [simp]:
  "wState w = WorkerBusy \<Longrightarrow> workerActive w"
  "wState w = WorkerIdle \<Longrightarrow> workerActive w"
  "wState w = WorkerStarting \<Longrightarrow> workerActive w"
  "wState w = WorkerExited \<Longrightarrow> \<not> workerActive w"
  "wState w = WorkerUnregistered \<Longrightarrow> \<not> workerActive w"
  by (simp_all add: workerActive_def)

end
