(* ===== verification/Config.thy ===== *)
theory Config
  imports Model
begin

text \<open>
  The host configuration of \<open>src/internal/config/config.go\<close>: its records, the resolution of a
  target's worker profile and the decoding of byte sizes. A pointer field of \<open>WorkerOverrides\<close>
  that may be nil is an option.
\<close>

section \<open>The configuration records\<close>

record Telemetry =
  tlEndpoint :: string
  tlProtocol :: string
  tlTraces :: bool
  tlMetrics :: bool
  tlMetricExportInterval :: duration
  tlMetricExportTimeout :: duration

definition telemetryEnabled :: "Telemetry \<Rightarrow> bool" where
  "telemetryEnabled t \<longleftrightarrow> tlEndpoint t \<noteq> []"

record Host =
  hoID :: string
  hoRunnerNamePrefix :: string

record Controller =
  coReconcileInterval :: duration
  coShutdownPollInterval :: duration
  coLocalProbeTimeout :: duration
  coStartupTimeout :: duration
  coDesktopProbeTimeout :: duration
  coElevatedProbeTimeout :: duration

record RetryPolicy =
  ryInitial :: duration
  ryMaximum :: duration
  ryMultiplier :: float64
  ryJitterRatio :: float64
  ryMaxAttempts :: int

datatype Scope = ScopeOrganization | ScopeRepository | ScopeOther string

record WorkerOverrides =
  woCPUs :: "float64 option"
  woMemory :: "u64 option"
  woMemorySwap :: "u64 option"
  woPIDs :: "int option"

record Target =
  tgID :: string
  tgURL :: string
  tgScope :: Scope
  tgClientID :: string
  tgInstallationID :: int
  tgSecretID :: string
  tgRunnerGroup :: string
  tgScaleSetName :: string
  tgLabels :: "string list"
  tgWarmIdle :: int
  tgMaxCapacity :: int
  tgPriority :: int
  tgResourcesWorker :: "WorkerOverrides option"
  tgSeccompProfile :: string

record GitHub =
  ghRequestTimeout :: duration
  ghRetry :: RetryPolicy
  ghTargets :: "Target list"

record ConfigWorker =
  cwCPUs :: float64
  cwMemory :: u64
  cwMemorySwap :: u64
  cwPIDs :: int

record Resources =
  reMaximumConcurrentWorkers :: int
  reWorker :: ConfigWorker
  reWorkerMemoryBudget :: u64
  reMinimumAvailableMemoryPct :: float64
  reMemoryCapacityIncreaseMarginPct :: float64
  reCPUBlockPercent :: float64
  reCPUResumePercent :: float64
  reCPUObservationWindow :: duration
  reCPUHysteresisWindow :: duration
  reInteractiveMaximumConcurrentWorkers :: int
  reInteractiveIdleThreshold :: duration

datatype PowerPolicy = PowerAlways | PowerACOnly | PowerPolicyOther string

record Power =
  pcPolicy :: PowerPolicy
  pcStableACWindow :: duration

record Drain =
  drWarningAfter :: duration
  drIdleConfirmationWindow :: duration

record DockerDesktop =
  ddStartTimeout :: duration
  ddStopTimeout :: duration

record DockerLogs =
  dlDriver :: string
  dlMaxSize :: u64
  dlMaxFiles :: int

record LogClass =
  lcMaxFileSize :: u64
  lcRetention :: duration
  lcTotalCap :: u64

record Logs =
  loDocker :: DockerLogs
  loController :: LogClass
  loDiagnostics :: LogClass
  loRawDiagnosticMaxInput :: u64
  loCleanupEvery :: duration
  loWorkerFinalizationTimeout :: duration

record Paths =
  paSecrets :: string
  paState :: string
  paLogs :: string
  paDiagnostics :: string

record Config =
  cfSchemaVersion :: int
  cfHost :: Host
  cfController :: Controller
  cfCompatibilityManifest :: string
  cfGitHub :: GitHub
  cfResources :: Resources
  cfPower :: Power
  cfDrain :: Drain
  cfDockerDesktop :: DockerDesktop
  cfPullTimeout :: duration
  cfLogs :: Logs
  cfTelemetry :: Telemetry
  cfPaths :: Paths

abbreviation cfTargets :: "Config \<Rightarrow> Target list" where
  "cfTargets c \<equiv> ghTargets (cfGitHub c)"

section \<open>Worker profiles\<close>

definition effectiveWorker :: "Target \<Rightarrow> ConfigWorker \<Rightarrow> ConfigWorker" where
  "effectiveWorker t defaults =
     (case tgResourcesWorker t of
        None \<Rightarrow> defaults
      | Some overrides \<Rightarrow>
          (let d1 = (case woCPUs overrides of None \<Rightarrow> defaults | Some v \<Rightarrow> defaults\<lparr>cwCPUs := v\<rparr>);
               d2 = (case woMemory overrides of None \<Rightarrow> d1 | Some v \<Rightarrow> d1\<lparr>cwMemory := v\<rparr>);
               d3 = (case woMemorySwap overrides of None \<Rightarrow> d2 | Some v \<Rightarrow> d2\<lparr>cwMemorySwap := v\<rparr>)
           in (case woPIDs overrides of None \<Rightarrow> d3 | Some v \<Rightarrow> d3\<lparr>cwPIDs := v\<rparr>)))"

fun seccompProfileFor :: "Target list \<Rightarrow> string \<Rightarrow> string" where
  "seccompProfileFor [] i = []"
| "seccompProfileFor (t # ts) i = (if tgID t = i then tgSeccompProfile t else seccompProfileFor ts i)"

definition SeccompProfileForTarget :: "Config \<Rightarrow> string \<Rightarrow> string" where
  "SeccompProfileForTarget c i = seccompProfileFor (cfTargets c) i"

fun workerFor :: "Target list \<Rightarrow> ConfigWorker \<Rightarrow> string \<Rightarrow> ConfigWorker option" where
  "workerFor [] d i = None"
| "workerFor (t # ts) d i = (if tgID t = i then Some (effectiveWorker t d) else workerFor ts d i)"

text \<open>The second result of the Go function, false for an unknown target, is None here.\<close>

definition WorkerForTarget :: "Config \<Rightarrow> string \<Rightarrow> ConfigWorker option" where
  "WorkerForTarget c i = workerFor (cfTargets c) (reWorker (cfResources c)) i"

lemma effectiveWorker_memory:
  "cwMemory (effectiveWorker t d) =
     (case tgResourcesWorker t of None \<Rightarrow> cwMemory d
      | Some ov \<Rightarrow> (case woMemory ov of None \<Rightarrow> cwMemory d | Some v \<Rightarrow> v))"
  by (auto simp: effectiveWorker_def Let_def split: option.splits)

lemma workerFor_distinct:
  "distinct (map tgID ts) \<Longrightarrow> t \<in> set ts \<Longrightarrow> workerFor ts d (tgID t) = Some (effectiveWorker t d)"
  by (induction ts) auto

lemma workerFor_None_iff: "workerFor ts d i = None \<longleftrightarrow> i \<notin> tgID ` set ts"
  by (induction ts) auto

end
