(* ===== verification/Admission.thy ===== *)
theory Admission
  imports Config
begin

text \<open>
  The inputs of the planner and its admission rules, from \<open>src/internal/controller/plan.go\<close>: the
  host-wide worker limit, the CPU and power gates with their persisted timers, and the memory
  basis that turns bytes into worker slots.

  Both gates keep a time stamp that survives only while a condition is observed without a break.
  The locale \<open>stable_timer\<close> states that contract once and derives what a running timer says of
  the whole sequence of observations; it is interpreted on the power timer and on both CPU
  timers.
\<close>

section \<open>Planner inputs\<close>

record PoolSnapshot =
  psTargetID :: string
  psIdentity :: Identity
  psTotalAssignedJobs :: int
  psDrainServiceCapacity :: int
  psReady :: bool

definition zeroPoolSnapshot :: PoolSnapshot where
  "zeroPoolSnapshot = \<lparr>psTargetID = [], psIdentity = zeroIdentity, psTotalAssignedJobs = 0,
     psDrainServiceCapacity = 0, psReady = False\<rparr>"

record PlanInput =
  piConfig :: Config
  piDesired :: DesiredState
  piPrevious :: ObservedState
  piCapacityHysteresis :: "int gomap"
  piPools :: "PoolSnapshot list"
  piWorkers :: "Worker list"
  piResources :: ResourceSnapshot
  piPower :: PowerSnapshot
  piDesktop :: DesktopStatus
  piEngineMemoryTotalBytes :: u64
  piInputIdle :: "duration option"
  piNow :: time

abbreviation piTargets :: "PlanInput \<Rightarrow> Target list" where
  "piTargets i \<equiv> cfTargets (piConfig i)"

abbreviation piPolicy :: "PlanInput \<Rightarrow> Resources" where
  "piPolicy i \<equiv> cfResources (piConfig i)"

section \<open>The host-wide worker limit\<close>

definition EffectiveMaximumConcurrentWorkers :: "Resources \<Rightarrow> DesiredState \<Rightarrow> int" where
  "EffectiveMaximumConcurrentWorkers resources desired =
     (case dsTemporaryCapacityOverride desired of
        Some v \<Rightarrow> v
      | None \<Rightarrow> reMaximumConcurrentWorkers resources)"

definition interactiveCapActive :: "PlanInput \<Rightarrow> bool" where
  "interactiveCapActive i \<longleftrightarrow>
     0 < reInteractiveMaximumConcurrentWorkers (piPolicy i) \<and>
     dsTemporaryCapacityOverride (piDesired i) = None \<and>
     (case piInputIdle i of None \<Rightarrow> False | Some idle \<Rightarrow> idle < reInteractiveIdleThreshold (piPolicy i))"

definition hostWorkerLimit :: "PlanInput \<Rightarrow> int" where
  "hostWorkerLimit i =
     (if interactiveCapActive i then reInteractiveMaximumConcurrentWorkers (piPolicy i)
      else EffectiveMaximumConcurrentWorkers (piPolicy i) (piDesired i))"

section \<open>The resource gate\<close>

definition resourceProblemMessage :: string where
  "resourceProblemMessage =
     ''resource monitor returned an out-of-range CPU or physical-memory observation''"

definition invalidSnapshot :: "ResourceSnapshot \<Rightarrow> bool" where
  "invalidSnapshot s \<longleftrightarrow>
     rsTotalMemoryBytes s = 0 \<or> rsTotalMemoryBytes s < rsAvailableMemoryBytes s \<or>
     isNaN (rsCPUUtilizationPercent s) \<or> isInf (rsCPUUtilizationPercent s) \<or>
     f64Lt (rsCPUUtilizationPercent s) (Fin 0) \<or> f64Lt (Fin 100) (rsCPUUtilizationPercent s)"

text \<open>A timer that starts now unless it already runs; a clock behind the stamp restarts it.\<close>

definition startTimer :: "time option \<Rightarrow> time \<Rightarrow> time" where
  "startTimer since now = (case since of None \<Rightarrow> now | Some t \<Rightarrow> if now < t then now else t)"

definition evaluateResourceGate ::
  "ResourceGateState \<Rightarrow> ResourceSnapshot \<Rightarrow> Resources \<Rightarrow> time \<Rightarrow> ResourceGateState \<times> bool \<times> string" where
  "evaluateResourceGate previous snapshot policy now =
     (if invalidSnapshot snapshot then
        (previous\<lparr>rgBlocked := True, rgReason := ResourceGateReasonInvalidObservation,
           rgHighCPUSince := None, rgHealthySince := None\<rparr>, False, resourceProblemMessage)
      else if rgBlocked previous \<and> rgReason previous = ResourceGateReasonEmpty then
        (if f64Le (rsCPUUtilizationPercent snapshot) (reCPUResumePercent policy)
         then (zeroResourceGate, True, [])
         else (previous\<lparr>rgHighCPUSince := None, rgHealthySince := None,
                 rgReason := ResourceGateReasonCPU\<rparr>, False, []))
      else if \<not> rgBlocked previous then
        (let state = previous\<lparr>rgReason := ResourceGateReasonEmpty, rgHealthySince := None\<rparr>
         in if f64Le (reCPUBlockPercent policy) (rsCPUUtilizationPercent snapshot) then
              (let since = startTimer (rgHighCPUSince state) now;
                   state = state\<lparr>rgHighCPUSince := Some since\<rparr>
               in if reCPUObservationWindow policy \<le> timeSub now since
                  then (state\<lparr>rgBlocked := True, rgReason := ResourceGateReasonCPU,
                          rgHealthySince := None\<rparr>, False, [])
                  else (state, True, []))
            else (state\<lparr>rgHighCPUSince := None\<rparr>, True, []))
      else
        (let state = previous\<lparr>rgHighCPUSince := None\<rparr>
         in if f64Le (rsCPUUtilizationPercent snapshot) (reCPUResumePercent policy) then
              (let since = startTimer (rgHealthySince state) now;
                   state = state\<lparr>rgHealthySince := Some since\<rparr>
               in if reCPUHysteresisWindow policy \<le> timeSub now since
                  then (zeroResourceGate, True, [])
                  else (state, False, []))
            else (state\<lparr>rgHealthySince := None\<rparr>, False, [])))"

section \<open>The power gate\<close>

definition evaluatePowerGate ::
  "PowerGateState \<Rightarrow> PowerSnapshot \<Rightarrow> Power \<Rightarrow> time \<Rightarrow> PowerGateState \<times> bool" where
  "evaluatePowerGate previous snapshot policy now =
     (if pcPolicy policy = PowerAlways then (\<lparr>pgACSince = None\<rparr>, True)
      else if \<not> pwACConnected snapshot then (previous\<lparr>pgACSince := None\<rparr>, False)
      else case pgACSince previous of
          None \<Rightarrow> (previous\<lparr>pgACSince := Some now\<rparr>, False)
        | Some since \<Rightarrow>
            if now < since then (previous\<lparr>pgACSince := Some now\<rparr>, False)
            else (previous, pcStableACWindow policy \<le> timeSub now since))"

section \<open>Memory slots\<close>

definition saturatingAddUint64 :: "u64 \<Rightarrow> u64 \<Rightarrow> u64" where
  "saturatingAddUint64 left right = (if - 1 - left < right then - 1 else left + right)"

definition availableAfterMemoryReservation :: "u64 \<Rightarrow> u64 \<Rightarrow> u64" where
  "availableAfterMemoryReservation available reserved =
     (if available \<le> reserved then 0 else available - reserved)"

definition reservedMemory :: "u64 \<Rightarrow> float64 \<Rightarrow> u64" where
  "reservedMemory bytes pct = u64OfF64 (f64Ceil (f64DivBy (f64Mul (f64OfU64 bytes) pct) 100))"

definition hostMemoryAtFloor :: "ResourceSnapshot \<Rightarrow> Resources \<Rightarrow> bool" where
  "hostMemoryAtFloor snapshot policy =
     (if rsTotalMemoryBytes snapshot = 0 \<or> rsTotalMemoryBytes snapshot < rsAvailableMemoryBytes snapshot
      then False
      else rsAvailableMemoryBytes snapshot \<le>
             reservedMemory (rsTotalMemoryBytes snapshot) (reMinimumAvailableMemoryPct policy))"

definition availableMemoryHeadroom :: "ResourceSnapshot \<Rightarrow> Resources \<Rightarrow> u64" where
  "availableMemoryHeadroom snapshot policy =
     (if rsTotalMemoryBytes snapshot = 0 \<or> rsTotalMemoryBytes snapshot < rsAvailableMemoryBytes snapshot
      then 0
      else let reserved = reservedMemory (rsTotalMemoryBytes snapshot) (reMinimumAvailableMemoryPct policy)
           in if rsAvailableMemoryBytes snapshot \<le> reserved then 0
              else rsAvailableMemoryBytes snapshot - reserved)"

definition affordableWorkerCount :: "u64 \<Rightarrow> u64 \<Rightarrow> int" where
  "affordableWorkerCount memoryAvailable workerMemory =
     (if workerMemory = 0 then 0
      else let slots = uint (memoryAvailable div workerMemory)
           in if maxInt64 < slots then maxInt64 else slots)"

definition affordableWorkerCountWithMargin :: "u64 \<Rightarrow> u64 \<Rightarrow> float64 \<Rightarrow> int" where
  "affordableWorkerCountWithMargin memoryAvailable workerMemory marginPercent =
     (if workerMemory = 0 then 0
      else let margin = reservedMemory workerMemory marginPercent
           in if memoryAvailable \<le> margin then 0
              else affordableWorkerCount (memoryAvailable - margin) workerMemory)"

definition memoryByPool :: "Config \<Rightarrow> u64 gomap" where
  "memoryByPool cfg =
     foldl (\<lambda>m t. gput m (tgID t) (cwMemory (effectiveWorker t (reWorker (cfResources cfg)))))
       [] (cfTargets cfg)"

definition workerReservation :: "Config \<Rightarrow> Worker \<Rightarrow> u64" where
  "workerReservation cfg w =
     (if 0 < wMemoryLimitBytes w then word_of_int (wMemoryLimitBytes w)
      else if ghas (memoryByPool cfg) (wPoolID w) then gget 0 (memoryByPool cfg) (wPoolID w)
      else cwMemory (reWorker (cfResources cfg)))"

definition activeWorkerReservations :: "Config \<Rightarrow> Worker list \<Rightarrow> u64" where
  "activeWorkerReservations cfg workers =
     foldl (\<lambda>total w. if workerActive w then saturatingAddUint64 total (workerReservation cfg w)
                       else total) 0 workers"

record memoryBasis =
  mbBudgetActive :: bool
  mbBudgetClamped :: bool
  mbFloorBlocked :: bool
  mbRemaining :: u64

definition evaluateMemoryBasis :: "PlanInput \<Rightarrow> memoryBasis" where
  "evaluateMemoryBasis i =
     (let budget = reWorkerMemoryBudget (piPolicy i)
      in if budget = 0 then
           \<lparr>mbBudgetActive = False, mbBudgetClamped = False, mbFloorBlocked = False,
            mbRemaining = availableMemoryHeadroom (piResources i) (piPolicy i)\<rparr>
         else
           (let clamped = (0 < piEngineMemoryTotalBytes i \<and> piEngineMemoryTotalBytes i < budget);
                budget = (if clamped then piEngineMemoryTotalBytes i else budget);
                reservations = activeWorkerReservations (piConfig i) (piWorkers i)
            in \<lparr>mbBudgetActive = True, mbBudgetClamped = clamped,
                mbFloorBlocked = hostMemoryAtFloor (piResources i) (piPolicy i),
                mbRemaining = (if reservations < budget then budget - reservations else 0)\<rparr>))"

section \<open>Gates over sequences of observations\<close>

text \<open>The state after a sequence of time-stamped observations.\<close>

definition runTrace :: "('s \<Rightarrow> 'o \<Rightarrow> time \<Rightarrow> 's) \<Rightarrow> 's \<Rightarrow> ('o \<times> time) list \<Rightarrow> 's" where
  "runTrace step s tr = foldl (\<lambda>s x. step s (fst x) (snd x)) s tr"

text \<open>
  \<open>heldSince good t0 tr\<close>: from some observation stamped \<open>t0\<close> to the end of the sequence, every
  observation is good and none is stamped before \<open>t0\<close>.
\<close>

fun heldSince :: "('o \<Rightarrow> bool) \<Rightarrow> time \<Rightarrow> ('o \<times> time) list \<Rightarrow> bool" where
  "heldSince good t0 [] \<longleftrightarrow> False"
| "heldSince good t0 (x # xs) \<longleftrightarrow>
     snd x = t0 \<and> list_all (\<lambda>y. good (fst y) \<and> t0 \<le> snd y) (x # xs) \<or> heldSince good t0 xs"

definition cpuHigh :: "Resources \<Rightarrow> ResourceSnapshot \<Rightarrow> bool" where
  "cpuHigh policy s \<longleftrightarrow>
     \<not> invalidSnapshot s \<and> f64Le (reCPUBlockPercent policy) (rsCPUUtilizationPercent s)"

definition cpuHealthy :: "Resources \<Rightarrow> ResourceSnapshot \<Rightarrow> bool" where
  "cpuHealthy policy s \<longleftrightarrow>
     \<not> invalidSnapshot s \<and> f64Le (rsCPUUtilizationPercent s) (reCPUResumePercent policy)"

abbreviation resourceStep :: "Resources \<Rightarrow> ResourceGateState \<Rightarrow> ResourceSnapshot \<Rightarrow> time \<Rightarrow> ResourceGateState" where
  "resourceStep policy g s now \<equiv> fst (evaluateResourceGate g s policy now)"

abbreviation powerStep :: "Power \<Rightarrow> PowerGateState \<Rightarrow> PowerSnapshot \<Rightarrow> time \<Rightarrow> PowerGateState" where
  "powerStep policy g s now \<equiv> fst (evaluatePowerGate g s policy now)"

section \<open>Memory slots: lemmas\<close>

lemma uint_saturatingAddUint64:
  "uint (saturatingAddUint64 l r) = min (uint l + uint r) (2 ^ 64 - 1)"
proof -
  have neg: "uint (- 1 - l) = 2 ^ 64 - 1 - uint l"
    using uint_lt64 [of l] by (subst uint_minus_le) (auto simp: uint_word_ariths)
  show ?thesis
  proof (cases "- 1 - l < r")
    case True
    then have "2 ^ 64 - 1 < uint l + uint r"
      using neg by (simp add: word_less_def)
    then show ?thesis
      using True by (simp add: saturatingAddUint64_def unsigned_minus_1_eq_mask mask_eq_exp_minus_1)
  next
    case False
    then have "uint l + uint r \<le> 2 ^ 64 - 1"
      using neg by (simp add: word_less_def)
    then show ?thesis
      using False by (simp add: saturatingAddUint64_def uint_word_ariths)
  qed
qed

lemma affordable_nonneg [simp]: "0 \<le> affordableWorkerCount a m"
  by (simp add: affordableWorkerCount_def Let_def maxInt64_def)

lemma affordable_le_maxInt: "affordableWorkerCount a m \<le> maxInt64"
  by (simp add: affordableWorkerCount_def Let_def maxInt64_def)

lemma affordable_fits: "affordableWorkerCount a m * uint m \<le> uint a"
proof -
  have "uint (a div m) * uint m \<le> uint a"
    by (simp add: uint_div minus_mod_eq_div_mult [symmetric] uint_mod [symmetric])
  moreover have "maxInt64 < uint (a div m) \<Longrightarrow> maxInt64 * uint m \<le> uint (a div m) * uint m"
    by (simp add: mult_right_mono)
  ultimately show ?thesis
    by (auto simp: affordableWorkerCount_def Let_def)
qed

text \<open>Any number of workers up to the affordable count fits as well, without wrap-around.\<close>

lemma affordable_fits_le:
  assumes "0 \<le> n" and "n \<le> affordableWorkerCount a m"
  shows "n * uint m \<le> uint a"
    and "uint (word_of_int n * m) = n * uint m"
    and "uint (a - word_of_int n * m) = uint a - n * uint m"
proof -
  show le: "n * uint m \<le> uint a"
    using affordable_fits [of a m] mult_right_mono [OF assms(2), of "uint m"] by simp
  then have "n * uint m < 2 ^ 64"
    using uint_lt64 [of a] by simp
  then show times: "uint (word_of_int n * m) = n * uint m"
    using assms(1) by (rule uint_word_of_int_times [rotated])
  show "uint (a - word_of_int n * m) = uint a - n * uint m"
    using le by (simp add: uint_minus_le times)
qed

lemma affordable_maximal:
  assumes "m \<noteq> 0" and "affordableWorkerCount a m < n" and "n \<le> maxInt64"
  shows "uint a < n * uint m"
proof -
  have pos: "0 < uint m"
    using assms(1) by (simp add: word_neq_0_conv word_less_def)
  have "affordableWorkerCount a m = uint a div uint m"
    using assms by (auto simp: affordableWorkerCount_def Let_def uint_div split: if_splits)
  then have "uint a div uint m + 1 \<le> n"
    using assms(2) by simp
  then have "(uint a div uint m + 1) * uint m \<le> n * uint m"
    using pos by (simp add: mult_right_mono)
  moreover have "uint a = uint a div uint m * uint m + uint a mod uint m"
    by simp
  moreover have "uint a mod uint m < uint m"
    using pos by simp
  ultimately show ?thesis
    unfolding distrib_right by linarith
qed

lemma withMargin_le: "affordableWorkerCountWithMargin a m p \<le> affordableWorkerCount a m"
proof -
  have "affordableWorkerCount (a - g) m \<le> affordableWorkerCount a m" if "g < a" for g
  proof -
    have "uint (a - g) \<le> uint a"
      using that by (simp add: uint_minus_le word_less_def)
    then have "uint ((a - g) div m) \<le> uint (a div m)"
      by (cases "m = 0") (auto simp: uint_div word_less_def intro!: zdiv_mono1 dest: word_neq_0_conv [THEN iffD1])
    then show ?thesis
      by (auto simp: affordableWorkerCount_def Let_def)
  qed
  then show ?thesis
    by (auto simp: affordableWorkerCountWithMargin_def Let_def not_le)
qed

lemma withMargin_nonneg [simp]: "0 \<le> affordableWorkerCountWithMargin a m p"
  by (simp add: affordableWorkerCountWithMargin_def Let_def)

text \<open>The reservations of a fleet saturate instead of wrapping.\<close>

definition reservationSum :: "Config \<Rightarrow> Worker list \<Rightarrow> int" where
  "reservationSum cfg ws = (\<Sum>w\<leftarrow>filter workerActive ws. uint (workerReservation cfg w))"

lemma reservationSum_nonneg: "0 \<le> reservationSum cfg ws"
  by (simp add: reservationSum_def sum_list_nonneg_int)

lemma activeWorkerReservations_sum:
  "uint (activeWorkerReservations cfg ws) = min (reservationSum cfg ws) (2 ^ 64 - 1)"
proof -
  let ?f = "\<lambda>acc w. if workerActive w then saturatingAddUint64 acc (workerReservation cfg w) else acc"
  have "uint (foldl ?f acc ws) = min (uint acc + reservationSum cfg ws) (2 ^ 64 - 1)" for acc
  proof (induction ws arbitrary: acc)
    case Nil
    then show ?case
      using uint_lt64 [of acc] by (simp add: reservationSum_def)
  next
    case (Cons w ws)
    then show ?case
      using reservationSum_nonneg [of cfg ws]
      by (auto simp: uint_saturatingAddUint64 reservationSum_def min_def)
  qed
  from this [of 0] show ?thesis
    by (simp add: activeWorkerReservations_def)
qed

section \<open>Timers\<close>

lemma runTrace_snoc [simp]: "runTrace step s (tr @ [x]) = step (runTrace step s tr) (fst x) (snd x)"
  by (simp add: runTrace_def)

lemma runTrace_Nil [simp]: "runTrace step s [] = s"
  by (simp add: runTrace_def)

lemma heldSince_snoc:
  "heldSince good t0 (tr @ [x]) \<longleftrightarrow>
     good (fst x) \<and> (snd x = t0 \<or> heldSince good t0 tr \<and> t0 \<le> snd x)"
  by (induction tr) auto

text \<open>
  A timer that runs after a step was started by that step or ran before it, its condition holds at
  that step, and it never lies in the future.
\<close>

locale stable_timer =
  fixes step :: "'s \<Rightarrow> 'o \<Rightarrow> time \<Rightarrow> 's"
    and since :: "'s \<Rightarrow> time option"
    and good :: "'o \<Rightarrow> bool"
  assumes since_step:
    "since (step s ob now) = Some t0 \<Longrightarrow> good ob \<and> t0 \<le> now \<and> (t0 = now \<or> since s = Some t0)"
begin

lemma timer_held:
  "since s = None \<Longrightarrow> since (runTrace step s tr) = Some t0 \<Longrightarrow> heldSince good t0 tr"
proof (induction tr arbitrary: t0 rule: rev_induct)
  case Nil
  then show ?case by simp
next
  case (snoc x tr)
  then show ?case
    using since_step [of "runTrace step s tr" "fst x" "snd x" t0] by (auto simp: heldSince_snoc)
qed

lemma timer_held_snoc:
  assumes "since s = None" and "since (step (runTrace step s tr) ob now) = Some t0"
  shows "heldSince good t0 (tr @ [(ob, now)])"
  using timer_held [OF assms(1), of "tr @ [(ob, now)]" t0] assms(2) by simp

end

text \<open>
  A timer that every observation of its condition keeps or starts: on a sequence whose stamps do
  not decrease it runs since the start of the longest good suffix.
\<close>

locale full_timer = stable_timer +
  assumes since_good:
    "good ob \<Longrightarrow> (\<exists>t0. since (step s ob now) = Some t0 \<and> t0 \<le> now \<and>
       (\<forall>t. since s = Some t \<longrightarrow> t0 \<le> t))"
begin

lemma timer_runs:
  assumes "sorted (map snd tr)" and "heldSince good t0 tr"
  shows "\<exists>t1 \<le> t0. since (runTrace step s tr) = Some t1"
  using assms
proof (induction tr rule: rev_induct)
  case Nil
  then show ?case by simp
next
  case (snoc x tr)
  from snoc.prems(2) have good: "good (fst x)" by (simp add: heldSince_snoc)
  obtain t1 where t1: "since (step (runTrace step s tr) (fst x) (snd x)) = Some t1" "t1 \<le> snd x"
    and keep: "\<forall>t. since (runTrace step s tr) = Some t \<longrightarrow> t1 \<le> t"
    using since_good [OF good] by blast
  have "t1 \<le> t0"
  proof (cases "snd x = t0")
    case False
    then have "heldSince good t0 tr"
      using snoc.prems(2) by (simp add: heldSince_snoc)
    moreover have "sorted (map snd tr)"
      using snoc.prems(1) by (simp add: sorted_append)
    ultimately show ?thesis
      using snoc.IH keep by force
  qed (use t1 in simp)
  then show ?case
    using t1 by auto
qed

end

lemma startTimer_le: "startTimer s now \<le> now"
  by (simp add: startTimer_def split: option.split)

lemma startTimer_cases: "startTimer s now = now \<or> s = Some (startTimer s now)"
  by (simp add: startTimer_def split: option.split)

lemma high_cpu_timer:
  assumes "rgHighCPUSince (resourceStep policy g s now) = Some t0"
  shows "cpuHigh policy s \<and> t0 \<le> now \<and> (t0 = now \<or> rgHighCPUSince g = Some t0)"
  using assms startTimer_le [of "rgHighCPUSince g" now] startTimer_cases [of "rgHighCPUSince g" now]
  by (auto simp: evaluateResourceGate_def Let_def cpuHigh_def zeroResourceGate_def split: if_splits)

lemma healthy_cpu_timer:
  assumes "rgHealthySince (resourceStep policy g s now) = Some t0"
  shows "cpuHealthy policy s \<and> t0 \<le> now \<and> (t0 = now \<or> rgHealthySince g = Some t0)"
  using assms startTimer_le [of "rgHealthySince g" now] startTimer_cases [of "rgHealthySince g" now]
  by (auto simp: evaluateResourceGate_def Let_def cpuHealthy_def zeroResourceGate_def split: if_splits)

lemma ac_timer:
  assumes "pgACSince (powerStep policy g s now) = Some t0"
  shows "pwACConnected s \<and> t0 \<le> now \<and> (t0 = now \<or> pgACSince g = Some t0)"
  using assms by (auto simp: evaluatePowerGate_def split: if_splits option.splits)

interpretation high_cpu: stable_timer "resourceStep policy" rgHighCPUSince "cpuHigh policy" for policy
  by unfold_locales (rule high_cpu_timer)

interpretation healthy_cpu: stable_timer "resourceStep policy" rgHealthySince "cpuHealthy policy" for policy
  by unfold_locales (rule healthy_cpu_timer)

interpretation ac_power: full_timer "powerStep (policy\<lparr>pcPolicy := PowerACOnly\<rparr>)" pgACSince pwACConnected
  for policy
proof unfold_locales
  show "pwACConnected s \<and> t0 \<le> now \<and> (t0 = now \<or> pgACSince g = Some t0)"
    if "pgACSince (powerStep (policy\<lparr>pcPolicy := PowerACOnly\<rparr>) g s now) = Some t0" for g s now t0
    using ac_timer [OF that] .
  show "\<exists>t0. pgACSince (powerStep (policy\<lparr>pcPolicy := PowerACOnly\<rparr>) g s now) = Some t0 \<and> t0 \<le> now \<and>
      (\<forall>t. pgACSince g = Some t \<longrightarrow> t0 \<le> t)" if "pwACConnected s" for g s now
    using that by (auto simp: evaluatePowerGate_def split: option.splits)
qed

section \<open>Gate properties\<close>

lemma ac_only_policy [simp]: "pcPolicy policy = PowerACOnly \<Longrightarrow> policy\<lparr>pcPolicy := PowerACOnly\<rparr> = policy"
  by (cases policy) simp

text \<open>The verdict of the power gate in terms of its timer.\<close>

lemma power_verdict:
  assumes "pcPolicy policy = PowerACOnly" "0 < pcStableACWindow policy" "pcStableACWindow policy \<le> maxInt64"
  shows "snd (evaluatePowerGate g s policy now) \<longleftrightarrow>
    (\<exists>t0. pgACSince (powerStep policy g s now) = Some t0 \<and> pcStableACWindow policy \<le> now - t0)"
proof -
  have "minInt64 < pcStableACWindow policy"
    using assms(2) by (simp add: minInt64_def)
  note sub = timeSub_ge_iff [OF this assms(3)]
  show ?thesis
    using assms(1,2) by (auto simp: evaluatePowerGate_def sub split: option.splits)
qed

text \<open>A state the gate itself produces: blocked states carry a reason, open ones no recovery timer.\<close>

definition resourceGateWF :: "ResourceGateState \<Rightarrow> bool" where
  "resourceGateWF g \<longleftrightarrow>
     (rgBlocked g \<longleftrightarrow> rgReason g \<noteq> ResourceGateReasonEmpty) \<and> (\<not> rgBlocked g \<longrightarrow> rgHealthySince g = None)"

lemma resourceGateWF_step: "resourceGateWF (resourceStep policy g s now)"
  by (auto simp: resourceGateWF_def evaluateResourceGate_def Let_def zeroResourceGate_def)

lemma resourceGateWF_run: "resourceGateWF g \<Longrightarrow> resourceGateWF (runTrace (resourceStep policy) g tr)"
  by (induction tr rule: rev_induct) (auto simp: resourceGateWF_step)

lemma resource_verdict:
  "fst (snd (evaluateResourceGate g s policy now)) \<longleftrightarrow> \<not> rgBlocked (resourceStep policy g s now)"
  by (auto simp: evaluateResourceGate_def Let_def zeroResourceGate_def)

lemma blocks_only_by_timer:
  assumes "\<not> rgBlocked g" "rgBlocked (resourceStep policy g s now)" "\<not> invalidSnapshot s"
    "minInt64 < reCPUObservationWindow policy" "reCPUObservationWindow policy \<le> maxInt64"
  shows "\<exists>t0. rgHighCPUSince (resourceStep policy g s now) = Some t0 \<and>
    reCPUObservationWindow policy \<le> now - t0"
  using assms(1-3) timeSub_ge_iff [OF assms(4,5)]
  by (auto simp: evaluateResourceGate_def Let_def split: if_splits)

text \<open>
  While the gate is blocked with a reason, an opening step resets the state, so the timer it
  consumed is the one an equal step that stays blocked would have kept.
\<close>

lemma opens_only_by_timer:
  assumes "rgBlocked g" "rgReason g \<noteq> ResourceGateReasonEmpty" "\<not> rgBlocked (resourceStep policy g s now)"
    "minInt64 < reCPUHysteresisWindow policy" "reCPUHysteresisWindow policy \<le> maxInt64"
  shows "cpuHealthy policy s \<and> reCPUHysteresisWindow policy \<le> now - startTimer (rgHealthySince g) now"
  using assms(1-3) timeSub_ge_iff [OF assms(4,5)]
  by (auto simp: evaluateResourceGate_def Let_def cpuHealthy_def split: if_splits)

end
