(* ===== verification/Plan.thy ===== *)
theory Plan
  imports Admission
begin

text \<open>
  \<open>BuildPlan\<close> of \<open>src/internal/controller/plan.go\<close> and the helpers it calls. The Go function is one
  body with local maps and a closure; here every pass over the targets is a definition on a record
  of the variables that pass mutates, and \<open>buildPlan\<close> composes the passes in the order of the
  code. The reading of \<open>time.Now\<close>, used when the input carries no time, is an argument.

  \<open>workersByPool\<close> is a Go map that \<open>appendSafeRemovals\<close> iterates over; its list order stands for
  the iteration order of a run and no theorem depends on it.
\<close>

section \<open>The plan\<close>

record StartDecision =
  sdPoolID :: string
  sdCount :: int

record Plan =
  plPhase :: Phase
  plQuiesceReason :: QuiesceReason
  plAdvertisedCapacity :: "int gomap"
  plDesiredWorkers :: "int gomap"
  plStart :: "StartDecision list"
  plRemove :: "Worker list"
  plStartDesktop :: bool
  plStopDesktop :: bool
  plShutdownWSL :: bool
  plResourceGate :: ResourceGateState
  plPowerGate :: PowerGateState
  plProblems :: "Problem list"
  plMemoryHeadroom :: u64
  plMemoryAffordable :: "int gomap"
  plMemoryClamped :: "bool gomap"
  plPresence :: Presence

definition problem :: "time \<Rightarrow> string \<Rightarrow> string \<Rightarrow> string \<Rightarrow> bool \<Rightarrow> Problem" where
  "problem now code message poolID retryable =
     \<lparr>prCode = code, prMessage = message, prPoolID = poolID, prRetryable = retryable, prAt = now\<rparr>"

definition addProblem :: "Plan \<Rightarrow> Problem \<Rightarrow> Plan" where
  "addProblem p pr = p\<lparr>plProblems := plProblems p @ [pr]\<rparr>"

definition quiesce :: "Plan \<Rightarrow> QuiesceReason \<Rightarrow> Plan" where
  "quiesce p reason =
     (if plQuiesceReason p = NoQuiesceReason then p\<lparr>plQuiesceReason := reason\<rparr> else p)"

section \<open>Helpers\<close>

definition sortedTargetsByPriority :: "Target list \<Rightarrow> Target list" where
  "sortedTargetsByPriority targets = sort_key (\<lambda>t. (tgPriority t, tgID t)) targets"

fun hasActiveWorkers :: "Worker list \<Rightarrow> bool" where
  "hasActiveWorkers [] = False"
| "hasActiveWorkers (w # ws) = (if workerActive w then True else hasActiveWorkers ws)"

definition isBusy :: "Worker \<Rightarrow> bool" where "isBusy w \<longleftrightarrow> wState w = WorkerBusy"

definition isNonbusy :: "Worker \<Rightarrow> bool" where
  "isNonbusy w \<longleftrightarrow> wState w = WorkerStarting \<or> wState w = WorkerIdle"

definition isGone :: "Worker \<Rightarrow> bool" where
  "isGone w \<longleftrightarrow> wState w = WorkerExited \<or> wState w = WorkerUnregistered"

text \<open>The number of workers of a list in one of these states, as the counting loops compute it.\<close>

definition countBy :: "('a \<Rightarrow> bool) \<Rightarrow> 'a list \<Rightarrow> int" where
  "countBy P ws = int (length (filter P ws))"

text \<open>The loop of \<open>appendSafeRemovals\<close> over the workers of one pool.\<close>

fun safeRemovals :: "int \<Rightarrow> Worker list \<Rightarrow> Worker list" where
  "safeRemovals n [] = []"
| "safeRemovals n (w # ws) =
     (if isGone w then w # safeRemovals n ws
      else if 0 < n \<and> isNonbusy w then w # safeRemovals (n - 1) ws
      else safeRemovals n ws)"

definition appendSafeRemovals ::
  "Plan \<Rightarrow> Worker list gomap \<Rightarrow> string set \<Rightarrow> int gomap option \<Rightarrow> Plan" where
  "appendSafeRemovals plan workersByPool known desired =
     foldl (\<lambda>p (poolID, workers).
       if poolID \<notin> known then p
       else let keep = (case desired of None \<Rightarrow> 0 | Some d \<Rightarrow> geti d poolID);
                removeCount = countBy isNonbusy workers - keep
            in p\<lparr>plRemove := plRemove p @ safeRemovals removeCount workers\<rparr>)
       plan workersByPool"

definition targetMemory :: "PlanInput \<Rightarrow> Target \<Rightarrow> u64" where
  "targetMemory i t = cwMemory (effectiveWorker t (reWorker (piPolicy i)))"

section \<open>Outstanding assignments\<close>

definition poolsByID :: "PoolSnapshot list \<Rightarrow> PoolSnapshot gomap" where
  "poolsByID pools = foldl (\<lambda>m p. gput m (psTargetID p) p) [] pools"

text \<open>Assigned jobs of known, ready pools that no busy worker covers.\<close>

definition uncoveredReservations ::
  "PoolSnapshot list \<Rightarrow> Worker list gomap \<Rightarrow> string set \<Rightarrow> int gomap \<times> bool" where
  "uncoveredReservations pools workersByPool known =
     foldl (\<lambda>(reservations, outstanding) pool.
       if psTargetID pool \<notin> known \<or> \<not> psReady pool \<or> psTotalAssignedJobs pool \<le> 0
       then (reservations, outstanding)
       else let uncovered = psTotalAssignedJobs pool -
                  countBy isBusy (gget [] workersByPool (psTargetID pool))
            in if 0 < uncovered then (gput reservations (psTargetID pool) uncovered, True)
               else (reservations, outstanding))
       ([], False) pools"

record outstandingState =
  ouPlan :: Plan
  ouRemaining :: int
  ouMemoryRemaining :: u64

text \<open>The number of workers the loop of \<open>applyOutstandingAssignments\<close> starts for one target.\<close>

definition coverCount ::
  "PlanInput \<Rightarrow> memoryBasis \<Rightarrow> bool \<Rightarrow> PoolSnapshot gomap \<Rightarrow> int gomap \<Rightarrow> Worker list gomap \<Rightarrow>
   outstandingState \<Rightarrow> Target \<Rightarrow> int" where
  "coverCount i gate observationValid poolByID reservations workersByPool st t =
     (let pool = gget zeroPoolSnapshot poolByID (tgID t);
          uncovered = geti reservations (tgID t);
          nonbusy = countBy isNonbusy (gget [] workersByPool (tgID t));
          serviceable = min (min uncovered (psDrainServiceCapacity pool)) (tgMaxCapacity t);
          start1 = min (max 0 (serviceable - nonbusy)) (ouRemaining st);
          start2 = (if observationValid
                    then min start1 (affordableWorkerCount (ouMemoryRemaining st) (targetMemory i t))
                    else start1)
      in if mbFloorBlocked gate then 0 else start2)"

text \<open>The body of that loop.\<close>

definition coverTarget ::
  "PlanInput \<Rightarrow> memoryBasis \<Rightarrow> bool \<Rightarrow> PoolSnapshot gomap \<Rightarrow> int gomap \<Rightarrow> Worker list gomap \<Rightarrow>
   outstandingState \<Rightarrow> Target \<Rightarrow> outstandingState" where
  "coverTarget i gate observationValid poolByID reservations workersByPool st t =
     (let uncovered = geti reservations (tgID t);
          busy = countBy isBusy (gget [] workersByPool (tgID t));
          nonbusy = countBy isNonbusy (gget [] workersByPool (tgID t));
          start = coverCount i gate observationValid poolByID reservations workersByPool st t;
          st1 = (if 0 < start then
                   st\<lparr>ouPlan := (ouPlan st)
                        \<lparr>plStart := plStart (ouPlan st) @ [\<lparr>sdPoolID = tgID t, sdCount = start\<rparr>],
                         plStartDesktop :=
                           (if \<not> dtDesktopRunning (piDesktop i) \<or> \<not> dtEngineReachable (piDesktop i)
                            then True else plStartDesktop (ouPlan st))\<rparr>,
                      ouRemaining := ouRemaining st - start,
                      ouMemoryRemaining :=
                        (if observationValid
                         then ouMemoryRemaining st - word_of_int start * targetMemory i t
                         else ouMemoryRemaining st)\<rparr>
                 else st);
          plan1 = (ouPlan st1)\<lparr>plDesiredWorkers :=
                    gput (plDesiredWorkers (ouPlan st1)) (tgID t) (busy + min uncovered (nonbusy + start))\<rparr>;
          plan2 = (if nonbusy + start < uncovered then
                     addProblem plan1 (problem (piNow i) ''assigned-job-capacity-unavailable''
                       ''GitHub has assigned work that exceeds the last acknowledged service capacity; capacity remains zero and existing workers are preserved''
                       (tgID t) True)
                   else plan1)
      in st1\<lparr>ouPlan := plan2\<rparr>)"

definition memoryObservationValid :: "PlanInput \<Rightarrow> memoryBasis \<Rightarrow> bool" where
  "memoryObservationValid i gate \<longleftrightarrow>
     mbBudgetActive gate \<or>
     0 < rsTotalMemoryBytes (piResources i) \<and>
     rsAvailableMemoryBytes (piResources i) \<le> rsTotalMemoryBytes (piResources i)"

definition applyOutstandingAssignments ::
  "Plan \<Rightarrow> PlanInput \<Rightarrow> Worker list gomap \<Rightarrow> string set \<Rightarrow> int \<Rightarrow> Plan \<times> bool" where
  "applyOutstandingAssignments plan i workersByPool known activeWorkers =
     (let (reservations, outstanding) = uncoveredReservations (piPools i) workersByPool known;
          plan1 = appendSafeRemovals plan workersByPool known (Some reservations);
          gate = evaluateMemoryBasis i;
          st = foldl (coverTarget i gate (memoryObservationValid i gate) (poolsByID (piPools i))
                        reservations workersByPool)
                 \<lparr>ouPlan = plan1, ouRemaining = max (hostWorkerLimit i - activeWorkers) 0,
                  ouMemoryRemaining = mbRemaining gate\<rparr>
                 (sortedTargetsByPriority (piTargets i))
      in (ouPlan st, outstanding))"

section \<open>Initial plan, worker scan\<close>

definition zeroPlan :: Plan where
  "zeroPlan = \<lparr>plPhase = PhaseStarting, plQuiesceReason = NoQuiesceReason, plAdvertisedCapacity = [],
     plDesiredWorkers = [], plStart = [], plRemove = [], plStartDesktop = False, plStopDesktop = False,
     plShutdownWSL = False, plResourceGate = zeroResourceGate, plPowerGate = \<lparr>pgACSince = None\<rparr>,
     plProblems = [], plMemoryHeadroom = 0, plMemoryAffordable = [], plMemoryClamped = [],
     plPresence = \<lparr>prsInputIdleSeconds = None, prsInteractiveCapActive = False\<rparr>\<rparr>"

definition initTarget :: "Plan \<Rightarrow> Target \<Rightarrow> Plan" where
  "initTarget p t =
     p\<lparr>plAdvertisedCapacity := gput (plAdvertisedCapacity p) (tgID t) 0,
       plDesiredWorkers := gput (plDesiredWorkers p) (tgID t) 0,
       plMemoryAffordable := gput (plMemoryAffordable p) (tgID t) 0,
       plMemoryClamped := gput (plMemoryClamped p) (tgID t) False\<rparr>"

definition initPlan :: "PlanInput \<Rightarrow> Plan" where
  "initPlan i =
     (foldl initTarget zeroPlan (piTargets i))
     \<lparr>plPresence := \<lparr>prsInputIdleSeconds = map_option durationSeconds (piInputIdle i),
                    prsInteractiveCapActive = interactiveCapActive i\<rparr>\<rparr>"

text \<open>Evaluation of both gates: the plan with its gates, and the verdicts.\<close>

definition evaluateGates :: "PlanInput \<Rightarrow> Plan \<Rightarrow> Plan \<times> bool \<times> bool" where
  "evaluateGates i plan =
     (let (rg, resourceHealthy, resourceProblem) =
            evaluateResourceGate (osResourceGate (piPrevious i)) (piResources i) (piPolicy i) (piNow i);
          plan1 = plan\<lparr>plResourceGate := rg\<rparr>;
          plan2 = (if resourceProblem \<noteq> [] then
                     addProblem plan1 (problem (piNow i) ''invalid-resource-observation'' resourceProblem [] True)
                   else plan1);
          (pg, powerAllowed) =
            evaluatePowerGate (osPowerGate (piPrevious i)) (piPower i) (cfPower (piConfig i)) (piNow i)
      in (plan2\<lparr>plPowerGate := pg\<rparr>, resourceHealthy, powerAllowed))"

record scanState =
  scWorkersByPool :: "Worker list gomap"
  scBusyWorkers :: int
  scActiveWorkers :: int
  scPlan :: Plan

definition scanWorker :: "time \<Rightarrow> string set \<Rightarrow> scanState \<Rightarrow> Worker \<Rightarrow> scanState" where
  "scanWorker now known st w =
     (let st1 = st\<lparr>scWorkersByPool :=
                  gput (scWorkersByPool st) (wPoolID w) (gget [] (scWorkersByPool st) (wPoolID w) @ [w])\<rparr>;
          st2 = (if isBusy w then st1\<lparr>scBusyWorkers := scBusyWorkers st1 + 1\<rparr> else st1);
          st3 = (if workerActive w then st2\<lparr>scActiveWorkers := scActiveWorkers st2 + 1\<rparr> else st2)
      in if wPoolID w \<in> known then st3
         else if isGone w then
           st3\<lparr>scPlan := (scPlan st3)\<lparr>plRemove := plRemove (scPlan st3) @ [w]\<rparr>\<rparr>
         else if isBusy w then
           st3\<lparr>scPlan := addProblem (scPlan st3) (problem now ''orphaned-busy-worker''
             ''busy worker belongs to an unknown pool and will be preserved'' (wPoolID w) False)\<rparr>
         else
           st3\<lparr>scPlan := addProblem (scPlan st3) (problem now ''orphaned-worker-retirement-deferred''
             ''active worker belongs to an unknown pool and cannot be quiesced safely; it will be preserved''
             (wPoolID w) False)\<rparr>)"

definition targetIDs :: "PlanInput \<Rightarrow> string set" where
  "targetIDs i = set (map tgID (piTargets i))"

definition scanWorkers :: "PlanInput \<Rightarrow> Plan \<Rightarrow> scanState" where
  "scanWorkers i plan =
     foldl (scanWorker (piNow i) (targetIDs i))
       \<lparr>scWorkersByPool = [], scBusyWorkers = 0, scActiveWorkers = 0, scPlan = plan\<rparr> (piWorkers i)"

section \<open>Modes and gates that admit no new work\<close>

text \<open>
  The quoted form \<open>%q\<close> of a mode that is none of the three; control characters, quotes and
  backslashes are escaped, printable ASCII is kept. Bytes outside ASCII are written in
  \<open>\x\<close> form, which is what Go does for bytes that are not valid UTF-8.
\<close>

definition hexDigit :: "nat \<Rightarrow> char" where
  "hexDigit n = ''0123456789abcdef'' ! (n mod 16)"

definition quoteChar :: "char \<Rightarrow> string" where
  "quoteChar c =
     (let n = of_char c :: nat; bs = CHR 0x5C
      in if n = 34 \<or> n = 92 then [bs, c]
         else if 32 \<le> n \<and> n < 127 then [c]
         else if 7 \<le> n \<and> n \<le> 13 then [bs, ''abtnvfr'' ! (n - 7)]
         else [bs, CHR ''x'', hexDigit (n div 16), hexDigit n])"

definition quoteString :: "string \<Rightarrow> string" where
  "quoteString s = [CHR 0x22] @ concat (map quoteChar s) @ [CHR 0x22]"

definition modeString :: "Mode \<Rightarrow> string" where
  "modeString m = (case m of ModeEnabled \<Rightarrow> ''enabled'' | ModeDisabled \<Rightarrow> ''disabled''
     | ModeGaming \<Rightarrow> ''gaming'' | ModeOther s \<Rightarrow> s)"

definition planInvalidMode :: "PlanInput \<Rightarrow> scanState \<Rightarrow> Plan" where
  "planInvalidMode i sc =
     fst (applyOutstandingAssignments
       (addProblem ((scPlan sc)\<lparr>plPhase := PhaseDegraded\<rparr>)
         (problem (piNow i) ''invalid-desired-mode''
           (''unsupported desired mode '' @ quoteString (modeString (dsMode (piDesired i)))) [] False))
       i (scWorkersByPool sc) (targetIDs i) (scActiveWorkers sc))"

definition planDisabled :: "PlanInput \<Rightarrow> scanState \<Rightarrow> Plan" where
  "planDisabled i sc =
     (let (plan, outstanding) = applyOutstandingAssignments (scPlan sc) i (scWorkersByPool sc)
            (targetIDs i) (scActiveWorkers sc)
      in if hasActiveWorkers (piWorkers i) \<or> outstanding \<or> plStart plan \<noteq> [] then
           quiesce (plan\<lparr>plPhase := PhaseDraining\<rparr>) QuiesceReasonOperatorDisabled
         else plan\<lparr>plPhase := PhaseDisabled\<rparr>)"

definition planGaming :: "PlanInput \<Rightarrow> scanState \<Rightarrow> Plan" where
  "planGaming i sc =
     (let (plan, outstanding) = applyOutstandingAssignments (scPlan sc) i (scWorkersByPool sc)
            (targetIDs i) (scActiveWorkers sc)
      in if 0 < scBusyWorkers sc \<or> outstanding \<or> plStart plan \<noteq> [] then
           quiesce (plan\<lparr>plPhase := PhaseDraining\<rparr>) QuiesceReasonGamingActiveWork
         else
           (let stopDesktop = (dtDesktopRunning (piDesktop i) \<or> dtEngineReachable (piDesktop i));
                shutdownWSL = (0 < dtRunningWSLCount (piDesktop i));
                plan1 = plan\<lparr>plStopDesktop := stopDesktop, plShutdownWSL := shutdownWSL\<rparr>
            in if stopDesktop \<or> shutdownWSL \<or> hasActiveWorkers (piWorkers i) then
                 quiesce (plan1\<lparr>plPhase := PhaseDraining\<rparr>) QuiesceReasonGamingHostTeardown
               else plan1\<lparr>plPhase := PhaseGaming\<rparr>))"

definition planSuspended :: "PlanInput \<Rightarrow> scanState \<Rightarrow> Phase \<Rightarrow> Plan" where
  "planSuspended i sc phase =
     (fst (applyOutstandingAssignments (scPlan sc) i (scWorkersByPool sc) (targetIDs i)
        (scActiveWorkers sc)))\<lparr>plPhase := phase\<rparr>"

section \<open>Allocation of an admitted fleet\<close>

definition previousCapacityByPool :: "PlanInput \<Rightarrow> int gomap" where
  "previousCapacityByPool i =
     foldl (\<lambda>m (k, c). gput m k c)
       (foldl (\<lambda>m p. gput m (poID p) (poMaxCapacity p)) [] (osPools (piPrevious i)))
       (piCapacityHysteresis i)"

text \<open>The variables the closure \<open>allocate\<close> and the passes around it share.\<close>

record allocState =
  alPlan :: Plan
  alRemaining :: int
  alMemoryRemaining :: u64
  alCountedNonbusy :: "int gomap"

record poolCounts =
  pcBusyByPool :: "int gomap"
  pcNonbusyByPool :: "int gomap"

text \<open>
  Busy workers of a target are desired unconditionally. A Go map entry appears only once it is
  incremented, and reading an absent one yields zero.
\<close>

definition countWorker :: "Target \<Rightarrow> Plan \<times> poolCounts \<Rightarrow> Worker \<Rightarrow> Plan \<times> poolCounts" where
  "countWorker t st w =
     (let (plan, counts) = st
      in if isBusy w then
           (plan\<lparr>plDesiredWorkers :=
              gput (plDesiredWorkers plan) (tgID t) (geti (plDesiredWorkers plan) (tgID t) + 1)\<rparr>,
            counts\<lparr>pcBusyByPool :=
              gput (pcBusyByPool counts) (tgID t) (geti (pcBusyByPool counts) (tgID t) + 1)\<rparr>)
         else if isNonbusy w then
           (plan, counts\<lparr>pcNonbusyByPool :=
              gput (pcNonbusyByPool counts) (tgID t) (geti (pcNonbusyByPool counts) (tgID t) + 1)\<rparr>)
         else (plan, counts))"

definition countTarget :: "Worker list gomap \<Rightarrow> Plan \<times> poolCounts \<Rightarrow> Target \<Rightarrow> Plan \<times> poolCounts" where
  "countTarget workersByPool st t = foldl (countWorker t) st (gget [] workersByPool (tgID t))"

record reserveState =
  rvPlan :: Plan
  rvReady :: "bool gomap"
  rvReservations :: "int gomap"
  rvOverCap :: "bool gomap"

definition reserveTarget :: "time \<Rightarrow> PoolSnapshot gomap \<Rightarrow> reserveState \<Rightarrow> Target \<Rightarrow> reserveState" where
  "reserveTarget now poolByID st t =
     (if \<not> ghas poolByID (tgID t) \<or> \<not> psReady (gget zeroPoolSnapshot poolByID (tgID t)) then
        st\<lparr>rvPlan := addProblem (rvPlan st) (problem now ''pool-unavailable''
          ''scale-set listener is unavailable; capacity is held at zero'' (tgID t) True)\<rparr>
      else
        (let reported = psTotalAssignedJobs (gget zeroPoolSnapshot poolByID (tgID t));
             assigned = (if reported < 0 then 0 else reported);
             plan1 = (if reported < 0 then
                        addProblem (rvPlan st) (problem now ''invalid-assigned-job-count''
                          ''GitHub reported a negative TotalAssignedJobs value'' (tgID t) True)
                      else rvPlan st);
             st1 = st\<lparr>rvPlan := plan1, rvReady := gput (rvReady st) (tgID t) True,
                     rvReservations := gput (rvReservations st) (tgID t) (min assigned (tgMaxCapacity t))\<rparr>
         in if tgMaxCapacity t < assigned then
              st1\<lparr>rvOverCap := gput (rvOverCap st1) (tgID t) True,
                  rvPlan := addProblem (rvPlan st1) (problem now ''assigned-job-count-exceeds-pool-cap''
                    ''GitHub reported more assigned jobs than the configured pool maximum; excess assignments are not reserved and listener capacity is held at zero''
                    (tgID t) True)\<rparr>
            else st1))"

text \<open>The closure \<open>allocate\<close>: existing workers first, then starts that memory affords.\<close>

definition allocExisting :: "int gomap \<Rightarrow> allocState \<Rightarrow> Target \<Rightarrow> int \<Rightarrow> int" where
  "allocExisting nonbusyByPool st t need =
     (let availableExisting = geti nonbusyByPool (tgID t) - geti (alCountedNonbusy st) (tgID t)
      in min (min need availableExisting) (alRemaining st))"

definition allocStarts :: "PlanInput \<Rightarrow> memoryBasis \<Rightarrow> allocState \<Rightarrow> Target \<Rightarrow> int \<Rightarrow> int" where
  "allocStarts i gate st t prospective =
     (let affordable = (if mbFloorBlocked gate then 0
                        else affordableWorkerCount (alMemoryRemaining st) (targetMemory i t))
      in min prospective affordable)"

definition takeExisting :: "allocState \<Rightarrow> Target \<Rightarrow> int \<Rightarrow> allocState" where
  "takeExisting st t existing =
     st\<lparr>alPlan := (alPlan st)\<lparr>plDesiredWorkers := gput (plDesiredWorkers (alPlan st)) (tgID t)
          (geti (plDesiredWorkers (alPlan st)) (tgID t) + existing)\<rparr>,
        alCountedNonbusy := gput (alCountedNonbusy st) (tgID t) (geti (alCountedNonbusy st) (tgID t) + existing),
        alRemaining := alRemaining st - existing\<rparr>"

definition planStarts :: "allocState \<Rightarrow> Target \<Rightarrow> u64 \<Rightarrow> int \<Rightarrow> int \<Rightarrow> allocState" where
  "planStarts st t workerMemory prospective starts =
     (let plan = alPlan st;
          plan1 = (if starts < prospective
                   then plan\<lparr>plMemoryClamped := gput (plMemoryClamped plan) (tgID t) True\<rparr> else plan)
      in st\<lparr>alPlan := plan1\<lparr>plDesiredWorkers := gput (plDesiredWorkers plan1) (tgID t)
               (geti (plDesiredWorkers plan1) (tgID t) + starts)\<rparr>,
            alRemaining := alRemaining st - starts,
            alMemoryRemaining := alMemoryRemaining st - word_of_int starts * workerMemory\<rparr>)"

definition allocate :: "PlanInput \<Rightarrow> memoryBasis \<Rightarrow> int gomap \<Rightarrow> allocState \<Rightarrow> Target \<Rightarrow> int \<Rightarrow> allocState" where
  "allocate i gate nonbusyByPool st t requested =
     (let current = geti (plDesiredWorkers (alPlan st)) (tgID t)
      in if requested \<le> current then st
         else
           (let need = requested - current;
                existing = allocExisting nonbusyByPool st t need;
                st1 = takeExisting st t existing;
                prospective = min (need - existing) (alRemaining st1)
            in planStarts st1 t (targetMemory i t) prospective (allocStarts i gate st1 t prospective)))"

definition assignTarget ::
  "PlanInput \<Rightarrow> memoryBasis \<Rightarrow> poolCounts \<Rightarrow> reserveState \<Rightarrow> allocState \<Rightarrow> Target \<Rightarrow> allocState" where
  "assignTarget i gate counts rv st t =
     (if \<not> getb (rvReady rv) (tgID t) then st
      else
        (let assigned = max (geti (rvReservations rv) (tgID t)) (geti (pcBusyByPool counts) (tgID t));
             st1 = allocate i gate (pcNonbusyByPool counts) st t assigned
         in if geti (plDesiredWorkers (alPlan st1)) (tgID t) < assigned then
              st1\<lparr>alPlan := addProblem (alPlan st1) (problem (piNow i) ''assigned-job-capacity-unavailable''
                ''GitHub has assigned work that exceeds currently serviceable host capacity'' (tgID t) True)\<rparr>
            else st1))"

definition warmTarget ::
  "PlanInput \<Rightarrow> memoryBasis \<Rightarrow> poolCounts \<Rightarrow> reserveState \<Rightarrow> allocState \<Rightarrow> Target \<Rightarrow> allocState" where
  "warmTarget i gate counts rv st t =
     (if \<not> getb (rvReady rv) (tgID t) then st
      else
        (let assigned = geti (rvReservations rv) (tgID t);
             requested = min (tgMaxCapacity t) (assigned + tgWarmIdle t)
         in allocate i gate (pcNonbusyByPool counts) st t
              (max (max requested assigned) (geti (pcBusyByPool counts) (tgID t)))))"

section \<open>Starts, removals and advertised capacity\<close>

record burstCandidate =
  bcPoolID :: string
  bcMaxCapacity :: int
  bcRemovable :: "Worker list"

record advertiseState =
  adPlan :: Plan
  adAdvertisable :: "bool gomap"
  adBurst :: "burstCandidate list"

definition markAdvertised :: "advertiseState \<Rightarrow> Target \<Rightarrow> int \<Rightarrow> advertiseState" where
  "markAdvertised st t desired =
     st\<lparr>adPlan := (adPlan st)\<lparr>plAdvertisedCapacity :=
                    gput (plAdvertisedCapacity (adPlan st)) (tgID t) desired\<rparr>,
        adAdvertisable := gput (adAdvertisable st) (tgID t) True\<rparr>"

definition advertiseTarget ::
  "int \<Rightarrow> bool \<Rightarrow> Worker list gomap \<Rightarrow> reserveState \<Rightarrow> advertiseState \<Rightarrow> Target \<Rightarrow> advertiseState" where
  "advertiseTarget hostLimit capacityDebt workersByPool rv st t =
     (let desired = geti (plDesiredWorkers (adPlan st)) (tgID t);
          ws = gget [] workersByPool (tgID t);
          active = countBy isBusy ws + countBy isNonbusy ws;
          removable = filter isNonbusy ws;
          plan1 = (adPlan st)\<lparr>plRemove := plRemove (adPlan st) @ filter isGone ws\<rparr>;
          plan2 = (if active < desired
                   then plan1\<lparr>plStart := plStart plan1 @ [\<lparr>sdPoolID = tgID t, sdCount = desired - active\<rparr>]\<rparr>
                   else plan1);
          st1 = st\<lparr>adPlan := plan2\<rparr>;
          eligible = (\<not> capacityDebt \<and> getb (rvReady rv) (tgID t) \<and> \<not> getb (rvOverCap rv) (tgID t))
      in if desired < active then
           (let excess = active - desired
            in if excess = 1 \<and> 0 < hostLimit \<and> 0 < tgMaxCapacity t \<and> eligible then
                 (markAdvertised st1 t desired)
                   \<lparr>adBurst := adBurst st1 @ [\<lparr>bcPoolID = tgID t, bcMaxCapacity = tgMaxCapacity t,
                                             bcRemovable = removable\<rparr>]\<rparr>
               else
                 (let plan3 = quiesce plan2 QuiesceReasonExcessWorkers
                  in st1\<lparr>adPlan := plan3\<lparr>plRemove := plRemove plan3 @ take (nat excess) removable\<rparr>\<rparr>))
         else if eligible then markAdvertised st1 t desired
         else st1)"

record budgetState =
  bgPlan :: Plan
  bgAdvertisable :: "bool gomap"
  bgBudget :: int

definition burstStep :: "budgetState \<Rightarrow> burstCandidate \<Rightarrow> budgetState" where
  "burstStep st c =
     (let capacity0 = geti (plAdvertisedCapacity (bgPlan st)) (bcPoolID c);
          grow = (capacity0 < bcMaxCapacity c \<and> 0 < bgBudget st);
          st1 = (if grow then
                   st\<lparr>bgPlan := (bgPlan st)\<lparr>plAdvertisedCapacity :=
                        gput (plAdvertisedCapacity (bgPlan st)) (bcPoolID c) (capacity0 + 1)\<rparr>,
                      bgBudget := bgBudget st - 1\<rparr>
                 else st);
          capacity = (if grow then capacity0 + 1 else capacity0)
      in if capacity \<noteq> 0 then st1
         else
           (let plan1 = quiesce (bgPlan st1) QuiesceReasonAdvertisementBudgetExhausted;
                plan2 = (case bcRemovable c of [] \<Rightarrow> plan1
                         | w # _ \<Rightarrow> plan1\<lparr>plRemove := plRemove plan1 @ [w]\<rparr>)
            in st1\<lparr>bgPlan := plan2, bgAdvertisable := gput (bgAdvertisable st1) (bcPoolID c) False\<rparr>))"

text \<open>
  Pools at zero first, otherwise the order of the targets (\<open>sort.SliceStable\<close>); the keys are read
  before any candidate changes the map.
\<close>

definition burstPass :: "int \<Rightarrow> advertiseState \<Rightarrow> budgetState" where
  "burstPass hostLimit ad =
     (let capacities = plAdvertisedCapacity (adPlan ad);
          ordered = sort_key (\<lambda>c. geti capacities (bcPoolID c) \<noteq> 0) (adBurst ad)
      in foldl burstStep
           \<lparr>bgPlan = adPlan ad, bgAdvertisable = adAdvertisable ad,
            bgBudget = max (hostLimit - gsum capacities) 0\<rparr> ordered)"

record serviceState =
  svPlan :: Plan
  svSlots :: int
  svBudget :: int
  svMemoryRemaining :: u64

definition serviceLimit :: "serviceState \<Rightarrow> Target \<Rightarrow> int" where
  "serviceLimit st t =
     min (min (tgMaxCapacity t - geti (plAdvertisedCapacity (svPlan st)) (tgID t)) (svSlots st)) (svBudget st)"

text \<open>Slots advertised before that are still affordable at the raw slot boundary.\<close>

definition serviceHeld :: "PlanInput \<Rightarrow> int gomap \<Rightarrow> serviceState \<Rightarrow> Target \<Rightarrow> int" where
  "serviceHeld i previousCapacity st t =
     (let currentCapacity = geti (plAdvertisedCapacity (svPlan st)) (tgID t)
      in min (min (serviceLimit st t) (max (geti previousCapacity (tgID t) - currentCapacity) 0))
           (affordableWorkerCount (svMemoryRemaining st) (targetMemory i t)))"

text \<open>Growth beyond them needs the configured margin and stops at the host's memory floor.\<close>

definition serviceGrowth :: "PlanInput \<Rightarrow> memoryBasis \<Rightarrow> serviceState \<Rightarrow> Target \<Rightarrow> int \<Rightarrow> int" where
  "serviceGrowth i gate st t held =
     (if mbFloorBlocked gate then 0
      else min (serviceLimit st t - held)
             (affordableWorkerCountWithMargin
               (svMemoryRemaining st - word_of_int held * targetMemory i t) (targetMemory i t)
               (reMemoryCapacityIncreaseMarginPct (piPolicy i))))"

definition serviceTarget ::
  "PlanInput \<Rightarrow> memoryBasis \<Rightarrow> int gomap \<Rightarrow> bool gomap \<Rightarrow> serviceState \<Rightarrow> Target \<Rightarrow> serviceState" where
  "serviceTarget i gate previousCapacity advertisable st t =
     (if \<not> getb advertisable (tgID t) \<or> svSlots st = 0 then st
      else
        (let held = serviceHeld i previousCapacity st t;
             additional = held + serviceGrowth i gate st t held;
             plan = svPlan st;
             plan1 = (if additional < serviceLimit st t
                      then plan\<lparr>plMemoryClamped := gput (plMemoryClamped plan) (tgID t) True\<rparr>
                      else plan)
         in if additional \<le> 0 then st\<lparr>svPlan := plan1\<rparr>
            else
              \<lparr>svPlan = plan1\<lparr>plAdvertisedCapacity := gput (plAdvertisedCapacity plan1) (tgID t)
                 (geti (plAdvertisedCapacity plan1) (tgID t) + additional)\<rparr>,
               svSlots = svSlots st - additional,
               svBudget = svBudget st - additional,
               svMemoryRemaining = svMemoryRemaining st - word_of_int additional * targetMemory i t\<rparr>))"

definition plannedStarts :: "Plan \<Rightarrow> int" where
  "plannedStarts plan = (\<Sum>d\<leftarrow>plStart plan. sdCount d)"

definition servicePass ::
  "PlanInput \<Rightarrow> memoryBasis \<Rightarrow> int \<Rightarrow> int \<Rightarrow> budgetState \<Rightarrow> u64 \<Rightarrow> Target list \<Rightarrow> Plan \<times> u64" where
  "servicePass i gate hostLimit activeWorkers bg memoryRemaining targets =
     (let st = foldl (serviceTarget i gate (previousCapacityByPool i) (bgAdvertisable bg))
                 \<lparr>svPlan = bgPlan bg,
                  svSlots = max (hostLimit - activeWorkers - plannedStarts (bgPlan bg)) 0,
                  svBudget = bgBudget bg, svMemoryRemaining = memoryRemaining\<rparr> targets
      in (svPlan st, svMemoryRemaining st))"

definition finishPlan :: "PlanInput \<Rightarrow> Target list \<Rightarrow> Plan \<times> u64 \<Rightarrow> Plan" where
  "finishPlan i targets pm =
     (let (plan, memoryRemaining) = pm;
          plan1 = foldl (\<lambda>p t. p\<lparr>plMemoryAffordable := gput (plMemoryAffordable p) (tgID t)
                            (affordableWorkerCount memoryRemaining (targetMemory i t))\<rparr>)
                    (plan\<lparr>plMemoryHeadroom := memoryRemaining\<rparr>) targets
      in plan1\<lparr>plPhase := (if plProblems plan1 \<noteq> [] then PhaseDegraded
                           else if plQuiesceReason plan1 \<noteq> NoQuiesceReason then PhaseDraining
                           else PhaseReady)\<rparr>)"

section \<open>The planner\<close>

text \<open>The state in which the allocation passes begin (lines 272--317).\<close>

definition beginAllocation :: "PlanInput \<Rightarrow> scanState \<Rightarrow> int \<Rightarrow> Plan \<times> int" where
  "beginAllocation i sc hostLimit =
     (let remaining = hostLimit - scBusyWorkers sc;
          plan1 = (if mbBudgetClamped (evaluateMemoryBasis i) then
                     addProblem (scPlan sc) (problem (piNow i) ''worker-memory-budget-exceeds-engine-memory''
                       ''configured workerMemoryBudget exceeds the probed engine VM memory; the effective budget is clamped to the probe''
                       [] False)
                   else scPlan sc)
      in if remaining < 0 then
           (addProblem plan1 (problem (piNow i) ''capacity-below-busy-count''
              ''configured host capacity is below the current busy-worker count; active work is preserved and no new work is admitted''
              [] False), 0)
         else (plan1, remaining))"

definition planAdmitted :: "PlanInput \<Rightarrow> scanState \<Rightarrow> int \<Rightarrow> Plan" where
  "planAdmitted i sc hostLimit =
     (let targets = sortedTargetsByPriority (piTargets i);
          gate = evaluateMemoryBasis i;
          wbp = scWorkersByPool sc;
          (plan0, remaining) = beginAllocation i sc hostLimit;
          (plan1, counts) = foldl (countTarget wbp) (plan0, \<lparr>pcBusyByPool = [], pcNonbusyByPool = []\<rparr>) targets;
          rv = foldl (reserveTarget (piNow i) (poolsByID (piPools i)))
                 \<lparr>rvPlan = plan1, rvReady = [], rvReservations = [], rvOverCap = []\<rparr> targets;
          al0 = \<lparr>alPlan = rvPlan rv, alRemaining = remaining, alMemoryRemaining = mbRemaining gate,
                 alCountedNonbusy = []\<rparr>;
          al1 = foldl (assignTarget i gate counts rv) al0 targets;
          al2 = foldl (warmTarget i gate counts rv) al1 targets;
          capacityDebt = (hostLimit < scBusyWorkers sc);
          ad = foldl (advertiseTarget hostLimit capacityDebt wbp rv)
                 \<lparr>adPlan = alPlan al2, adAdvertisable = [], adBurst = []\<rparr> targets;
          bg = burstPass hostLimit ad
      in finishPlan i targets
           (if capacityDebt then (bgPlan bg, alMemoryRemaining al2)
            else servicePass i gate hostLimit (scActiveWorkers sc) bg (alMemoryRemaining al2) targets))"

definition withNow :: "time \<Rightarrow> PlanInput \<Rightarrow> PlanInput" where
  "withNow clock i = (if timeIsZero (piNow i) then i\<lparr>piNow := clock\<rparr> else i)"

definition planEnabled :: "PlanInput \<Rightarrow> scanState \<Rightarrow> bool \<Rightarrow> bool \<Rightarrow> Plan" where
  "planEnabled i sc resourceHealthy powerAllowed =
     (if \<not> powerAllowed then planSuspended i sc PhasePowerSuspended
      else if \<not> dtDesktopRunning (piDesktop i) \<or> \<not> dtEngineReachable (piDesktop i) then
        (scPlan sc)\<lparr>plStartDesktop := True, plPhase := PhaseStarting\<rparr>
      else if \<not> resourceHealthy then planSuspended i sc PhaseResourceConstrained
      else
        (let hostLimit = hostWorkerLimit i
         in if hostLimit < 0 then
              appendSafeRemovals
                (addProblem ((scPlan sc)\<lparr>plPhase := PhaseDegraded\<rparr>)
                  (problem (piNow i) ''invalid-capacity-override''
                    ''temporary capacity override must not be negative'' [] False))
                (scWorkersByPool sc) (targetIDs i) None
            else planAdmitted i sc hostLimit))"

definition buildPlan :: "time \<Rightarrow> PlanInput \<Rightarrow> Plan" where
  "buildPlan clock input =
     (let i = withNow clock input;
          (plan0, resourceHealthy, powerAllowed) = evaluateGates i (initPlan i);
          sc = scanWorkers i plan0
      in if \<not> modeValid (dsMode (piDesired i)) then planInvalidMode i sc
         else if dsMode (piDesired i) = ModeDisabled then planDisabled i sc
         else if dsMode (piDesired i) = ModeGaming then planGaming i sc
         else planEnabled i sc resourceHealthy powerAllowed)"

end
