(* ===== verification/Samples.thy ===== *)
theory Samples
  imports Plan
begin

text \<open>
  A small concrete host: two targets sharing two worker slots, on which the witnesses of the
  development evaluate the model.
\<close>

definition sampleProfile :: ConfigWorker where
  "sampleProfile = \<lparr>cwCPUs = Fin 2, cwMemory = 4294967296, cwMemorySwap = 4294967296, cwPIDs = 512\<rparr>"

definition sampleTarget :: "string \<Rightarrow> int \<Rightarrow> int \<Rightarrow> int \<Rightarrow> Target" where
  "sampleTarget i warm mx prio =
     \<lparr>tgID = i, tgURL = ''https://github.com/example'', tgScope = ScopeOrganization, tgClientID = ''Iv23abcdef'',
      tgInstallationID = 1, tgSecretID = ''example'', tgRunnerGroup = ''default'', tgScaleSetName = i,
      tgLabels = [], tgWarmIdle = warm, tgMaxCapacity = mx, tgPriority = prio, tgResourcesWorker = None,
      tgSeccompProfile = []\<rparr>"

definition sampleResources :: Resources where
  "sampleResources =
     \<lparr>reMaximumConcurrentWorkers = 2, reWorker = sampleProfile, reWorkerMemoryBudget = 17179869184,
      reMinimumAvailableMemoryPct = Fin 10, reMemoryCapacityIncreaseMarginPct = Fin 10,
      reCPUBlockPercent = Fin 90, reCPUResumePercent = Fin 70, reCPUObservationWindow = 30 * second,
      reCPUHysteresisWindow = minute, reInteractiveMaximumConcurrentWorkers = 0, reInteractiveIdleThreshold = minute\<rparr>"

definition samplePower :: Power where
  "samplePower = \<lparr>pcPolicy = PowerACOnly, pcStableACWindow = minute\<rparr>"

definition sampleConfig :: Config where
  "sampleConfig =
     \<lparr>cfSchemaVersion = 2, cfHost = \<lparr>hoID = ''host'', hoRunnerNamePrefix = ''host''\<rparr>,
      cfController = \<lparr>coReconcileInterval = 15 * second, coShutdownPollInterval = second,
        coLocalProbeTimeout = 5 * second, coStartupTimeout = minute, coDesktopProbeTimeout = 0, coElevatedProbeTimeout = 0\<rparr>,
      cfCompatibilityManifest = ''m'',
      cfGitHub = \<lparr>ghRequestTimeout = minute,
        ghRetry = \<lparr>ryInitial = second, ryMaximum = 30 * second, ryMultiplier = Fin 2, ryJitterRatio = Fin 0, ryMaxAttempts = 3\<rparr>,
        ghTargets = [sampleTarget ''b'' 0 2 2, sampleTarget ''a'' 1 2 1]\<rparr>,
      cfResources = sampleResources, cfPower = samplePower,
      cfDrain = \<lparr>drWarningAfter = minute, drIdleConfirmationWindow = minute\<rparr>,
      cfDockerDesktop = \<lparr>ddStartTimeout = minute, ddStopTimeout = minute\<rparr>,
      cfPullTimeout = 20 * minute,
      cfLogs = \<lparr>loDocker = \<lparr>dlDriver = ''local'', dlMaxSize = 1048576, dlMaxFiles = 3\<rparr>,
        loController = \<lparr>lcMaxFileSize = 1048576, lcRetention = minute, lcTotalCap = 4194304\<rparr>,
        loDiagnostics = \<lparr>lcMaxFileSize = 1048576, lcRetention = minute, lcTotalCap = 4194304\<rparr>,
        loRawDiagnosticMaxInput = 1048576, loCleanupEvery = minute, loWorkerFinalizationTimeout = minute\<rparr>,
      cfTelemetry = \<lparr>tlEndpoint = [], tlProtocol = [], tlTraces = False, tlMetrics = False,
        tlMetricExportInterval = 0, tlMetricExportTimeout = 0\<rparr>,
      cfPaths = \<lparr>paSecrets = ''C:/s'', paState = ''C:/t'', paLogs = ''C:/l'', paDiagnostics = ''C:/d''\<rparr>\<rparr>"

definition sampleWorker :: "string \<Rightarrow> string \<Rightarrow> WorkerState \<Rightarrow> Worker" where
  "sampleWorker i pool st =
     \<lparr>wID = i, wAdapterID = i, wPoolID = pool, wName = i, wState = st, wJobID = [], wRunnerID = 7,
      wStartedAt = 1, wMemoryLimitBytes = 4294967296\<rparr>"

definition samplePool :: "string \<Rightarrow> int \<Rightarrow> PoolSnapshot" where
  "samplePool i assigned =
     \<lparr>psTargetID = i, psIdentity = \<lparr>idScaleSetID = 1, idListenerID = i\<rparr>, psTotalAssignedJobs = assigned,
      psDrainServiceCapacity = 2, psReady = True\<rparr>"

definition sampleSnapshot :: "u64 \<Rightarrow> ResourceSnapshot" where
  "sampleSnapshot available =
     \<lparr>rsTotalMemoryBytes = 34359738368, rsAvailableMemoryBytes = available, rsCPUUtilizationPercent = Fin 20\<rparr>"

definition sampleInput :: "u64 \<Rightarrow> Mode \<Rightarrow> Worker list \<Rightarrow> PoolSnapshot list \<Rightarrow> PlanInput" where
  "sampleInput available mode workers pools =
     \<lparr>piConfig = sampleConfig,
      piDesired = \<lparr>dsSchemaVersion = 1, dsMode = mode, dsTemporaryCapacityOverride = None, dsUpdatedAt = 1\<rparr>,
      piPrevious = zeroObservedState\<lparr>osPowerGate := \<lparr>pgACSince = Some second\<rparr>\<rparr>,
      piCapacityHysteresis = [], piPools = pools, piWorkers = workers,
      piResources = sampleSnapshot available,
      piPower = \<lparr>pwACConnected = True, pwObservedAt = 1\<rparr>,
      piDesktop = \<lparr>dtDesktopRunning = True, dtEngineReachable = True, dtRunningWSLCount = 1\<rparr>,
      piEngineMemoryTotalBytes = 0, piInputIdle = None, piNow = 10 * minute\<rparr>"

definition sampleCPU :: "rat \<Rightarrow> ResourceSnapshot" where
  "sampleCPU pct = \<lparr>rsTotalMemoryBytes = 100, rsAvailableMemoryBytes = 50, rsCPUUtilizationPercent = Fin pct\<rparr>"

definition sampleBlocked :: ResourceGateState where
  "sampleBlocked = \<lparr>rgBlocked = True, rgReason = ResourceGateReasonCPU, rgHighCPUSince = None, rgHealthySince = None\<rparr>"

end
