(* ===== verification/Gate_Theorems.thy ===== *)
theory Gate_Theorems
  imports Samples
begin

text \<open>
  The gates of the planner over whole sequences of observations: each opens, or closes, exactly
  on the strength of an unbroken run of observations that spans its configured window.
\<close>

lemmas sample_gate_simps = runTrace_def evaluateResourceGate_def sampleResources_def sampleCPU_def sampleBlocked_def
  zeroResourceGate_def invalidSnapshot_def isNaN_def isInf_def startTimer_def timeSub_def minInt64_def maxInt64_def
  Let_def

lemma sample_gate_windows:
  "minInt64 < reCPUObservationWindow sampleResources" "reCPUObservationWindow sampleResources \<le> maxInt64"
  "reCPUObservationWindow sampleResources = 30 * second"
  "minInt64 < reCPUHysteresisWindow sampleResources" "reCPUHysteresisWindow sampleResources \<le> maxInt64"
  "reCPUHysteresisWindow sampleResources = minute"
  "rgHighCPUSince zeroResourceGate = None" "\<not> invalidSnapshot (sampleCPU 96)"
  "resourceGateWF sampleBlocked" "rgHealthySince sampleBlocked = None"
  by (simp_all add: sampleResources_def minInt64_def maxInt64_def zeroResourceGate_def invalidSnapshot_def
      sampleCPU_def isNaN_def isInf_def resourceGateWF_def sampleBlocked_def)

text \<open>
  C16: under the ac-only policy, starting without a running timer and with time stamps that do not
  decrease, the power gate is open after an observation exactly if AC power was observed without a
  break for at least the configured window.
\<close>

theorem power_gate_exact:
  assumes "pcPolicy policy = PowerACOnly" "0 < pcStableACWindow policy" "pcStableACWindow policy \<le> maxInt64"
    and "pgACSince g = None" and "sorted (map snd (tr @ [(snap, now)]))"
  shows "snd (evaluatePowerGate (runTrace (powerStep policy) g tr) snap policy now) \<longleftrightarrow>
    (\<exists>t0. heldSince pwACConnected t0 (tr @ [(snap, now)]) \<and> pcStableACWindow policy \<le> now - t0)"
  (is "?open \<longleftrightarrow> ?held")
proof
  assume ?open
  then obtain t0 where "pgACSince (runTrace (powerStep policy) g (tr @ [(snap, now)])) = Some t0"
    and "pcStableACWindow policy \<le> now - t0"
    using power_verdict [OF assms(1-3)] by auto
  then show ?held
    using ac_power.timer_held [of g policy "tr @ [(snap, now)]" t0] assms(1,4) by auto
next
  assume ?held
  then obtain t0 where held: "heldSince pwACConnected t0 (tr @ [(snap, now)])"
    and window: "pcStableACWindow policy \<le> now - t0" by auto
  obtain t1 where "t1 \<le> t0" "pgACSince (runTrace (powerStep policy) g (tr @ [(snap, now)])) = Some t1"
    using ac_power.timer_runs [OF assms(5) held, of policy g] assms(1) by auto
  then show ?open
    using window power_verdict [OF assms(1-3)] by fastforce
qed

theorem power_gate_exact_witness:
  "snd (evaluatePowerGate (runTrace (powerStep samplePower) \<lparr>pgACSince = None\<rparr>
     [(\<lparr>pwACConnected = True, pwObservedAt = 1\<rparr>, 5 * second)])
     \<lparr>pwACConnected = True, pwObservedAt = 1\<rparr> samplePower (2 * minute))"
proof -
  let ?ac = "\<lparr>pwACConnected = True, pwObservedAt = 1\<rparr>"
  have "\<exists>t0. heldSince pwACConnected t0 ([(?ac, 5 * second)] @ [(?ac, 2 * minute)]) \<and> minute \<le> 2 * minute - t0"
    by (rule exI [of _ "5 * second"]) simp
  then show ?thesis
    using power_gate_exact [of samplePower "\<lparr>pgACSince = None\<rparr>" "[(?ac, 5 * second)]" ?ac "2 * minute"]
    by (simp add: samplePower_def maxInt64_def)
qed

text \<open>
  C17: from a state without a running timer, the resource gate blocks on a valid observation only
  after high CPU utilisation was observed without a break for at least the observation window.
\<close>

theorem cpu_block_needs_window:
  assumes "rgHighCPUSince g = None" "minInt64 < reCPUObservationWindow policy"
    "reCPUObservationWindow policy \<le> maxInt64" "\<not> invalidSnapshot snap"
    and "\<not> rgBlocked (runTrace (resourceStep policy) g tr)"
    and "rgBlocked (resourceStep policy (runTrace (resourceStep policy) g tr) snap now)"
  shows "\<exists>t0. heldSince (cpuHigh policy) t0 (tr @ [(snap, now)]) \<and> reCPUObservationWindow policy \<le> now - t0"
  using blocks_only_by_timer [OF assms(5,6,4,2,3)] high_cpu.timer_held_snoc [OF assms(1)] by blast

theorem cpu_block_needs_window_witness:
  "rgBlocked (resourceStep sampleResources (runTrace (resourceStep sampleResources) zeroResourceGate
     [(sampleCPU 95, second)]) (sampleCPU 96) (40 * second)) \<and>
   (\<exists>t0. heldSince (cpuHigh sampleResources) t0 [(sampleCPU 95, second), (sampleCPU 96, 40 * second)] \<and>
     30 * second \<le> 40 * second - t0)"
proof -
  have blocked: "rgBlocked (resourceStep sampleResources (runTrace (resourceStep sampleResources) zeroResourceGate
      [(sampleCPU 95, second)]) (sampleCPU 96) (40 * second))"
    "\<not> rgBlocked (runTrace (resourceStep sampleResources) zeroResourceGate [(sampleCPU 95, second)])"
    by (simp_all add: sample_gate_simps)
  then show ?thesis
    using cpu_block_needs_window [of zeroResourceGate sampleResources "sampleCPU 96" "[(sampleCPU 95, second)]" "40 * second"]
    by (simp add: sample_gate_windows minInt64_def maxInt64_def)
qed



end
