(* ===== verification/Plan_Scan.thy ===== *)
theory Plan_Scan
  imports Plan
begin

text \<open>
  Facts about the parts of \<open>buildPlan\<close> that run before the allocation: field-wise behaviour of the
  plan updates, the initial plan, the scan of the workers, safe removals and the coverage of
  outstanding assignments while no new work is admitted.
\<close>

section \<open>Plan updates\<close>

lemma addProblem_sel [simp]:
  "plPhase (addProblem p x) = plPhase p"
  "plQuiesceReason (addProblem p x) = plQuiesceReason p"
  "plAdvertisedCapacity (addProblem p x) = plAdvertisedCapacity p"
  "plDesiredWorkers (addProblem p x) = plDesiredWorkers p"
  "plStart (addProblem p x) = plStart p"
  "plRemove (addProblem p x) = plRemove p"
  "plStartDesktop (addProblem p x) = plStartDesktop p"
  "plResourceGate (addProblem p x) = plResourceGate p"
  "plPowerGate (addProblem p x) = plPowerGate p"
  "plMemoryClamped (addProblem p x) = plMemoryClamped p"
  "plProblems (addProblem p x) = plProblems p @ [x]"
  by (simp_all add: addProblem_def)

lemma quiesce_sel [simp]:
  "plPhase (quiesce p r) = plPhase p"
  "plAdvertisedCapacity (quiesce p r) = plAdvertisedCapacity p"
  "plDesiredWorkers (quiesce p r) = plDesiredWorkers p"
  "plStart (quiesce p r) = plStart p"
  "plRemove (quiesce p r) = plRemove p"
  "plResourceGate (quiesce p r) = plResourceGate p"
  "plPowerGate (quiesce p r) = plPowerGate p"
  "plMemoryClamped (quiesce p r) = plMemoryClamped p"
  "plProblems (quiesce p r) = plProblems p"
  "plQuiesceReason (quiesce p r) =
     (if plQuiesceReason p = NoQuiesceReason then r else plQuiesceReason p)"
  by (simp_all add: quiesce_def)

section \<open>Worker states\<close>

lemma countBy_simps [simp]:
  "countBy P [] = 0"
  "countBy P (w # ws) = (if P w then 1 else 0) + countBy P ws"
  "countBy P (xs @ ys) = countBy P xs + countBy P ys"
  by (simp_all add: countBy_def)

lemma countBy_nonneg [simp]: "0 \<le> countBy P ws"
  by (simp add: countBy_def)

lemma countBy_le: "(\<And>w. P w \<Longrightarrow> Q w) \<Longrightarrow> countBy P ws \<le> countBy Q ws"
  by (induction ws) auto

lemma worker_states [simp]:
  "isBusy w \<Longrightarrow> \<not> isNonbusy w" "isBusy w \<Longrightarrow> \<not> isGone w" "isNonbusy w \<Longrightarrow> \<not> isGone w"
  by (auto simp: isBusy_def isNonbusy_def isGone_def)

lemma workerActive_iff: "workerActive w \<longleftrightarrow> isBusy w \<or> isNonbusy w"
  by (auto simp: workerActive_def isBusy_def isNonbusy_def)

lemma countBy_active: "countBy workerActive ws = countBy isBusy ws + countBy isNonbusy ws"
  by (induction ws) (auto simp: workerActive_iff)

lemma hasActiveWorkers_iff: "hasActiveWorkers ws \<longleftrightarrow> (\<exists>w \<in> set ws. workerActive w)"
  by (induction ws) auto

section \<open>Targets in order of priority\<close>

lemma set_sortedTargets [simp]: "set (sortedTargetsByPriority ts) = set ts"
  by (simp add: sortedTargetsByPriority_def)

lemma distinct_sortedTargets [simp]:
  "distinct (map tgID (sortedTargetsByPriority ts)) \<longleftrightarrow> distinct (map tgID ts)"
  by (simp add: distinct_map sortedTargetsByPriority_def)

section \<open>The initial plan and the gates\<close>

lemma initTarget_sel [simp]:
  "plPhase (initTarget p t) = plPhase p" "plQuiesceReason (initTarget p t) = plQuiesceReason p"
  "plStart (initTarget p t) = plStart p" "plRemove (initTarget p t) = plRemove p"
  "plProblems (initTarget p t) = plProblems p" "plStartDesktop (initTarget p t) = plStartDesktop p"
  "plAdvertisedCapacity (initTarget p t) = gput (plAdvertisedCapacity p) (tgID t) 0"
  "plDesiredWorkers (initTarget p t) = gput (plDesiredWorkers p) (tgID t) 0"
  "plMemoryClamped (initTarget p t) = gput (plMemoryClamped p) (tgID t) False"
  by (simp_all add: initTarget_def)

lemma initTarget_fold [simp]:
  "plPhase (foldl initTarget p ts) = plPhase p"
  "plQuiesceReason (foldl initTarget p ts) = plQuiesceReason p"
  "plStart (foldl initTarget p ts) = plStart p" "plRemove (foldl initTarget p ts) = plRemove p"
  "plProblems (foldl initTarget p ts) = plProblems p"
  "plStartDesktop (foldl initTarget p ts) = plStartDesktop p"
  by (induction ts arbitrary: p) simp_all

lemma initTarget_fold_maps:
  "geti (plAdvertisedCapacity (foldl initTarget p ts)) k =
     (if k \<in> tgID ` set ts then 0 else geti (plAdvertisedCapacity p) k)"
  "geti (plDesiredWorkers (foldl initTarget p ts)) k =
     (if k \<in> tgID ` set ts then 0 else geti (plDesiredWorkers p) k)"
  "getb (plMemoryClamped (foldl initTarget p ts)) k =
     (if k \<in> tgID ` set ts then False else getb (plMemoryClamped p) k)"
  by (induction ts arbitrary: p) auto

lemma initTarget_fold_keys:
  "distinct (gkeys (plAdvertisedCapacity p)) \<Longrightarrow>
     distinct (gkeys (plAdvertisedCapacity (foldl initTarget p ts)))"
  "set (gkeys (plAdvertisedCapacity (foldl initTarget p ts))) =
     set (gkeys (plAdvertisedCapacity p)) \<union> tgID ` set ts"
  by (induction ts arbitrary: p) (auto simp: gkeys_gput ghas_iff_gkeys)

lemma initPlan_sel [simp]:
  "plPhase (initPlan i) = PhaseStarting" "plQuiesceReason (initPlan i) = NoQuiesceReason"
  "plStart (initPlan i) = []" "plRemove (initPlan i) = []" "plProblems (initPlan i) = []"
  "plStartDesktop (initPlan i) = False"
  "geti (plAdvertisedCapacity (initPlan i)) k = 0" "geti (plDesiredWorkers (initPlan i)) k = 0"
  "\<not> getb (plMemoryClamped (initPlan i)) k"
  "distinct (gkeys (plAdvertisedCapacity (initPlan i)))"
  "set (gkeys (plAdvertisedCapacity (initPlan i))) = tgID ` set (piTargets i)"
  by (simp_all add: initPlan_def initTarget_fold_maps initTarget_fold_keys zeroPlan_def)

lemma evaluateGates_sel [simp]:
  "plPhase (fst (evaluateGates i p)) = plPhase p"
  "plQuiesceReason (fst (evaluateGates i p)) = plQuiesceReason p"
  "plAdvertisedCapacity (fst (evaluateGates i p)) = plAdvertisedCapacity p"
  "plDesiredWorkers (fst (evaluateGates i p)) = plDesiredWorkers p"
  "plStart (fst (evaluateGates i p)) = plStart p" "plRemove (fst (evaluateGates i p)) = plRemove p"
  "plMemoryClamped (fst (evaluateGates i p)) = plMemoryClamped p"
  by (simp_all add: evaluateGates_def Let_def split: prod.split)

section \<open>The scan of the workers\<close>

lemma scanWorker_sel [simp]:
  "scWorkersByPool (scanWorker now k st w) =
     gput (scWorkersByPool st) (wPoolID w) (gget [] (scWorkersByPool st) (wPoolID w) @ [w])"
  "scBusyWorkers (scanWorker now k st w) = scBusyWorkers st + (if isBusy w then 1 else 0)"
  "scActiveWorkers (scanWorker now k st w) = scActiveWorkers st + (if workerActive w then 1 else 0)"
  "plPhase (scPlan (scanWorker now k st w)) = plPhase (scPlan st)"
  "plQuiesceReason (scPlan (scanWorker now k st w)) = plQuiesceReason (scPlan st)"
  "plAdvertisedCapacity (scPlan (scanWorker now k st w)) = plAdvertisedCapacity (scPlan st)"
  "plDesiredWorkers (scPlan (scanWorker now k st w)) = plDesiredWorkers (scPlan st)"
  "plStart (scPlan (scanWorker now k st w)) = plStart (scPlan st)"
  "plMemoryClamped (scPlan (scanWorker now k st w)) = plMemoryClamped (scPlan st)"
  "plRemove (scPlan (scanWorker now k st w)) =
     plRemove (scPlan st) @ (if wPoolID w \<notin> k \<and> isGone w then [w] else [])"
  by (simp_all add: scanWorker_def Let_def)

lemma scanWorker_fold:
  "gget [] (scWorkersByPool (foldl (scanWorker now k) st ws)) p =
     gget [] (scWorkersByPool st) p @ filter (\<lambda>w. wPoolID w = p) ws"
  "scBusyWorkers (foldl (scanWorker now k) st ws) = scBusyWorkers st + countBy isBusy ws"
  "scActiveWorkers (foldl (scanWorker now k) st ws) = scActiveWorkers st + countBy workerActive ws"
  "plPhase (scPlan (foldl (scanWorker now k) st ws)) = plPhase (scPlan st)"
  "plQuiesceReason (scPlan (foldl (scanWorker now k) st ws)) = plQuiesceReason (scPlan st)"
  "plAdvertisedCapacity (scPlan (foldl (scanWorker now k) st ws)) = plAdvertisedCapacity (scPlan st)"
  "plDesiredWorkers (scPlan (foldl (scanWorker now k) st ws)) = plDesiredWorkers (scPlan st)"
  "plStart (scPlan (foldl (scanWorker now k) st ws)) = plStart (scPlan st)"
  "plMemoryClamped (scPlan (foldl (scanWorker now k) st ws)) = plMemoryClamped (scPlan st)"
  "plRemove (scPlan (foldl (scanWorker now k) st ws)) =
     plRemove (scPlan st) @ filter (\<lambda>w. wPoolID w \<notin> k \<and> isGone w) ws"
  by (induction ws arbitrary: st) simp_all

lemma scanWorker_keys:
  "distinct (gkeys (scWorkersByPool st)) \<Longrightarrow>
     distinct (gkeys (scWorkersByPool (foldl (scanWorker now k) st ws)))"
  by (induction ws arbitrary: st) simp_all

text \<open>The workers of a pool, in the order of the input.\<close>

definition workersOf :: "PlanInput \<Rightarrow> string \<Rightarrow> Worker list" where
  "workersOf i p = filter (\<lambda>w. wPoolID w = p) (piWorkers i)"

lemma scanWorkers_sel [simp]:
  "gget [] (scWorkersByPool (scanWorkers i p)) k = workersOf i k"
  "scBusyWorkers (scanWorkers i p) = countBy isBusy (piWorkers i)"
  "scActiveWorkers (scanWorkers i p) = countBy workerActive (piWorkers i)"
  "plPhase (scPlan (scanWorkers i p)) = plPhase p"
  "plQuiesceReason (scPlan (scanWorkers i p)) = plQuiesceReason p"
  "plAdvertisedCapacity (scPlan (scanWorkers i p)) = plAdvertisedCapacity p"
  "plDesiredWorkers (scPlan (scanWorkers i p)) = plDesiredWorkers p"
  "plStart (scPlan (scanWorkers i p)) = plStart p"
  "plMemoryClamped (scPlan (scanWorkers i p)) = plMemoryClamped p"
  "plRemove (scPlan (scanWorkers i p)) =
     plRemove p @ filter (\<lambda>w. wPoolID w \<notin> targetIDs i \<and> isGone w) (piWorkers i)"
  "distinct (gkeys (scWorkersByPool (scanWorkers i p)))"
  by (simp_all add: scanWorkers_def scanWorker_fold scanWorker_keys workersOf_def)

lemma workersOf_set: "w \<in> set (workersOf i p) \<longleftrightarrow> w \<in> set (piWorkers i) \<and> wPoolID w = p"
  by (auto simp: workersOf_def)

text \<open>The fleet of the known pools is part of the whole fleet.\<close>

lemma sum_pools_le:
  assumes "distinct (map tgID ts)"
  shows "(\<Sum>t\<leftarrow>ts. countBy P (workersOf i (tgID t))) \<le> countBy P (piWorkers i)"
  using assms
proof -
  have "(\<Sum>k\<leftarrow>ks. countBy P (filter (\<lambda>w. wPoolID w = k) ws)) \<le> countBy P ws"
    if "distinct ks" for ks and ws :: "Worker list"
  proof (induction ws)
    case Nil
    then show ?case by simp
  next
    case (Cons w ws)
    have "(\<Sum>k\<leftarrow>ks. countBy P (filter (\<lambda>v. wPoolID v = k) (w # ws))) =
        (\<Sum>k\<leftarrow>ks. (if wPoolID w = k then (if P w then 1 else 0) else 0) + countBy P (filter (\<lambda>v. wPoolID v = k) ws))"
      by (intro arg_cong [where f = sum_list] map_cong) auto
    then show ?case
      using Cons that by (simp add: sum_list_addf sum_list_indicator)
  qed
  from this [OF assms, of "piWorkers i"] show ?thesis
    by (simp add: workersOf_def comp_def)
qed

end
