(* ===== verification/Plan_Drain.thy ===== *)
theory Plan_Drain
  imports Plan_Scan
begin

text \<open>
  The planner while it admits no new work: which workers \<open>appendSafeRemovals\<close> names, and what
  \<open>applyOutstandingAssignments\<close> starts for work that GitHub had already assigned. Starts stay
  within the host limit, the memory basis and the last acknowledged capacity of each pool.
\<close>

text \<open>The memory of one worker of a pool, and the bytes a list of start decisions reserves.\<close>

definition poolMemory :: "PlanInput \<Rightarrow> string \<Rightarrow> int" where
  "poolMemory i p = (case WorkerForTarget (piConfig i) p of None \<Rightarrow> 0 | Some w \<Rightarrow> uint (cwMemory w))"

definition startBytes :: "PlanInput \<Rightarrow> StartDecision list \<Rightarrow> int" where
  "startBytes i ds = (\<Sum>d\<leftarrow>ds. sdCount d * poolMemory i (sdPoolID d))"

definition startCount :: "StartDecision list \<Rightarrow> int" where
  "startCount ds = (\<Sum>d\<leftarrow>ds. sdCount d)"

lemma startBytes_simps [simp]:
  "startBytes i [] = 0" "startBytes i (ds @ es) = startBytes i ds + startBytes i es"
  "startBytes i [d] = sdCount d * poolMemory i (sdPoolID d)"
  by (simp_all add: startBytes_def)

lemma startCount_simps [simp]:
  "startCount [] = 0" "startCount (ds @ es) = startCount ds + startCount es" "startCount [d] = sdCount d"
  by (simp_all add: startCount_def)

lemma poolMemory_target:
  "distinct (map tgID (piTargets i)) \<Longrightarrow> t \<in> set (piTargets i) \<Longrightarrow>
     poolMemory i (tgID t) = uint (targetMemory i t)"
  by (simp add: poolMemory_def WorkerForTarget_def workerFor_distinct targetMemory_def)

section \<open>Safe removals\<close>

lemma safeRemovals_set: "w \<in> set (safeRemovals n ws) \<Longrightarrow> w \<in> set ws \<and> (isGone w \<or> isNonbusy w)"
  by (induction n ws rule: safeRemovals.induct) (auto split: if_splits)

lemma safeRemovals_gone: "w \<in> set ws \<Longrightarrow> isGone w \<Longrightarrow> w \<in> set (safeRemovals n ws)"
  by (induction n ws rule: safeRemovals.induct) auto

lemma safeRemovals_count: "countBy isNonbusy (safeRemovals n ws) = min (max n 0) (countBy isNonbusy ws)"
proof (induction n ws rule: safeRemovals.induct)
  case (2 n w ws)
  note countBy_nonneg [of isNonbusy ws]
  moreover have "isGone w \<Longrightarrow> \<not> isNonbusy w" by auto
  ultimately show ?case
    using 2 by (auto simp: min_def max_def simp del: countBy_nonneg)
qed simp

lemma safeRemovals_pool: "w \<in> set (safeRemovals n (workersOf i k)) \<Longrightarrow> wPoolID w = k"
  using safeRemovals_set [of w n "workersOf i k"] by (simp add: workersOf_set)

definition keepOf :: "int gomap option \<Rightarrow> string \<Rightarrow> int" where
  "keepOf desired p = (case desired of None \<Rightarrow> 0 | Some d \<Rightarrow> geti d p)"

lemma appendSafeRemovals_sel [simp]:
  "plPhase (appendSafeRemovals p wbp known d) = plPhase p"
  "plQuiesceReason (appendSafeRemovals p wbp known d) = plQuiesceReason p"
  "plAdvertisedCapacity (appendSafeRemovals p wbp known d) = plAdvertisedCapacity p"
  "plDesiredWorkers (appendSafeRemovals p wbp known d) = plDesiredWorkers p"
  "plStart (appendSafeRemovals p wbp known d) = plStart p"
  "plProblems (appendSafeRemovals p wbp known d) = plProblems p"
  "plStartDesktop (appendSafeRemovals p wbp known d) = plStartDesktop p"
  "plMemoryClamped (appendSafeRemovals p wbp known d) = plMemoryClamped p"
  unfolding appendSafeRemovals_def Let_def
  by (induction wbp arbitrary: p; simp split: prod.split)+

lemma appendSafeRemovals_remove:
  "plRemove (appendSafeRemovals p wbp known d) =
     plRemove p @ concat (map (\<lambda>(k, ws). if k \<in> known
       then safeRemovals (countBy isNonbusy ws - keepOf d k) ws else []) wbp)"
  unfolding appendSafeRemovals_def Let_def keepOf_def
  by (induction wbp arbitrary: p) (auto split: prod.split)

lemma gget_entry: "distinct (gkeys m) \<Longrightarrow> (k, v) \<in> set m \<Longrightarrow> gget z m k = v"
  by (simp add: gget_def gkeys_def)

lemma scan_entry:
  "(k, ws) \<in> set (scWorkersByPool (scanWorkers i p)) \<Longrightarrow> ws = workersOf i k"
  using gget_entry [of "scWorkersByPool (scanWorkers i p)" k ws "[]"] by simp

text \<open>The removals of one known pool.\<close>

lemma pool_removals:
  fixes i p
  defines "wbp \<equiv> scWorkersByPool (scanWorkers i p)"
  assumes "k \<in> known"
  shows "filter (\<lambda>w. wPoolID w = k) (concat (map (\<lambda>(k, ws). if k \<in> known
       then safeRemovals (countBy isNonbusy ws - keepOf d k) ws else []) wbp)) =
     safeRemovals (countBy isNonbusy (workersOf i k) - keepOf d k) (workersOf i k)"
proof -
  let ?f = "\<lambda>(k, ws). if k \<in> known then safeRemovals (countBy isNonbusy ws - keepOf d k) ws else []"
  have step: "filter (\<lambda>w. wPoolID w = k) (concat (map ?f m)) = ?f (k, gget [] m k)"
    if "distinct (gkeys m)" "\<And>k ws. (k, ws) \<in> set m \<Longrightarrow> ws = workersOf i k" for m
    using that
  proof (induction m)
    case Nil
    then show ?case using assms(2) by simp
  next
    case (Cons x m)
    obtain k' ws where x: "x = (k', ws)" by (cases x)
    have ws: "ws = workersOf i k'" using Cons.prems(2) x by simp
    have own: "filter (\<lambda>w. wPoolID w = k) (?f x) = (if k' = k then ?f x else [])"
      using x ws by (auto simp: filter_empty_conv dest: safeRemovals_pool intro!: filter_True)
    have rest: "filter (\<lambda>w. wPoolID w = k) (concat (map ?f m)) = ?f (k, gget [] m k)"
      using Cons by (auto simp: gkeys_def)
    show ?case
    proof (cases "k' = k")
      case True
      then have "\<not> ghas m k" using Cons.prems(1) x by (simp add: ghas_iff_gkeys gkeys_def)
      then have "?f (k, gget [] m k) = []" by (simp add: gget_not_has)
      then show ?thesis
        using True rest own x by (simp add: gget_def)
    next
      case False
      then show ?thesis
        using rest own x by (auto simp: gget_def)
    qed
  qed
  show ?thesis
    using step [of wbp] scan_entry [of _ _ i p] assms(2) unfolding wbp_def by auto
qed

section \<open>Coverage of outstanding assignments\<close>

lemma coverCount_bounds:
  assumes "0 \<le> ouRemaining st"
  shows "0 \<le> coverCount i gate valid pools res wbp st t"
    and "coverCount i gate valid pools res wbp st t \<le> ouRemaining st"
    and "valid \<Longrightarrow> coverCount i gate valid pools res wbp st t \<le>
      affordableWorkerCount (ouMemoryRemaining st) (targetMemory i t)"
    and "mbFloorBlocked gate \<Longrightarrow> coverCount i gate valid pools res wbp st t = 0"
    and "coverCount i gate valid pools res wbp st t \<le> max 0
      (min (min (geti res (tgID t)) (psDrainServiceCapacity (gget zeroPoolSnapshot pools (tgID t))))
        (tgMaxCapacity t) - countBy isNonbusy (gget [] wbp (tgID t)))"
  using assms by (auto simp: coverCount_def Let_def min_def max_def)

lemma coverTarget_sel [simp]:
  "plPhase (ouPlan (coverTarget i gate valid pools res wbp st t)) = plPhase (ouPlan st)"
  "plQuiesceReason (ouPlan (coverTarget i gate valid pools res wbp st t)) = plQuiesceReason (ouPlan st)"
  "plAdvertisedCapacity (ouPlan (coverTarget i gate valid pools res wbp st t)) = plAdvertisedCapacity (ouPlan st)"
  "plRemove (ouPlan (coverTarget i gate valid pools res wbp st t)) = plRemove (ouPlan st)"
  "plStart (ouPlan (coverTarget i gate valid pools res wbp st t)) = plStart (ouPlan st) @
     (let n = coverCount i gate valid pools res wbp st t
      in if 0 < n then [\<lparr>sdPoolID = tgID t, sdCount = n\<rparr>] else [])"
  "plDesiredWorkers (ouPlan (coverTarget i gate valid pools res wbp st t)) =
     gput (plDesiredWorkers (ouPlan st)) (tgID t) (countBy isBusy (gget [] wbp (tgID t)) +
       min (geti res (tgID t))
         (countBy isNonbusy (gget [] wbp (tgID t)) + coverCount i gate valid pools res wbp st t))"
  by (simp_all add: coverTarget_def Let_def)

lemma coverTarget_budget:
  assumes "0 \<le> ouRemaining st"
  shows "ouRemaining (coverTarget i gate valid pools res wbp st t) =
      ouRemaining st - coverCount i gate valid pools res wbp st t"
    and "valid \<Longrightarrow> uint (ouMemoryRemaining (coverTarget i gate valid pools res wbp st t)) =
      uint (ouMemoryRemaining st) - coverCount i gate valid pools res wbp st t * uint (targetMemory i t)"
  using coverCount_bounds(1,3) [OF assms, where i = i and gate = gate and valid = valid and pools = pools and res = res and wbp = wbp and t = t]
    affordable_fits_le(3) [of "coverCount i gate valid pools res wbp st t" "ouMemoryRemaining st" "targetMemory i t"]
  by (auto simp: coverTarget_def Let_def)

text \<open>What the loop over the targets keeps: slots and bytes are conserved.\<close>

definition drainInv :: "PlanInput \<Rightarrow> memoryBasis \<Rightarrow> bool \<Rightarrow> int \<Rightarrow> outstandingState \<Rightarrow> bool" where
  "drainInv i gate valid slots st \<longleftrightarrow>
     0 \<le> ouRemaining st \<and>
     startCount (plStart (ouPlan st)) + ouRemaining st = slots \<and>
     (valid \<longrightarrow> startBytes i (plStart (ouPlan st)) + uint (ouMemoryRemaining st) = uint (mbRemaining gate)) \<and>
     (mbFloorBlocked gate \<longrightarrow> plStart (ouPlan st) = []) \<and>
     (\<forall>d \<in> set (plStart (ouPlan st)). 0 < sdCount d)"

lemma drainInv_cover:
  assumes "drainInv i gate valid slots st" and "poolMemory i (tgID t) = uint (targetMemory i t)"
  shows "drainInv i gate valid slots (coverTarget i gate valid pools res wbp st t)"
proof -
  have nn: "0 \<le> ouRemaining st" using assms(1) by (simp add: drainInv_def)
  show ?thesis
    using assms coverCount_bounds [OF nn, where i = i and gate = gate and valid = valid and pools = pools and res = res and wbp = wbp and t = t]
      coverTarget_budget [OF nn, where i = i and gate = gate and valid = valid and pools = pools and res = res and wbp = wbp and t = t]
    by (auto simp: drainInv_def Let_def)
qed

lemma drainInv_bounds:
  assumes "drainInv i gate valid slots st"
  shows "startCount (plStart (ouPlan st)) \<le> slots"
    and "valid \<Longrightarrow> startBytes i (plStart (ouPlan st)) \<le> uint (mbRemaining gate)"
  using assms by (auto simp: drainInv_def dest: add_uint_le)

lemma coverTarget_starts:
  "\<exists>new. plStart (ouPlan (foldl (coverTarget i gate valid pools res wbp) st ts)) = plStart (ouPlan st) @ new \<and>
     subseq (map sdPoolID new) (map tgID ts)"
proof (induction ts arbitrary: st)
  case Nil
  then show ?case by simp
next
  case (Cons t ts)
  obtain new where "plStart (ouPlan (foldl (coverTarget i gate valid pools res wbp)
      (coverTarget i gate valid pools res wbp st t) ts)) =
      plStart (ouPlan (coverTarget i gate valid pools res wbp st t)) @ new"
    and "subseq (map sdPoolID new) (map tgID ts)"
    using Cons by blast
  then show ?case
    by (auto simp: Let_def)
qed

lemma coverTarget_fold [simp]:
  "plPhase (ouPlan (foldl (coverTarget i gate valid pools res wbp) st ts)) = plPhase (ouPlan st)"
  "plQuiesceReason (ouPlan (foldl (coverTarget i gate valid pools res wbp) st ts)) = plQuiesceReason (ouPlan st)"
  "plAdvertisedCapacity (ouPlan (foldl (coverTarget i gate valid pools res wbp) st ts)) =
     plAdvertisedCapacity (ouPlan st)"
  "plRemove (ouPlan (foldl (coverTarget i gate valid pools res wbp) st ts)) = plRemove (ouPlan st)"
  by (induction ts arbitrary: st) simp_all

text \<open>The reservations the removal pass keeps workers for.\<close>

definition outstandingReservations :: "PlanInput \<Rightarrow> int gomap" where
  "outstandingReservations i =
     fst (uncoveredReservations (piPools i) (scWorkersByPool (scanWorkers i zeroPlan)) (targetIDs i))"

lemma scan_workersByPool: "scWorkersByPool (scanWorkers i p) = scWorkersByPool (scanWorkers i q)"
proof -
  have "scWorkersByPool (foldl (scanWorker now k) st ws) = scWorkersByPool (foldl (scanWorker now k) st' ws)"
    if "scWorkersByPool st = scWorkersByPool st'" for st st' now k ws
    using that by (induction ws arbitrary: st st') simp_all
  then show ?thesis
    by (simp add: scanWorkers_def)
qed

text \<open>The call all draining branches make, on the workers scanned into \<open>p\<close>.\<close>

definition drainPlan :: "PlanInput \<Rightarrow> Plan \<Rightarrow> Plan \<Rightarrow> Plan \<times> bool" where
  "drainPlan i p q = applyOutstandingAssignments q i (scWorkersByPool (scanWorkers i p)) (targetIDs i)
     (scActiveWorkers (scanWorkers i p))"

lemma outstanding_sel [simp]:
  "plPhase (fst (applyOutstandingAssignments q i wbp known n)) = plPhase q"
  "plQuiesceReason (fst (applyOutstandingAssignments q i wbp known n)) = plQuiesceReason q"
  "plAdvertisedCapacity (fst (applyOutstandingAssignments q i wbp known n)) = plAdvertisedCapacity q"
  by (simp_all add: applyOutstandingAssignments_def Let_def split: prod.split)

lemma drainPlan_sel [simp]:
  "plPhase (fst (drainPlan i p q)) = plPhase q"
  "plQuiesceReason (fst (drainPlan i p q)) = plQuiesceReason q"
  "plAdvertisedCapacity (fst (drainPlan i p q)) = plAdvertisedCapacity q"
  by (simp_all add: drainPlan_def)

lemma drainPlan_remove:
  "plRemove (fst (drainPlan i p q)) =
     plRemove (appendSafeRemovals q (scWorkersByPool (scanWorkers i p)) (targetIDs i)
       (Some (outstandingReservations i)))"
  using scan_workersByPool [of i p zeroPlan]
  by (simp add: drainPlan_def applyOutstandingAssignments_def outstandingReservations_def Let_def split: prod.split)

definition drainStartsOK :: "PlanInput \<Rightarrow> StartDecision list \<Rightarrow> bool" where
  "drainStartsOK i ds \<longleftrightarrow>
     startCount ds \<le> max (hostWorkerLimit i - countBy workerActive (piWorkers i)) 0 \<and>
     (memoryObservationValid i (evaluateMemoryBasis i) \<longrightarrow>
       startBytes i ds \<le> uint (mbRemaining (evaluateMemoryBasis i))) \<and>
     (mbFloorBlocked (evaluateMemoryBasis i) \<longrightarrow> ds = []) \<and>
     (\<forall>d \<in> set ds. 0 < sdCount d) \<and> distinct (map sdPoolID ds) \<and> set (map sdPoolID ds) \<subseteq> targetIDs i"

lemma drainPlan_starts:
  assumes "distinct (map tgID (piTargets i))" and "plStart q = []"
  shows "drainStartsOK i (plStart (fst (drainPlan i p q)))"
proof -
  let ?gate = "evaluateMemoryBasis i"
  let ?valid = "memoryObservationValid i ?gate"
  let ?slots = "max (hostWorkerLimit i - countBy workerActive (piWorkers i)) 0"
  let ?ts = "sortedTargetsByPriority (piTargets i)"
  let ?cover = "coverTarget i ?gate ?valid (poolsByID (piPools i)) (outstandingReservations i)
    (scWorkersByPool (scanWorkers i p))"
  let ?st0 = "\<lparr>ouPlan = appendSafeRemovals q (scWorkersByPool (scanWorkers i p)) (targetIDs i)
      (Some (outstandingReservations i)), ouRemaining = ?slots, ouMemoryRemaining = mbRemaining ?gate\<rparr>"
  have start: "plStart (fst (drainPlan i p q)) = plStart (ouPlan (foldl ?cover ?st0 ?ts))"
    using scan_workersByPool [of i p zeroPlan]
    by (simp add: drainPlan_def applyOutstandingAssignments_def outstandingReservations_def Let_def split: prod.split)
  have inv: "drainInv i ?gate ?valid ?slots (foldl ?cover ?st0 ?ts)"
  proof (rule foldl_invariant)
    show "drainInv i ?gate ?valid ?slots ?st0"
      by (simp add: drainInv_def assms(2))
    show "drainInv i ?gate ?valid ?slots (?cover st t)"
      if "t \<in> set ?ts" "drainInv i ?gate ?valid ?slots st" for st t
      using that poolMemory_target [OF assms(1)] by (intro drainInv_cover) auto
  qed
  have "subseq (map sdPoolID (plStart (ouPlan (foldl ?cover ?st0 ?ts)))) (map tgID ?ts)"
    using coverTarget_starts [of i ?gate ?valid "poolsByID (piPools i)" "outstandingReservations i"
        "scWorkersByPool (scanWorkers i p)" ?st0 ?ts] assms(2) by auto
  note sub = subseq_set [OF this] subseq_distinct [OF this]
  show ?thesis
    unfolding drainStartsOK_def start
  proof (intro conjI)
    show "set (map sdPoolID (plStart (ouPlan (foldl ?cover ?st0 ?ts)))) \<subseteq> targetIDs i"
      using sub(1) by (simp add: targetIDs_def)
    show "distinct (map sdPoolID (plStart (ouPlan (foldl ?cover ?st0 ?ts))))"
      using sub(2) assms(1) by simp
  qed (use inv drainInv_bounds [OF inv] in \<open>simp_all add: drainInv_def\<close>)
qed

end
