(* ===== verification/Plan_Alloc.thy ===== *)
theory Plan_Alloc
  imports Plan_Drain
begin

text \<open>
  Facts about the allocation passes of \<open>buildPlan\<close>: counting, reservations, and the closure
  \<open>allocate\<close>. The invariant \<open>allocInv\<close> says that host slots and bytes are conserved, that no pool
  counts an idle worker twice, and that a start is planned only once the pool's idle workers are
  all counted.
\<close>

section \<open>Counting\<close>

lemma countWorker_sel [simp]:
  "geti (plDesiredWorkers (fst (countWorker t st w))) k =
     geti (plDesiredWorkers (fst st)) k + (if k = tgID t \<and> isBusy w then 1 else 0)"
  "geti (pcBusyByPool (snd (countWorker t st w))) k =
     geti (pcBusyByPool (snd st)) k + (if k = tgID t \<and> isBusy w then 1 else 0)"
  "geti (pcNonbusyByPool (snd (countWorker t st w))) k =
     geti (pcNonbusyByPool (snd st)) k + (if k = tgID t \<and> isNonbusy w then 1 else 0)"
  "plPhase (fst (countWorker t st w)) = plPhase (fst st)"
  "plQuiesceReason (fst (countWorker t st w)) = plQuiesceReason (fst st)"
  "plAdvertisedCapacity (fst (countWorker t st w)) = plAdvertisedCapacity (fst st)"
  "plStart (fst (countWorker t st w)) = plStart (fst st)"
  "plRemove (fst (countWorker t st w)) = plRemove (fst st)"
  "plMemoryClamped (fst (countWorker t st w)) = plMemoryClamped (fst st)"
  by (auto simp: countWorker_def Let_def split: prod.split)

lemma countWorker_fold [simp]:
  "geti (plDesiredWorkers (fst (foldl (countWorker t) st ws))) k =
     geti (plDesiredWorkers (fst st)) k + (if k = tgID t then countBy isBusy ws else 0)"
  "geti (pcBusyByPool (snd (foldl (countWorker t) st ws))) k =
     geti (pcBusyByPool (snd st)) k + (if k = tgID t then countBy isBusy ws else 0)"
  "geti (pcNonbusyByPool (snd (foldl (countWorker t) st ws))) k =
     geti (pcNonbusyByPool (snd st)) k + (if k = tgID t then countBy isNonbusy ws else 0)"
  "plPhase (fst (foldl (countWorker t) st ws)) = plPhase (fst st)"
  "plQuiesceReason (fst (foldl (countWorker t) st ws)) = plQuiesceReason (fst st)"
  "plAdvertisedCapacity (fst (foldl (countWorker t) st ws)) = plAdvertisedCapacity (fst st)"
  "plStart (fst (foldl (countWorker t) st ws)) = plStart (fst st)"
  "plRemove (fst (foldl (countWorker t) st ws)) = plRemove (fst st)"
  "plMemoryClamped (fst (foldl (countWorker t) st ws)) = plMemoryClamped (fst st)"
  by (induction ws arbitrary: st) auto

lemma countTarget_fold:
  "plPhase (fst (foldl (countTarget wbp) st ts)) = plPhase (fst st)"
  "plQuiesceReason (fst (foldl (countTarget wbp) st ts)) = plQuiesceReason (fst st)"
  "plAdvertisedCapacity (fst (foldl (countTarget wbp) st ts)) = plAdvertisedCapacity (fst st)"
  "plStart (fst (foldl (countTarget wbp) st ts)) = plStart (fst st)"
  "plRemove (fst (foldl (countTarget wbp) st ts)) = plRemove (fst st)"
  "plMemoryClamped (fst (foldl (countTarget wbp) st ts)) = plMemoryClamped (fst st)"
  by (induction ts arbitrary: st) (auto simp: countTarget_def)

lemma countTarget_counts:
  assumes "distinct (map tgID ts)"
  shows "geti (plDesiredWorkers (fst (foldl (countTarget wbp) st ts))) k =
      geti (plDesiredWorkers (fst st)) k + (if k \<in> tgID ` set ts then countBy isBusy (gget [] wbp k) else 0)"
    and "geti (pcBusyByPool (snd (foldl (countTarget wbp) st ts))) k =
      geti (pcBusyByPool (snd st)) k + (if k \<in> tgID ` set ts then countBy isBusy (gget [] wbp k) else 0)"
    and "geti (pcNonbusyByPool (snd (foldl (countTarget wbp) st ts))) k =
      geti (pcNonbusyByPool (snd st)) k + (if k \<in> tgID ` set ts then countBy isNonbusy (gget [] wbp k) else 0)"
  using assms by (induction ts arbitrary: st) (auto simp: countTarget_def)

section \<open>Reservations\<close>

lemma reserveTarget_sel [simp]:
  "plPhase (rvPlan (reserveTarget now pools st t)) = plPhase (rvPlan st)"
  "plQuiesceReason (rvPlan (reserveTarget now pools st t)) = plQuiesceReason (rvPlan st)"
  "plAdvertisedCapacity (rvPlan (reserveTarget now pools st t)) = plAdvertisedCapacity (rvPlan st)"
  "plDesiredWorkers (rvPlan (reserveTarget now pools st t)) = plDesiredWorkers (rvPlan st)"
  "plStart (rvPlan (reserveTarget now pools st t)) = plStart (rvPlan st)"
  "plRemove (rvPlan (reserveTarget now pools st t)) = plRemove (rvPlan st)"
  "plMemoryClamped (rvPlan (reserveTarget now pools st t)) = plMemoryClamped (rvPlan st)"
  by (simp_all add: reserveTarget_def Let_def)

lemma reserveTarget_fold [simp]:
  "plPhase (rvPlan (foldl (reserveTarget now pools) st ts)) = plPhase (rvPlan st)"
  "plQuiesceReason (rvPlan (foldl (reserveTarget now pools) st ts)) = plQuiesceReason (rvPlan st)"
  "plAdvertisedCapacity (rvPlan (foldl (reserveTarget now pools) st ts)) = plAdvertisedCapacity (rvPlan st)"
  "plDesiredWorkers (rvPlan (foldl (reserveTarget now pools) st ts)) = plDesiredWorkers (rvPlan st)"
  "plStart (rvPlan (foldl (reserveTarget now pools) st ts)) = plStart (rvPlan st)"
  "plRemove (rvPlan (foldl (reserveTarget now pools) st ts)) = plRemove (rvPlan st)"
  "plMemoryClamped (rvPlan (foldl (reserveTarget now pools) st ts)) = plMemoryClamped (rvPlan st)"
  by (induction ts arbitrary: st) simp_all

text \<open>The assignment reservation of a target, in closed form.\<close>

definition poolReady :: "PoolSnapshot gomap \<Rightarrow> string \<Rightarrow> bool" where
  "poolReady pools k \<longleftrightarrow> ghas pools k \<and> psReady (gget zeroPoolSnapshot pools k)"

definition assignedJobs :: "PoolSnapshot gomap \<Rightarrow> string \<Rightarrow> int" where
  "assignedJobs pools k = max 0 (psTotalAssignedJobs (gget zeroPoolSnapshot pools k))"

lemma reserveTarget_maps:
  "getb (rvReady (reserveTarget now pools st t)) k \<longleftrightarrow>
     getb (rvReady st) k \<or> k = tgID t \<and> poolReady pools k"
  "geti (rvReservations (reserveTarget now pools st t)) k =
     (if k = tgID t \<and> poolReady pools k then min (assignedJobs pools k) (tgMaxCapacity t)
      else geti (rvReservations st) k)"
  "getb (rvOverCap (reserveTarget now pools st t)) k \<longleftrightarrow>
     getb (rvOverCap st) k \<or> k = tgID t \<and> poolReady pools k \<and> tgMaxCapacity t < assignedJobs pools k"
  by (auto simp: reserveTarget_def Let_def poolReady_def assignedJobs_def max_def)

lemma reserveTarget_ready:
  "getb (rvReady (foldl (reserveTarget now pools) st ts)) k \<longleftrightarrow>
     getb (rvReady st) k \<or> k \<in> tgID ` set ts \<and> poolReady pools k"
  by (induction ts arbitrary: st) (auto simp: reserveTarget_maps)

lemma reserveTarget_frame:
  assumes "k \<notin> tgID ` set ts"
  shows "geti (rvReservations (foldl (reserveTarget now pools) st ts)) k = geti (rvReservations st) k"
    and "getb (rvOverCap (foldl (reserveTarget now pools) st ts)) k = getb (rvOverCap st) k"
  using assms by (induction ts arbitrary: st) (auto simp: reserveTarget_maps)

lemma reserveTarget_member:
  assumes "distinct (map tgID ts)" and "t \<in> set ts"
  shows "geti (rvReservations (foldl (reserveTarget now pools) st ts)) (tgID t) =
      (if poolReady pools (tgID t) then min (assignedJobs pools (tgID t)) (tgMaxCapacity t)
       else geti (rvReservations st) (tgID t))"
    and "getb (rvOverCap (foldl (reserveTarget now pools) st ts)) (tgID t) \<longleftrightarrow>
      getb (rvOverCap st) (tgID t) \<or> poolReady pools (tgID t) \<and> tgMaxCapacity t < assignedJobs pools (tgID t)"
  using assms
  by (induction ts arbitrary: st) (auto simp: reserveTarget_maps reserveTarget_frame, metis image_eqI)

section \<open>The closure allocate\<close>

lemma takeExisting_sel [simp]:
  "alRemaining (takeExisting st t e) = alRemaining st - e"
  "alMemoryRemaining (takeExisting st t e) = alMemoryRemaining st"
  "geti (alCountedNonbusy (takeExisting st t e)) k =
     geti (alCountedNonbusy st) k + (if k = tgID t then e else 0)"
  "geti (plDesiredWorkers (alPlan (takeExisting st t e))) k =
     geti (plDesiredWorkers (alPlan st)) k + (if k = tgID t then e else 0)"
  "plPhase (alPlan (takeExisting st t e)) = plPhase (alPlan st)"
  "plQuiesceReason (alPlan (takeExisting st t e)) = plQuiesceReason (alPlan st)"
  "plAdvertisedCapacity (alPlan (takeExisting st t e)) = plAdvertisedCapacity (alPlan st)"
  "plStart (alPlan (takeExisting st t e)) = plStart (alPlan st)"
  "plRemove (alPlan (takeExisting st t e)) = plRemove (alPlan st)"
  "plMemoryClamped (alPlan (takeExisting st t e)) = plMemoryClamped (alPlan st)"
  by (simp_all add: takeExisting_def)

lemma planStarts_sel [simp]:
  "alRemaining (planStarts st t m n s) = alRemaining st - s"
  "alMemoryRemaining (planStarts st t m n s) = alMemoryRemaining st - word_of_int s * m"
  "geti (alCountedNonbusy (planStarts st t m n s)) k = geti (alCountedNonbusy st) k"
  "geti (plDesiredWorkers (alPlan (planStarts st t m n s))) k =
     geti (plDesiredWorkers (alPlan st)) k + (if k = tgID t then s else 0)"
  "plPhase (alPlan (planStarts st t m n s)) = plPhase (alPlan st)"
  "plQuiesceReason (alPlan (planStarts st t m n s)) = plQuiesceReason (alPlan st)"
  "plAdvertisedCapacity (alPlan (planStarts st t m n s)) = plAdvertisedCapacity (alPlan st)"
  "plStart (alPlan (planStarts st t m n s)) = plStart (alPlan st)"
  "plRemove (alPlan (planStarts st t m n s)) = plRemove (alPlan st)"
  "getb (plMemoryClamped (alPlan (planStarts st t m n s))) k \<longleftrightarrow>
     getb (plMemoryClamped (alPlan st)) k \<or> k = tgID t \<and> s < n"
  by (auto simp: planStarts_def Let_def)

lemma allocate_sel [simp]:
  "plPhase (alPlan (allocate i gate nb st t r)) = plPhase (alPlan st)"
  "plQuiesceReason (alPlan (allocate i gate nb st t r)) = plQuiesceReason (alPlan st)"
  "plAdvertisedCapacity (alPlan (allocate i gate nb st t r)) = plAdvertisedCapacity (alPlan st)"
  "plStart (alPlan (allocate i gate nb st t r)) = plStart (alPlan st)"
  "plRemove (alPlan (allocate i gate nb st t r)) = plRemove (alPlan st)"
  by (simp_all add: allocate_def Let_def)

abbreviation desiredOf :: "allocState \<Rightarrow> string \<Rightarrow> int" where
  "desiredOf st k \<equiv> geti (plDesiredWorkers (alPlan st)) k"

abbreviation countedOf :: "allocState \<Rightarrow> string \<Rightarrow> int" where
  "countedOf st k \<equiv> geti (alCountedNonbusy st) k"

text \<open>One effective call takes \<open>e\<close> existing workers and plans \<open>s\<close> starts.\<close>

definition allocStep ::
  "PlanInput \<Rightarrow> memoryBasis \<Rightarrow> int gomap \<Rightarrow> allocState \<Rightarrow> Target \<Rightarrow> int \<Rightarrow> int \<Rightarrow> int \<Rightarrow> allocState \<Rightarrow> bool" where
  "allocStep i gate nb st t need e s st' \<longleftrightarrow>
     0 \<le> e \<and> 0 \<le> s \<and> e + s \<le> need \<and> e \<le> geti nb (tgID t) - countedOf st (tgID t) \<and>
     e + s \<le> alRemaining st \<and> s \<le> affordableWorkerCount (alMemoryRemaining st) (targetMemory i t) \<and>
     (mbFloorBlocked gate \<longrightarrow> s = 0) \<and>
     (0 < s \<longrightarrow> e = geti nb (tgID t) - countedOf st (tgID t)) \<and>
     (\<forall>k. desiredOf st' k = desiredOf st k + (if k = tgID t then e + s else 0)) \<and>
     (\<forall>k. countedOf st' k = countedOf st k + (if k = tgID t then e else 0)) \<and>
     alRemaining st' = alRemaining st - (e + s) \<and>
     alMemoryRemaining st' = alMemoryRemaining st - word_of_int s * targetMemory i t \<and>
     (\<forall>k. getb (plMemoryClamped (alPlan st)) k \<longrightarrow> getb (plMemoryClamped (alPlan st')) k) \<and>
     (e + s = need \<or> alRemaining st' = 0 \<or> getb (plMemoryClamped (alPlan st')) (tgID t))"

lemma allocate_same: "r \<le> desiredOf st (tgID t) \<Longrightarrow> allocate i gate nb st t r = st"
  by (simp add: allocate_def)

lemma allocate_step:
  assumes "0 \<le> alRemaining st" and "countedOf st (tgID t) \<le> geti nb (tgID t)"
    and False: "\<not> r \<le> desiredOf st (tgID t)"
  shows "\<exists>e s. allocStep i gate nb st t (r - desiredOf st (tgID t)) e s (allocate i gate nb st t r)"
proof -
  define need where "need = r - desiredOf st (tgID t)"
  define e where "e = allocExisting nb st t need"
  define n where "n = min (need - e) (alRemaining st - e)"
  define s where "s = allocStarts i gate (takeExisting st t e) t n"
  have eq: "allocate i gate nb st t r = planStarts (takeExisting st t e) t (targetMemory i t) n s"
    using False by (simp add: allocate_def Let_def n_def e_def s_def need_def)
  have "0 < need" using False by (simp add: need_def)
  then have e: "0 \<le> e" "e \<le> need" "e \<le> alRemaining st" "e \<le> geti nb (tgID t) - countedOf st (tgID t)"
    and e_cases: "e < need \<Longrightarrow> e < alRemaining st \<Longrightarrow> e = geti nb (tgID t) - countedOf st (tgID t)"
    using assms(1,2) by (auto simp: e_def allocExisting_def Let_def)
  have n: "0 \<le> n" "n \<le> need - e" "n \<le> alRemaining st - e" "n = need - e \<or> n = alRemaining st - e"
    using e by (auto simp: n_def)
  have s: "0 \<le> s" "s \<le> n" "s \<le> affordableWorkerCount (alMemoryRemaining st) (targetMemory i t)"
    "mbFloorBlocked gate \<Longrightarrow> s = 0"
    using n(1) by (auto simp: s_def allocStarts_def Let_def)
  have "allocStep i gate nb st t need e s (allocate i gate nb st t r)"
    unfolding allocStep_def eq using e e_cases n s by auto
  then show ?thesis
    unfolding need_def by blast
qed

section \<open>The allocation invariant\<close>

abbreviation startsOf :: "poolCounts \<Rightarrow> allocState \<Rightarrow> Target \<Rightarrow> int" where
  "startsOf counts st t \<equiv> desiredOf st (tgID t) - geti (pcBusyByPool counts) (tgID t) - countedOf st (tgID t)"

definition poolInv :: "memoryBasis \<Rightarrow> poolCounts \<Rightarrow> allocState \<Rightarrow> Target \<Rightarrow> bool" where
  "poolInv gate counts st t \<longleftrightarrow>
     0 \<le> countedOf st (tgID t) \<and> countedOf st (tgID t) \<le> geti (pcNonbusyByPool counts) (tgID t) \<and>
     0 \<le> startsOf counts st t \<and>
     (0 < startsOf counts st t \<longrightarrow> countedOf st (tgID t) = geti (pcNonbusyByPool counts) (tgID t)) \<and>
     (mbFloorBlocked gate \<longrightarrow> startsOf counts st t = 0) \<and>
     desiredOf st (tgID t) \<le> max (tgMaxCapacity t) (geti (pcBusyByPool counts) (tgID t))"

definition allocInv ::
  "PlanInput \<Rightarrow> memoryBasis \<Rightarrow> poolCounts \<Rightarrow> Target list \<Rightarrow> int \<Rightarrow> allocState \<Rightarrow> bool" where
  "allocInv i gate counts ts slots st \<longleftrightarrow>
     0 \<le> alRemaining st \<and>
     (\<Sum>t\<leftarrow>ts. desiredOf st (tgID t)) + alRemaining st = slots \<and>
     (\<forall>t \<in> set ts. poolInv gate counts st t) \<and>
     (\<Sum>t\<leftarrow>ts. startsOf counts st t * uint (targetMemory i t)) + uint (alMemoryRemaining st) =
       uint (mbRemaining gate)"

lemma poolInv_step:
  assumes "poolInv gate counts st t'" and "poolInv gate counts st t"
    and "allocStep i gate (pcNonbusyByPool counts) st t (r - desiredOf st (tgID t)) e s st'"
    and "r \<le> max (tgMaxCapacity t) (geti (pcBusyByPool counts) (tgID t))"
    and "tgID t' = tgID t \<Longrightarrow> t' = t"
  shows "poolInv gate counts st' t'"
proof (cases "tgID t' = tgID t")
  case True
  then have "t' = t" using assms(5) by simp
  then show ?thesis
    using assms(1,3,4) unfolding poolInv_def allocStep_def by auto
next
  case False
  then show ?thesis
    using assms(1,3) unfolding poolInv_def allocStep_def by simp
qed

lemma same_id: "distinct (map tgID ts) \<Longrightarrow> t \<in> set ts \<Longrightarrow> t' \<in> set ts \<Longrightarrow> tgID t' = tgID t \<Longrightarrow> t' = t"
  by (metis distinct_map inj_onD)

lemma allocInv_allocate:
  assumes "distinct (map tgID ts)" and "t \<in> set ts" and inv: "allocInv i gate counts ts slots st"
    and "r \<le> max (tgMaxCapacity t) (geti (pcBusyByPool counts) (tgID t))"
  shows "allocInv i gate counts ts slots (allocate i gate (pcNonbusyByPool counts) st t r)"
proof (cases "r \<le> desiredOf st (tgID t)")
  case True
  then show ?thesis
    using inv by (simp add: allocate_same)
next
  case False
  let ?st = "allocate i gate (pcNonbusyByPool counts) st t r"
  have pool: "poolInv gate counts st t" and rem: "0 \<le> alRemaining st"
    using inv assms(2) by (auto simp: allocInv_def)
  then have "countedOf st (tgID t) \<le> geti (pcNonbusyByPool counts) (tgID t)"
    by (simp add: poolInv_def)
  then obtain e s where
    step: "allocStep i gate (pcNonbusyByPool counts) st t (r - desiredOf st (tgID t)) e s ?st"
    using allocate_step [OF rem _ False] by blast
  have "(\<Sum>t\<leftarrow>ts. desiredOf ?st (tgID t)) = (\<Sum>t\<leftarrow>ts. desiredOf st (tgID t)) + (e + s)"
    using step assms(1,2) by (intro sum_list_update_1 [where f = tgID]) (auto simp: allocStep_def)
  moreover have "(\<Sum>t\<leftarrow>ts. startsOf counts ?st t * uint (targetMemory i t)) =
      (\<Sum>t\<leftarrow>ts. startsOf counts st t * uint (targetMemory i t)) + s * uint (targetMemory i t)"
    using step assms(1,2) by (intro sum_list_update [where f = tgID]) (auto simp: allocStep_def)
  moreover have "uint (alMemoryRemaining ?st) = uint (alMemoryRemaining st) - s * uint (targetMemory i t)"
    using step affordable_fits_le(3) [of s] by (simp add: allocStep_def)
  moreover have "poolInv gate counts ?st t'" if "t' \<in> set ts" for t'
    using that inv poolInv_step [OF _ pool step assms(4) same_id [OF assms(1,2)]]
    by (auto simp: allocInv_def)
  moreover have "alRemaining ?st = alRemaining st - (e + s)" "0 \<le> alRemaining ?st"
    using step by (auto simp: allocStep_def)
  ultimately show ?thesis
    using inv unfolding allocInv_def by auto
qed

lemma assignTarget_sel [simp]:
  "plPhase (alPlan (assignTarget i gate counts rv st t)) = plPhase (alPlan st)"
  "plQuiesceReason (alPlan (assignTarget i gate counts rv st t)) = plQuiesceReason (alPlan st)"
  "plAdvertisedCapacity (alPlan (assignTarget i gate counts rv st t)) = plAdvertisedCapacity (alPlan st)"
  "plStart (alPlan (assignTarget i gate counts rv st t)) = plStart (alPlan st)"
  "plRemove (alPlan (assignTarget i gate counts rv st t)) = plRemove (alPlan st)"
  by (simp_all add: assignTarget_def Let_def)

lemma warmTarget_sel [simp]:
  "plPhase (alPlan (warmTarget i gate counts rv st t)) = plPhase (alPlan st)"
  "plQuiesceReason (alPlan (warmTarget i gate counts rv st t)) = plQuiesceReason (alPlan st)"
  "plAdvertisedCapacity (alPlan (warmTarget i gate counts rv st t)) = plAdvertisedCapacity (alPlan st)"
  "plStart (alPlan (warmTarget i gate counts rv st t)) = plStart (alPlan st)"
  "plRemove (alPlan (warmTarget i gate counts rv st t)) = plRemove (alPlan st)"
  by (simp_all add: warmTarget_def Let_def)

lemma allocInv_addProblem [simp]:
  "allocInv i gate counts ts slots (st\<lparr>alPlan := addProblem (alPlan st) x\<rparr>) = allocInv i gate counts ts slots st"
  by (simp add: allocInv_def poolInv_def)

text \<open>Reservations never exceed the configured maximum of their pool.\<close>

definition reservationsOK :: "reserveState \<Rightarrow> Target list \<Rightarrow> bool" where
  "reservationsOK rv ts \<longleftrightarrow>
     (\<forall>t \<in> set ts. getb (rvReady rv) (tgID t) \<longrightarrow> geti (rvReservations rv) (tgID t) \<le> tgMaxCapacity t)"

lemma allocInv_assign:
  assumes "distinct (map tgID ts)" "t \<in> set ts" "allocInv i gate counts ts slots st" "reservationsOK rv ts"
  shows "allocInv i gate counts ts slots (assignTarget i gate counts rv st t)"
  using assms
  by (auto simp: assignTarget_def Let_def reservationsOK_def max_def intro!: allocInv_allocate)

lemma allocInv_warm:
  assumes "distinct (map tgID ts)" "t \<in> set ts" "allocInv i gate counts ts slots st" "reservationsOK rv ts"
  shows "allocInv i gate counts ts slots (warmTarget i gate counts rv st t)"
  using assms
  by (auto simp: warmTarget_def Let_def reservationsOK_def max_def min_def intro!: allocInv_allocate)

section \<open>Assigned jobs before warm workers\<close>

text \<open>What an allocation never takes back: workers, exhaustion of the slots, the clamp marks.\<close>

definition allocLe :: "allocState \<Rightarrow> allocState \<Rightarrow> bool" where
  "allocLe st st' \<longleftrightarrow>
     (\<forall>k. desiredOf st k \<le> desiredOf st' k) \<and> (alRemaining st = 0 \<longrightarrow> alRemaining st' = 0) \<and>
     (alRemaining st = 0 \<longrightarrow> (\<forall>k. desiredOf st' k = desiredOf st k)) \<and>
     (\<forall>k. getb (plMemoryClamped (alPlan st)) k \<longrightarrow> getb (plMemoryClamped (alPlan st')) k)"

lemma allocLe_refl [simp]: "allocLe st st"
  by (simp add: allocLe_def)

lemma allocLe_trans: "allocLe a b \<Longrightarrow> allocLe b c \<Longrightarrow> allocLe a c"
  unfolding allocLe_def by (metis order_trans)

lemma allocate_le:
  assumes "t \<in> set ts" and inv: "allocInv i gate counts ts slots st"
  shows "allocLe st (allocate i gate (pcNonbusyByPool counts) st t r)"
    and "r \<le> desiredOf (allocate i gate (pcNonbusyByPool counts) st t r) (tgID t) \<or>
      alRemaining (allocate i gate (pcNonbusyByPool counts) st t r) = 0 \<or>
      getb (plMemoryClamped (alPlan (allocate i gate (pcNonbusyByPool counts) st t r))) (tgID t)"
    and "desiredOf (allocate i gate (pcNonbusyByPool counts) st t r) (tgID t) \<le> max r (desiredOf st (tgID t))"
    and "k \<noteq> tgID t \<Longrightarrow> desiredOf (allocate i gate (pcNonbusyByPool counts) st t r) k = desiredOf st k"
proof -
  let ?st = "allocate i gate (pcNonbusyByPool counts) st t r"
  have "allocLe st ?st \<and> (r \<le> desiredOf ?st (tgID t) \<or> alRemaining ?st = 0 \<or>
      getb (plMemoryClamped (alPlan ?st)) (tgID t)) \<and> desiredOf ?st (tgID t) \<le> max r (desiredOf st (tgID t)) \<and>
      (k \<noteq> tgID t \<longrightarrow> desiredOf ?st k = desiredOf st k)"
  proof (cases "r \<le> desiredOf st (tgID t)")
    case True
    then show ?thesis by (simp add: allocate_same)
  next
    case False
    have "0 \<le> alRemaining st" "countedOf st (tgID t) \<le> geti (pcNonbusyByPool counts) (tgID t)"
      using inv assms(1) by (auto simp: allocInv_def poolInv_def)
    then obtain e s where
      "allocStep i gate (pcNonbusyByPool counts) st t (r - desiredOf st (tgID t)) e s ?st"
      using allocate_step [OF _ _ False] by blast
    then show ?thesis
      unfolding allocStep_def allocLe_def by auto
  qed
  then show "allocLe st ?st" "r \<le> desiredOf ?st (tgID t) \<or> alRemaining ?st = 0 \<or>
      getb (plMemoryClamped (alPlan ?st)) (tgID t)" "desiredOf ?st (tgID t) \<le> max r (desiredOf st (tgID t))"
    "k \<noteq> tgID t \<Longrightarrow> desiredOf ?st k = desiredOf st k"
    by auto
qed

text \<open>The workers the assignments of a pool, together with its busy workers, call for.\<close>

definition assignedDemand :: "poolCounts \<Rightarrow> reserveState \<Rightarrow> string \<Rightarrow> int" where
  "assignedDemand counts rv k =
     (if getb (rvReady rv) k then max (geti (rvReservations rv) k) (geti (pcBusyByPool counts) k)
      else geti (pcBusyByPool counts) k)"

definition served :: "poolCounts \<Rightarrow> reserveState \<Rightarrow> allocState \<Rightarrow> string \<Rightarrow> bool" where
  "served counts rv st k \<longleftrightarrow>
     assignedDemand counts rv k \<le> desiredOf st k \<or> alRemaining st = 0 \<or> getb (plMemoryClamped (alPlan st)) k"

lemma served_le: "allocLe st st' \<Longrightarrow> served counts rv st k \<Longrightarrow> served counts rv st' k"
  unfolding served_def allocLe_def by (metis order_trans)

lemma assignTarget_le:
  assumes "t \<in> set ts" and "allocInv i gate counts ts slots st" and "0 \<le> startsOf counts st t + countedOf st (tgID t)"
  shows "allocLe st (assignTarget i gate counts rv st t)"
    and "served counts rv (assignTarget i gate counts rv st t) (tgID t)"
    and "(\<forall>k. desiredOf st k \<le> assignedDemand counts rv k) \<Longrightarrow>
      (\<forall>k. desiredOf (assignTarget i gate counts rv st t) k \<le> assignedDemand counts rv k)"
proof -
  let ?r = "max (geti (rvReservations rv) (tgID t)) (geti (pcBusyByPool counts) (tgID t))"
  note al = allocate_le [OF assms(1,2), where r = ?r]
  show "allocLe st (assignTarget i gate counts rv st t)"
    using al(1) by (simp add: assignTarget_def Let_def allocLe_def)
  show "served counts rv (assignTarget i gate counts rv st t) (tgID t)"
    using al(2) assms(3) by (auto simp: assignTarget_def Let_def served_def assignedDemand_def)
  assume bound: "\<forall>k. desiredOf st k \<le> assignedDemand counts rv k"
  show "\<forall>k. desiredOf (assignTarget i gate counts rv st t) k \<le> assignedDemand counts rv k"
  proof
    fix k
    show "desiredOf (assignTarget i gate counts rv st t) k \<le> assignedDemand counts rv k"
      using bound [rule_format, of k] al(3) al(4) [where k = k]
      by (cases "k = tgID t") (auto simp: assignTarget_def Let_def assignedDemand_def)
  qed
qed

lemma warmTarget_le:
  assumes "t \<in> set ts" and "allocInv i gate counts ts slots st"
  shows "allocLe st (warmTarget i gate counts rv st t)"
  using allocate_le(1) [OF assms] by (simp add: warmTarget_def Let_def)

end
