(* ===== verification/Plan_Advertise.thy ===== *)
theory Plan_Advertise
  imports Plan_Alloc
begin

text \<open>
  Facts about the passes of \<open>buildPlan\<close> that follow the allocation: which workers are started and
  removed, and how much listener capacity is advertised. Advertised capacity draws on one
  host-wide budget (\<open>capInv\<close>), and every byte it promises was unspent before.
\<close>

section \<open>Starts and removals of one target\<close>

definition eligible :: "bool \<Rightarrow> reserveState \<Rightarrow> string \<Rightarrow> bool" where
  "eligible debt rv k \<longleftrightarrow> \<not> debt \<and> getb (rvReady rv) k \<and> \<not> getb (rvOverCap rv) k"

definition activeOf :: "Worker list gomap \<Rightarrow> string \<Rightarrow> int" where
  "activeOf wbp k = countBy isBusy (gget [] wbp k) + countBy isNonbusy (gget [] wbp k)"

definition retained :: "int \<Rightarrow> bool \<Rightarrow> Worker list gomap \<Rightarrow> reserveState \<Rightarrow> (string \<Rightarrow> int) \<Rightarrow> Target \<Rightarrow> bool" where
  "retained hostLimit debt wbp rv D t \<longleftrightarrow>
     activeOf wbp (tgID t) - D (tgID t) = 1 \<and> 0 < hostLimit \<and> 0 < tgMaxCapacity t \<and> eligible debt rv (tgID t)"

definition targetStarts :: "Worker list gomap \<Rightarrow> (string \<Rightarrow> int) \<Rightarrow> Target \<Rightarrow> StartDecision list" where
  "targetStarts wbp D t =
     (if activeOf wbp (tgID t) < D (tgID t)
      then [\<lparr>sdPoolID = tgID t, sdCount = D (tgID t) - activeOf wbp (tgID t)\<rparr>] else [])"

definition targetRemovals ::
  "int \<Rightarrow> bool \<Rightarrow> Worker list gomap \<Rightarrow> reserveState \<Rightarrow> (string \<Rightarrow> int) \<Rightarrow> Target \<Rightarrow> Worker list" where
  "targetRemovals hostLimit debt wbp rv D t =
     filter isGone (gget [] wbp (tgID t)) @
     (if D (tgID t) < activeOf wbp (tgID t) \<and> \<not> retained hostLimit debt wbp rv D t
      then take (nat (activeOf wbp (tgID t) - D (tgID t))) (filter isNonbusy (gget [] wbp (tgID t))) else [])"

definition advertisedNow ::
  "int \<Rightarrow> bool \<Rightarrow> Worker list gomap \<Rightarrow> reserveState \<Rightarrow> (string \<Rightarrow> int) \<Rightarrow> Target \<Rightarrow> bool" where
  "advertisedNow hostLimit debt wbp rv D t \<longleftrightarrow>
     (if D (tgID t) < activeOf wbp (tgID t) then retained hostLimit debt wbp rv D t
      else eligible debt rv (tgID t))"

lemma markAdvertised_sel [simp]:
  "plDesiredWorkers (adPlan (markAdvertised st t d)) = plDesiredWorkers (adPlan st)"
  "plStart (adPlan (markAdvertised st t d)) = plStart (adPlan st)"
  "plRemove (adPlan (markAdvertised st t d)) = plRemove (adPlan st)"
  "plMemoryClamped (adPlan (markAdvertised st t d)) = plMemoryClamped (adPlan st)"
  "plQuiesceReason (adPlan (markAdvertised st t d)) = plQuiesceReason (adPlan st)"
  "plAdvertisedCapacity (adPlan (markAdvertised st t d)) = gput (plAdvertisedCapacity (adPlan st)) (tgID t) d"
  "adAdvertisable (markAdvertised st t d) = gput (adAdvertisable st) (tgID t) True"
  "adBurst (markAdvertised st t d) = adBurst st"
  by (simp_all add: markAdvertised_def)

lemma advertiseTarget_sel:
  fixes st
  defines "D \<equiv> geti (plDesiredWorkers (adPlan st))"
  shows "plDesiredWorkers (adPlan (advertiseTarget h debt wbp rv st t)) = plDesiredWorkers (adPlan st)"
    and "plMemoryClamped (adPlan (advertiseTarget h debt wbp rv st t)) = plMemoryClamped (adPlan st)"
    and "plStart (adPlan (advertiseTarget h debt wbp rv st t)) = plStart (adPlan st) @ targetStarts wbp D t"
    and "plRemove (adPlan (advertiseTarget h debt wbp rv st t)) =
      plRemove (adPlan st) @ targetRemovals h debt wbp rv D t"
    and "plAdvertisedCapacity (adPlan (advertiseTarget h debt wbp rv st t)) =
      (if advertisedNow h debt wbp rv D t then gput (plAdvertisedCapacity (adPlan st)) (tgID t) (D (tgID t))
       else plAdvertisedCapacity (adPlan st))"
    and "adAdvertisable (advertiseTarget h debt wbp rv st t) =
      (if advertisedNow h debt wbp rv D t then gput (adAdvertisable st) (tgID t) True else adAdvertisable st)"
    and "adBurst (advertiseTarget h debt wbp rv st t) =
      adBurst st @ (if D (tgID t) < activeOf wbp (tgID t) \<and> retained h debt wbp rv D t
        then [\<lparr>bcPoolID = tgID t, bcMaxCapacity = tgMaxCapacity t,
               bcRemovable = filter isNonbusy (gget [] wbp (tgID t))\<rparr>] else [])"
  unfolding D_def
  by (auto simp: advertiseTarget_def Let_def targetStarts_def targetRemovals_def advertisedNow_def
      retained_def eligible_def activeOf_def)

text \<open>The desired workers do not change during the pass, so its results have a closed form.\<close>

lemma advertise_fold:
  fixes st
  defines "D \<equiv> geti (plDesiredWorkers (adPlan st))"
  shows "plDesiredWorkers (adPlan (foldl (advertiseTarget h debt wbp rv) st ts)) = plDesiredWorkers (adPlan st)"
    and "plMemoryClamped (adPlan (foldl (advertiseTarget h debt wbp rv) st ts)) = plMemoryClamped (adPlan st)"
    and "plStart (adPlan (foldl (advertiseTarget h debt wbp rv) st ts)) =
      plStart (adPlan st) @ concat (map (targetStarts wbp D) ts)"
    and "plRemove (adPlan (foldl (advertiseTarget h debt wbp rv) st ts)) =
      plRemove (adPlan st) @ concat (map (targetRemovals h debt wbp rv D) ts)"
  unfolding D_def by (induction ts arbitrary: st) (simp_all add: advertiseTarget_sel)

lemma advertise_capacity:
  fixes st
  defines "D \<equiv> geti (plDesiredWorkers (adPlan st))"
  assumes "distinct (map tgID ts)" and "\<And>t. t \<in> set ts \<Longrightarrow> geti (plAdvertisedCapacity (adPlan st)) (tgID t) = 0"
    and "t \<in> set ts"
  shows "geti (plAdvertisedCapacity (adPlan (foldl (advertiseTarget h debt wbp rv) st ts))) (tgID t) =
    (if advertisedNow h debt wbp rv D t then D (tgID t) else 0)"
proof -
  have frame: "geti (plAdvertisedCapacity (adPlan (foldl (advertiseTarget h debt wbp rv) st ts))) k =
      geti (plAdvertisedCapacity (adPlan st)) k" if "k \<notin> tgID ` set ts" for k st ts
    using that by (induction ts arbitrary: st) (auto simp: advertiseTarget_sel)
  show ?thesis
    using assms(2-4) unfolding D_def
  proof (induction ts arbitrary: st)
    case (Cons a ts)
    have a: "tgID a \<notin> tgID ` set ts" using Cons.prems(1) by simp
    show ?case
    proof (cases "t = a")
      case True
      then show ?thesis
        using Cons.prems(2) [of a] a by (simp add: frame advertiseTarget_sel)
    next
      case False
      then have t: "t \<in> set ts" using Cons.prems(3) by simp
      have "tgID u \<noteq> tgID a" if "u \<in> set ts" for u
        using that a by (metis image_eqI)
      then show ?thesis
        using Cons.IH [of "advertiseTarget h debt wbp rv st a"] Cons.prems t
        by (simp add: advertiseTarget_sel)
    qed
  qed simp
qed

lemma advertise_eligible:
  assumes "\<And>k. getb (adAdvertisable st) k \<Longrightarrow> eligible debt rv k"
    and "\<And>c. c \<in> set (adBurst st) \<Longrightarrow> eligible debt rv (bcPoolID c)"
    and "\<And>k. geti (plAdvertisedCapacity (adPlan st)) k \<noteq> 0 \<Longrightarrow> eligible debt rv k"
    and r: "r = foldl (advertiseTarget h debt wbp rv) st ts"
  shows "getb (adAdvertisable r) k \<Longrightarrow> eligible debt rv k"
    and "c \<in> set (adBurst r) \<Longrightarrow> eligible debt rv (bcPoolID c)"
    and "geti (plAdvertisedCapacity (adPlan r)) k \<noteq> 0 \<Longrightarrow> eligible debt rv k"
proof -
  let ?P = "\<lambda>st. (\<forall>k. getb (adAdvertisable st) k \<longrightarrow> eligible debt rv k) \<and>
    (\<forall>c \<in> set (adBurst st). eligible debt rv (bcPoolID c)) \<and>
    (\<forall>k. geti (plAdvertisedCapacity (adPlan st)) k \<noteq> 0 \<longrightarrow> eligible debt rv k)"
  have "?P r"
    unfolding r
    by (rule foldl_invariant)
      (use assms(1-3) in \<open>auto simp: advertiseTarget_sel advertisedNow_def retained_def split: if_splits\<close>)
  then show "getb (adAdvertisable r) k \<Longrightarrow> eligible debt rv k"
    and "c \<in> set (adBurst r) \<Longrightarrow> eligible debt rv (bcPoolID c)"
    and "geti (plAdvertisedCapacity (adPlan r)) k \<noteq> 0 \<Longrightarrow> eligible debt rv k" by auto
qed

lemma advertise_burst:
  assumes "c \<in> set (adBurst (foldl (advertiseTarget h debt wbp rv) st ts))"
  shows "c \<in> set (adBurst st) \<or> (\<exists>t \<in> set ts. bcPoolID c = tgID t \<and> bcMaxCapacity c = tgMaxCapacity t \<and>
    bcRemovable c = filter isNonbusy (gget [] wbp (tgID t)) \<and>
    activeOf wbp (tgID t) = geti (plDesiredWorkers (adPlan st)) (tgID t) + 1)"
  using assms
  by (induction ts arbitrary: st) (fastforce simp: advertiseTarget_sel retained_def split: if_splits)+

lemma advertise_burst_distinct:
  "\<exists>new. adBurst (foldl (advertiseTarget h debt wbp rv) st ts) = adBurst st @ new \<and>
     subseq (map bcPoolID new) (map tgID ts)"
proof (induction ts arbitrary: st)
  case (Cons t ts)
  obtain new where "adBurst (foldl (advertiseTarget h debt wbp rv) (advertiseTarget h debt wbp rv st t) ts) =
      adBurst (advertiseTarget h debt wbp rv st t) @ new" "subseq (map bcPoolID new) (map tgID ts)"
    using Cons by blast
  then show ?case by (auto simp: advertiseTarget_sel)
qed simp

section \<open>The host-wide advertisement budget\<close>

definition keysOK :: "Target list \<Rightarrow> Plan \<Rightarrow> bool" where
  "keysOK ts p \<longleftrightarrow> distinct (gkeys (plAdvertisedCapacity p)) \<and>
     set (gkeys (plAdvertisedCapacity p)) = tgID ` set ts"

abbreviation advertisedOf :: "Plan \<Rightarrow> string \<Rightarrow> int" where
  "advertisedOf p k \<equiv> geti (plAdvertisedCapacity p) k"

definition capInv :: "Target list \<Rightarrow> int \<Rightarrow> (string \<Rightarrow> int) \<Rightarrow> Plan \<Rightarrow> int \<Rightarrow> bool" where
  "capInv ts hostLimit D p budget \<longleftrightarrow>
     0 \<le> budget \<and> (\<Sum>t\<leftarrow>ts. advertisedOf p (tgID t)) + budget = hostLimit \<and> keysOK ts p \<and>
     (\<forall>t \<in> set ts. 0 \<le> advertisedOf p (tgID t) \<and>
        advertisedOf p (tgID t) \<le> max (tgMaxCapacity t) (D (tgID t)))"

lemma gsum_targets:
  assumes "keysOK ts p" and "distinct (map tgID ts)"
  shows "gsum (plAdvertisedCapacity p) = (\<Sum>t\<leftarrow>ts. advertisedOf p (tgID t))"
proof -
  have "gsum (plAdvertisedCapacity p) = (\<Sum>k \<in> tgID ` set ts. advertisedOf p k)"
    using assms(1) by (simp add: keysOK_def gsum_eq_sum_keys sum_list_distinct_conv_sum_set)
  also have "\<dots> = (\<Sum>k\<leftarrow>map tgID ts. advertisedOf p k)"
    using sum_list_distinct_conv_sum_set [OF assms(2), of "advertisedOf p"] by simp
  finally show ?thesis by (simp add: comp_def)
qed

text \<open>Raising the capacity of one target and lowering the budget by the same amount keeps it.\<close>

lemma capInv_raise:
  assumes "capInv ts h D p b" and "distinct (map tgID ts)" and "t \<in> set ts" and "0 \<le> n" and "n \<le> b"
    and "advertisedOf p (tgID t) + n \<le> max (tgMaxCapacity t) (D (tgID t))"
    and q: "plAdvertisedCapacity q = gput (plAdvertisedCapacity p) (tgID t) (advertisedOf p (tgID t) + n)"
  shows "capInv ts h D q (b - n)"
proof -
  have "(\<Sum>t\<leftarrow>ts. advertisedOf q (tgID t)) = (\<Sum>t\<leftarrow>ts. advertisedOf p (tgID t)) + n"
    using assms(2,3) by (intro sum_list_update_1 [where f = tgID]) (auto simp: q)
  moreover have "keysOK ts q"
    using assms(1,3) by (auto simp: capInv_def keysOK_def q gkeys_gput ghas_iff_gkeys)
  moreover have "0 \<le> advertisedOf q (tgID u) \<and> advertisedOf q (tgID u) \<le> max (tgMaxCapacity u) (D (tgID u))"
    if "u \<in> set ts" for u
    using that assms(1,4,6) same_id [OF assms(2,3) that] assms(3) by (auto simp: capInv_def q)
  ultimately show ?thesis
    using assms(1,5) by (auto simp: capInv_def)
qed

lemma capInv_cong: "plAdvertisedCapacity q = plAdvertisedCapacity p \<Longrightarrow> capInv ts h D q b = capInv ts h D p b"
  by (simp add: capInv_def keysOK_def)

section \<open>Retained excess workers\<close>

lemma burstStep_sel:
  "plDesiredWorkers (bgPlan (burstStep st c)) = plDesiredWorkers (bgPlan st)"
  "plStart (bgPlan (burstStep st c)) = plStart (bgPlan st)"
  "plMemoryClamped (bgPlan (burstStep st c)) = plMemoryClamped (bgPlan st)"
  "plAdvertisedCapacity (bgPlan (burstStep st c)) =
     (if advertisedOf (bgPlan st) (bcPoolID c) < bcMaxCapacity c \<and> 0 < bgBudget st
      then gput (plAdvertisedCapacity (bgPlan st)) (bcPoolID c) (advertisedOf (bgPlan st) (bcPoolID c) + 1)
      else plAdvertisedCapacity (bgPlan st))"
  "bgBudget (burstStep st c) =
     (if advertisedOf (bgPlan st) (bcPoolID c) < bcMaxCapacity c \<and> 0 < bgBudget st
      then bgBudget st - 1 else bgBudget st)"
  "getb (bgAdvertisable (burstStep st c)) k \<Longrightarrow> getb (bgAdvertisable st) k"
  by (auto simp: burstStep_def Let_def split: list.splits if_splits)

lemma burstStep_remove:
  "\<exists>new. plRemove (bgPlan (burstStep st c)) = plRemove (bgPlan st) @ new \<and> set new \<subseteq> set (bcRemovable c)"
  by (auto simp: burstStep_def Let_def split: list.splits)

lemma burst_fold:
  "plDesiredWorkers (bgPlan (foldl burstStep st cs)) = plDesiredWorkers (bgPlan st)"
  "plStart (bgPlan (foldl burstStep st cs)) = plStart (bgPlan st)"
  "plMemoryClamped (bgPlan (foldl burstStep st cs)) = plMemoryClamped (bgPlan st)"
  by (induction cs arbitrary: st) (auto simp: burstStep_sel(1-3))

lemma burst_fold_advertisable:
  "getb (bgAdvertisable (foldl burstStep st cs)) k \<Longrightarrow> getb (bgAdvertisable st) k"
proof (induction cs arbitrary: st)
  case (Cons c cs)
  then show ?case
    using burstStep_sel(6) [of st c k] by simp
qed simp

lemma burst_fold_remove:
  "\<exists>new. plRemove (bgPlan (foldl burstStep st cs)) = plRemove (bgPlan st) @ new \<and>
     set new \<subseteq> \<Union> (set ` bcRemovable ` set cs)"
proof (induction cs arbitrary: st)
  case (Cons c cs)
  obtain n1 where "plRemove (bgPlan (burstStep st c)) = plRemove (bgPlan st) @ n1" "set n1 \<subseteq> set (bcRemovable c)"
    using burstStep_remove by blast
  moreover obtain n2 where "plRemove (bgPlan (foldl burstStep (burstStep st c) cs)) =
      plRemove (bgPlan (burstStep st c)) @ n2" "set n2 \<subseteq> \<Union> (set ` bcRemovable ` set cs)"
    using Cons by blast
  ultimately show ?case by auto
qed simp

lemma burst_fold_capInv:
  assumes "distinct (map tgID ts)" and "capInv ts h D (bgPlan st) (bgBudget st)"
    and "\<And>c. c \<in> set cs \<Longrightarrow> \<exists>t \<in> set ts. bcPoolID c = tgID t \<and> bcMaxCapacity c = tgMaxCapacity t"
  shows "capInv ts h D (bgPlan (foldl burstStep st cs)) (bgBudget (foldl burstStep st cs))"
proof (rule foldl_invariant [where P = "\<lambda>st. capInv ts h D (bgPlan st) (bgBudget st)"])
  fix st :: budgetState and c
  assume c: "c \<in> set cs" and inv: "capInv ts h D (bgPlan st) (bgBudget st)"
  obtain t where t: "t \<in> set ts" "bcPoolID c = tgID t" "bcMaxCapacity c = tgMaxCapacity t"
    using assms(3) [OF c] by auto
  show "capInv ts h D (bgPlan (burstStep st c)) (bgBudget (burstStep st c))"
  proof (cases "advertisedOf (bgPlan st) (tgID t) < tgMaxCapacity t \<and> 0 < bgBudget st")
    case True
    then show ?thesis
      using capInv_raise [OF inv assms(1) t(1), of 1 "bgPlan (burstStep st c)"] t
      by (simp add: burstStep_sel le_max_iff_disj)
  next
    case False
    then have "plAdvertisedCapacity (bgPlan (burstStep st c)) = plAdvertisedCapacity (bgPlan st)"
      "bgBudget (burstStep st c) = bgBudget st"
      using t by (auto simp: burstStep_sel)
    then show ?thesis
      using inv capInv_cong by metis
  qed
qed (rule assms(2))

lemma burst_fold_capacity:
  assumes "distinct (map bcPoolID cs)"
  shows "advertisedOf (bgPlan (foldl burstStep st cs)) k \<le> advertisedOf (bgPlan st) k + 1"
    and "k \<notin> bcPoolID ` set cs \<Longrightarrow>
      advertisedOf (bgPlan (foldl burstStep st cs)) k = advertisedOf (bgPlan st) k"
proof -
  have frame: "advertisedOf (bgPlan (foldl burstStep st cs)) k = advertisedOf (bgPlan st) k"
    if "k \<notin> bcPoolID ` set cs" for cs k st
    using that by (induction cs arbitrary: st) (auto simp: burstStep_sel)
  then show "k \<notin> bcPoolID ` set cs \<Longrightarrow>
      advertisedOf (bgPlan (foldl burstStep st cs)) k = advertisedOf (bgPlan st) k" .
  show "advertisedOf (bgPlan (foldl burstStep st cs)) k \<le> advertisedOf (bgPlan st) k + 1"
    using assms
  proof (induction cs arbitrary: st)
    case (Cons c cs)
    have "bcPoolID c \<notin> bcPoolID ` set cs" "distinct (map bcPoolID cs)"
      using Cons.prems by simp_all
    then show ?case
      using frame [of k cs "burstStep st c"] Cons.IH [of "burstStep st c"]
      by (cases "k = bcPoolID c") (auto simp: burstStep_sel(4) split: if_splits)
  qed simp
qed

section \<open>Service capacity\<close>

definition serviceAdditional :: "PlanInput \<Rightarrow> memoryBasis \<Rightarrow> int gomap \<Rightarrow> serviceState \<Rightarrow> Target \<Rightarrow> int" where
  "serviceAdditional i gate prev st t =
     serviceHeld i prev st t + serviceGrowth i gate st t (serviceHeld i prev st t)"

lemma serviceHeld_le: "serviceHeld i prev st t \<le> serviceLimit st t"
  by (simp add: serviceHeld_def Let_def min.coboundedI1)

lemma serviceAdditional_le: "serviceAdditional i gate prev st t \<le> serviceLimit st t"
  using serviceHeld_le [of i prev st t] by (simp add: serviceAdditional_def serviceGrowth_def min_def)

lemma serviceHeld_nonneg: "0 \<le> serviceLimit st t \<Longrightarrow> 0 \<le> serviceHeld i prev st t"
  by (simp add: serviceHeld_def Let_def)

text \<open>Bytes of the advertised slots fit in what is unspent, so the subtraction does not wrap.\<close>

lemma serviceAdditional_bytes:
  assumes "0 < serviceAdditional i gate prev st t"
  shows "uint (svMemoryRemaining st - word_of_int (serviceAdditional i gate prev st t) * targetMemory i t) =
    uint (svMemoryRemaining st) - serviceAdditional i gate prev st t * uint (targetMemory i t)"
proof -
  let ?m = "targetMemory i t" and ?mem = "svMemoryRemaining st"
  define h where "h = serviceHeld i prev st t"
  define g where "g = serviceGrowth i gate st t h"
  have lim: "0 < serviceLimit st t"
    using assms serviceAdditional_le [of i gate prev st t] by simp
  then have h: "0 \<le> h" "h \<le> affordableWorkerCount ?mem ?m" "h \<le> serviceLimit st t"
    using serviceHeld_nonneg [of st t i prev] by (auto simp: h_def serviceHeld_def Let_def)
  note held = affordable_fits_le [OF h(1,2)]
  have g: "0 \<le> g" "g \<le> affordableWorkerCount (?mem - word_of_int h * ?m) ?m"
    using h(3) withMargin_le [of "?mem - word_of_int h * ?m" ?m]
    by (auto simp: g_def serviceGrowth_def min_le_iff_disj)
  note grown = affordable_fits_le [OF g]
  have "(h + g) * uint ?m \<le> uint ?mem"
    using grown(1) held(3) by (simp add: algebra_simps)
  moreover from this have "uint (word_of_int (h + g) * ?m) = (h + g) * uint ?m"
    using h(1) g(1) uint_lt64 [of ?mem] by (intro uint_word_of_int_times) auto
  ultimately show ?thesis
    by (simp add: serviceAdditional_def flip: h_def g_def) (simp add: uint_minus_le)
qed

lemma serviceTarget_sel:
  "plDesiredWorkers (svPlan (serviceTarget i gate prev adv st t)) = plDesiredWorkers (svPlan st)"
  "plStart (svPlan (serviceTarget i gate prev adv st t)) = plStart (svPlan st)"
  "plRemove (svPlan (serviceTarget i gate prev adv st t)) = plRemove (svPlan st)"
  "plQuiesceReason (svPlan (serviceTarget i gate prev adv st t)) = plQuiesceReason (svPlan st)"
  "getb (plMemoryClamped (svPlan st)) k \<Longrightarrow>
     getb (plMemoryClamped (svPlan (serviceTarget i gate prev adv st t))) k"
  by (auto simp: serviceTarget_def Let_def)

definition serviceEffective :: "PlanInput \<Rightarrow> memoryBasis \<Rightarrow> int gomap \<Rightarrow> bool gomap \<Rightarrow> serviceState \<Rightarrow> Target \<Rightarrow> int" where
  "serviceEffective i gate prev adv st t =
     (if \<not> getb adv (tgID t) \<or> svSlots st = 0 \<or> serviceAdditional i gate prev st t \<le> 0 then 0
      else serviceAdditional i gate prev st t)"

lemma serviceTarget_effect:
  assumes n: "n = serviceEffective i gate prev adv st t"
  shows "plAdvertisedCapacity (svPlan (serviceTarget i gate prev adv st t)) =
      (if n = 0 then plAdvertisedCapacity (svPlan st)
       else gput (plAdvertisedCapacity (svPlan st)) (tgID t) (advertisedOf (svPlan st) (tgID t) + n))"
    and "svSlots (serviceTarget i gate prev adv st t) = svSlots st - n"
    and "svBudget (serviceTarget i gate prev adv st t) = svBudget st - n"
    and "uint (svMemoryRemaining (serviceTarget i gate prev adv st t)) =
      uint (svMemoryRemaining st) - n * uint (targetMemory i t)"
  using serviceAdditional_bytes [of i gate prev st t]
  unfolding n serviceEffective_def
  by (auto simp: serviceTarget_def Let_def simp flip: serviceAdditional_def)

lemma serviceEffective_bounds:
  shows "0 \<le> serviceEffective i gate prev adv st t"
    and "n = serviceEffective i gate prev adv st t \<Longrightarrow> 0 < n \<Longrightarrow>
      n \<le> svBudget st \<and> n \<le> svSlots st \<and> advertisedOf (svPlan st) (tgID t) + n \<le> tgMaxCapacity t \<and>
      getb adv (tgID t)"
    and "mbFloorBlocked gate \<Longrightarrow> n = serviceEffective i gate prev adv st t \<Longrightarrow> 0 < n \<Longrightarrow>
      advertisedOf (svPlan st) (tgID t) + n \<le> geti prev (tgID t)"
proof -
  show "0 \<le> serviceEffective i gate prev adv st t"
    by (simp add: serviceEffective_def)
  show "n \<le> svBudget st \<and> n \<le> svSlots st \<and> advertisedOf (svPlan st) (tgID t) + n \<le> tgMaxCapacity t \<and>
      getb adv (tgID t)" if "n = serviceEffective i gate prev adv st t" "0 < n"
    using that serviceAdditional_le [of i gate prev st t]
    by (auto simp: serviceEffective_def serviceLimit_def split: if_splits)
  show "advertisedOf (svPlan st) (tgID t) + n \<le> geti prev (tgID t)"
    if "mbFloorBlocked gate" "n = serviceEffective i gate prev adv st t" "0 < n"
    using that
    by (auto simp: serviceEffective_def serviceAdditional_def serviceGrowth_def serviceHeld_def Let_def
        max_def split: if_splits)
qed

definition serviceInv ::
  "memoryBasis \<Rightarrow> int gomap \<Rightarrow> bool gomap \<Rightarrow> Target list \<Rightarrow> int \<Rightarrow> (string \<Rightarrow> int) \<Rightarrow>
   serviceState \<Rightarrow> serviceState \<Rightarrow> bool" where
  "serviceInv gate prev adv ts h D st0 st \<longleftrightarrow>
     capInv ts h D (svPlan st) (svBudget st) \<and> 0 \<le> svSlots st \<and>
     uint (svMemoryRemaining st) \<le> uint (svMemoryRemaining st0) \<and>
     (\<forall>k. advertisedOf (svPlan st0) k \<le> advertisedOf (svPlan st) k) \<and>
     (\<forall>k. advertisedOf (svPlan st) k \<noteq> advertisedOf (svPlan st0) k \<longrightarrow> getb adv k) \<and>
     (mbFloorBlocked gate \<longrightarrow>
       (\<forall>k. advertisedOf (svPlan st) k \<le> max (geti prev k) (advertisedOf (svPlan st0) k)))"

lemma serviceInv_step:
  assumes inv: "serviceInv gate prev adv ts h D st0 st" and "distinct (map tgID ts)" and "t \<in> set ts"
  shows "serviceInv gate prev adv ts h D st0 (serviceTarget i gate prev adv st t)"
proof -
  define n where "n = serviceEffective i gate prev adv st t"
  note eff = serviceTarget_effect [OF n_def]
  have cap: "capInv ts h D (svPlan st) (svBudget st)" using inv by (simp add: serviceInv_def)
  show ?thesis
  proof (cases "n = 0")
    case True
    then show ?thesis
      using inv eff capInv_cong [of "svPlan (serviceTarget i gate prev adv st t)" "svPlan st"]
      by (simp add: serviceInv_def)
  next
    case False
    then have n: "0 < n" using serviceEffective_bounds(1) n_def by (metis order_le_less)
    note b = serviceEffective_bounds(2) [OF n_def n]
    have "capInv ts h D (svPlan (serviceTarget i gate prev adv st t)) (svBudget st - n)"
      by (rule capInv_raise [OF cap assms(2,3)]) (use n b eff(1) False in \<open>auto simp: le_max_iff_disj\<close>)
    moreover have "0 \<le> n * uint (targetMemory i t)" using n by simp
    moreover have A: "advertisedOf (svPlan (serviceTarget i gate prev adv st t)) k =
        advertisedOf (svPlan st) k + (if k = tgID t then n else 0)" for k
      using eff(1) False by simp
    have "advertisedOf (svPlan st0) k \<le> advertisedOf (svPlan (serviceTarget i gate prev adv st t)) k"
      "advertisedOf (svPlan (serviceTarget i gate prev adv st t)) k \<noteq> advertisedOf (svPlan st0) k \<longrightarrow> getb adv k"
      "mbFloorBlocked gate \<longrightarrow> advertisedOf (svPlan (serviceTarget i gate prev adv st t)) k \<le>
        max (geti prev k) (advertisedOf (svPlan st0) k)" for k
      using inv n b serviceEffective_bounds(3) [OF _ n_def n] unfolding A serviceInv_def
      by (auto dest!: spec [where x = k] simp: le_max_iff_disj)
    ultimately show ?thesis
      using inv b unfolding serviceInv_def eff(2-4) by auto
  qed
qed

lemma serviceInv_fold:
  assumes "serviceInv gate prev adv ts h D st0 st0" and "distinct (map tgID ts)"
  shows "serviceInv gate prev adv ts h D st0 (foldl (serviceTarget i gate prev adv) st0 ts)"
  by (rule foldl_invariant [where P = "serviceInv gate prev adv ts h D st0"])
    (use assms serviceInv_step in auto)

lemma service_fold:
  "plDesiredWorkers (svPlan (foldl (serviceTarget i gate prev adv) st ts)) = plDesiredWorkers (svPlan st)"
  "plStart (svPlan (foldl (serviceTarget i gate prev adv) st ts)) = plStart (svPlan st)"
  "plRemove (svPlan (foldl (serviceTarget i gate prev adv) st ts)) = plRemove (svPlan st)"
  "plQuiesceReason (svPlan (foldl (serviceTarget i gate prev adv) st ts)) = plQuiesceReason (svPlan st)"
  by (induction ts arbitrary: st) (simp_all add: serviceTarget_sel)

lemma service_fold_clamped:
  "getb (plMemoryClamped (svPlan st)) k \<Longrightarrow>
     getb (plMemoryClamped (svPlan (foldl (serviceTarget i gate prev adv) st ts))) k"
  by (induction ts arbitrary: st) (simp_all add: serviceTarget_sel)

lemma finish_fold:
  fixes p :: Plan and f :: "Target \<Rightarrow> int"
  defines "r \<equiv> \<lambda>ts. foldl (\<lambda>p t. p\<lparr>plMemoryAffordable := gput (plMemoryAffordable p) (tgID t) (f t)\<rparr>) p ts"
  shows "plDesiredWorkers (r ts) = plDesiredWorkers p" "plStart (r ts) = plStart p"
    "plRemove (r ts) = plRemove p" "plAdvertisedCapacity (r ts) = plAdvertisedCapacity p"
    "plQuiesceReason (r ts) = plQuiesceReason p" "plProblems (r ts) = plProblems p"
    "plMemoryHeadroom (r ts) = plMemoryHeadroom p" "plMemoryClamped (r ts) = plMemoryClamped p"
  unfolding r_def by (induction ts arbitrary: p) simp_all

lemma finishPlan_sel [simp]:
  "plDesiredWorkers (finishPlan i ts pm) = plDesiredWorkers (fst pm)"
  "plStart (finishPlan i ts pm) = plStart (fst pm)"
  "plRemove (finishPlan i ts pm) = plRemove (fst pm)"
  "plAdvertisedCapacity (finishPlan i ts pm) = plAdvertisedCapacity (fst pm)"
  "plQuiesceReason (finishPlan i ts pm) = plQuiesceReason (fst pm)"
  "plMemoryHeadroom (finishPlan i ts pm) = snd pm"
  "plMemoryClamped (finishPlan i ts pm) = plMemoryClamped (fst pm)"
  "plPhase (finishPlan i ts pm) = (if plProblems (fst pm) \<noteq> [] then PhaseDegraded
     else if plQuiesceReason (fst pm) \<noteq> NoQuiesceReason then PhaseDraining else PhaseReady)"
  "plProblems (finishPlan i ts pm) = plProblems (fst pm)"
  by (cases pm; simp add: finishPlan_def Let_def finish_fold)+

end
