(* ===== verification/Plan_Props.thy ===== *)
theory Plan_Props
  imports Plan_Advertise
begin

text \<open>
  The stages of an admitted plan put together, and the properties of \<open>buildPlan\<close> as a whole.
\<close>

section \<open>Stages of an admitted plan\<close>

definition countStage :: "PlanInput \<Rightarrow> scanState \<Rightarrow> int \<Rightarrow> Plan \<times> poolCounts" where
  "countStage i sc h = foldl (countTarget (scWorkersByPool sc))
     (fst (beginAllocation i sc h), \<lparr>pcBusyByPool = [], pcNonbusyByPool = []\<rparr>)
     (sortedTargetsByPriority (piTargets i))"

definition reserveStage :: "PlanInput \<Rightarrow> scanState \<Rightarrow> int \<Rightarrow> reserveState" where
  "reserveStage i sc h = foldl (reserveTarget (piNow i) (poolsByID (piPools i)))
     \<lparr>rvPlan = fst (countStage i sc h), rvReady = [], rvReservations = [], rvOverCap = []\<rparr>
     (sortedTargetsByPriority (piTargets i))"

definition assignStage :: "PlanInput \<Rightarrow> scanState \<Rightarrow> int \<Rightarrow> allocState" where
  "assignStage i sc h =
     foldl (assignTarget i (evaluateMemoryBasis i) (snd (countStage i sc h)) (reserveStage i sc h))
       \<lparr>alPlan = rvPlan (reserveStage i sc h), alRemaining = snd (beginAllocation i sc h),
        alMemoryRemaining = mbRemaining (evaluateMemoryBasis i), alCountedNonbusy = []\<rparr>
       (sortedTargetsByPriority (piTargets i))"

definition warmStage :: "PlanInput \<Rightarrow> scanState \<Rightarrow> int \<Rightarrow> allocState" where
  "warmStage i sc h =
     foldl (warmTarget i (evaluateMemoryBasis i) (snd (countStage i sc h)) (reserveStage i sc h))
       (assignStage i sc h) (sortedTargetsByPriority (piTargets i))"

definition advertiseStage :: "PlanInput \<Rightarrow> scanState \<Rightarrow> int \<Rightarrow> advertiseState" where
  "advertiseStage i sc h =
     foldl (advertiseTarget h (h < scBusyWorkers sc) (scWorkersByPool sc) (reserveStage i sc h))
       \<lparr>adPlan = alPlan (warmStage i sc h), adAdvertisable = [], adBurst = []\<rparr>
       (sortedTargetsByPriority (piTargets i))"

lemma planAdmitted_stages:
  "planAdmitted i sc h = finishPlan i (sortedTargetsByPriority (piTargets i))
     (if h < scBusyWorkers sc
      then (bgPlan (burstPass h (advertiseStage i sc h)), alMemoryRemaining (warmStage i sc h))
      else servicePass i (evaluateMemoryBasis i) h (scActiveWorkers sc) (burstPass h (advertiseStage i sc h))
             (alMemoryRemaining (warmStage i sc h)) (sortedTargetsByPriority (piTargets i)))"
  unfolding planAdmitted_def Let_def countStage_def reserveStage_def assignStage_def warmStage_def
    advertiseStage_def
  by (simp add: case_prod_unfold)

text \<open>Every stage is entered with the plan of the scan, whose maps hold zeros.\<close>

definition admissible :: "PlanInput \<Rightarrow> Plan \<Rightarrow> int \<Rightarrow> bool" where
  "admissible i p h \<longleftrightarrow>
     distinct (map tgID (piTargets i)) \<and> 0 \<le> h \<and> plStart p = [] \<and> keysOK (piTargets i) p \<and>
     (\<forall>k. geti (plDesiredWorkers p) k = 0 \<and> geti (plAdvertisedCapacity p) k = 0)"

abbreviation busyIn :: "PlanInput \<Rightarrow> string \<Rightarrow> int" where
  "busyIn i k \<equiv> countBy isBusy (workersOf i k)"

abbreviation nonbusyIn :: "PlanInput \<Rightarrow> string \<Rightarrow> int" where
  "nonbusyIn i k \<equiv> countBy isNonbusy (workersOf i k)"

lemma beginAllocation_sel [simp]:
  "plQuiesceReason (fst (beginAllocation i sc h)) = plQuiesceReason (scPlan sc)"
  "plAdvertisedCapacity (fst (beginAllocation i sc h)) = plAdvertisedCapacity (scPlan sc)"
  "plDesiredWorkers (fst (beginAllocation i sc h)) = plDesiredWorkers (scPlan sc)"
  "plStart (fst (beginAllocation i sc h)) = plStart (scPlan sc)"
  "plRemove (fst (beginAllocation i sc h)) = plRemove (scPlan sc)"
  "plMemoryClamped (fst (beginAllocation i sc h)) = plMemoryClamped (scPlan sc)"
  "snd (beginAllocation i sc h) = max 0 (h - scBusyWorkers sc)"
  by (auto simp: beginAllocation_def Let_def)

lemma countStage_counts:
  assumes "admissible i p h" and "t \<in> set (piTargets i)"
  shows "geti (plDesiredWorkers (fst (countStage i (scanWorkers i p) h))) (tgID t) = busyIn i (tgID t)"
    and "geti (pcBusyByPool (snd (countStage i (scanWorkers i p) h))) (tgID t) = busyIn i (tgID t)"
    and "geti (pcNonbusyByPool (snd (countStage i (scanWorkers i p) h))) (tgID t) = nonbusyIn i (tgID t)"
  using assms by (simp_all add: countStage_def countTarget_counts admissible_def)

lemma countStage_plan [simp]:
  "plQuiesceReason (fst (countStage i (scanWorkers i p) h)) = plQuiesceReason p"
  "plAdvertisedCapacity (fst (countStage i (scanWorkers i p) h)) = plAdvertisedCapacity p"
  "plStart (fst (countStage i (scanWorkers i p) h)) = plStart p"
  "plMemoryClamped (fst (countStage i (scanWorkers i p) h)) = plMemoryClamped p"
  "plRemove (fst (countStage i (scanWorkers i p) h)) = plRemove (scPlan (scanWorkers i p))"
  by (simp_all add: countStage_def countTarget_fold del: scanWorkers_sel(10))

lemma reserveStage_plan [simp]:
  "plQuiesceReason (rvPlan (reserveStage i (scanWorkers i p) h)) = plQuiesceReason p"
  "plAdvertisedCapacity (rvPlan (reserveStage i (scanWorkers i p) h)) = plAdvertisedCapacity p"
  "plStart (rvPlan (reserveStage i (scanWorkers i p) h)) = plStart p"
  "plMemoryClamped (rvPlan (reserveStage i (scanWorkers i p) h)) = plMemoryClamped p"
  "plRemove (rvPlan (reserveStage i (scanWorkers i p) h)) = plRemove (scPlan (scanWorkers i p))"
  "plDesiredWorkers (rvPlan (reserveStage i sc h)) = plDesiredWorkers (fst (countStage i sc h))"
  by (simp_all add: reserveStage_def)

lemma reserveStage_maps:
  assumes "distinct (map tgID (piTargets i))" and "t \<in> set (piTargets i)"
  shows "getb (rvReady (reserveStage i sc h)) (tgID t) = poolReady (poolsByID (piPools i)) (tgID t)"
    and "geti (rvReservations (reserveStage i sc h)) (tgID t) =
      (if poolReady (poolsByID (piPools i)) (tgID t)
       then min (assignedJobs (poolsByID (piPools i)) (tgID t)) (tgMaxCapacity t) else 0)"
    and "getb (rvOverCap (reserveStage i sc h)) (tgID t) \<longleftrightarrow>
      poolReady (poolsByID (piPools i)) (tgID t) \<and> tgMaxCapacity t < assignedJobs (poolsByID (piPools i)) (tgID t)"
  using assms by (simp_all add: reserveStage_def reserveTarget_ready reserveTarget_member)

lemma reserveStage_OK:
  "distinct (map tgID (piTargets i)) \<Longrightarrow>
     reservationsOK (reserveStage i sc h) (sortedTargetsByPriority (piTargets i))"
  by (simp add: reservationsOK_def reserveStage_maps)

section \<open>The allocation as a whole\<close>

text \<open>The slots the allocation distributes: busy workers of known pools and what is left of the limit.\<close>

definition slotsOf :: "PlanInput \<Rightarrow> int \<Rightarrow> int" where
  "slotsOf i h = (\<Sum>t\<leftarrow>sortedTargetsByPriority (piTargets i). busyIn i (tgID t)) +
     max 0 (h - countBy isBusy (piWorkers i))"

abbreviation stageInv :: "PlanInput \<Rightarrow> Plan \<Rightarrow> int \<Rightarrow> allocState \<Rightarrow> bool" where
  "stageInv i p h \<equiv> allocInv i (evaluateMemoryBasis i) (snd (countStage i (scanWorkers i p) h))
     (sortedTargetsByPriority (piTargets i)) (slotsOf i h)"

definition allocStart :: "PlanInput \<Rightarrow> Plan \<Rightarrow> int \<Rightarrow> allocState" where
  "allocStart i p h = \<lparr>alPlan = rvPlan (reserveStage i (scanWorkers i p) h),
     alRemaining = snd (beginAllocation i (scanWorkers i p) h),
     alMemoryRemaining = mbRemaining (evaluateMemoryBasis i), alCountedNonbusy = []\<rparr>"

lemma allocStart_inv:
  assumes "admissible i p h"
  shows "stageInv i p h (allocStart i p h)"
proof -
  let ?ts = "sortedTargetsByPriority (piTargets i)"
  have D: "desiredOf (allocStart i p h) (tgID t) = busyIn i (tgID t)" if "t \<in> set ?ts" for t
    using that countStage_counts(1) [OF assms, of t] by (simp add: allocStart_def)
  then have "(\<Sum>t\<leftarrow>?ts. desiredOf (allocStart i p h) (tgID t)) = (\<Sum>t\<leftarrow>?ts. busyIn i (tgID t))"
    by (intro arg_cong [where f = sum_list] map_cong) auto
  moreover have "startsOf (snd (countStage i (scanWorkers i p) h)) (allocStart i p h) t = 0" if "t \<in> set ?ts" for t
    using that D [OF that] countStage_counts(2) [OF assms, of t] by (simp add: allocStart_def)
  moreover from this have "(\<Sum>t\<leftarrow>?ts. startsOf (snd (countStage i (scanWorkers i p) h)) (allocStart i p h) t *
      uint (targetMemory i t)) = (\<Sum>t\<leftarrow>?ts. 0)"
    by (intro arg_cong [where f = sum_list] map_cong) auto
  ultimately show ?thesis
    using countStage_counts(2,3) [OF assms] D
    by (auto simp: allocInv_def poolInv_def slotsOf_def) (simp_all add: allocStart_def)
qed

lemma assignStage_inv:
  assumes "admissible i p h"
  shows "stageInv i p h (assignStage i (scanWorkers i p) h)"
  unfolding assignStage_def allocStart_def [symmetric]
  by (rule foldl_invariant)
    (use assms allocStart_inv reserveStage_OK in \<open>auto simp: admissible_def intro!: allocInv_assign\<close>)

lemma warmStage_inv:
  assumes "admissible i p h"
  shows "stageInv i p h (warmStage i (scanWorkers i p) h)"
  unfolding warmStage_def
  by (rule foldl_invariant)
    (use assms assignStage_inv reserveStage_OK in \<open>auto simp: admissible_def intro!: allocInv_warm\<close>)

lemma alloc_folds [simp]:
  "plQuiesceReason (alPlan (foldl (assignTarget i gate counts rv) st ts)) = plQuiesceReason (alPlan st)"
  "plAdvertisedCapacity (alPlan (foldl (assignTarget i gate counts rv) st ts)) = plAdvertisedCapacity (alPlan st)"
  "plStart (alPlan (foldl (assignTarget i gate counts rv) st ts)) = plStart (alPlan st)"
  "plRemove (alPlan (foldl (assignTarget i gate counts rv) st ts)) = plRemove (alPlan st)"
  "plQuiesceReason (alPlan (foldl (warmTarget i gate counts rv) st ts)) = plQuiesceReason (alPlan st)"
  "plAdvertisedCapacity (alPlan (foldl (warmTarget i gate counts rv) st ts)) = plAdvertisedCapacity (alPlan st)"
  "plStart (alPlan (foldl (warmTarget i gate counts rv) st ts)) = plStart (alPlan st)"
  "plRemove (alPlan (foldl (warmTarget i gate counts rv) st ts)) = plRemove (alPlan st)"
  by (induction ts arbitrary: st) simp_all

lemma warmStage_plan [simp]:
  "plQuiesceReason (alPlan (warmStage i (scanWorkers i p) h)) = plQuiesceReason p"
  "plAdvertisedCapacity (alPlan (warmStage i (scanWorkers i p) h)) = plAdvertisedCapacity p"
  "plStart (alPlan (warmStage i (scanWorkers i p) h)) = plStart p"
  "plRemove (alPlan (warmStage i (scanWorkers i p) h)) = plRemove (scPlan (scanWorkers i p))"
  by (simp_all add: warmStage_def assignStage_def del: scanWorkers_sel(10))

text \<open>The desired number of workers of each pool at the end of the allocation.\<close>

abbreviation finalDesired :: "PlanInput \<Rightarrow> Plan \<Rightarrow> int \<Rightarrow> string \<Rightarrow> int" where
  "finalDesired i p h \<equiv> geti (plDesiredWorkers (alPlan (warmStage i (scanWorkers i p) h)))"

lemma finalDesired_bounds:
  assumes "admissible i p h" and "t \<in> set (piTargets i)"
  shows "busyIn i (tgID t) \<le> finalDesired i p h (tgID t)"
    and "finalDesired i p h (tgID t) \<le> max (tgMaxCapacity t) (busyIn i (tgID t))"
  using warmStage_inv [OF assms(1)] assms(2) countStage_counts(2) [OF assms]
  by (auto simp: allocInv_def poolInv_def)

lemma finalDesired_nonneg:
  "admissible i p h \<Longrightarrow> t \<in> set (piTargets i) \<Longrightarrow> 0 \<le> finalDesired i p h (tgID t)"
  by (rule order_trans [OF countBy_nonneg finalDesired_bounds(1)])

lemma finalDesired_sum:
  assumes "admissible i p h"
  shows "(\<Sum>t\<leftarrow>sortedTargetsByPriority (piTargets i). finalDesired i p h (tgID t)) \<le>
    max h (countBy isBusy (piWorkers i))"
proof -
  have "(\<Sum>t\<leftarrow>sortedTargetsByPriority (piTargets i). finalDesired i p h (tgID t)) \<le> slotsOf i h"
    using warmStage_inv [OF assms] by (auto simp: allocInv_def)
  also have "\<dots> \<le> max h (countBy isBusy (piWorkers i))"
    using sum_pools_le [of "sortedTargetsByPriority (piTargets i)" isBusy i] assms
    by (auto simp: slotsOf_def admissible_def)
  finally show ?thesis .
qed

text \<open>The starts of a pool are exactly the workers the allocation could not find among its idle ones.\<close>

lemma targetStarts_alloc:
  assumes "admissible i p h" and "t \<in> set (piTargets i)"
  defines "st \<equiv> warmStage i (scanWorkers i p) h"
    and "counts \<equiv> snd (countStage i (scanWorkers i p) h)"
  shows "targetStarts (scWorkersByPool (scanWorkers i p)) (finalDesired i p h) t =
    (if 0 < startsOf counts st t then [\<lparr>sdPoolID = tgID t, sdCount = startsOf counts st t\<rparr>] else [])"
proof -
  have "poolInv (evaluateMemoryBasis i) counts st t"
    using warmStage_inv [OF assms(1)] assms(2) by (auto simp: allocInv_def st_def counts_def)
  moreover have "activeOf (scWorkersByPool (scanWorkers i p)) (tgID t) =
      geti (pcBusyByPool counts) (tgID t) + geti (pcNonbusyByPool counts) (tgID t)"
    using countStage_counts(2,3) [OF assms(1,2)] by (simp add: activeOf_def counts_def)
  ultimately show ?thesis
    by (auto simp: targetStarts_def poolInv_def st_def)
qed

abbreviation admittedStarts :: "PlanInput \<Rightarrow> Plan \<Rightarrow> int \<Rightarrow> StartDecision list" where
  "admittedStarts i p h \<equiv> concat (map (targetStarts (scWorkersByPool (scanWorkers i p)) (finalDesired i p h))
     (sortedTargetsByPriority (piTargets i)))"

lemma startBytes_concat: "startBytes i (concat (map f ts)) = (\<Sum>t\<leftarrow>ts. startBytes i (f t))"
  by (induction ts) auto

lemma startCount_concat: "startCount (concat (map f ts)) = (\<Sum>t\<leftarrow>ts. startCount (f t))"
  by (induction ts) auto

lemma admittedStarts_bytes:
  assumes "admissible i p h"
  shows "startBytes i (admittedStarts i p h) + uint (alMemoryRemaining (warmStage i (scanWorkers i p) h)) =
    uint (mbRemaining (evaluateMemoryBasis i))"
proof -
  let ?ts = "sortedTargetsByPriority (piTargets i)"
  let ?st = "warmStage i (scanWorkers i p) h" and ?c = "snd (countStage i (scanWorkers i p) h)"
  note inv = warmStage_inv [OF assms]
  have "startBytes i (targetStarts (scWorkersByPool (scanWorkers i p)) (finalDesired i p h) t) =
      startsOf ?c ?st t * uint (targetMemory i t)" if "t \<in> set ?ts" for t
  proof -
    have "0 \<le> startsOf ?c ?st t" using inv that by (auto simp: allocInv_def poolInv_def)
    moreover have "poolMemory i (tgID t) = uint (targetMemory i t)"
      using that assms by (simp add: poolMemory_target admissible_def)
    ultimately show ?thesis
      using targetStarts_alloc [OF assms, of t] that by auto
  qed
  then have "startBytes i (admittedStarts i p h) = (\<Sum>t\<leftarrow>?ts. startsOf ?c ?st t * uint (targetMemory i t))"
    unfolding startBytes_concat by (intro arg_cong [where f = sum_list] map_cong) auto
  then show ?thesis
    using inv by (simp add: allocInv_def)
qed

lemma admittedStarts_pools:
  "subseq (map sdPoolID (concat (map (targetStarts wbp D) ts))) (map tgID ts)"
  by (induction ts) (auto simp: targetStarts_def)

lemma admittedStarts_floor:
  assumes "admissible i p h" and "mbFloorBlocked (evaluateMemoryBasis i)"
  shows "admittedStarts i p h = []"
  using warmStage_inv [OF assms(1)] assms(2) targetStarts_alloc [OF assms(1)]
  by (auto simp: allocInv_def poolInv_def)

lemma admittedStarts_count:
  assumes "admissible i p h"
  shows "startCount (admittedStarts i p h) \<le> max 0 (h - countBy isBusy (piWorkers i))"
proof -
  let ?ts = "sortedTargetsByPriority (piTargets i)"
  let ?st = "warmStage i (scanWorkers i p) h" and ?c = "snd (countStage i (scanWorkers i p) h)"
  note inv = warmStage_inv [OF assms]
  have "startCount (targetStarts (scWorkersByPool (scanWorkers i p)) (finalDesired i p h) t) \<le>
      finalDesired i p h (tgID t) - busyIn i (tgID t)" if "t \<in> set ?ts" for t
    using targetStarts_alloc [OF assms, of t] that inv countStage_counts(2) [OF assms, of t]
      finalDesired_bounds(1) [OF assms, of t]
    by (auto simp: allocInv_def poolInv_def)
  then have "startCount (admittedStarts i p h) \<le>
      (\<Sum>t\<leftarrow>?ts. finalDesired i p h (tgID t) - busyIn i (tgID t))"
    unfolding startCount_concat by (intro sum_list_mono_int) auto
  also have "\<dots> \<le> max 0 (h - countBy isBusy (piWorkers i))"
    using inv by (auto simp: allocInv_def slotsOf_def sum_list_subtractf)
  finally show ?thesis .
qed

section \<open>Advertised capacity of an admitted plan\<close>

lemma keysOK_gput: "keysOK ts p \<Longrightarrow> t \<in> set ts \<Longrightarrow>
    plAdvertisedCapacity q = gput (plAdvertisedCapacity p) (tgID t) v \<Longrightarrow> keysOK ts q"
  by (auto simp: keysOK_def gkeys_gput ghas_iff_gkeys)

lemma advertise_fold_keys:
  assumes "keysOK us (adPlan st)" and "set ts \<subseteq> set us"
  shows "keysOK us (adPlan (foldl (advertiseTarget h debt wbp rv) st ts))"
proof (rule foldl_invariant [where P = "\<lambda>st. keysOK us (adPlan st)"])
  show "keysOK us (adPlan (advertiseTarget h debt wbp rv st t))"
    if "t \<in> set ts" "keysOK us (adPlan st)" for st t
    using that assms(2) keysOK_gput [OF that(2), of t "adPlan (advertiseTarget h debt wbp rv st t)"]
    by (auto simp: keysOK_def advertiseTarget_sel(5))
qed (rule assms(1))

abbreviation debtOf :: "PlanInput \<Rightarrow> int \<Rightarrow> bool" where
  "debtOf i h \<equiv> h < countBy isBusy (piWorkers i)"

abbreviation nowAdvertised :: "PlanInput \<Rightarrow> Plan \<Rightarrow> int \<Rightarrow> Target \<Rightarrow> bool" where
  "nowAdvertised i p h \<equiv> advertisedNow h (debtOf i h) (scWorkersByPool (scanWorkers i p))
     (reserveStage i (scanWorkers i p) h) (finalDesired i p h)"

lemma advertiseStage_desired [simp]:
  "plDesiredWorkers (adPlan (advertiseStage i sc h)) = plDesiredWorkers (alPlan (warmStage i sc h))"
  by (simp add: advertiseStage_def advertise_fold)

lemma advertiseStage_capacity:
  assumes "admissible i p h" and "t \<in> set (piTargets i)"
  shows "advertisedOf (adPlan (advertiseStage i (scanWorkers i p) h)) (tgID t) =
    (if nowAdvertised i p h t then finalDesired i p h (tgID t) else 0)"
  unfolding advertiseStage_def
  using assms advertise_capacity [of "sortedTargetsByPriority (piTargets i)"
      "\<lparr>adPlan = alPlan (warmStage i (scanWorkers i p) h), adAdvertisable = [], adBurst = []\<rparr>" t]
  by (simp add: admissible_def)

lemma advertisedNow_debt: "advertisedNow h True wbp rv D t = False"
  by (simp add: advertisedNow_def retained_def eligible_def)

lemma advertiseStage_capInv:
  assumes "admissible i p h"
  defines "ad \<equiv> advertiseStage i (scanWorkers i p) h"
  shows "capInv (sortedTargetsByPriority (piTargets i)) h (finalDesired i p h) (adPlan ad)
    (max (h - gsum (plAdvertisedCapacity (adPlan ad))) 0)"
proof -
  let ?ts = "sortedTargetsByPriority (piTargets i)"
  have keys: "keysOK ?ts (adPlan ad)"
    unfolding ad_def advertiseStage_def
    by (rule advertise_fold_keys) (use assms(1) in \<open>auto simp: admissible_def keysOK_def\<close>)
  have adv: "advertisedOf (adPlan ad) (tgID t) = (if nowAdvertised i p h t then finalDesired i p h (tgID t) else 0)"
    if "t \<in> set ?ts" for t
    using that advertiseStage_capacity [OF assms(1), of t] by (simp add: ad_def)
  have nn: "0 \<le> finalDesired i p h (tgID t)" if "t \<in> set ?ts" for t
    using that finalDesired_nonneg [OF assms(1)] by simp
  have "(\<Sum>t\<leftarrow>?ts. advertisedOf (adPlan ad) (tgID t)) \<le> h"
  proof (cases "debtOf i h")
    case True
    then have "(\<Sum>t\<leftarrow>?ts. advertisedOf (adPlan ad) (tgID t)) = (\<Sum>t\<leftarrow>?ts. 0)"
      by (intro arg_cong [where f = sum_list] map_cong) (auto simp: adv advertisedNow_debt)
    then show ?thesis using assms(1) by (simp add: admissible_def)
  next
    case False
    have "(\<Sum>t\<leftarrow>?ts. advertisedOf (adPlan ad) (tgID t)) \<le> (\<Sum>t\<leftarrow>?ts. finalDesired i p h (tgID t))"
      by (intro sum_list_mono_int) (simp add: adv nn)
    then show ?thesis
      using finalDesired_sum [OF assms(1)] False by simp
  qed
  moreover have "gsum (plAdvertisedCapacity (adPlan ad)) = (\<Sum>t\<leftarrow>?ts. advertisedOf (adPlan ad) (tgID t))"
    using gsum_targets [OF keys] assms(1) by (simp add: admissible_def)
  ultimately show ?thesis
    using keys by (simp add: capInv_def adv nn le_max_iff_disj)
qed

abbreviation burstStage :: "PlanInput \<Rightarrow> Plan \<Rightarrow> int \<Rightarrow> budgetState" where
  "burstStage i p h \<equiv> burstPass h (advertiseStage i (scanWorkers i p) h)"

lemma advertiseStage_burst:
  assumes "c \<in> set (adBurst (advertiseStage i (scanWorkers i p) h))"
  shows "\<exists>t \<in> set (piTargets i). bcPoolID c = tgID t \<and> bcMaxCapacity c = tgMaxCapacity t \<and>
    bcRemovable c = filter isNonbusy (workersOf i (tgID t))"
  using advertise_burst [OF assms [unfolded advertiseStage_def]] by auto

lemma burstStage_capInv:
  assumes "admissible i p h"
  shows "capInv (sortedTargetsByPriority (piTargets i)) h (finalDesired i p h)
    (bgPlan (burstStage i p h)) (bgBudget (burstStage i p h))"
  unfolding burstPass_def Let_def
  by (rule burst_fold_capInv)
    (use assms advertiseStage_capInv [OF assms] advertiseStage_burst in \<open>fastforce simp: admissible_def\<close>)+

lemma burstStage_capacity:
  assumes "admissible i p h" and "t \<in> set (piTargets i)"
  shows "advertisedOf (bgPlan (burstStage i p h)) (tgID t) \<le> finalDesired i p h (tgID t) + 1"
proof -
  let ?ad = "advertiseStage i (scanWorkers i p) h"
  let ?cs = "sort_key (\<lambda>c. geti (plAdvertisedCapacity (adPlan ?ad)) (bcPoolID c) \<noteq> 0) (adBurst ?ad)"
  obtain new where "adBurst ?ad = new" "subseq (map bcPoolID new) (map tgID (sortedTargetsByPriority (piTargets i)))"
    using advertise_burst_distinct unfolding advertiseStage_def
    by (metis (no_types, lifting) advertiseState.select_convs(3) append_Nil)
  then have "distinct (map bcPoolID (adBurst ?ad))"
    using assms(1) subseq_distinct by (fastforce simp: admissible_def)
  then have "distinct (map bcPoolID ?cs)"
    by (simp add: distinct_map)
  moreover have "advertisedOf (adPlan ?ad) (tgID t) \<le> finalDesired i p h (tgID t)"
    using advertiseStage_capacity [OF assms] finalDesired_nonneg [OF assms] by simp
  ultimately show ?thesis
    unfolding burstPass_def Let_def
    using burst_fold_capacity(1) [of ?cs] by (smt (verit) budgetState.select_convs(1))
qed

definition serviceStart :: "PlanInput \<Rightarrow> Plan \<Rightarrow> int \<Rightarrow> serviceState" where
  "serviceStart i p h = \<lparr>svPlan = bgPlan (burstStage i p h),
     svSlots = max (h - countBy workerActive (piWorkers i) - plannedStarts (bgPlan (burstStage i p h))) 0,
     svBudget = bgBudget (burstStage i p h),
     svMemoryRemaining = alMemoryRemaining (warmStage i (scanWorkers i p) h)\<rparr>"

abbreviation serviceStage :: "PlanInput \<Rightarrow> Plan \<Rightarrow> int \<Rightarrow> serviceState" where
  "serviceStage i p h \<equiv> foldl (serviceTarget i (evaluateMemoryBasis i) (previousCapacityByPool i)
     (bgAdvertisable (burstStage i p h))) (serviceStart i p h) (sortedTargetsByPriority (piTargets i))"

lemma serviceStage_inv:
  assumes "admissible i p h"
  shows "serviceInv (evaluateMemoryBasis i) (previousCapacityByPool i) (bgAdvertisable (burstStage i p h))
    (sortedTargetsByPriority (piTargets i)) h (finalDesired i p h) (serviceStart i p h) (serviceStage i p h)"
  by (rule serviceInv_fold)
    (use assms burstStage_capInv [OF assms] in \<open>auto simp: serviceInv_def serviceStart_def admissible_def\<close>)

lemma planAdmitted_sel:
  "plDesiredWorkers (planAdmitted i (scanWorkers i p) h) = plDesiredWorkers (alPlan (warmStage i (scanWorkers i p) h))"
  "plStart (planAdmitted i (scanWorkers i p) h) = plStart p @ admittedStarts i p h"
  "plRemove (planAdmitted i (scanWorkers i p) h) = plRemove (bgPlan (burstStage i p h))"
  "plQuiesceReason (planAdmitted i (scanWorkers i p) h) = plQuiesceReason (bgPlan (burstStage i p h))"
  "plAdvertisedCapacity (planAdmitted i (scanWorkers i p) h) =
     plAdvertisedCapacity (if debtOf i h then bgPlan (burstStage i p h) else svPlan (serviceStage i p h))"
  "plMemoryHeadroom (planAdmitted i (scanWorkers i p) h) =
     (if debtOf i h then alMemoryRemaining (warmStage i (scanWorkers i p) h)
      else svMemoryRemaining (serviceStage i p h))"
  by (auto simp: planAdmitted_stages servicePass_def serviceStart_def Let_def service_fold
      burstPass_def burst_fold advertiseStage_def advertise_fold)

lemma planAdmitted_capInv:
  assumes "admissible i p h"
  shows "\<exists>b. capInv (sortedTargetsByPriority (piTargets i)) h (finalDesired i p h)
    (planAdmitted i (scanWorkers i p) h) b"
proof (cases "debtOf i h")
  case True
  then have eq: "plAdvertisedCapacity (planAdmitted i (scanWorkers i p) h) = plAdvertisedCapacity (bgPlan (burstStage i p h))"
    using planAdmitted_sel(5) [of i p h] by simp
  show ?thesis
    using burstStage_capInv [OF assms] unfolding capInv_cong [OF eq] by blast
next
  case False
  then have eq: "plAdvertisedCapacity (planAdmitted i (scanWorkers i p) h) = plAdvertisedCapacity (svPlan (serviceStage i p h))"
    using planAdmitted_sel(5) [of i p h] by simp
  show ?thesis
    using serviceStage_inv [OF assms] unfolding capInv_cong [OF eq] serviceInv_def by blast
qed

text \<open>Only pools whose listener is ready and whose assignments are within their maximum advertise.\<close>

lemma planAdmitted_eligible:
  assumes "admissible i p h" and "advertisedOf (planAdmitted i (scanWorkers i p) h) k \<noteq> 0"
  shows "eligible (debtOf i h) (reserveStage i (scanWorkers i p) h) k"
proof -
  let ?ad = "advertiseStage i (scanWorkers i p) h"
  let ?el = "eligible (debtOf i h) (reserveStage i (scanWorkers i p) h)"
  have fresh: "geti (plAdvertisedCapacity p) k = 0" for k
    using assms(1) by (simp add: admissible_def)
  let ?st0 = "\<lparr>adPlan = alPlan (warmStage i (scanWorkers i p) h), adAdvertisable = [], adBurst = []\<rparr>"
  have r: "?ad = foldl (advertiseTarget h (debtOf i h) (scWorkersByPool (scanWorkers i p))
      (reserveStage i (scanWorkers i p) h)) ?st0 (sortedTargetsByPriority (piTargets i))"
    by (simp add: advertiseStage_def)
  have "getb (adAdvertisable ?st0) k \<Longrightarrow> ?el k" "c \<in> set (adBurst ?st0) \<Longrightarrow> ?el (bcPoolID c)"
    "advertisedOf (adPlan ?st0) k \<noteq> 0 \<Longrightarrow> ?el k" for k c
    using fresh by simp_all
  note ad = advertise_eligible [OF this r]
  have bg: "\<forall>k. advertisedOf (bgPlan (burstStage i p h)) k \<noteq> 0 \<longrightarrow> ?el k"
    unfolding burstPass_def Let_def
  proof (rule foldl_invariant [where P = "\<lambda>st. \<forall>k. advertisedOf (bgPlan st) k \<noteq> 0 \<longrightarrow> ?el k"])
    fix st :: budgetState and c
    assume "c \<in> set (sort_key (\<lambda>c. advertisedOf (adPlan ?ad) (bcPoolID c) \<noteq> 0) (adBurst ?ad))"
      and P: "\<forall>k. advertisedOf (bgPlan st) k \<noteq> 0 \<longrightarrow> ?el k"
    then have "?el (bcPoolID c)" using ad(2) [of c] by simp
    then show "\<forall>k. advertisedOf (bgPlan (burstStep st c)) k \<noteq> 0 \<longrightarrow> ?el k"
      using P by (simp add: burstStep_sel(4))
  qed (use ad(3) in simp)
  have adv: "getb (bgAdvertisable (burstStage i p h)) k \<Longrightarrow> ?el k" for k
    unfolding burstPass_def Let_def by (drule burst_fold_advertisable) (use ad(1) [of k] in simp)
  have "?el k" if "advertisedOf (svPlan (serviceStage i p h)) k \<noteq> 0"
  proof (cases "advertisedOf (svPlan (serviceStage i p h)) k = advertisedOf (svPlan (serviceStart i p h)) k")
    case True
    then show ?thesis
      using that bg by (simp add: serviceStart_def)
  next
    case False
    then show ?thesis
      using serviceStage_inv [OF assms(1)] adv by (simp add: serviceInv_def)
  qed
  then show ?thesis
    using assms(2) bg planAdmitted_sel(5) [of i p h] by (auto split: if_splits)
qed

lemma planAdmitted_floor:
  assumes "admissible i p h" and "mbFloorBlocked (evaluateMemoryBasis i)" and "t \<in> set (piTargets i)"
  shows "advertisedOf (planAdmitted i (scanWorkers i p) h) (tgID t) \<le>
    max (geti (previousCapacityByPool i) (tgID t)) (finalDesired i p h (tgID t) + 1)"
  using serviceStage_inv [OF assms(1)] assms(2) burstStage_capacity [OF assms(1,3)]
    planAdmitted_sel(5) [of i p h]
  by (auto simp: serviceInv_def serviceStart_def le_max_iff_disj split: if_splits dest!: spec [of _ "tgID t"])

lemma planAdmitted_memory:
  assumes "admissible i p h"
  shows "startBytes i (plStart (planAdmitted i (scanWorkers i p) h)) +
    uint (plMemoryHeadroom (planAdmitted i (scanWorkers i p) h)) \<le> uint (mbRemaining (evaluateMemoryBasis i))"
  using admittedStarts_bytes [OF assms] serviceStage_inv [OF assms] assms
  by (auto simp: planAdmitted_sel serviceInv_def serviceStart_def admissible_def)

section \<open>Assigned jobs come before warm workers\<close>

definition demandOf :: "PlanInput \<Rightarrow> Target \<Rightarrow> int" where
  "demandOf i t =
     (if poolReady (poolsByID (piPools i)) (tgID t)
      then max (min (assignedJobs (poolsByID (piPools i)) (tgID t)) (tgMaxCapacity t)) (busyIn i (tgID t))
      else busyIn i (tgID t))"

lemma assignedDemand_stage:
  assumes "admissible i p h" and "t \<in> set (piTargets i)"
  shows "assignedDemand (snd (countStage i (scanWorkers i p) h)) (reserveStage i (scanWorkers i p) h) (tgID t) =
    demandOf i t"
  using assms countStage_counts(2) [OF assms] reserveStage_maps [of i t]
  by (simp add: assignedDemand_def demandOf_def admissible_def)

definition assignInv ::
  "PlanInput \<Rightarrow> memoryBasis \<Rightarrow> poolCounts \<Rightarrow> reserveState \<Rightarrow> Target list \<Rightarrow> int \<Rightarrow> Target list \<Rightarrow> allocState \<Rightarrow> bool" where
  "assignInv i gate counts rv ts slots us st \<longleftrightarrow>
     allocInv i gate counts ts slots st \<and> (\<forall>t \<in> set us. served counts rv st (tgID t)) \<and>
     (\<forall>k. desiredOf st k \<le> assignedDemand counts rv k)"

lemma assignInv_step:
  assumes "distinct (map tgID ts)" and "t \<in> set ts" and "reservationsOK rv ts"
    and inv: "assignInv i gate counts rv ts slots us st"
  shows "assignInv i gate counts rv ts slots (us @ [t]) (assignTarget i gate counts rv st t)"
proof -
  have al: "allocInv i gate counts ts slots st" using inv by (simp add: assignInv_def)
  then have "poolInv gate counts st t" using assms(2) by (simp add: allocInv_def)
  then have nn: "0 \<le> startsOf counts st t + countedOf st (tgID t)" by (simp add: poolInv_def)
  note le = assignTarget_le [OF assms(2) al nn, where rv = rv]
  have "served counts rv (assignTarget i gate counts rv st t) (tgID u)" if "u \<in> set (us @ [t])" for u
    using that inv le(2) served_le [OF le(1)] by (auto simp: assignInv_def)
  then show ?thesis
    using inv le(3) allocInv_assign [OF assms(1,2) al assms(3)] by (simp add: assignInv_def)
qed

lemma assignInv_fold:
  assumes "distinct (map tgID ts)" and "reservationsOK rv ts"
    and "assignInv i gate counts rv ts slots [] st" and "set us \<subseteq> set ts"
  shows "assignInv i gate counts rv ts slots us (foldl (assignTarget i gate counts rv) st us)"
  using assms(4)
proof (induction us rule: rev_induct)
  case Nil
  then show ?case using assms(3) by simp
next
  case (snoc t us)
  then show ?case
    using assignInv_step [OF assms(1) _ assms(2)] by simp
qed

lemma warm_fold_le:
  assumes "distinct (map tgID ts)" and "reservationsOK rv ts"
    and "allocInv i gate counts ts slots st" and "set us \<subseteq> set ts"
  shows "allocInv i gate counts ts slots (foldl (warmTarget i gate counts rv) st us) \<and>
    allocLe st (foldl (warmTarget i gate counts rv) st us)"
  using assms(4)
proof (induction us rule: rev_induct)
  case Nil
  then show ?case using assms(3) by simp
next
  case (snoc t us)
  then have t: "t \<in> set ts" and IH: "allocInv i gate counts ts slots (foldl (warmTarget i gate counts rv) st us)"
    "allocLe st (foldl (warmTarget i gate counts rv) st us)" by auto
  show ?case
    using allocInv_warm [OF assms(1) t IH(1) assms(2)] allocLe_trans [OF IH(2) warmTarget_le [OF t IH(1)]]
    by simp
qed

lemma assignStage_first:
  assumes "admissible i p h"
  shows "assignInv i (evaluateMemoryBasis i) (snd (countStage i (scanWorkers i p) h))
    (reserveStage i (scanWorkers i p) h) (sortedTargetsByPriority (piTargets i)) (slotsOf i h)
    (sortedTargetsByPriority (piTargets i)) (assignStage i (scanWorkers i p) h)"
proof -
  have ids: "distinct (map tgID (sortedTargetsByPriority (piTargets i)))"
    using assms by (simp add: admissible_def)
  have "desiredOf (allocStart i p h) k \<le>
      assignedDemand (snd (countStage i (scanWorkers i p) h)) (reserveStage i (scanWorkers i p) h) k" for k
    using assms
    by (simp add: allocStart_def assignedDemand_def countStage_def countTarget_counts admissible_def)
  then show ?thesis
    unfolding assignStage_def allocStart_def [symmetric]
    using assignInv_fold [OF ids reserveStage_OK] allocStart_inv [OF assms] assms
    by (simp add: assignInv_def admissible_def)
qed

lemma assignments_first:
  assumes "admissible i p h"
  shows "(\<forall>t \<in> set (piTargets i). demandOf i t \<le> finalDesired i p h (tgID t) \<or>
      getb (plMemoryClamped (alPlan (warmStage i (scanWorkers i p) h))) (tgID t)) \<or>
    (\<forall>t \<in> set (piTargets i). finalDesired i p h (tgID t) \<le> demandOf i t)"
proof -
  let ?a = "assignStage i (scanWorkers i p) h" and ?w = "warmStage i (scanWorkers i p) h"
  let ?ts = "sortedTargetsByPriority (piTargets i)"
  note first = assignStage_first [OF assms, unfolded assignInv_def]
  have ids: "distinct (map tgID ?ts)" and OK: "reservationsOK (reserveStage i (scanWorkers i p) h) ?ts"
    using assms reserveStage_OK by (auto simp: admissible_def)
  have le: "allocLe ?a ?w"
    unfolding warmStage_def using warm_fold_le [OF ids OK] first by blast
  show ?thesis
  proof (cases "alRemaining ?a = 0")
    case True
    have "finalDesired i p h (tgID t) \<le> demandOf i t" if "t \<in> set (piTargets i)" for t
    proof -
      have "desiredOf ?w (tgID t) = desiredOf ?a (tgID t)"
        using le True by (simp add: allocLe_def)
      also have "\<dots> \<le> assignedDemand (snd (countStage i (scanWorkers i p) h))
          (reserveStage i (scanWorkers i p) h) (tgID t)"
        using first by blast
      finally show ?thesis
        using assignedDemand_stage [OF assms that] by simp
    qed
    then show ?thesis by blast
  next
    case False
    have "demandOf i t \<le> finalDesired i p h (tgID t) \<or> getb (plMemoryClamped (alPlan ?w)) (tgID t)"
      if "t \<in> set (piTargets i)" for t
    proof -
      have "served (snd (countStage i (scanWorkers i p) h)) (reserveStage i (scanWorkers i p) h) ?a (tgID t)"
        using first that by simp
      then have "demandOf i t \<le> desiredOf ?a (tgID t) \<or> getb (plMemoryClamped (alPlan ?a)) (tgID t)"
        using False assignedDemand_stage [OF assms that] by (simp add: served_def)
      moreover have "desiredOf ?a (tgID t) \<le> desiredOf ?w (tgID t)"
        "getb (plMemoryClamped (alPlan ?a)) (tgID t) \<Longrightarrow> getb (plMemoryClamped (alPlan ?w)) (tgID t)"
        using le by (simp_all add: allocLe_def)
      ultimately show ?thesis
        by (metis order_trans)
    qed
    then show ?thesis by blast
  qed
qed

lemma planAdmitted_clamped:
  "getb (plMemoryClamped (alPlan (warmStage i (scanWorkers i p) h))) k \<Longrightarrow>
     getb (plMemoryClamped (planAdmitted i (scanWorkers i p) h)) k"
  by (auto simp: planAdmitted_stages servicePass_def Let_def burstPass_def burst_fold advertiseStage_def
      advertise_fold intro!: service_fold_clamped)

section \<open>Removals of an admitted plan\<close>

text \<open>A removal names a worker of the input that is gone, or a non-busy one of a known pool.\<close>

definition removeOK :: "PlanInput \<Rightarrow> Worker list \<Rightarrow> bool" where
  "removeOK i ws \<longleftrightarrow>
     (\<forall>w \<in> set ws. w \<in> set (piWorkers i) \<and> (isGone w \<or> isNonbusy w \<and> wPoolID w \<in> targetIDs i))"

lemma removeOK_append [simp]: "removeOK i (xs @ ys) \<longleftrightarrow> removeOK i xs \<and> removeOK i ys"
  by (auto simp: removeOK_def)

lemma removeOK_Nil [simp]: "removeOK i []"
  by (simp add: removeOK_def)

lemma removeOK_scan: "removeOK i (plRemove p) \<Longrightarrow> removeOK i (plRemove (scPlan (scanWorkers i p)))"
  by (auto simp: removeOK_def)

lemma removeOK_targets:
  assumes "set ts \<subseteq> set (piTargets i)"
  shows "removeOK i (concat (map (targetRemovals h debt (scWorkersByPool (scanWorkers i p)) rv D) ts))"
  using assms
  by (auto simp: removeOK_def targetRemovals_def workersOf_set targetIDs_def dest!: in_set_takeD split: if_splits)

lemma burstStage_remove:
  "\<exists>new. plRemove (bgPlan (burstStage i p h)) = plRemove (scPlan (scanWorkers i p)) @
     concat (map (targetRemovals h (debtOf i h) (scWorkersByPool (scanWorkers i p))
       (reserveStage i (scanWorkers i p) h) (finalDesired i p h)) (sortedTargetsByPriority (piTargets i))) @ new \<and>
     set new \<subseteq> \<Union> (set ` bcRemovable ` set (adBurst (advertiseStage i (scanWorkers i p) h)))"
  using burst_fold_remove [of "\<lparr>bgPlan = adPlan (advertiseStage i (scanWorkers i p) h),
      bgAdvertisable = adAdvertisable (advertiseStage i (scanWorkers i p) h),
      bgBudget = max (h - gsum (plAdvertisedCapacity (adPlan (advertiseStage i (scanWorkers i p) h)))) 0\<rparr>"
      "sort_key (\<lambda>c. geti (plAdvertisedCapacity (adPlan (advertiseStage i (scanWorkers i p) h))) (bcPoolID c) \<noteq> 0)
        (adBurst (advertiseStage i (scanWorkers i p) h))"]
  by (auto simp: burstPass_def Let_def advertiseStage_def advertise_fold simp del: scanWorkers_sel(10))

lemma planAdmitted_remove:
  assumes "removeOK i (plRemove p)"
  shows "removeOK i (plRemove (planAdmitted i (scanWorkers i p) h))"
proof -
  obtain new where new: "plRemove (bgPlan (burstStage i p h)) = plRemove (scPlan (scanWorkers i p)) @
     concat (map (targetRemovals h (debtOf i h) (scWorkersByPool (scanWorkers i p))
       (reserveStage i (scanWorkers i p) h) (finalDesired i p h)) (sortedTargetsByPriority (piTargets i))) @ new"
    and sub: "set new \<subseteq> \<Union> (set ` bcRemovable ` set (adBurst (advertiseStage i (scanWorkers i p) h)))"
    using burstStage_remove [where i = i and p = p and h = h] by (elim exE conjE)
  have "removeOK i new"
    unfolding removeOK_def
  proof
    fix w
    assume "w \<in> set new"
    then obtain c where "c \<in> set (adBurst (advertiseStage i (scanWorkers i p) h))" "w \<in> set (bcRemovable c)"
      using sub by auto
    then show "w \<in> set (piWorkers i) \<and> (isGone w \<or> isNonbusy w \<and> wPoolID w \<in> targetIDs i)"
      using advertiseStage_burst [of c i p h] by (auto simp: workersOf_set targetIDs_def)
  qed
  then show ?thesis
    unfolding planAdmitted_sel(3) new removeOK_append
    by (intro conjI removeOK_scan [OF assms] removeOK_targets) simp_all
qed

section \<open>Desired workers while draining\<close>

lemma cover_desired:
  assumes "distinct (map tgID ts)" and "0 \<le> ouRemaining st"
    and "\<And>t. t \<in> set ts \<Longrightarrow> geti (plDesiredWorkers (ouPlan st)) (tgID t) = 0"
  shows "(\<Sum>t\<leftarrow>ts. geti (plDesiredWorkers (ouPlan (foldl (coverTarget i gate valid pools res wbp) st ts))) (tgID t)) \<le>
    (\<Sum>t\<leftarrow>ts. activeOf wbp (tgID t)) + ouRemaining st"
  using assms
proof (induction ts arbitrary: st)
  case Nil
  then show ?case by simp
next
  case (Cons t ts)
  let ?f = "coverTarget i gate valid pools res wbp"
  have frame: "geti (plDesiredWorkers (ouPlan (foldl ?f st ts))) k = geti (plDesiredWorkers (ouPlan st)) k"
    if "k \<notin> tgID ` set ts" for k st ts
    using that by (induction ts arbitrary: st) auto
  have t: "tgID t \<notin> tgID ` set ts" using Cons.prems(1) by simp
  then have ne: "tgID u \<noteq> tgID t" if "u \<in> set ts" for u
    using that by (metis image_eqI)
  have nn: "0 \<le> ouRemaining (?f st t)"
    using coverTarget_budget(1) [OF Cons.prems(2)] coverCount_bounds(2) [OF Cons.prems(2)] by simp
  have "geti (plDesiredWorkers (ouPlan (foldl ?f (?f st t) ts))) (tgID t) \<le>
      activeOf wbp (tgID t) + coverCount i gate valid pools res wbp st t"
    by (simp add: frame [OF t] activeOf_def)
  moreover have "(\<Sum>u\<leftarrow>ts. geti (plDesiredWorkers (ouPlan (foldl ?f (?f st t) ts))) (tgID u)) \<le>
      (\<Sum>u\<leftarrow>ts. activeOf wbp (tgID u)) + ouRemaining (?f st t)"
    using Cons.prems ne nn by (intro Cons.IH) auto
  ultimately show ?case
    using coverTarget_budget(1) [OF Cons.prems(2), of i gate valid pools res wbp t] by simp
qed

lemma drainPlan_desired:
  assumes "distinct (map tgID (piTargets i))" and "\<And>k. geti (plDesiredWorkers q) k = 0"
  shows "(\<Sum>t\<leftarrow>sortedTargetsByPriority (piTargets i). geti (plDesiredWorkers (fst (drainPlan i p q))) (tgID t)) \<le>
    max (hostWorkerLimit i) (countBy workerActive (piWorkers i))"
proof -
  let ?ts = "sortedTargetsByPriority (piTargets i)"
  let ?gate = "evaluateMemoryBasis i"
  let ?st0 = "\<lparr>ouPlan = appendSafeRemovals q (scWorkersByPool (scanWorkers i p)) (targetIDs i)
      (Some (outstandingReservations i)),
    ouRemaining = max (hostWorkerLimit i - countBy workerActive (piWorkers i)) 0, ouMemoryRemaining = mbRemaining ?gate\<rparr>"
  have "plDesiredWorkers (fst (drainPlan i p q)) = plDesiredWorkers (ouPlan (foldl (coverTarget i ?gate
      (memoryObservationValid i ?gate) (poolsByID (piPools i)) (outstandingReservations i)
      (scWorkersByPool (scanWorkers i p))) ?st0 ?ts))"
    using scan_workersByPool [of i p zeroPlan]
    by (simp add: drainPlan_def applyOutstandingAssignments_def outstandingReservations_def Let_def split: prod.split)
  moreover have "(\<Sum>t\<leftarrow>?ts. activeOf (scWorkersByPool (scanWorkers i p)) (tgID t)) \<le> countBy workerActive (piWorkers i)"
    using sum_pools_le [of ?ts workerActive i] assms(1) by (simp add: activeOf_def countBy_active)
  ultimately show ?thesis
    using cover_desired [of ?ts ?st0 i ?gate "memoryObservationValid i ?gate" "poolsByID (piPools i)"
        "outstandingReservations i" "scWorkersByPool (scanWorkers i p)"] assms
    by simp
qed

end
