(* ===== verification/Plan_Theorems.thy ===== *)
theory Plan_Theorems
  imports Plan_Props Samples
begin

text \<open>
  What \<open>buildPlan\<close> guarantees in every mode and gate state: removals are safe, listener capacity
  fails closed and stays within the host limit, starts stay within slots and memory, and the
  reported phase and reason agree.
\<close>

section \<open>Sample inputs\<close>

abbreviation sampleBusy :: "Worker list" where
  "sampleBusy \<equiv> [sampleWorker ''w1'' ''a'' WorkerBusy, sampleWorker ''w2'' ''b'' WorkerIdle]"

abbreviation samplePools :: "PoolSnapshot list" where
  "samplePools \<equiv> [samplePool ''a'' 1, samplePool ''b'' 1]"

lemmas sample_defs = sampleInput_def sampleConfig_def sampleTarget_def samplePower_def sampleResources_def
  sampleProfile_def zeroObservedState_def zeroResourceSnapshot_def zeroResourceGate_def

lemma sample_targets:
  "piTargets (sampleInput av m ws ps) = [sampleTarget ''b'' 0 2 2, sampleTarget ''a'' 1 2 1]"
  by (simp add: sampleInput_def sampleConfig_def)

lemma sample_ids [simp]: "distinct (map tgID (piTargets (sampleInput av m ws ps)))"
  by (simp add: sample_targets sampleTarget_def)

section \<open>The branches of the planner\<close>

lemma withNow_sel [simp]:
  "piConfig (withNow c i) = piConfig i" "piDesired (withNow c i) = piDesired i"
  "piPrevious (withNow c i) = piPrevious i" "piCapacityHysteresis (withNow c i) = piCapacityHysteresis i"
  "piPools (withNow c i) = piPools i" "piWorkers (withNow c i) = piWorkers i"
  "piResources (withNow c i) = piResources i" "piPower (withNow c i) = piPower i"
  "piDesktop (withNow c i) = piDesktop i" "piInputIdle (withNow c i) = piInputIdle i"
  "piEngineMemoryTotalBytes (withNow c i) = piEngineMemoryTotalBytes i"
  by (simp_all add: withNow_def)

text \<open>Neither the limit nor the memory basis reads the clock.\<close>

lemma withNow_policy [simp]:
  "hostWorkerLimit (withNow c i) = hostWorkerLimit i"
  "evaluateMemoryBasis (withNow c i) = evaluateMemoryBasis i"
  "memoryObservationValid (withNow c i) g = memoryObservationValid i g"
  "previousCapacityByPool (withNow c i) = previousCapacityByPool i"
  "targetIDs (withNow c i) = targetIDs i" "workersOf (withNow c i) = workersOf i"
  "startBytes (withNow c i) = startBytes i" "demandOf (withNow c i) = demandOf i"
  by (auto simp: hostWorkerLimit_def interactiveCapActive_def evaluateMemoryBasis_def memoryObservationValid_def
      previousCapacityByPool_def targetIDs_def workersOf_def startBytes_def poolMemory_def demandOf_def Let_def
      split: option.splits intro!: ext)

text \<open>Everything that must hold for new work to be admitted.\<close>

definition admitsWork :: "time \<Rightarrow> PlanInput \<Rightarrow> bool" where
  "admitsWork clock i \<longleftrightarrow>
     dsMode (piDesired i) = ModeEnabled \<and>
     snd (evaluatePowerGate (osPowerGate (piPrevious i)) (piPower i) (cfPower (piConfig i)) (piNow (withNow clock i))) \<and>
     dtDesktopRunning (piDesktop i) \<and> dtEngineReachable (piDesktop i) \<and>
     fst (snd (evaluateResourceGate (osResourceGate (piPrevious i)) (piResources i) (piPolicy i) (piNow (withNow clock i)))) \<and>
     0 \<le> hostWorkerLimit i"

definition sameFields :: "Plan \<Rightarrow> Plan \<Rightarrow> bool" where
  "sameFields p q \<longleftrightarrow>
     plStart p = plStart q \<and> plRemove p = plRemove q \<and> plAdvertisedCapacity p = plAdvertisedCapacity q \<and>
     plDesiredWorkers p = plDesiredWorkers q"

definition startPlan :: "time \<Rightarrow> PlanInput \<Rightarrow> Plan" where
  "startPlan clock i = fst (evaluateGates (withNow clock i) (initPlan (withNow clock i)))"

lemma buildPlan_unfold:
  "buildPlan clock i =
     (let j = withNow clock i; sc = scanWorkers j (startPlan clock i)
      in if \<not> modeValid (dsMode (piDesired i)) then planInvalidMode j sc
         else if dsMode (piDesired i) = ModeDisabled then planDisabled j sc
         else if dsMode (piDesired i) = ModeGaming then planGaming j sc
         else planEnabled j sc
           (fst (snd (evaluateResourceGate (osResourceGate (piPrevious i)) (piResources i) (piPolicy i) (piNow j))))
           (snd (evaluatePowerGate (osPowerGate (piPrevious i)) (piPower i) (cfPower (piConfig i)) (piNow j))))"
proof -
  have "snd (evaluateGates j p) =
      (fst (snd (evaluateResourceGate (osResourceGate (piPrevious j)) (piResources j) (piPolicy j) (piNow j))),
       snd (evaluatePowerGate (osPowerGate (piPrevious j)) (piPower j) (cfPower (piConfig j)) (piNow j)))" for j p
    by (simp add: evaluateGates_def Let_def split: prod.split)
  then show ?thesis
    by (simp add: buildPlan_def startPlan_def Let_def case_prod_unfold)
qed

lemma quiesce_sameFields [simp]: "sameFields (quiesce p r) q = sameFields p q"
  by (simp add: sameFields_def)

lemma mode_cases: "modeValid m \<Longrightarrow> m \<noteq> ModeDisabled \<Longrightarrow> m \<noteq> ModeGaming \<Longrightarrow> m = ModeEnabled"
  by (cases m) auto

lemma buildPlan_shape:
  fixes clock i
  defines "j \<equiv> withNow clock i" and "p \<equiv> startPlan clock i"
  shows "admitsWork clock i \<and> buildPlan clock i = planAdmitted j (scanWorkers j p) (hostWorkerLimit i) \<or>
    \<not> admitsWork clock i \<and> (\<exists>q. sameFields q (scPlan (scanWorkers j p)) \<and>
      (sameFields (buildPlan clock i) (fst (drainPlan j p q)) \<or> sameFields (buildPlan clock i) q \<or>
       sameFields (buildPlan clock i)
         (appendSafeRemovals q (scWorkersByPool (scanWorkers j p)) (targetIDs j) None)))"
proof -
  let ?sc = "scanWorkers j p"
  let ?m = "dsMode (piDesired i)"
  let ?healthy = "fst (snd (evaluateResourceGate (osResourceGate (piPrevious i)) (piResources i) (piPolicy i) (piNow j)))"
  let ?power = "snd (evaluatePowerGate (osPowerGate (piPrevious i)) (piPower i) (cfPower (piConfig i)) (piNow j))"
  let ?draining = "\<exists>q. sameFields q (scPlan ?sc) \<and> sameFields (buildPlan clock i) (fst (drainPlan j p q))"
  note unfolded = buildPlan_unfold [of clock i, unfolded Let_def, folded j_def p_def]
  show ?thesis
  proof (cases "modeValid ?m \<and> ?m \<noteq> ModeDisabled \<and> ?m \<noteq> ModeGaming")
    case False
    then have "\<not> admitsWork clock i" by (auto simp: admitsWork_def)
    moreover have ?draining
    proof (cases "modeValid ?m")
      case True
      then show ?thesis
        using False unfolded
        by (intro exI [of _ "scPlan ?sc"])
          (auto simp: planDisabled_def planGaming_def Let_def case_prod_unfold sameFields_def drainPlan_def)
    next
      case False
      then show ?thesis
        using unfolded
        by (intro exI [of _ "addProblem ((scPlan ?sc)\<lparr>plPhase := PhaseDegraded\<rparr>) _"])
          (auto simp: planInvalidMode_def sameFields_def drainPlan_def)
    qed
    ultimately show ?thesis by blast
  next
    case True
    then have b: "buildPlan clock i = planEnabled j ?sc ?healthy ?power" and m: "?m = ModeEnabled"
      using unfolded mode_cases by auto
    show ?thesis
    proof (cases "admitsWork clock i")
      case True
      then show ?thesis
        using b by (simp add: planEnabled_def admitsWork_def j_def)
    next
      case no: False
      consider (drain) "\<not> ?power \<or> dtDesktopRunning (piDesktop i) \<and> dtEngineReachable (piDesktop i) \<and> \<not> ?healthy"
        | (desktop) ?power "\<not> dtDesktopRunning (piDesktop i) \<or> \<not> dtEngineReachable (piDesktop i)"
        | (negative) ?power "dtDesktopRunning (piDesktop i)" "dtEngineReachable (piDesktop i)" ?healthy "hostWorkerLimit i < 0"
        using no m by (auto simp: admitsWork_def j_def not_le)
      then have "\<exists>q. sameFields q (scPlan ?sc) \<and>
        (sameFields (buildPlan clock i) (fst (drainPlan j p q)) \<or> sameFields (buildPlan clock i) q \<or>
         sameFields (buildPlan clock i) (appendSafeRemovals q (scWorkersByPool ?sc) (targetIDs j) None))"
      proof cases
        case drain
        then show ?thesis
          by (intro exI [of _ "scPlan ?sc"])
            (auto simp: b planEnabled_def planSuspended_def sameFields_def j_def drainPlan_def)
      next
        case desktop
        then show ?thesis
          by (intro exI [of _ "scPlan ?sc"]) (auto simp: b planEnabled_def sameFields_def j_def)
      next
        case negative
        then show ?thesis
          by (intro exI [of _ "addProblem ((scPlan ?sc)\<lparr>plPhase := PhaseDegraded\<rparr>) _"])
            (auto simp: b planEnabled_def sameFields_def j_def)
      qed
      then show ?thesis using no by blast
    qed
  qed
qed

lemma startPlan_sel [simp]:
  "plPhase (startPlan c i) = PhaseStarting" "plQuiesceReason (startPlan c i) = NoQuiesceReason"
  "plStart (startPlan c i) = []" "plRemove (startPlan c i) = []"
  "geti (plAdvertisedCapacity (startPlan c i)) k = 0" "geti (plDesiredWorkers (startPlan c i)) k = 0"
  "keysOK (piTargets i) (startPlan c i)"
  by (simp_all add: startPlan_def keysOK_def)

lemma startPlan_admissible:
  "distinct (map tgID (piTargets i)) \<Longrightarrow> 0 \<le> h \<Longrightarrow> admissible (withNow c i) (startPlan c i) h"
  by (simp add: admissible_def)

lemma removeOK_appendSafeRemovals:
  assumes "removeOK i (plRemove q)"
  shows "removeOK i (plRemove (appendSafeRemovals q (scWorkersByPool (scanWorkers i p)) (targetIDs i) d))"
  using assms safeRemovals_set
  by (fastforce simp: removeOK_def appendSafeRemovals_remove workersOf_set dest!: scan_entry split: if_splits)

lemma buildPlan_removeOK: "removeOK i (plRemove (buildPlan clock i))"
proof -
  let ?j = "withNow clock i" and ?p = "startPlan clock i"
  have OK: "removeOK ?j ws = removeOK i ws" for ws by (simp add: removeOK_def)
  have sc: "removeOK ?j (plRemove (scPlan (scanWorkers ?j ?p)))" by (rule removeOK_scan) simp
  consider "buildPlan clock i = planAdmitted ?j (scanWorkers ?j ?p) (hostWorkerLimit i)"
    | q where "plRemove q = plRemove (scPlan (scanWorkers ?j ?p))"
        "plRemove (buildPlan clock i) = plRemove (fst (drainPlan ?j ?p q)) \<or> plRemove (buildPlan clock i) = plRemove q \<or>
         plRemove (buildPlan clock i) =
           plRemove (appendSafeRemovals q (scWorkersByPool (scanWorkers ?j ?p)) (targetIDs ?j) None)"
    using buildPlan_shape [of clock i] by (auto simp: sameFields_def)
  then show ?thesis
  proof cases
    case 1
    then show ?thesis
      using planAdmitted_remove [of ?j ?p "hostWorkerLimit i"] OK by simp
  next
    case 2
    then show ?thesis
      using removeOK_appendSafeRemovals [of ?j q ?p] sc OK drainPlan_remove [where i = ?j and p = ?p and q = q] by auto
  qed
qed

section \<open>Removals\<close>

text \<open>
  C5: whatever the mode, the gates and the observations, every worker a plan removes is a worker of
  the inventory, is not busy, and either has already exited or lost its registration or belongs to
  a configured pool; an active worker of an unknown pool is never removed.
\<close>

theorem buildPlan_removes_safely:
  "list_all (\<lambda>w. w \<in> set (piWorkers i) \<and> wState w \<noteq> WorkerBusy \<and>
     (wState w \<in> {WorkerExited, WorkerUnregistered} \<or>
      wState w \<in> {WorkerStarting, WorkerIdle} \<and> wPoolID w \<in> tgID ` set (piTargets i)))
   (plRemove (buildPlan clock i))"
  using buildPlan_removeOK [of i clock]
  by (auto simp: list_all_iff removeOK_def isGone_def isNonbusy_def targetIDs_def)

section \<open>Advertised capacity\<close>

lemma not_admitted_advertises_nothing:
  assumes "\<not> admitsWork clock i"
  shows "plAdvertisedCapacity (buildPlan clock i) = plAdvertisedCapacity (startPlan clock i)"
  using buildPlan_shape [of clock i] assms by (auto simp: sameFields_def)

lemma admitted_plan:
  assumes "admitsWork clock i"
  shows "buildPlan clock i = planAdmitted (withNow clock i) (scanWorkers (withNow clock i) (startPlan clock i))
      (hostWorkerLimit i)"
    and "0 \<le> hostWorkerLimit i"
  using buildPlan_shape [of clock i] assms by (auto simp: admitsWork_def)

lemma advertised_pool:
  assumes "distinct (map tgID (piTargets i))" and "t \<in> set (piTargets i)"
    and "geti (plAdvertisedCapacity (buildPlan clock i)) (tgID t) \<noteq> 0"
  shows "admitsWork clock i \<and> countBy isBusy (piWorkers i) \<le> hostWorkerLimit i \<and>
    poolReady (poolsByID (piPools i)) (tgID t) \<and>
    assignedJobs (poolsByID (piPools i)) (tgID t) \<le> tgMaxCapacity t"
proof -
  have admits: "admitsWork clock i"
    using not_admitted_advertises_nothing [of clock i] assms(3) by fastforce
  note plan = admitted_plan [OF admits]
  have "eligible (hostWorkerLimit i < countBy isBusy (piWorkers i))
      (reserveStage (withNow clock i) (scanWorkers (withNow clock i) (startPlan clock i)) (hostWorkerLimit i)) (tgID t)"
    using planAdmitted_eligible [OF startPlan_admissible [OF assms(1) plan(2)]] assms(3) plan(1) by simp
  then show ?thesis
    using admits reserveStage_maps [of "withNow clock i" t] assms(1,2) by (auto simp: eligible_def)
qed

text \<open>
  C6: listener capacity fails closed. If a plan advertises anything for a pool, then the desired mode
  is enabled, the power gate is open, Docker Desktop runs with a reachable engine, the resource
  gate is healthy, the host limit is not negative and not exceeded by busy workers, and the pool's
  listener is ready with no more assigned jobs than its configured maximum.
\<close>

theorem advertises_only_when_admitted:
  assumes "distinct (map tgID (piTargets i))"
  shows "list_all (\<lambda>t. geti (plAdvertisedCapacity (buildPlan clock i)) (tgID t) = 0 \<or>
    admitsWork clock i \<and> countBy isBusy (piWorkers i) \<le> hostWorkerLimit i \<and>
    poolReady (poolsByID (piPools i)) (tgID t) \<and>
    assignedJobs (poolsByID (piPools i)) (tgID t) \<le> tgMaxCapacity t) (piTargets i)"
  unfolding list_all_iff using advertised_pool [OF assms] by blast

text \<open>
  C7: the capacity advertised over all pools never exceeds the host-wide worker limit, and each pool
  advertises a non-negative amount of at most its configured maximum, or of its busy workers where
  those already exceed the maximum.
\<close>

theorem advertised_within_host_limit:
  assumes "distinct (map tgID (piTargets i))"
  shows "gsum (plAdvertisedCapacity (buildPlan clock i)) \<le> max 0 (hostWorkerLimit i) \<and>
    list_all (\<lambda>t. 0 \<le> geti (plAdvertisedCapacity (buildPlan clock i)) (tgID t) \<and>
      geti (plAdvertisedCapacity (buildPlan clock i)) (tgID t) \<le>
        max (tgMaxCapacity t) (countBy isBusy (workersOf i (tgID t)))) (piTargets i)"
proof (cases "admitsWork clock i")
  case False
  note eq = not_admitted_advertises_nothing [OF False]
  have "gsum (plAdvertisedCapacity (startPlan clock i)) = 0"
    using gsum_targets [OF startPlan_sel(7) assms] by simp
  then show ?thesis
    by (simp add: eq list_all_iff le_max_iff_disj)
next
  case True
  note plan = admitted_plan [OF True]
  let ?ts = "sortedTargetsByPriority (piTargets i)"
  note ok = startPlan_admissible [OF assms plan(2), of clock]
  obtain b where "capInv ?ts (hostWorkerLimit i) (finalDesired (withNow clock i) (startPlan clock i) (hostWorkerLimit i))
      (buildPlan clock i) b"
    using planAdmitted_capInv [OF ok] plan(1) by auto
  then have inv: "0 \<le> b" "(\<Sum>t\<leftarrow>?ts. advertisedOf (buildPlan clock i) (tgID t)) + b = hostWorkerLimit i"
    "keysOK ?ts (buildPlan clock i)"
    "\<And>t. t \<in> set (piTargets i) \<Longrightarrow> 0 \<le> advertisedOf (buildPlan clock i) (tgID t) \<and>
       advertisedOf (buildPlan clock i) (tgID t) \<le> max (tgMaxCapacity t)
         (finalDesired (withNow clock i) (startPlan clock i) (hostWorkerLimit i) (tgID t))"
    by (auto simp: capInv_def)
  have "gsum (plAdvertisedCapacity (buildPlan clock i)) = (\<Sum>t\<leftarrow>?ts. advertisedOf (buildPlan clock i) (tgID t))"
    using gsum_targets [OF inv(3)] assms by simp
  moreover have "advertisedOf (buildPlan clock i) (tgID t) \<le>
      max (tgMaxCapacity t) (countBy isBusy (workersOf i (tgID t)))" if "t \<in> set (piTargets i)" for t
    using inv(4) [OF that] finalDesired_bounds(2) [OF ok, of t] that by (auto simp: le_max_iff_disj)
  ultimately show ?thesis
    using inv by (simp add: list_all_iff)
qed

section \<open>Starts\<close>

definition startsOK :: "PlanInput \<Rightarrow> int \<Rightarrow> StartDecision list \<Rightarrow> bool" where
  "startsOK i slots ds \<longleftrightarrow>
     startCount ds \<le> max 0 slots \<and>
     (memoryObservationValid i (evaluateMemoryBasis i) \<longrightarrow> startBytes i ds \<le> uint (mbRemaining (evaluateMemoryBasis i))) \<and>
     (mbFloorBlocked (evaluateMemoryBasis i) \<longrightarrow> ds = []) \<and>
     list_all (\<lambda>d. 0 < sdCount d) ds \<and> distinct (map sdPoolID ds) \<and>
     set (map sdPoolID ds) \<subseteq> targetIDs i"

lemma startsOK_withNow [simp]: "startsOK (withNow c i) = startsOK i"
  by (simp add: startsOK_def fun_eq_iff)

lemma startsOK_drain:
  "drainStartsOK i ds \<Longrightarrow> startsOK i (hostWorkerLimit i - countBy workerActive (piWorkers i)) ds"
  by (auto simp: startsOK_def drainStartsOK_def list_all_iff max.commute)

lemma startsOK_mono: "startsOK i a ds \<Longrightarrow> a \<le> b \<Longrightarrow> startsOK i b ds"
  by (auto simp: startsOK_def)

lemma startsOK_Nil [simp]: "startsOK i a []"
  by (simp add: startsOK_def)

lemma startsOK_admitted:
  assumes "admissible i p h"
  shows "startsOK i (h - countBy isBusy (piWorkers i)) (plStart (planAdmitted i (scanWorkers i p) h))"
proof -
  have starts: "plStart (planAdmitted i (scanWorkers i p) h) = admittedStarts i p h"
    using assms by (simp add: planAdmitted_sel admissible_def)
  have sub: "subseq (map sdPoolID (admittedStarts i p h)) (map tgID (sortedTargetsByPriority (piTargets i)))"
    by (rule admittedStarts_pools)
  have "startBytes i (admittedStarts i p h) \<le> uint (mbRemaining (evaluateMemoryBasis i))"
    using admittedStarts_bytes [OF assms] by (rule add_uint_le)
  moreover have "list_all (\<lambda>d. 0 < sdCount d) (admittedStarts i p h)"
    by (auto simp: list_all_iff targetStarts_def split: if_splits)
  moreover have "distinct (map sdPoolID (admittedStarts i p h))"
    using subseq_distinct [OF sub] assms by (simp add: admissible_def)
  moreover have "set (map sdPoolID (admittedStarts i p h)) \<subseteq> targetIDs i"
    using subseq_set [OF sub] by (simp add: targetIDs_def)
  ultimately show ?thesis
    unfolding startsOK_def starts using admittedStarts_count [OF assms] admittedStarts_floor [OF assms] by blast
qed

lemma not_admitted_starts:
  assumes "\<not> admitsWork clock i" and "distinct (map tgID (piTargets i))"
  shows "startsOK i (hostWorkerLimit i - countBy workerActive (piWorkers i)) (plStart (buildPlan clock i))"
proof -
  let ?j = "withNow clock i" and ?p = "startPlan clock i"
  obtain q where q: "plStart q = []"
    and "plStart (buildPlan clock i) = plStart (fst (drainPlan ?j ?p q)) \<or> plStart (buildPlan clock i) = []"
    using buildPlan_shape [of clock i] assms(1) by (auto simp: sameFields_def)
  then show ?thesis
    using startsOK_drain [OF drainPlan_starts [of ?j q ?p]] assms(2) by auto
qed

lemma buildPlan_startsOK:
  assumes "distinct (map tgID (piTargets i))"
  shows "startsOK i (hostWorkerLimit i - countBy isBusy (piWorkers i)) (plStart (buildPlan clock i))"
proof (cases "admitsWork clock i")
  case True
  then show ?thesis
    using startsOK_admitted [OF startPlan_admissible [OF assms]] admitted_plan [OF True] by simp
next
  case False
  have "countBy isBusy (piWorkers i) \<le> countBy workerActive (piWorkers i)"
    by (rule countBy_le) (simp add: workerActive_iff)
  then show ?thesis
    by (intro startsOK_mono [OF not_admitted_starts [OF False assms]]) simp
qed


text \<open>
  C10: while no new work is admitted (the mode is not enabled, or a gate is closed), the workers
  started for work GitHub had already assigned never take the number of active workers above the
  host limit.
\<close>

theorem drain_starts_within_limit:
  assumes "distinct (map tgID (piTargets i))" and "\<not> admitsWork clock i"
  shows "countBy workerActive (piWorkers i) + plannedStarts (buildPlan clock i) \<le>
    max (countBy workerActive (piWorkers i)) (hostWorkerLimit i)"
  using not_admitted_starts [OF assms(2,1)] by (auto simp: startsOK_def startCount_def plannedStarts_def)

section \<open>Desired workers\<close>

text \<open>
  C11: a plan never asks for more workers than the host limit, or than are already active where that
  is more.
\<close>

theorem desired_within_limit:
  assumes "distinct (map tgID (piTargets i))"
  shows "(\<Sum>t\<leftarrow>sortedTargetsByPriority (piTargets i). geti (plDesiredWorkers (buildPlan clock i)) (tgID t)) \<le>
    max (hostWorkerLimit i) (countBy workerActive (piWorkers i))"
proof (cases "admitsWork clock i")
  case True
  have "countBy isBusy (piWorkers i) \<le> countBy workerActive (piWorkers i)"
    by (rule countBy_le) (simp add: workerActive_iff)
  then show ?thesis
    using finalDesired_sum [OF startPlan_admissible [OF assms admitted_plan(2) [OF True], of clock]]
      admitted_plan(1) [OF True]
    by (simp add: planAdmitted_sel)
next
  case False
  let ?j = "withNow clock i" and ?p = "startPlan clock i"
  obtain q where "plDesiredWorkers q = plDesiredWorkers ?p"
    and "plDesiredWorkers (buildPlan clock i) = plDesiredWorkers (fst (drainPlan ?j ?p q)) \<or>
      plDesiredWorkers (buildPlan clock i) = plDesiredWorkers ?p"
    using buildPlan_shape [of clock i] False by (auto simp: sameFields_def)
  moreover have "0 \<le> countBy workerActive (piWorkers i)" by simp
  ultimately show ?thesis
    using drainPlan_desired [of ?j q ?p] assms by (auto simp del: countBy_nonneg)
qed

text \<open>
  C12: an admitted plan keeps every busy worker of a configured pool among the desired ones and
  desires no more workers of a pool than its maximum, unless more are busy.
\<close>

theorem admitted_desired_bounds:
  assumes "distinct (map tgID (piTargets i))" and "admitsWork clock i"
  shows "list_all (\<lambda>t. countBy isBusy (workersOf i (tgID t)) \<le> geti (plDesiredWorkers (buildPlan clock i)) (tgID t) \<and>
      geti (plDesiredWorkers (buildPlan clock i)) (tgID t) \<le>
        max (tgMaxCapacity t) (countBy isBusy (workersOf i (tgID t)))) (piTargets i)"
  using finalDesired_bounds [OF startPlan_admissible [OF assms(1) admitted_plan(2) [OF assms(2)], of clock]]
    admitted_plan(1) [OF assms(2)]
  by (simp add: list_all_iff planAdmitted_sel)


section \<open>Memory\<close>



section \<open>Phase and reason\<close>

lemma planAdmitted_phase:
  "if plQuiesceReason (planAdmitted i sc h) = NoQuiesceReason then plPhase (planAdmitted i sc h) \<noteq> PhaseDraining
   else plPhase (planAdmitted i sc h) \<in> {PhaseDraining, PhaseDegraded}"
  by (simp add: planAdmitted_stages)

text \<open>
  C15: the reported phase and the reason for quiescing agree. Without a reason no plan is draining;
  with one the plan is draining, or degraded because it also reports problems.
\<close>

theorem phase_matches_reason:
  "if plQuiesceReason (buildPlan clock i) = NoQuiesceReason then plPhase (buildPlan clock i) \<noteq> PhaseDraining
   else plPhase (buildPlan clock i) \<in> {PhaseDraining, PhaseDegraded}"
  using planAdmitted_phase [of "withNow clock i" "scanWorkers (withNow clock i) (startPlan clock i)" "hostWorkerLimit i"]
  by (auto simp: buildPlan_unfold Let_def planInvalidMode_def planDisabled_def planGaming_def planEnabled_def
      planSuspended_def case_prod_unfold)

section \<open>Witnesses\<close>

lemma sample_limit: "hostWorkerLimit (sampleInput av m ws ps) = 2"
  by (simp add: hostWorkerLimit_def interactiveCapActive_def EffectiveMaximumConcurrentWorkers_def sample_defs)

lemma sample_now: "piNow (withNow c (sampleInput av m ws ps)) = 10 * minute"
  by (simp add: withNow_def timeIsZero_def sampleInput_def)

lemma sample_power:
  "snd (evaluatePowerGate (osPowerGate (piPrevious (sampleInput av m ws ps))) (piPower (sampleInput av m ws ps))
     (cfPower (piConfig (sampleInput av m ws ps))) (10 * minute))"
  by (simp add: evaluatePowerGate_def sampleInput_def sampleConfig_def samplePower_def timeSub_def
      minInt64_def maxInt64_def)

lemma sample_healthy:
  "av \<le> 34359738368 \<Longrightarrow> fst (snd (evaluateResourceGate (osResourceGate (piPrevious (sampleInput av m ws ps))) (piResources (sampleInput av m ws ps))
     (piPolicy (sampleInput av m ws ps)) (10 * minute)))"
  by (simp add: evaluateResourceGate_def sampleInput_def sampleConfig_def sampleResources_def zeroObservedState_def
      zeroResourceGate_def invalidSnapshot_def isNaN_def isInf_def sampleSnapshot_def Let_def not_less)

lemma sample_admits: "av \<le> 34359738368 \<Longrightarrow> admitsWork 1 (sampleInput av ModeEnabled ws ps)"
  unfolding admitsWork_def sample_now sample_limit
  using sample_power [of av ModeEnabled ws ps] sample_healthy [of av ModeEnabled ws ps]
  by (simp add: sampleInput_def)

lemma sample_not_admits: "\<not> admitsWork 1 (sampleInput av ModeDisabled ws ps)"
  by (simp add: admitsWork_def sampleInput_def)

abbreviation sampleEnabled :: PlanInput where
  "sampleEnabled \<equiv> sampleInput 17179869184 ModeEnabled sampleBusy samplePools"

abbreviation sampleDisabled :: PlanInput where
  "sampleDisabled \<equiv> sampleInput 17179869184 ModeDisabled sampleBusy samplePools"

lemma sample_workers:
  "piWorkers (sampleInput av m ws ps) = ws" "countBy isBusy sampleBusy = 1" "countBy workerActive sampleBusy = 2"
  "countBy isBusy (workersOf (sampleInput av m sampleBusy ps) ''a'') = 1"
  by (simp_all add: sampleInput_def workersOf_def) (simp_all add: isBusy_def workerActive_def sampleWorker_def)

lemma sample_worker_states [simp]:
  "isBusy (sampleWorker k p st) \<longleftrightarrow> st = WorkerBusy" "wPoolID (sampleWorker k p st) = p"
  "workerActive (sampleWorker k p st) \<longleftrightarrow> st = WorkerStarting \<or> st = WorkerIdle \<or> st = WorkerBusy"
  by (simp_all add: isBusy_def workerActive_def sampleWorker_def)

lemma sample_target_sel [simp]: "tgID (sampleTarget k w m p) = k" "tgMaxCapacity (sampleTarget k w m p) = m"
  by (simp_all add: sampleTarget_def)

theorem advertises_only_when_admitted_witness:
  "geti (plAdvertisedCapacity (buildPlan 1 sampleDisabled)) ''a'' = 0"
  using advertises_only_when_admitted [of sampleDisabled 1] sample_not_admits by (simp add: sample_targets)

theorem advertised_within_host_limit_witness:
  "gsum (plAdvertisedCapacity (buildPlan 1 sampleEnabled)) \<le> 2 \<and>
   geti (plAdvertisedCapacity (buildPlan 1 sampleEnabled)) ''a'' \<le> 2"
  using advertised_within_host_limit [of sampleEnabled 1]
  by (simp add: sample_targets sample_limit sample_workers)


theorem drain_starts_within_limit_witness:
  "countBy workerActive sampleBusy + plannedStarts (buildPlan 1 sampleDisabled) \<le> 2"
  using drain_starts_within_limit [of sampleDisabled 1] sample_not_admits
  by (simp add: sample_limit sample_workers)

theorem desired_within_limit_witness:
  "(\<Sum>t\<leftarrow>sortedTargetsByPriority (piTargets sampleEnabled).
     geti (plDesiredWorkers (buildPlan 1 sampleEnabled)) (tgID t)) \<le> 2"
  using desired_within_limit [of sampleEnabled 1] by (simp add: sample_limit sample_workers)

theorem admitted_desired_bounds_witness:
  "1 \<le> geti (plDesiredWorkers (buildPlan 1 sampleEnabled)) ''a'' \<and>
   geti (plDesiredWorkers (buildPlan 1 sampleEnabled)) ''a'' \<le> 2"
  using admitted_desired_bounds [of sampleEnabled 1] sample_admits
  by (simp add: sample_targets sample_workers)



abbreviation sampleLow :: PlanInput where
  "sampleLow \<equiv> sampleInput 1073741824 ModeEnabled sampleBusy samplePools"

lemma sampleLow_floor: "mbFloorBlocked (evaluateMemoryBasis sampleLow)"
proof -
  have "hostMemoryAtFloor (sampleSnapshot 1073741824) sampleResources"
    by code_simp
  then show ?thesis
    by (simp add: evaluateMemoryBasis_def Let_def sampleInput_def sampleConfig_def) (simp add: sampleResources_def)
qed


end
