(* ===== verification/Capacity.thy ===== *)
theory Capacity
  imports Plan "HOL-Library.Multiset"
begin

text \<open>
  Moving advertised capacity between listeners: \<open>src/internal/controller/capacity_transition.go\<close>
  and the pure part of \<open>src/internal/controller/poll_cadence.go\<close>. A listener poll carries the
  capacity of one pool; the controller withdraws capacity from one pool before it gives it to
  another (\<open>sequenceCapacityTransfer\<close>), records a poll without claiming that GitHub acknowledged it
  (\<open>pollCheckpoint\<close>), and clamps what an open poll advertises to what memory still funds
  (\<open>memoryAffordableAdvertisedCapacity\<close>).

  The reconciler's \<open>pendingCapacity\<close> map is passed and returned. A nil map and an empty map are
  both the empty list, which is how the code reads them.
\<close>

section \<open>Sequencing a transfer\<close>

definition currentCapacity :: "ObservedState \<Rightarrow> int gomap" where
  "currentCapacity previous =
     foldl (\<lambda>current pool. gput current (poID pool) (max (poMaxCapacity pool) 0)) [] (osPools previous)"

definition hasDecrease :: "int gomap \<Rightarrow> int gomap \<Rightarrow> bool" where
  "hasDecrease current planned = list_ex (\<lambda>(poolID, capacity). capacity < geti current poolID) planned"

definition transferStep :: "bool \<Rightarrow> int gomap \<Rightarrow> int gomap \<Rightarrow> string \<times> int \<Rightarrow> int gomap" where
  "transferStep decrease current result entry =
     (let poolID = fst entry;
          capacity = max (snd entry) 0
      in gput result poolID
           (if decrease \<and> geti current poolID < capacity then geti current poolID else capacity))"

definition sequenceCapacityTransfer :: "ObservedState \<Rightarrow> int gomap \<Rightarrow> int gomap" where
  "sequenceCapacityTransfer previous planned =
     (let current = currentCapacity previous
      in foldl (transferStep (hasDecrease current planned) current) [] planned)"

section \<open>Checkpoints of an open poll\<close>

fun findPool :: "PoolSnapshot list \<Rightarrow> string \<Rightarrow> PoolSnapshot" where
  "findPool [] i = zeroPoolSnapshot\<lparr>psTargetID := i\<rparr>"
| "findPool (pool # pools) i = (if psTargetID pool = i then pool else findPool pools i)"

definition poolAcknowledgementTransitionAt ::
  "PoolObservation \<Rightarrow> int \<Rightarrow> string \<Rightarrow> int \<Rightarrow> bool \<Rightarrow> time \<Rightarrow> time" where
  "poolAcknowledgementTransitionAt prior scaleSetID listenerID capacity acknowledged now =
     (if timeIsZero (poUpdatedAt prior) \<or> poScaleSetID prior \<noteq> scaleSetID \<or>
         poListenerID prior \<noteq> listenerID \<or> poMaxCapacity prior \<noteq> capacity \<or>
         poCapacityAcknowledged prior \<noteq> acknowledged
      then now else poUpdatedAt prior)"

definition reconcilerTransitionAt ::
  "int gomap \<Rightarrow> string \<Rightarrow> PoolObservation \<Rightarrow> int \<Rightarrow> string \<Rightarrow> int \<Rightarrow> int \<Rightarrow> bool \<Rightarrow> time
     \<Rightarrow> time \<times> int gomap" where
  "reconcilerTransitionAt pending targetID prior scaleSetID listenerID capacity pendingCapacity acknowledged now =
     (let transitionAt = poolAcknowledgementTransitionAt prior scaleSetID listenerID capacity acknowledged now
      in if acknowledged then (transitionAt, gdelete pending targetID)
         else (if ghas pending targetID \<and> geti pending targetID \<noteq> pendingCapacity then now else transitionAt,
               gput pending targetID pendingCapacity))"

definition previousPoolsByID :: "ObservedState \<Rightarrow> PoolObservation gomap" where
  "previousPoolsByID previous = foldl (\<lambda>m pool. gput m (poID pool) pool) [] (osPools previous)"

definition checkpointPool ::
  "ObservedState \<Rightarrow> PoolSnapshot list \<Rightarrow> Plan \<Rightarrow> time \<Rightarrow> PoolObservation list \<times> int gomap \<Rightarrow> Target
     \<Rightarrow> PoolObservation list \<times> int gomap" where
  "checkpointPool previous pools plan now acc target =
     (let pool = findPool pools (tgID target);
          prior = gget zeroPoolObservation (previousPoolsByID previous) (tgID target);
          advertised = geti (plAdvertisedCapacity plan) (tgID target);
          acknowledged = (poCapacityAcknowledged prior \<and> poMaxCapacity prior = advertised \<and>
            poScaleSetID prior = idScaleSetID (psIdentity pool) \<and>
            poListenerID prior = idListenerID (psIdentity pool));
          confirmations = (if acknowledged \<and> poMaxCapacity prior = 0
            then poZeroCapacityConfirmations prior else 0);
          (updatedAt, pending) = reconcilerTransitionAt (snd acc) (tgID target) prior
            (idScaleSetID (psIdentity pool)) (idListenerID (psIdentity pool))
            (poMaxCapacity prior) advertised acknowledged now
      in (fst acc @
            [\<lparr>poID = tgID target, poScaleSetID = idScaleSetID (psIdentity pool),
              poListenerID = idListenerID (psIdentity pool),
              poTotalAssignedJobs = psTotalAssignedJobs pool, poMaxCapacity = poMaxCapacity prior,
              poCapacityAcknowledged = acknowledged, poZeroCapacityConfirmations = confirmations,
              poDrainServiceCapacity = psDrainServiceCapacity pool,
              poDesiredWorkers = geti (plDesiredWorkers plan) (tgID target),
              poUpdatedAt = updatedAt\<rparr>], pending))"

definition drainStarted :: "ObservedState \<Rightarrow> Phase \<Rightarrow> time \<Rightarrow> time option" where
  "drainStarted previous phase now =
     (if phase = PhaseDraining then
        (case osDrainStartedAt previous of
           None \<Rightarrow> Some now
         | Some started \<Rightarrow> if now < started then Some now else Some started)
      else None)"

definition pollCheckpoint ::
  "Config \<Rightarrow> string \<Rightarrow> ControllerCost \<Rightarrow> int gomap \<Rightarrow> ObservedState \<Rightarrow> PoolSnapshot list \<Rightarrow> Worker list
     \<Rightarrow> ResourceSnapshot \<Rightarrow> PowerSnapshot \<Rightarrow> DesktopStatus \<Rightarrow> Plan \<Rightarrow> time \<Rightarrow> Problem list
     \<Rightarrow> ObservedState \<times> int gomap" where
  "pollCheckpoint cfg version cost pending previous pools workers resources pwr desktop plan now operationProblems =
     (let (observedPools, pending') = foldl (checkpointPool previous pools plan now) ([], pending) (cfTargets cfg);
          phase = (if operationProblems \<noteq> [] then PhaseDegraded else plPhase plan)
      in (\<lparr>osSchemaVersion = 1, osPhase = phase, osHeartbeatAt = now,
           osDrainStartedAt = drainStarted previous (plPhase plan) now,
           osQuiesceReason = plQuiesceReason plan, osVersion = version,
           osPools = observedPools, osWorkers = workers, osResources = resources,
           osPower = pwr, osDesktop = desktop, osResourceGate = plResourceGate plan,
           osPowerGate = plPowerGate plan, osController = cost, osPresence = plPresence plan,
           osProblems = plProblems plan @ operationProblems\<rparr>, pending'))"

definition seedPendingCapacity :: "int gomap \<Rightarrow> int gomap \<Rightarrow> int gomap" where
  "seedPendingCapacity pending capacity =
     foldl (\<lambda>m entry. gput m (fst entry) (max (snd entry) 0)) pending capacity"

section \<open>What an open poll must not outlive\<close>

definition containsReadyPool :: "PoolSnapshot list \<Rightarrow> bool" where
  "containsReadyPool pools = list_ex psReady pools"

definition capacityDecreased :: "int gomap \<Rightarrow> int gomap \<Rightarrow> bool" where
  "capacityDecreased previous current = list_ex (\<lambda>(poolID, capacity). geti current poolID < capacity) previous"

definition capacityRestoredFromZero :: "int gomap \<Rightarrow> int gomap \<Rightarrow> bool" where
  "capacityRestoredFromZero previous current =
     list_ex (\<lambda>(poolID, capacity). 0 < capacity \<and> geti previous poolID = 0) current"

definition fundingInput :: "ResourceSnapshot \<Rightarrow> Worker list \<Rightarrow> Config \<Rightarrow> u64 \<Rightarrow> PlanInput" where
  "fundingInput resources workers cfg engineMemoryTotal =
     \<lparr>piConfig = cfg,
      piDesired = \<lparr>dsSchemaVersion = 0, dsMode = ModeOther [], dsTemporaryCapacityOverride = None, dsUpdatedAt = 0\<rparr>,
      piPrevious = zeroObservedState, piCapacityHysteresis = [], piPools = [], piWorkers = workers,
      piResources = resources, piPower = \<lparr>pwACConnected = False, pwObservedAt = 0\<rparr>,
      piDesktop = \<lparr>dtDesktopRunning = False, dtEngineReachable = False, dtRunningWSLCount = 0\<rparr>,
      piEngineMemoryTotalBytes = engineMemoryTotal, piInputIdle = None, piNow = 0\<rparr>"

definition memoryFundingSlots :: "ResourceSnapshot \<Rightarrow> Worker list \<Rightarrow> Config \<Rightarrow> u64 \<Rightarrow> int" where
  "memoryFundingSlots resources workers cfg engineMemoryTotal =
     (let gate = evaluateMemoryBasis (fundingInput resources workers cfg engineMemoryTotal);
          workerMemory = cwMemory (reWorker (cfResources cfg))
      in if \<not> mbBudgetActive gate then affordableWorkerCount (mbRemaining gate) workerMemory
         else
           (let active = countBy workerActive workers;
                additional = (if mbFloorBlocked gate then 0
                  else affordableWorkerCount (mbRemaining gate) workerMemory)
            in wrap64 (active + additional)))"

definition advertisedCapacityExceedsMemoryFunding ::
  "int gomap \<Rightarrow> ResourceSnapshot \<Rightarrow> Worker list \<Rightarrow> Config \<Rightarrow> u64 \<Rightarrow> bool" where
  "advertisedCapacityExceedsMemoryFunding advertised resources workers cfg engineMemoryTotal =
     (if gsum advertised = 0 then False
      else memoryFundingSlots resources workers cfg engineMemoryTotal < gsum advertised)"

fun fundAdvertised :: "int \<Rightarrow> int gomap \<Rightarrow> int gomap \<Rightarrow> int gomap" where
  "fundAdvertised remaining result [] = result"
| "fundAdvertised remaining result ((poolID, capacity) # advertised) =
     (if remaining \<le> 0 then fundAdvertised remaining (gput result poolID 0) advertised
      else if remaining < capacity then fundAdvertised 0 (gput result poolID remaining) advertised
      else fundAdvertised (remaining - capacity) (gput result poolID capacity) advertised)"

definition memoryAffordableAdvertisedCapacity ::
  "int gomap \<Rightarrow> ResourceSnapshot \<Rightarrow> Worker list \<Rightarrow> Config \<Rightarrow> u64 \<Rightarrow> int gomap" where
  "memoryAffordableAdvertisedCapacity advertised resources workers cfg engineMemoryTotal =
     fundAdvertised (memoryFundingSlots resources workers cfg engineMemoryTotal) [] advertised"

section \<open>Comparing inventories\<close>

fun indexWorkers :: "Worker gomap \<Rightarrow> Worker list \<Rightarrow> Worker gomap option" where
  "indexWorkers m [] = Some m"
| "indexWorkers m (w # ws) =
     (if wID w = [] then None
      else if ghas m (wID w) then None
      else indexWorkers (gput m (wID w) w) ws)"

fun matchWorkers :: "Worker gomap \<Rightarrow> Worker list \<Rightarrow> bool" where
  "matchWorkers m [] \<longleftrightarrow> m = []"
| "matchWorkers m (w # ws) \<longleftrightarrow>
     (case map_of m (wID w) of
        None \<Rightarrow> False
      | Some prior \<Rightarrow> prior = w \<and> matchWorkers (gdelete m (wID w)) ws)"

definition sameWorkerInventory :: "Worker list \<Rightarrow> Worker list \<Rightarrow> bool" where
  "sameWorkerInventory left right \<longleftrightarrow>
     length left = length right \<and>
     (case indexWorkers [] left of None \<Rightarrow> False | Some m \<Rightarrow> matchWorkers m right)"

section \<open>Folds that fill a map\<close>

lemma gput_fresh: "k \<notin> set (gkeys m) \<Longrightarrow> gput m k v = m @ [(k, v)]"
  by (induction m) (auto simp: gput_def gkeys_def)

lemma foldl_gput_map:
  assumes "distinct (gkeys m @ map fst xs)"
  shows "foldl (\<lambda>m x. gput m (fst x) (f x)) m xs = m @ map (\<lambda>x. (fst x, f x)) xs"
  using assms
proof (induction xs arbitrary: m)
  case (Cons x xs)
  then have "gput m (fst x) (f x) = m @ [(fst x, f x)]"
    by (intro gput_fresh) auto
  with Cons show ?case
    by (simp add: gkeys_def)
qed simp

lemma gget_map_entries:
  "gget z (map (\<lambda>x. (fst x, f (fst x) (snd x))) m) k = (if ghas m k then f k (gget z m k) else z)"
  by (induction m) (auto simp: gget_def ghas_def)

lemma gkeys_map_entries [simp]: "gkeys (map (\<lambda>x. (fst x, f x)) m) = gkeys m"
  by (simp add: gkeys_def)

section \<open>Transfers\<close>

definition transferred :: "bool \<Rightarrow> int gomap \<Rightarrow> string \<Rightarrow> int \<Rightarrow> int" where
  "transferred decrease current k c =
     (if decrease \<and> geti current k < max c 0 then geti current k else max c 0)"

lemma sequenceCapacityTransfer_map:
  assumes "distinct (gkeys planned)"
  shows "sequenceCapacityTransfer previous planned =
    map (\<lambda>x. (fst x, transferred (hasDecrease (currentCapacity previous) planned)
      (currentCapacity previous) (fst x) (snd x))) planned"
  using assms unfolding sequenceCapacityTransfer_def Let_def transferStep_def transferred_def
  by (subst foldl_gput_map) (auto simp: gkeys_def)

lemma transfer_get:
  assumes "distinct (gkeys planned)" and "k \<in> set (gkeys planned)"
  shows "geti (sequenceCapacityTransfer previous planned) k =
    transferred (hasDecrease (currentCapacity previous) planned) (currentCapacity previous) k (geti planned k)"
  using assms by (simp add: sequenceCapacityTransfer_map gget_map_entries ghas_iff_gkeys)

lemma gkeys_transfer [simp]:
  "distinct (gkeys planned) \<Longrightarrow> gkeys (sequenceCapacityTransfer previous planned) = gkeys planned"
  by (simp add: sequenceCapacityTransfer_map)

lemma currentCapacity_nonneg: "0 \<le> geti (currentCapacity previous) k"
  unfolding currentCapacity_def by (rule foldl_invariant) auto

lemma gget_member: "distinct (gkeys m) \<Longrightarrow> (k, v) \<in> set m \<Longrightarrow> gget z m k = v"
  by (simp add: gget_def gkeys_def)

lemma hasDecrease_iff:
  assumes "distinct (gkeys planned)"
  shows "hasDecrease current planned \<longleftrightarrow> (\<exists>k \<in> set (gkeys planned). geti planned k < geti current k)"
proof -
  have "\<forall>x \<in> set planned. geti planned (fst x) = snd x"
    using assms by (simp add: gget_member)
  then show ?thesis
    unfolding hasDecrease_def list_ex_iff gkeys_def by (auto simp: case_prod_unfold)
qed

lemma transferred_le: "transferred d current k c \<le> max c 0"
  by (simp add: transferred_def)

lemma transferred_nonneg: "0 \<le> geti current k \<Longrightarrow> 0 \<le> transferred d current k c"
  by (simp add: transferred_def)

lemma transferred_decrease_le: "transferred True current k c \<le> geti current k"
  by (auto simp: transferred_def)

section \<open>Clamping to the memory that funds the slots\<close>

fun funded :: "int \<Rightarrow> int list \<Rightarrow> int list" where
  "funded remaining [] = []"
| "funded remaining (c # cs) =
     (if remaining \<le> 0 then 0 # funded remaining cs
      else if remaining < c then remaining # funded 0 cs
      else c # funded (remaining - c) cs)"

lemma fundAdvertised_funded:
  assumes "distinct (gkeys result @ gkeys advertised)"
  shows "fundAdvertised remaining result advertised =
    result @ zip (gkeys advertised) (funded remaining (map snd advertised))"
  using assms
proof (induction remaining result advertised rule: fundAdvertised.induct)
  case (2 remaining result poolID capacity advertised)
  then have "poolID \<notin> set (gkeys result)" by (simp add: gkeys_def)
  with 2 show ?case
    by (simp add: gput_fresh gkeys_def)
qed (simp add: gkeys_def)

lemma length_funded [simp]: "length (funded n cs) = length cs"
  by (induction n cs rule: funded.induct) auto

lemma funded_zero: "n \<le> 0 \<Longrightarrow> funded n cs = map (\<lambda>_. 0) cs"
  by (induction cs) auto

lemma sum_funded:
  assumes "list_all (\<lambda>c. 0 \<le> c) cs"
  shows "sum_list (funded n cs) = min (max 0 n) (sum_list cs)"
  using assms
proof (induction n cs rule: funded.induct)
  case (2 n c cs)
  have nonneg: "0 \<le> sum_list cs"
    using 2(4) by (induction cs) auto
  show ?case
    using 2 nonneg by (auto simp: funded_zero min_def max_def)
qed simp

lemma funded_bounds:
  assumes "list_all (\<lambda>c. 0 \<le> c) cs"
  shows "list_all2 (\<lambda>f c. 0 \<le> f \<and> f \<le> c) (funded n cs) cs"
  using assms by (induction n cs rule: funded.induct) auto

section \<open>Inventories\<close>

lemma indexWorkers_eq:
  assumes "distinct (gkeys m)"
  shows "indexWorkers m ws =
    (if [] \<notin> wID ` set ws \<and> distinct (gkeys m @ map wID ws)
     then Some (m @ map (\<lambda>w. (wID w, w)) ws) else None)"
  using assms
proof (induction ws arbitrary: m)
  case (Cons w ws)
  show ?case
  proof (cases "wID w = [] \<or> wID w \<in> set (gkeys m)")
    case True
    then show ?thesis by (auto simp: ghas_iff_gkeys)
  next
    case False
    then have "gput m (wID w) w = m @ [(wID w, w)]" by (simp add: gput_fresh)
    then show ?thesis
      using False Cons by (auto simp: ghas_iff_gkeys gkeys_def)
  qed
qed auto

lemma gdelete_fresh: "k \<notin> set (gkeys m) \<Longrightarrow> gdelete m k = m"
  by (simp add: gdelete_def gkeys_def delete_idem)

lemma mset_gdelete:
  assumes "distinct (gkeys m)" and "(k, v) \<in> set m"
  shows "mset m = add_mset (k, v) (mset (gdelete m k))"
  using assms
proof (induction m)
  case (Cons x m)
  show ?case
  proof (cases "fst x = k")
    case True
    then have "k \<notin> set (gkeys m)" using Cons.prems(1) by (auto simp: gkeys_def)
    moreover have "(k, v) \<notin> set m" using calculation by (force simp: gkeys_def)
    ultimately show ?thesis
      using True Cons.prems(2) gdelete_fresh [of k m] by (cases x) (auto simp: gdelete_def)
  next
    case False
    then show ?thesis
      using Cons by (cases x) (auto simp: gkeys_def gdelete_def)
  qed
qed simp

lemma distinct_gkeys_gdelete [simp]: "distinct (gkeys m) \<Longrightarrow> distinct (gkeys (gdelete m k))"
  unfolding gkeys_def gdelete_def by (rule distinct_delete)

lemma set_gdelete_subset: "set (gdelete m k) \<subseteq> set m"
  by (auto simp: gdelete_def AList.delete_eq)

lemma matchWorkers_eq:
  assumes "distinct (gkeys m)" and "\<forall>x \<in> set m. fst x = wID (snd x)"
  shows "matchWorkers m ws \<longleftrightarrow> mset (map snd m) = mset ws"
  using assms
proof (induction ws arbitrary: m)
  case (Cons w ws)
  show ?case
  proof (cases "(wID w, w) \<in> set m")
    case True
    have found: "map_of m (wID w) = Some w"
      using True Cons.prems(1) by (simp add: gkeys_def)
    have "mset (map snd m) = add_mset w (mset (map snd (gdelete m (wID w))))"
      using mset_gdelete [OF Cons.prems(1) True] by simp
    moreover have "matchWorkers (gdelete m (wID w)) ws \<longleftrightarrow>
        mset (map snd (gdelete m (wID w))) = mset ws"
      using Cons.prems set_gdelete_subset by (intro Cons.IH) auto
    ultimately show ?thesis
      using found by simp
  next
    case False
    have "w \<notin> set (map snd m)"
      using False Cons.prems(2) by force
    then have "mset (map snd m) \<noteq> mset (w # ws)"
      by (metis list.set_intros(1) mset_eq_setD)
    moreover have "map_of m (wID w) \<noteq> Some w"
      using False by (meson map_of_SomeD)
    ultimately show ?thesis
      by (auto split: option.splits)
  qed
qed simp

end
