(* ===== verification/Capacity_Theorems.thy ===== *)
theory Capacity_Theorems
  imports Capacity Samples
begin

text \<open>
  Properties of capacity transfers, poll checkpoints, memory funding and inventory comparison.
\<close>

section \<open>Transfers\<close>

text \<open>
  C19: A transfer never exposes one slot to two listeners. Whichever pools have picked up their new
  capacity and whichever still poll with the old one, the total that listeners can see is at most
  the larger of the old total and the planned total.\<close>

theorem transfer_never_double_exposes:
  fixes acked :: "string \<Rightarrow> bool"
  assumes "distinct (gkeys planned)"
  shows "(\<Sum>k\<leftarrow>gkeys planned. if acked k then geti (sequenceCapacityTransfer previous planned) k
            else geti (currentCapacity previous) k) \<le>
    max (\<Sum>k\<leftarrow>gkeys planned. geti (currentCapacity previous) k)
        (\<Sum>k\<leftarrow>gkeys planned. max (geti planned k) 0)"
proof (cases "hasDecrease (currentCapacity previous) planned")
  case True
  have "(\<Sum>k\<leftarrow>gkeys planned. if acked k then geti (sequenceCapacityTransfer previous planned) k
      else geti (currentCapacity previous) k) \<le> (\<Sum>k\<leftarrow>gkeys planned. geti (currentCapacity previous) k)"
    by (intro sum_list_mono_int) (simp add: transfer_get assms True transferred_decrease_le)
  then show ?thesis by simp
next
  case False
  have "(\<Sum>k\<leftarrow>gkeys planned. if acked k then geti (sequenceCapacityTransfer previous planned) k
      else geti (currentCapacity previous) k) \<le> (\<Sum>k\<leftarrow>gkeys planned. max (geti planned k) 0)"
    using False assms by (intro sum_list_mono_int) (force simp: transfer_get transferred_le hasDecrease_iff)
  then show ?thesis by simp
qed

definition sampleObservedPools :: "(string \<times> int) list \<Rightarrow> ObservedState" where
  "sampleObservedPools caps = zeroObservedState\<lparr>osPools :=
     map (\<lambda>(i, c). zeroPoolObservation\<lparr>poID := i, poMaxCapacity := c, poCapacityAcknowledged := True\<rparr>) caps\<rparr>"

theorem transfer_never_double_exposes_witness:
  "(\<Sum>k\<leftarrow>gkeys [(''a'', 0), (''b'', 2)]. if k = ''b''
      then geti (sequenceCapacityTransfer (sampleObservedPools [(''a'', 2), (''b'', 0)]) [(''a'', 0), (''b'', 2)]) k
      else geti (currentCapacity (sampleObservedPools [(''a'', 2), (''b'', 0)])) k) \<le> (2 :: int)"
  using transfer_never_double_exposes [of "[(''a'', 0), (''b'', 2)]" "\<lambda>k. k = ''b''"
      "sampleObservedPools [(''a'', 2), (''b'', 0)]"]
  by (simp add: gkeys_def sampleObservedPools_def currentCapacity_def gget_def gput_def)

text \<open>
  C20: A transfer finishes. Once the listeners have acknowledged the capacities of a first transfer,
  the next one sends exactly the planned capacities.\<close>

theorem transfer_converges:
  assumes "distinct (gkeys planned)" and "list_all (\<lambda>x. 0 \<le> snd x) planned"
    and "list_all (\<lambda>k. geti (currentCapacity acknowledged) k =
           geti (sequenceCapacityTransfer previous planned) k) (gkeys planned)"
  shows "sequenceCapacityTransfer acknowledged planned = planned"
proof -
  have nonneg: "0 \<le> geti planned k" if "k \<in> set (gkeys planned)" for k
    using assms(1,2) that by (force simp: gkeys_def list_all_iff gget_def)
  have "geti (currentCapacity acknowledged) k \<le> geti planned k" if "k \<in> set (gkeys planned)" for k
  proof -
    have "geti (currentCapacity acknowledged) k = transferred (hasDecrease (currentCapacity previous) planned)
        (currentCapacity previous) k (geti planned k)"
      using assms(3) that by (simp add: list_all_iff transfer_get [OF assms(1)])
    also have "\<dots> \<le> geti planned k"
      using transferred_le [of _ _ k "geti planned k"] nonneg [OF that] by (simp add: max_def)
    finally show ?thesis .
  qed
  then have "\<not> hasDecrease (currentCapacity acknowledged) planned"
    by (force simp: hasDecrease_iff [OF assms(1)])
  then show ?thesis
    using assms(2) unfolding sequenceCapacityTransfer_map [OF assms(1)]
    by (intro map_idI) (auto simp: transferred_def list_all_iff)
qed

theorem transfer_converges_witness:
  "sequenceCapacityTransfer (sampleObservedPools [(''a'', 0), (''b'', 0)]) [(''a'', 0), (''b'', 2)] =
     [(''a'', 0), (''b'', 2)]"
  using transfer_converges [of "[(''a'', 0), (''b'', 2)]" "sampleObservedPools [(''a'', 0), (''b'', 0)]"
      "sampleObservedPools [(''a'', 2), (''b'', 0)]"]
  by (simp add: gkeys_def sampleObservedPools_def currentCapacity_def gget_def gput_def
      sequenceCapacityTransfer_def hasDecrease_def transferStep_def Let_def)

section \<open>Checkpoints\<close>

definition claimsNothing :: "ObservedState \<Rightarrow> Plan \<Rightarrow> PoolObservation \<Rightarrow> bool" where
  "claimsNothing previous plan p \<longleftrightarrow>
     (let prior = gget zeroPoolObservation (previousPoolsByID previous) (poID p)
      in poMaxCapacity p = poMaxCapacity prior \<and>
         poCapacityAcknowledged p = (poCapacityAcknowledged prior \<and>
           poMaxCapacity prior = geti (plAdvertisedCapacity plan) (poID p) \<and>
           poScaleSetID prior = poScaleSetID p \<and> poListenerID prior = poListenerID p) \<and>
         poZeroCapacityConfirmations p =
           (if poCapacityAcknowledged p \<and> poMaxCapacity p = 0 then poZeroCapacityConfirmations prior else 0))"

lemma checkpointPool_claims:
  "list_all (claimsNothing previous plan) (fst acc) \<Longrightarrow>
   list_all (claimsNothing previous plan) (fst (checkpointPool previous pools plan now acc target))"
  by (cases acc) (auto simp: checkpointPool_def claimsNothing_def Let_def split: prod.splits)


section \<open>Memory funding\<close>

text \<open>
  C22: The capacity an open poll may keep is exactly the funded part of what it advertises: in total
  the smaller of the funded slots and the advertised slots, whatever order the pools are visited in,
  and for every pool no more than it advertised.\<close>

theorem funding_clamps_exactly:
  assumes "distinct (gkeys advertised)" and "list_all (\<lambda>x. 0 \<le> snd x) advertised"
  shows "gsum (memoryAffordableAdvertisedCapacity advertised resources workers cfg engine) =
      min (max 0 (memoryFundingSlots resources workers cfg engine)) (gsum advertised) \<and>
    list_all2 (\<lambda>x y. fst x = fst y \<and> 0 \<le> snd x \<and> snd x \<le> snd y)
      (memoryAffordableAdvertisedCapacity advertised resources workers cfg engine) advertised"
proof -
  let ?n = "memoryFundingSlots resources workers cfg engine"
  have caps: "list_all (\<lambda>c. 0 \<le> c) (map snd advertised)"
    using assms(2) by (simp add: list_all_iff)
  have eq: "memoryAffordableAdvertisedCapacity advertised resources workers cfg engine =
      zip (gkeys advertised) (funded ?n (map snd advertised))"
    using assms(1) by (simp add: memoryAffordableAdvertisedCapacity_def fundAdvertised_funded)
  show ?thesis
    using sum_funded [OF caps, of ?n] funded_bounds [OF caps, of ?n]
    unfolding eq by (auto simp: gsum_def gkeys_def list_all2_conv_all_nth)
qed

theorem funding_clamps_exactly_witness:
  "gsum (memoryAffordableAdvertisedCapacity [(''a'', 2), (''b'', 1)] zeroResourceSnapshot [] sampleConfig 0) =
     min (max 0 (memoryFundingSlots zeroResourceSnapshot [] sampleConfig 0)) 3"
  using funding_clamps_exactly [of "[(''a'', 2), (''b'', 1)]" zeroResourceSnapshot "[]" sampleConfig 0]
  by (simp add: gkeys_def gsum_def)

section \<open>Inventories\<close>

text \<open>
  C23: The inventory comparison of the poll watcher succeeds exactly when both lists hold the same
  workers, in any order, and the worker IDs are non-empty and pairwise distinct.\<close>

theorem sameWorkerInventory_iff:
  "sameWorkerInventory left right \<longleftrightarrow>
     mset left = mset right \<and> distinct (map wID left) \<and> [] \<notin> wID ` set left"
proof -
  have keys: "gkeys (map (\<lambda>w. (wID w, w)) left) = map wID left"
    by (simp add: gkeys_def comp_def)
  have snds: "map snd (map (\<lambda>w. (wID w, w)) left) = left"
    by (simp add: comp_def)
  show ?thesis
    using matchWorkers_eq [of "map (\<lambda>w. (wID w, w)) left" right] mset_eq_length [of left right]
    unfolding sameWorkerInventory_def keys snds by (auto simp: indexWorkers_eq)
qed

end
