(* ===== verification/Errors.thy ===== *)
theory Errors
  imports Model
begin

text \<open>
  Go error values, and the scale-set errors of \<open>src/internal/scaleset/scaleset.go\<close>.

  A Go error is a tree: a wrapped error (\<open>%w\<close>, \<open>Unwrap\<close>) has one child and a joined error
  (\<open>errors.Join\<close>) has several. \<open>errorsIs\<close> looks for a sentinel in the tree and \<open>asScaleSet\<close> for
  the first scale-set error in depth-first order, as \<open>errors.Is\<close> and \<open>errors.As\<close> do. A function
  that returns a value and an error returns a sum, with the error on the left; a function that
  returns only an error returns an option.
\<close>

section \<open>Error trees\<close>

datatype ErrorKind =
    ErrorUnauthorized | ErrorForbidden | ErrorNotFound | ErrorConflict | ErrorRateLimited
  | ErrorServer | ErrorTransport | ErrorInvalid | ErrorKindOther string

datatype sentinel =
    Canceled | DeadlineExceeded | ReconcileInputsChanged | ShutdownRequested
  | UnsafeObservedState | StateNotFound | CorruptObserved | LoadContent
  | JobIndexNotFound | JobIndexConflict
  | ShutdownDegraded | ForceStopStateChanged
  | ControllerRestartRequested | ReconcileStepAbandoned | ReconcilePersistentlyFailing

datatype goError =
    Sentinel sentinel
  | ErrText string
  | ErrWrap string goError
  | ErrJoin "goError list"
  | ScaleSetError ErrorKind string int int "goError option"
  | WorkerStartError goError bool

fun errorsIs :: "sentinel \<Rightarrow> goError \<Rightarrow> bool" where
  "errorsIs s (Sentinel s') \<longleftrightarrow> s = s'"
| "errorsIs s (ErrText _) \<longleftrightarrow> False"
| "errorsIs s (ErrWrap _ e) \<longleftrightarrow> errorsIs s e"
| "errorsIs s (ErrJoin es) \<longleftrightarrow> list_ex (errorsIs s) es"
| "errorsIs s (ScaleSetError _ _ _ _ inner) \<longleftrightarrow> (case inner of None \<Rightarrow> False | Some e \<Rightarrow> errorsIs s e)"
| "errorsIs s (WorkerStartError e _) \<longleftrightarrow> errorsIs s e"

record ScaleSetErr =
  seKind :: ErrorKind
  seOperation :: string
  seStatusCode :: int
  seRetryAfterSeconds :: int

fun asScaleSet :: "goError \<Rightarrow> ScaleSetErr option"
  and asScaleSetFirst :: "goError list \<Rightarrow> ScaleSetErr option" where
  "asScaleSet (Sentinel _) = None"
| "asScaleSet (ErrText _) = None"
| "asScaleSet (ErrWrap _ e) = asScaleSet e"
| "asScaleSet (ErrJoin es) = asScaleSetFirst es"
| "asScaleSet (ScaleSetError kind operation status retryAfter _) =
     Some \<lparr>seKind = kind, seOperation = operation, seStatusCode = status, seRetryAfterSeconds = retryAfter\<rparr>"
| "asScaleSet (WorkerStartError e _) = asScaleSet e"
| "asScaleSetFirst [] = None"
| "asScaleSetFirst (e # es) = (case asScaleSet e of None \<Rightarrow> asScaleSetFirst es | Some s \<Rightarrow> Some s)"

fun asWorkerStart :: "goError \<Rightarrow> bool option"
  and asWorkerStartFirst :: "goError list \<Rightarrow> bool option" where
  "asWorkerStart (Sentinel _) = None"
| "asWorkerStart (ErrText _) = None"
| "asWorkerStart (ErrWrap _ e) = asWorkerStart e"
| "asWorkerStart (ErrJoin es) = asWorkerStartFirst es"
| "asWorkerStart (ScaleSetError _ _ _ _ inner) = (case inner of None \<Rightarrow> None | Some e \<Rightarrow> asWorkerStart e)"
| "asWorkerStart (WorkerStartError _ mayBeActive) = Some mayBeActive"
| "asWorkerStartFirst [] = None"
| "asWorkerStartFirst (e # es) = (case asWorkerStart e of None \<Rightarrow> asWorkerStartFirst es | Some s \<Rightarrow> Some s)"

text \<open>\<open>errors.Join\<close> drops nil errors and is nil when nothing remains.\<close>

definition errorsJoin :: "goError option list \<Rightarrow> goError option" where
  "errorsJoin es =
     (case List.map_filter (\<lambda>e. e) es of [] \<Rightarrow> None | es' \<Rightarrow> Some (ErrJoin es'))"

text \<open>The early return of a function with an error result.\<close>

definition bindE :: "goError + 'a \<Rightarrow> ('a \<Rightarrow> goError + 'b) \<Rightarrow> goError + 'b" where
  "bindE r f = (case r of Inl err \<Rightarrow> Inl err | Inr v \<Rightarrow> f v)"

section \<open>Scale-set errors\<close>

definition IsKind :: "goError \<Rightarrow> ErrorKind \<Rightarrow> bool" where
  "IsKind err kind \<longleftrightarrow> (case asScaleSet err of None \<Rightarrow> False | Some e \<Rightarrow> seKind e = kind)"

definition Retryable :: "goError \<Rightarrow> bool" where
  "Retryable err =
     (case asScaleSet err of
        None \<Rightarrow> False
      | Some e \<Rightarrow> (case seKind e of
            ErrorConflict \<Rightarrow> True
          | ErrorRateLimited \<Rightarrow> True
          | ErrorServer \<Rightarrow> True
          | ErrorTransport \<Rightarrow> True
          | _ \<Rightarrow> False))"

definition RunnerStartMayBeActive :: "goError \<Rightarrow> bool" where
  "RunnerStartMayBeActive err =
     (case asWorkerStart err of None \<Rightarrow> True | Some mayBeActive \<Rightarrow> mayBeActive)"

definition pollSuperseded :: "goError \<Rightarrow> bool" where
  "pollSuperseded err = errorsIs Canceled err"

lemma bindE_Inr_iff: "bindE r f = Inr v \<longleftrightarrow> (\<exists>u. r = Inr u \<and> f u = Inr v)"
  by (simp add: bindE_def split: sum.split)

lemma bindE_simps [simp]: "bindE (Inr u) f = f u" "bindE (Inl e) f = Inl e"
  by (simp_all add: bindE_def)

lemma errorsJoin_None_iff: "errorsJoin es = None \<longleftrightarrow> list_all (\<lambda>e. e = None) es"
  by (induction es) (auto simp: errorsJoin_def List.map_filter_simps split: list.splits option.splits)

lemma IsKind_unique: "IsKind err k \<Longrightarrow> IsKind err k' \<Longrightarrow> k = k'"
  by (auto simp: IsKind_def split: option.splits)

lemma not_Retryable_not_found: "IsKind err ErrorNotFound \<Longrightarrow> \<not> Retryable err"
  by (auto simp: IsKind_def Retryable_def split: option.splits)

end
