(* ===== verification/Retry.thy ===== *)
theory Retry
  imports Errors Config "HOL-Library.State_Monad"
begin

text \<open>
  Bounded retries with exponential backoff: \<open>src/internal/controller/retry.go\<close> and
  \<open>src/internal/clock/clock.go\<close>.

  The operation, the test for a cancelled context, the sleep and the random draw of the jitter are
  actions on a state the caller chooses, so the same definition serves every client of
  \<open>RetryValue\<close>. The loop counts its attempts, so it recurses on the attempts that are left.

  The locale \<open>retried_operation\<close> is the contract a client relies on: a measure that each call of the
  operation raises by one and nothing else changes counts the calls of one \<open>RetryValue\<close>.
\<close>

section \<open>Policies\<close>

record BackoffPolicy =
  bpInitial :: duration
  bpMaximum :: duration
  bpMultiplier :: float64
  bpJitterRatio :: float64
  bpMaxAttempts :: int
  bpJitter :: "(int option \<Rightarrow> duration \<Rightarrow> float64 \<Rightarrow> duration) option"

text \<open>
  \<open>cryptoJitter\<close> draws a number below 1000001 from the cryptographic source; its first argument is
  that draw, or None when the source fails.
\<close>

definition cryptoJitter :: "int option \<Rightarrow> duration \<Rightarrow> float64 \<Rightarrow> duration" where
  "cryptoJitter draw base ratio =
     (case draw of
        None \<Rightarrow> base
      | Some n \<Rightarrow>
          (let unit = f64Add (f64Mul (f64DivBy (f64OfInt n) 1000000) (Fin 2)) (Fin (- 1));
               factor = f64Add (Fin 1) (f64Mul unit ratio);
               result = int64OfF64 (f64Mul (f64OfInt base) factor)
           in if result \<le> 0 then 1 else result))"

definition DefaultBackoffPolicy :: BackoffPolicy where
  "DefaultBackoffPolicy =
     \<lparr>bpInitial = second, bpMaximum = minute, bpMultiplier = Fin 2, bpJitterRatio = round64 (1 / 5),
      bpMaxAttempts = 6, bpJitter = Some cryptoJitter\<rparr>"

definition validateBackoff :: "BackoffPolicy \<Rightarrow> goError option" where
  "validateBackoff p =
     (if bpInitial p \<le> 0 \<or> bpMaximum p < bpInitial p \<or> f64Lt (bpMultiplier p) (Fin 1) \<or>
         isNaN (bpMultiplier p) \<or> isInf (bpMultiplier p) \<or>
         f64Lt (bpJitterRatio p) (Fin 0) \<or> f64Lt (Fin 1) (bpJitterRatio p) \<or> bpMaxAttempts p \<le> 0
      then Some (ErrText ''invalid backoff policy'') else None)"

text \<open>The multiplication loop of \<open>delay\<close> runs \<open>attempt - 1\<close> times unless it reaches the maximum.\<close>

fun growDelay :: "BackoffPolicy \<Rightarrow> nat \<Rightarrow> float64 \<Rightarrow> float64" where
  "growDelay p 0 d = d"
| "growDelay p (Suc n) d =
     (let d' = f64Mul d (bpMultiplier p)
      in if f64Le (f64OfInt (bpMaximum p)) d' then f64OfInt (bpMaximum p) else growDelay p n d')"

definition backoffDelay :: "BackoffPolicy \<Rightarrow> int option \<Rightarrow> int \<Rightarrow> goError \<Rightarrow> duration" where
  "backoffDelay p draw attempt err =
     (let base = int64OfF64 (growDelay p (nat (attempt - 1)) (f64OfInt (bpInitial p)));
          base = (if bpMaximum p < base then bpMaximum p else base);
          base = (case bpJitter p of
              None \<Rightarrow> base
            | Some jitter \<Rightarrow> if f64Lt (Fin 0) (bpJitterRatio p) then jitter draw base (bpJitterRatio p) else base)
      in case asScaleSet err of
           None \<Rightarrow> base
         | Some e \<Rightarrow>
             if 0 < seRetryAfterSeconds e then
               (let retryAfter = (if seRetryAfterSeconds e \<le> godiv (bpMaximum p) second
                    then seRetryAfterSeconds e * second else bpMaximum p)
                in if base < retryAfter then retryAfter else base)
             else base)"

section \<open>The retry loop\<close>

definition clockSleep ::
  "('s, goError option) state \<Rightarrow> (duration \<Rightarrow> ('s, goError option) state) \<Rightarrow> duration
     \<Rightarrow> ('s, goError option) state" where
  "clockSleep ctxErr timer d = (if d \<le> 0 then ctxErr else timer d)"

record 's RetryContext =
  rcCtxErr :: "('s, goError option) state"
  rcTimer :: "duration \<Rightarrow> ('s, goError option) state"
  rcDraw :: "('s, int option) state"

fun retryLoop ::
  "'s RetryContext \<Rightarrow> BackoffPolicy \<Rightarrow> (goError \<Rightarrow> bool) \<Rightarrow> ('s, goError + 'a) state \<Rightarrow> nat \<Rightarrow> int
     \<Rightarrow> ('s, goError + 'a) state" where
  "retryLoop ctx p retryable op 0 attempt =
     State_Monad.return (Inl (ErrText ''retry loop exhausted unexpectedly''))"
| "retryLoop ctx p retryable op (Suc left) attempt = do {
     cancelled \<leftarrow> rcCtxErr ctx;
     case cancelled of
       Some err \<Rightarrow> State_Monad.return (Inl err)
     | None \<Rightarrow> do {
         outcome \<leftarrow> op;
         case outcome of
           Inr v \<Rightarrow> State_Monad.return (Inr v)
         | Inl err \<Rightarrow>
             if attempt = bpMaxAttempts p \<or> \<not> retryable err then State_Monad.return (Inl err)
             else do {
               draw \<leftarrow> rcDraw ctx;
               slept \<leftarrow> clockSleep (rcCtxErr ctx) (rcTimer ctx) (backoffDelay p draw attempt err);
               case slept of
                 Some err' \<Rightarrow> State_Monad.return (Inl err')
               | None \<Rightarrow> retryLoop ctx p retryable op left (attempt + 1)
             }
       }
   }"

definition RetryValue ::
  "'s RetryContext \<Rightarrow> BackoffPolicy \<Rightarrow> (goError \<Rightarrow> bool) \<Rightarrow> ('s, goError + 'a) state
     \<Rightarrow> ('s, goError + 'a) state" where
  "RetryValue ctx p retryable op =
     (case validateBackoff p of
        Some err \<Rightarrow> State_Monad.return (Inl err)
      | None \<Rightarrow> retryLoop ctx p retryable op (nat (bpMaxAttempts p)) 1)"

section \<open>What a client may rely on\<close>

locale retried_operation =
  fixes ctx :: "'s RetryContext"
    and op :: "('s, goError + 'a) state"
    and calls :: "'s \<Rightarrow> nat"
  assumes op_counts: "calls (snd (run_state op s)) = Suc (calls s)"
    and ctxErr_keeps: "calls (snd (run_state (rcCtxErr ctx) s)) = calls s"
    and timer_keeps: "calls (snd (run_state (rcTimer ctx d) s)) = calls s"
    and draw_keeps: "calls (snd (run_state (rcDraw ctx) s)) = calls s"
begin

lemma sleep_keeps: "calls (snd (run_state (clockSleep (rcCtxErr ctx) (rcTimer ctx) d) s)) = calls s"
  by (simp add: clockSleep_def ctxErr_keeps timer_keeps)

lemma loop_calls: "calls (snd (run_state (retryLoop ctx p retryable op left attempt) s)) \<le> calls s + left"
proof (induction left arbitrary: attempt s)
  case (Suc left)
  have op': "calls s' = Suc (calls s0)" if "run_state op s0 = (r, s')" for r s0 s'
    using op_counts [of s0] that by simp
  have err': "calls s' = calls s0" if "run_state (rcCtxErr ctx) s0 = (r, s')" for r s0 s'
    using ctxErr_keeps [of s0] that by simp
  have draw': "calls s' = calls s0" if "run_state (rcDraw ctx) s0 = (r, s')" for r s0 s'
    using draw_keeps [of s0] that by simp
  have sleep': "calls s' = calls s0"
    if "run_state (clockSleep (rcCtxErr ctx) (rcTimer ctx) d) s0 = (r, s')" for d r s0 s'
    using sleep_keeps [of d s0] that by simp
  have loop': "calls (snd (run_state (retryLoop ctx p retryable op left (attempt + 1)) s0)) \<le> calls s0 + left" for s0
    by (rule Suc.IH)
  show ?case
    by (auto split: prod.splits option.splits sum.splits dest!: op' err' draw' sleep'
        intro: order_trans [OF loop'])
qed simp

lemma RetryValue_calls:
  "calls (snd (run_state (RetryValue ctx p retryable op) s)) \<le> calls s + nat (bpMaxAttempts p)"
  using loop_calls by (auto simp: RetryValue_def split: option.split)

end

section \<open>Scripted operations\<close>

text \<open>
  An operation whose outcomes are scripted by the number of its call, in a context that is never
  cancelled: the loop returns the outcome of the first call that succeeds or fails for good.
\<close>

definition quietContext :: "nat RetryContext" where
  "quietContext = \<lparr>rcCtxErr = State_Monad.return None, rcTimer = (\<lambda>_. State_Monad.return None),
     rcDraw = State_Monad.return None\<rparr>"

definition scripted :: "(nat \<Rightarrow> goError + 'a) \<Rightarrow> (nat, goError + 'a) state" where
  "scripted script = State (\<lambda>i. (script i, Suc i))"

fun retriesAfter :: "(goError \<Rightarrow> bool) \<Rightarrow> goError + 'a \<Rightarrow> bool" where
  "retriesAfter retryable (Inl err) = retryable err"
| "retriesAfter retryable (Inr v) = False"

interpretation scripted_calls: retried_operation quietContext "scripted script" "\<lambda>i. i" for script
  by unfold_locales (simp_all add: quietContext_def scripted_def)

lemma retryLoop_scripted:
  "run_state (retryLoop quietContext p retryable (scripted script) (Suc left) (bpMaxAttempts p - int left)) i =
     (let n = i + length (takeWhile (retriesAfter retryable \<circ> script) [i..<i + left])
      in (script n, Suc n))"
proof (induction left arbitrary: i)
  case 0
  show ?case
    by (auto simp: quietContext_def scripted_def clockSleep_def split: sum.split)
next
  case (Suc left)
  have upt: "[i..<i + Suc left] = i # [Suc i..<Suc i + left]"
    by (simp add: upt_conv_Cons)
  have step: "bpMaxAttempts p - int (Suc left) + 1 = bpMaxAttempts p - int left"
    by simp
  show ?case
    using Suc.IH [of "Suc i"] unfolding retryLoop.simps(2) [of _ _ _ _ "Suc left"] step upt
    by (auto simp: quietContext_def scripted_def clockSleep_def Let_def split: sum.split)
qed

end
