(* ===== verification/Retry_Theorems.thy ===== *)
theory Retry_Theorems
  imports Retry
begin

text \<open>
  Properties of the retry loop and of its delays.
\<close>


definition flakyScript :: "nat \<Rightarrow> goError + int" where
  "flakyScript i = (if i < 2 then Inl (ScaleSetError ErrorServer ''poll'' 503 0 None) else Inr 7)"




end
