(* ===== verification/Durable.thy ===== *)
theory Durable
  imports Errors
begin

text \<open>
  Publishing one file through a temporary: \<open>src/internal/state/fs/durable.go\<close>.

  The file system is a map from paths to contents. A file that was created but whose write did not
  finish has no contents yet (None). Every system call may fail; the record \<open>ioFaults\<close> says which
  calls of one run fail, and with what. The hooks are functions of the path they are given; the
  hook that publishes dependent files may change the file system.
\<close>

section \<open>File system, faults, plan\<close>

type_synonym 'c files = "'c option gomap"

record ioFaults =
  ifCreate :: "goError option"
  ifChmod :: "goError option"
  ifWrite :: "goError option"
  ifSync :: "goError option"
  ifClose :: "goError option"
  ifReplace :: "goError option"
  ifSyncDirectory :: "goError option"
  ifRemoveFails :: bool

definition noFaults :: ioFaults where
  "noFaults = \<lparr>ifCreate = None, ifChmod = None, ifWrite = None, ifSync = None, ifClose = None,
     ifReplace = None, ifSyncDirectory = None, ifRemoveFails = False\<rparr>"

record DurableWriteLabels =
  laCreateTemporary :: string
  laSetMode :: string
  laWrite :: string
  laFlush :: string
  laClose :: string
  laReplace :: string
  laFlushDirectory :: string

definition noLabels :: DurableWriteLabels where
  "noLabels = \<lparr>laCreateTemporary = [], laSetMode = [], laWrite = [], laFlush = [], laClose = [],
     laReplace = [], laFlushDirectory = []\<rparr>"

record 'c DurableWrite =
  dwTarget :: string
  dwTemporary :: string
  dwHardenBeforeWrite :: "(string \<Rightarrow> goError option) option"
  dwHardenBeforeReplace :: "(string \<Rightarrow> goError option) option"
  dwHardenAfterReplace :: "(string \<Rightarrow> goError option) option"
  dwBeforeReplace :: "('c files \<Rightarrow> goError option) option"
  dwAfterReplace :: "('c files \<Rightarrow> goError option \<times> 'c files) option"
  dwOnCommitFailure :: "(string \<Rightarrow> 'c files \<Rightarrow> 'c files) option"
  dwSkipDirectorySync :: bool
  dwLabels :: DurableWriteLabels

definition labelError :: "string \<Rightarrow> goError \<Rightarrow> goError" where
  "labelError label err = (if label = [] then err else ErrWrap label err)"

section \<open>The sequence\<close>

text \<open>A nil hook succeeds.\<close>

definition runHook :: "(string \<Rightarrow> goError option) option \<Rightarrow> string \<Rightarrow> goError option" where
  "runHook hook path = (case hook of None \<Rightarrow> None | Some h \<Rightarrow> h path)"

definition discardTemporary :: "ioFaults \<Rightarrow> 'c DurableWrite \<Rightarrow> bool \<Rightarrow> 'c files \<Rightarrow> 'c files" where
  "discardTemporary io plan committed fs =
     (if \<not> committed \<and> \<not> ifRemoveFails io then gdelete fs (dwTemporary plan) else fs)"

definition beginWrite :: "ioFaults \<Rightarrow> 'c DurableWrite \<Rightarrow> 'c files \<Rightarrow> goError option \<times> 'c files" where
  "beginWrite io plan fs =
     (case ifCreate io of
        Some err \<Rightarrow> (Some (labelError (laCreateTemporary (dwLabels plan)) err), fs)
      | None \<Rightarrow>
          (let fs1 = gput fs (dwTemporary plan) None
           in case ifChmod io of
                Some err \<Rightarrow> (Some (labelError (laSetMode (dwLabels plan)) err), discardTemporary io plan False fs1)
              | None \<Rightarrow>
                  (case runHook (dwHardenBeforeWrite plan) (dwTemporary plan) of
                     Some err \<Rightarrow> (Some err, discardTemporary io plan False fs1)
                   | None \<Rightarrow> (None, fs1))))"

definition withdraw :: "'c DurableWrite \<Rightarrow> goError \<Rightarrow> 'c files \<Rightarrow> goError option \<times> bool \<times> 'c files" where
  "withdraw plan err fs =
     (Some err, True, case dwOnCommitFailure plan of None \<Rightarrow> fs | Some f \<Rightarrow> f (dwTarget plan) fs)"

text \<open>\<open>atomicReplace\<close> moves the temporary over the target in one step.\<close>

definition atomicReplace :: "'c DurableWrite \<Rightarrow> 'c files \<Rightarrow> 'c files" where
  "atomicReplace plan fs =
     gput (gdelete fs (dwTemporary plan)) (dwTarget plan) (gget None fs (dwTemporary plan))"

definition finishCommit :: "ioFaults \<Rightarrow> 'c DurableWrite \<Rightarrow> 'c files \<Rightarrow> goError option \<times> bool \<times> 'c files" where
  "finishCommit io plan fs =
     (case runHook (dwHardenAfterReplace plan) (dwTarget plan) of
        Some err \<Rightarrow> withdraw plan err fs
      | None \<Rightarrow>
          if dwSkipDirectorySync plan then (None, True, fs)
          else (case ifSyncDirectory io of
             Some err \<Rightarrow> withdraw plan (labelError (laFlushDirectory (dwLabels plan)) err) fs
           | None \<Rightarrow> (None, True, fs)))"

definition publishCommit :: "ioFaults \<Rightarrow> 'c DurableWrite \<Rightarrow> 'c files \<Rightarrow> goError option \<times> bool \<times> 'c files" where
  "publishCommit io plan fs =
     (case dwAfterReplace plan of
        None \<Rightarrow> finishCommit io plan fs
      | Some h \<Rightarrow>
          (case h fs of
             (Some err, fs') \<Rightarrow> withdraw plan err fs'
           | (None, fs') \<Rightarrow> finishCommit io plan fs'))"

definition commitWrite :: "ioFaults \<Rightarrow> 'c DurableWrite \<Rightarrow> 'c files \<Rightarrow> goError option \<times> bool \<times> 'c files" where
  "commitWrite io plan fs =
     (case ifSync io of
        Some err \<Rightarrow> (Some (labelError (laFlush (dwLabels plan)) err), False, fs)
      | None \<Rightarrow> (case ifClose io of
        Some err \<Rightarrow> (Some (labelError (laClose (dwLabels plan)) err), False, fs)
      | None \<Rightarrow> (case runHook (dwHardenBeforeReplace plan) (dwTemporary plan) of
        Some err \<Rightarrow> (Some err, False, fs)
      | None \<Rightarrow> (case (case dwBeforeReplace plan of None \<Rightarrow> None | Some h \<Rightarrow> h fs) of
        Some err \<Rightarrow> (Some err, False, fs)
      | None \<Rightarrow> (case ifReplace io of
        Some err \<Rightarrow> (Some (labelError (laReplace (dwLabels plan)) err), False, fs)
      | None \<Rightarrow> publishCommit io plan (atomicReplace plan fs))))))"

definition WriteBytes :: "ioFaults \<Rightarrow> 'c DurableWrite \<Rightarrow> 'c \<Rightarrow> 'c files \<Rightarrow> goError option \<times> 'c files" where
  "WriteBytes io plan contents fs =
     (case beginWrite io plan fs of
        (Some err, fs1) \<Rightarrow> (Some err, fs1)
      | (None, fs1) \<Rightarrow>
          (case ifWrite io of
             Some err \<Rightarrow> (Some (labelError (laWrite (dwLabels plan)) err), discardTemporary io plan False fs1)
           | None \<Rightarrow>
               (case commitWrite io plan (gput fs1 (dwTemporary plan) (Some contents)) of
                  (result, committed, fs2) \<Rightarrow> (result, discardTemporary io plan committed fs2))))"

section \<open>What a durable write guarantees\<close>

text \<open>
  The plans of the state store and of the job index withdraw nothing, and what they publish after
  the replace lies in other files.
\<close>

definition keepsOthers :: "'c DurableWrite \<Rightarrow> string set \<Rightarrow> bool" where
  "keepsOthers plan sidecars \<longleftrightarrow>
     dwTemporary plan \<noteq> dwTarget plan \<and> dwTarget plan \<notin> sidecars \<and>
     dwTemporary plan \<notin> sidecars \<and> dwOnCommitFailure plan = None \<and>
     (case dwAfterReplace plan of
        None \<Rightarrow> True
      | Some h \<Rightarrow> \<forall>fs k. k \<notin> sidecars \<longrightarrow> map_of (snd (h fs)) k = map_of fs k)"

lemma discard_get:
  "map_of (discardTemporary io plan committed fs) k =
     (if k = dwTemporary plan \<and> \<not> committed \<and> \<not> ifRemoveFails io then None else map_of fs k)"
  by (simp add: discardTemporary_def)

lemma beginWrite_get:
  "k \<noteq> dwTemporary plan \<Longrightarrow> map_of (snd (beginWrite io plan fs)) k = map_of fs k"
  by (simp add: beginWrite_def Let_def discard_get split: option.split)

lemma beginWrite_temp:
  assumes "beginWrite io plan fs = (Some err, fs')"
  shows "if ifRemoveFails io \<or> map_of fs (dwTemporary plan) \<noteq> None then True
    else map_of fs' (dwTemporary plan) = None"
  using assms by (auto simp: beginWrite_def Let_def discard_get split: option.splits if_splits)

lemma atomicReplace_get:
  "dwTemporary plan \<noteq> dwTarget plan \<Longrightarrow>
   map_of (atomicReplace plan fs) k =
     (if k = dwTarget plan then Some (gget None fs (dwTemporary plan))
      else if k = dwTemporary plan then None else map_of fs k)"
  by (simp add: atomicReplace_def)

lemma finishCommit_files:
  "dwOnCommitFailure plan = None \<Longrightarrow> finishCommit io plan fs = (r, c, fs') \<Longrightarrow> fs' = fs \<and> c"
  by (auto simp: finishCommit_def withdraw_def split: option.splits if_splits)

lemma publishCommit_get:
  assumes "keepsOthers plan sidecars" and "publishCommit io plan fs = (r, c, fs')"
  shows "c \<and> (\<forall>k. k \<notin> sidecars \<longrightarrow> map_of fs' k = map_of fs k)"
proof (cases "dwAfterReplace plan")
  case None
  with assms show ?thesis
    by (auto simp: publishCommit_def keepsOthers_def dest!: finishCommit_files)
next
  case (Some h)
  obtain e fs1 where h: "h fs = (e, fs1)" by fastforce
  have "\<forall>k. k \<notin> sidecars \<longrightarrow> map_of fs1 k = map_of fs k"
    using assms(1) Some h by (auto simp: keepsOthers_def) (metis snd_conv)
  then show ?thesis
    using assms Some h
    by (cases e) (auto simp: publishCommit_def keepsOthers_def withdraw_def dest!: finishCommit_files)
qed

lemma commitWrite_cases:
  assumes "keepsOthers plan sidecars" and "commitWrite io plan fs = (r, committed, fs')"
  shows "if committed then publishCommit io plan (atomicReplace plan fs) = (r, committed, fs')
         else fs' = fs \<and> r \<noteq> None"
proof -
  have "c" if "publishCommit io plan (atomicReplace plan fs) = (r', c, f)" for r' c f
    using publishCommit_get [OF assms(1) that] by simp
  then show ?thesis
    using assms(2) by (auto simp: commitWrite_def split: option.splits) (metis option.distinct(1))
qed

lemma WriteBytes_spec:
  assumes "keepsOthers plan sidecars" and "WriteBytes io plan contents fs = (r, fs')"
  shows "(if r = None then map_of fs' (dwTarget plan) = Some (Some contents)
          else map_of fs' (dwTarget plan) \<in> {map_of fs (dwTarget plan), Some (Some contents)}) \<and>
    (if ifRemoveFails io \<or> map_of fs (dwTemporary plan) \<noteq> None then True
     else map_of fs' (dwTemporary plan) = None) \<and>
    (\<forall>k. k \<notin> sidecars \<union> {dwTarget plan, dwTemporary plan} \<longrightarrow> map_of fs' k = map_of fs k)"
proof -
  obtain b fs1 where b: "beginWrite io plan fs = (b, fs1)" by fastforce
  have temp: "dwTemporary plan \<noteq> dwTarget plan" "dwTarget plan \<notin> sidecars" "dwTemporary plan \<notin> sidecars"
    using assms(1) by (auto simp: keepsOthers_def)
  have fs1: "map_of fs1 k = map_of fs k" if "k \<noteq> dwTemporary plan" for k
    using beginWrite_get [OF that, of io fs] b by simp
  show ?thesis
  proof (cases "b \<noteq> None \<or> ifWrite io \<noteq> None")
    case True
    then show ?thesis
      using assms(2) b fs1 temp beginWrite_temp [of io plan fs _ fs1]
      by (auto simp: WriteBytes_def discard_get split: option.splits)
  next
    case False
    obtain c fs2 where c: "commitWrite io plan (gput fs1 (dwTemporary plan) (Some contents)) = (r, c, fs2)"
      and fs': "fs' = discardTemporary io plan c fs2"
      using assms(2) b False by (auto simp: WriteBytes_def split: prod.splits)
    have published: "map_of fs2 k =
        map_of (atomicReplace plan (gput fs1 (dwTemporary plan) (Some contents))) k"
      if c and "k \<notin> sidecars" for k
      using commitWrite_cases [OF assms(1) c] publishCommit_get [OF assms(1), of io _ r c fs2] that by simp
    show ?thesis
    proof (cases c)
      case True
      then show ?thesis
        using published [OF True] fs1 temp by (simp add: fs' discard_get atomicReplace_get)
    next
      case False
      then show ?thesis
        using commitWrite_cases [OF assms(1) c] fs1 temp
        by (auto simp: fs' discard_get)
    qed
  qed
qed

end
