(* ===== verification/JobIndex.thy ===== *)
theory JobIndex
  imports Errors "HOL-Library.Option_ord"
begin

text \<open>
  The durable index of jobs: \<open>src/internal/jobindex/catalog.go\<close>, \<open>file_store.go\<close>,
  \<open>assign_times.go\<close> and \<open>drop_journal.go\<close>. A record maps a pool and runner name to the job it runs
  and to its artifacts; patches from the listener and from the container runtime are merged into it.

  \<open>filepath.IsAbs\<close> and \<open>filepath.Clean\<close> depend on the operating system the controller is built for, so
  the definitions take them as a \<open>PathOps\<close> argument; \<open>unixPaths\<close> is their Unix version. The files of
  the index are represented by the values they encode, with the length of the encoding
  (\<open>encodedBytes\<close>) as an argument of the code that compares it with the size cap. Error texts keep
  the constant part of the format string.
\<close>

section \<open>Paths\<close>

record PathOps =
  pxIsAbs :: "string \<Rightarrow> bool"
  pxClean :: "string \<Rightarrow> string"

text \<open>
  \<open>filepath.Clean\<close> on Unix: empty and dot segments vanish, a dot-dot segment removes the segment
  before it, and at the root of a rooted path it vanishes.
\<close>

fun splitSlash :: "string \<Rightarrow> string list" where
  "splitSlash [] = [[]]"
| "splitSlash (c # cs) =
     (if c = CHR ''/'' then [] # splitSlash cs
      else (case splitSlash cs of [] \<Rightarrow> [[c]] | seg # segs \<Rightarrow> (c # seg) # segs))"

definition cleanStep :: "bool \<Rightarrow> string list \<Rightarrow> string \<Rightarrow> string list" where
  "cleanStep rooted stack seg =
     (if seg = [] \<or> seg = ''.'' then stack
      else if seg = ''..'' then
        (if stack \<noteq> [] \<and> last stack \<noteq> ''..'' then butlast stack
         else if rooted then stack else stack @ [seg])
      else stack @ [seg])"

fun joinSlash :: "string list \<Rightarrow> string" where
  "joinSlash [] = []"
| "joinSlash [seg] = seg"
| "joinSlash (seg # segs) = seg @ ''/'' @ joinSlash segs"

definition unixIsAbs :: "string \<Rightarrow> bool" where
  "unixIsAbs path \<longleftrightarrow> path \<noteq> [] \<and> hd path = CHR ''/''"

definition unixClean :: "string \<Rightarrow> string" where
  "unixClean path =
     (let rooted = unixIsAbs path;
          stack = foldl (cleanStep rooted) [] (splitSlash path)
      in if rooted then ''/'' @ joinSlash stack
         else if stack = [] then ''.'' else joinSlash stack)"

definition unixPaths :: PathOps where
  "unixPaths = \<lparr>pxIsAbs = unixIsAbs, pxClean = unixClean\<rparr>"

section \<open>White space\<close>

text \<open>
  \<open>strings.TrimSpace(s) == ""\<close>: every character is Unicode white space. Strings are byte sequences,
  so the multi-byte characters appear in their UTF-8 encoding.
\<close>

fun blankBytes :: "nat list \<Rightarrow> bool" where
  "blankBytes [] = True"
| "blankBytes (a # bs) =
     (if a = 32 \<or> 9 \<le> a \<and> a \<le> 13 then blankBytes bs
      else case bs of
        [] \<Rightarrow> False
      | b # cs \<Rightarrow>
          if a = 194 \<and> (b = 133 \<or> b = 160) then blankBytes cs
          else (case cs of
              [] \<Rightarrow> False
            | c # ds \<Rightarrow>
                (a = 225 \<and> b = 154 \<and> c = 128 \<or>
                 a = 226 \<and> b = 128 \<and> (128 \<le> c \<and> c \<le> 138 \<or> c = 168 \<or> c = 169 \<or> c = 175) \<or>
                 a = 226 \<and> b = 129 \<and> c = 159 \<or>
                 a = 227 \<and> b = 128 \<and> c = 128) \<and> blankBytes ds))"

definition blank :: "string \<Rightarrow> bool" where
  "blank s \<longleftrightarrow> blankBytes (map of_char s)"

section \<open>Records and patches\<close>

record JobRecord =
  jrPoolID :: string
  jrRunnerName :: string
  jrContainerID :: string
  jrJobID :: string
  jrResult :: string
  jrLogPath :: string
  jrDiagnosticPath :: string
  jrArtifactStartedAt :: time
  jrRunnerAssignedAt :: "time option"
  jrJobStartedAt :: time
  jrCompletedAt :: time
  jrFinalizedAt :: time
  jrUpdatedAt :: time
  jrOpen :: bool
  jrTombstonedAt :: "time option"

definition zeroJobRecord :: JobRecord where
  "zeroJobRecord = \<lparr>jrPoolID = [], jrRunnerName = [], jrContainerID = [], jrJobID = [], jrResult = [],
     jrLogPath = [], jrDiagnosticPath = [], jrArtifactStartedAt = 0, jrRunnerAssignedAt = None,
     jrJobStartedAt = 0, jrCompletedAt = 0, jrFinalizedAt = 0, jrUpdatedAt = 0, jrOpen = False,
     jrTombstonedAt = None\<rparr>"

record JobPatch =
  jpPoolID :: string
  jpRunnerName :: string
  jpContainerID :: string
  jpJobID :: string
  jpResult :: string
  jpLogPath :: string
  jpDiagnosticPath :: string
  jpArtifactStartedAt :: time
  jpRunnerAssignedAt :: time
  jpJobStartedAt :: time
  jpCompletedAt :: time
  jpFinalizedAt :: time
  jpOpen :: "bool option"
  jpTombstonedAt :: "time option"

record Catalog =
  caSchemaVersion :: int
  caRecords :: "JobRecord list"

definition jobSchemaVersion :: int where "jobSchemaVersion = 1"

definition recordKey :: "string \<Rightarrow> string \<Rightarrow> string" where
  "recordKey poolID runnerName = poolID @ [char_of (0 :: nat)] @ runnerName"

section \<open>Merging\<close>

definition mergeImmutable :: "string \<Rightarrow> string \<Rightarrow> string \<Rightarrow> goError + string" where
  "mergeImmutable name current incoming =
     (if incoming = [] then Inr current
      else if current \<noteq> [] \<and> current \<noteq> incoming then Inl (ErrWrap (name @ '' changed'') (Sentinel JobIndexConflict))
      else Inr incoming)"

definition mergePath :: "PathOps \<Rightarrow> string \<Rightarrow> string \<Rightarrow> string \<Rightarrow> goError + string" where
  "mergePath px name current incoming =
     (if incoming = [] then Inr current
      else if \<not> pxIsAbs px incoming then Inl (ErrText (name @ '' path must be absolute''))
      else mergeImmutable (name @ '' path'') current (pxClean px incoming))"

definition mergeTime :: "time \<Rightarrow> time \<Rightarrow> time" where
  "mergeTime destination v = (if timeIsZero destination \<and> \<not> timeIsZero v then v else destination)"

definition mergeOptionalTime :: "time option \<Rightarrow> time \<Rightarrow> time option" where
  "mergeOptionalTime destination v =
     (if destination \<noteq> None \<or> timeIsZero v then destination else Some v)"

definition mergeIdentity :: "JobRecord \<Rightarrow> JobPatch \<Rightarrow> goError + JobRecord" where
  "mergeIdentity existing patch =
     (if jrPoolID existing = [] then
        Inr (existing\<lparr>jrPoolID := jpPoolID patch, jrRunnerName := jpRunnerName patch\<rparr>)
      else if jrPoolID existing \<noteq> jpPoolID patch \<or> jrRunnerName existing \<noteq> jpRunnerName patch then
        Inl (ErrWrap ''pool/runner identity changed'' (Sentinel JobIndexConflict))
      else Inr existing)"

definition mergeTimes :: "JobRecord \<Rightarrow> JobPatch \<Rightarrow> JobRecord" where
  "mergeTimes r patch =
     r\<lparr>jrArtifactStartedAt := mergeTime (jrArtifactStartedAt r) (jpArtifactStartedAt patch),
       jrRunnerAssignedAt := mergeOptionalTime (jrRunnerAssignedAt r) (jpRunnerAssignedAt patch),
       jrJobStartedAt := mergeTime (jrJobStartedAt r) (jpJobStartedAt patch),
       jrCompletedAt := mergeTime (jrCompletedAt r) (jpCompletedAt patch),
       jrFinalizedAt := mergeTime (jrFinalizedAt r) (jpFinalizedAt patch)\<rparr>"

definition mergeFlags :: "JobRecord \<Rightarrow> JobPatch \<Rightarrow> JobRecord" where
  "mergeFlags r patch =
     (let r = (case jpOpen patch of None \<Rightarrow> r | Some b \<Rightarrow> r\<lparr>jrOpen := b\<rparr>)
      in case jpTombstonedAt patch of
           None \<Rightarrow> r
         | Some t \<Rightarrow> r\<lparr>jrTombstonedAt := Some t, jrOpen := False\<rparr>)"

definition mergeStrings :: "PathOps \<Rightarrow> JobRecord \<Rightarrow> JobPatch \<Rightarrow> goError + JobRecord" where
  "mergeStrings px r patch =
     bindE (mergeImmutable ''container ID'' (jrContainerID r) (jpContainerID patch)) (\<lambda>container.
     bindE (mergeImmutable ''job ID'' (jrJobID r) (jpJobID patch)) (\<lambda>job.
     bindE (mergeImmutable ''job result'' (jrResult r) (jpResult patch)) (\<lambda>result.
     bindE (mergePath px ''worker log'' (jrLogPath r) (jpLogPath patch)) (\<lambda>log.
     bindE (mergePath px ''worker diagnostics'' (jrDiagnosticPath r) (jpDiagnosticPath patch)) (\<lambda>diagnostic.
     Inr (r\<lparr>jrContainerID := container, jrJobID := job, jrResult := result, jrLogPath := log,
            jrDiagnosticPath := diagnostic\<rparr>))))))"

definition Merge :: "PathOps \<Rightarrow> JobRecord \<Rightarrow> JobPatch \<Rightarrow> time \<Rightarrow> goError + JobRecord" where
  "Merge px original patch now =
     (if blank (jpPoolID patch) \<or> blank (jpRunnerName patch) then
        Inl (ErrText ''job patch requires pool ID and runner name'')
      else if timeIsZero now then Inl (ErrText ''job patch time is required'')
      else
        bindE (mergeIdentity original patch) (\<lambda>existing.
          if jrTombstonedAt existing \<noteq> None then Inr existing
          else bindE (mergeStrings px existing patch) (\<lambda>r.
            let r' = mergeFlags (mergeTimes r patch) patch
            in Inr (if r' \<noteq> original then r'\<lparr>jrUpdatedAt := now\<rparr> else r'))))"

section \<open>Validation\<close>

fun validateRecords ::
  "PathOps \<Rightarrow> string set \<Rightarrow> string set \<Rightarrow> string set \<Rightarrow> JobRecord list \<Rightarrow> goError option" where
  "validateRecords px keys jobs containers [] = None"
| "validateRecords px keys jobs containers (r # rs) =
     (if jrPoolID r = [] \<or> jrRunnerName r = [] \<or> timeIsZero (jrUpdatedAt r) then
        Some (ErrText ''record requires poolId, runnerName, and updatedAt'')
      else if recordKey (jrPoolID r) (jrRunnerName r) \<in> keys then
        Some (ErrText ''duplicate pool/runner record'')
      else if jrJobID r \<noteq> [] \<and> jrJobID r \<in> jobs then Some (ErrText ''duplicate job ID'')
      else if jrContainerID r \<noteq> [] \<and> jrContainerID r \<in> containers then
        Some (ErrText ''duplicate container ID'')
      else if jrLogPath r \<noteq> [] \<and> \<not> pxIsAbs px (jrLogPath r) then
        Some (ErrText ''record logPath must be absolute'')
      else if jrDiagnosticPath r \<noteq> [] \<and> \<not> pxIsAbs px (jrDiagnosticPath r) then
        Some (ErrText ''record diagnosticPath must be absolute'')
      else validateRecords px (insert (recordKey (jrPoolID r) (jrRunnerName r)) keys)
             (if jrJobID r \<noteq> [] then insert (jrJobID r) jobs else jobs)
             (if jrContainerID r \<noteq> [] then insert (jrContainerID r) containers else containers) rs)"

definition validateCatalog :: "PathOps \<Rightarrow> Catalog \<Rightarrow> goError option" where
  "validateCatalog px c =
     (if caSchemaVersion c \<noteq> jobSchemaVersion then Some (ErrText ''unsupported jobs schemaVersion'')
      else validateRecords px {} {} {} (caRecords c))"

definition sortCatalog :: "Catalog \<Rightarrow> Catalog" where
  "sortCatalog c = c\<lparr>caRecords := sort_key (\<lambda>r. (jrPoolID r, jrRunnerName r)) (caRecords c)\<rparr>"

definition hasSuffix :: "string \<Rightarrow> string \<Rightarrow> bool" where
  "hasSuffix s sfx \<longleftrightarrow> length sfx \<le> length s \<and> drop (length s - length sfx) s = sfx"

definition trimSuffix :: "string \<Rightarrow> string \<Rightarrow> string" where
  "trimSuffix s sfx = (if hasSuffix s sfx then take (length s - length sfx) s else s)"

definition ResourceEvidencePath :: "PathOps \<Rightarrow> JobRecord \<Rightarrow> goError + string" where
  "ResourceEvidencePath px r =
     (if jrDiagnosticPath r = [] then Inr []
      else if \<not> pxIsAbs px (jrDiagnosticPath r) \<or> \<not> hasSuffix (jrDiagnosticPath r) ''-diag.tar.gz'' then
        Inl (ErrText ''worker diagnostic path cannot identify its resource sidecar'')
      else Inr (trimSuffix (pxClean px (jrDiagnosticPath r)) ''-diag.tar.gz'' @ ''-resources.json''))"

section \<open>Lookups\<close>

fun findByJobID :: "JobRecord list \<Rightarrow> string \<Rightarrow> JobRecord option" where
  "findByJobID [] jobID = None"
| "findByJobID (r # rs) jobID =
     (if jrJobID r = jobID \<and> jrTombstonedAt r = None then Some r else findByJobID rs jobID)"

fun findByRunner :: "JobRecord list \<Rightarrow> string \<Rightarrow> string \<Rightarrow> JobRecord option" where
  "findByRunner [] poolID runnerName = None"
| "findByRunner (r # rs) poolID runnerName =
     (if jrPoolID r = poolID \<and> jrRunnerName r = runnerName \<and> jrTombstonedAt r = None then Some r
      else findByRunner rs poolID runnerName)"

fun activeJobIn :: "JobRecord list \<Rightarrow> string \<Rightarrow> string \<Rightarrow> string \<times> bool" where
  "activeJobIn [] poolID runnerName = ([], False)"
| "activeJobIn (r # rs) poolID runnerName =
     (if jrPoolID r \<noteq> poolID \<or> jrRunnerName r \<noteq> runnerName \<or> jrTombstonedAt r \<noteq> None
      then activeJobIn rs poolID runnerName
      else (jrJobID r, jrJobID r \<noteq> [] \<and> \<not> timeIsZero (jrJobStartedAt r) \<and> timeIsZero (jrCompletedAt r)))"

definition ActiveJob :: "Catalog \<Rightarrow> string \<Rightarrow> string \<Rightarrow> string \<times> bool" where
  "ActiveJob c poolID runnerName =
     (if poolID = [] \<or> runnerName = [] then ([], False) else activeJobIn (caRecords c) poolID runnerName)"

section \<open>Applying patches\<close>

record upsertState =
  usRecords :: "JobRecord list"
  usIndexes :: "nat gomap"
  usResults :: "JobRecord list"
  usErrors :: "goError list"
  usChanged :: bool

definition recordIndexes :: "JobRecord list \<Rightarrow> nat gomap" where
  "recordIndexes rs = foldl (\<lambda>m (i, r). gput m (recordKey (jrPoolID r) (jrRunnerName r)) i) [] (enumerate 0 rs)"

definition upsertPatch :: "PathOps \<Rightarrow> time \<Rightarrow> upsertState \<Rightarrow> JobPatch \<Rightarrow> upsertState" where
  "upsertPatch px now us patch =
     (let key = recordKey (jpPoolID patch) (jpRunnerName patch);
          found = ghas (usIndexes us) key;
          index = gget 0 (usIndexes us) key;
          current = (if found then usRecords us ! index else zeroJobRecord)
      in case Merge px current patch now of
           Inl err \<Rightarrow> us\<lparr>usErrors := usErrors us @ [err], usResults := usResults us @ [zeroJobRecord]\<rparr>
         | Inr merged \<Rightarrow>
             (let us' = us\<lparr>usResults := usResults us @ [merged]\<rparr>
              in if found \<and> merged = current then us'
                 else if found then us'\<lparr>usChanged := True, usRecords := (usRecords us)[index := merged]\<rparr>
                 else us'\<lparr>usChanged := True, usIndexes := gput (usIndexes us) key (length (usRecords us)),
                         usRecords := usRecords us @ [merged]\<rparr>))"

definition applyPatches :: "PathOps \<Rightarrow> time \<Rightarrow> Catalog \<Rightarrow> JobPatch list \<Rightarrow> upsertState" where
  "applyPatches px now c patches =
     foldl (upsertPatch px now)
       \<lparr>usRecords = caRecords c, usIndexes = recordIndexes (caRecords c), usResults = [], usErrors = [],
        usChanged = False\<rparr> patches"

section \<open>Pruning and compaction\<close>

definition prunable :: "time \<Rightarrow> JobRecord \<Rightarrow> bool" where
  "prunable before r = (case jrTombstonedAt r of None \<Rightarrow> False | Some t \<Rightarrow> t \<le> before)"

definition terminalTime :: "JobRecord \<Rightarrow> time" where
  "terminalTime r = (if \<not> timeIsZero (jrFinalizedAt r) then jrFinalizedAt r else jrCompletedAt r)"

definition CompactableUnderCapacityPressure :: "JobRecord \<Rightarrow> bool" where
  "CompactableUnderCapacityPressure r =
     (if jrTombstonedAt r \<noteq> None then True
      else if jrOpen r \<or> timeIsZero (terminalTime r) then False
      else jrJobID r = [] \<or> timeIsZero (jrJobStartedAt r) \<or> \<not> timeIsZero (jrCompletedAt r))"

definition compactOldestFirst :: "Catalog \<Rightarrow> nat list \<Rightarrow> int \<Rightarrow> int \<Rightarrow> Catalog \<times> JobRecord list" where
  "compactOldestFirst c oldestFirst overshootBytes encodedBytes =
     (let averageRecordBytes = max (godiv encodedBytes (int (length (caRecords c)))) 1;
          dropCount = min (godiv overshootBytes averageRecordBytes + 1) (int (length oldestFirst));
          drop = set (take (nat dropCount) oldestFirst);
          indexed = enumerate 0 (caRecords c)
      in (c\<lparr>caRecords := map snd (filter (\<lambda>x. fst x \<notin> drop) indexed)\<rparr>,
          map snd (filter (\<lambda>x. fst x \<in> drop) indexed)))"

definition sortedIndexes :: "(JobRecord \<Rightarrow> bool) \<Rightarrow> (JobRecord \<Rightarrow> time) \<Rightarrow> JobRecord list \<Rightarrow> nat list" where
  "sortedIndexes keep stamp rs =
     map fst (sort_key (\<lambda>x. (stamp (snd x), jrPoolID (snd x), jrRunnerName (snd x)))
       (filter (\<lambda>x. keep (snd x)) (enumerate 0 rs)))"

definition isTombstoned :: "JobRecord \<Rightarrow> bool" where
  "isTombstoned r \<longleftrightarrow> jrTombstonedAt r \<noteq> None"

definition compactOldestTombstones :: "Catalog \<Rightarrow> int \<Rightarrow> int \<Rightarrow> Catalog \<times> JobRecord list" where
  "compactOldestTombstones c overshootBytes encodedBytes =
     (let tombstoned = sortedIndexes isTombstoned
            (\<lambda>r. case jrTombstonedAt r of None \<Rightarrow> 0 | Some t \<Rightarrow> t) (caRecords c)
      in if tombstoned = [] then (c, []) else compactOldestFirst c tombstoned overshootBytes encodedBytes)"

definition compactOldestCompleted :: "Catalog \<Rightarrow> int \<Rightarrow> int \<Rightarrow> Catalog \<times> JobRecord list" where
  "compactOldestCompleted c overshootBytes encodedBytes =
     (let completed = sortedIndexes
            (\<lambda>r. \<not> (jrTombstonedAt r \<noteq> None \<or> \<not> CompactableUnderCapacityPressure r)) terminalTime (caRecords c)
      in if completed = [] then (c, []) else compactOldestFirst c completed overshootBytes encodedBytes)"

definition maximumJobState :: int where "maximumJobState = 8388608"

lemma length_compactOldestFirst:
  "length (caRecords (fst (compactOldestFirst c idx ov e))) + length (snd (compactOldestFirst c idx ov e)) =
     length (caRecords c)"
  using sum_length_filter_compl [of "\<lambda>x. fst x \<in> D" "enumerate 0 (caRecords c)" for D]
  by (simp add: compactOldestFirst_def Let_def add.commute)

lemma length_compactOldestTombstones:
  "length (caRecords (fst (compactOldestTombstones c ov e))) + length (snd (compactOldestTombstones c ov e)) =
     length (caRecords c)"
  by (simp add: compactOldestTombstones_def Let_def length_compactOldestFirst)

lemma length_compactOldestCompleted:
  "length (caRecords (fst (compactOldestCompleted c ov e))) + length (snd (compactOldestCompleted c ov e)) =
     length (caRecords c)"
  by (simp add: compactOldestCompleted_def Let_def length_compactOldestFirst)

lemma compactOldestTombstones_shrinks:
  "snd (compactOldestTombstones c ov e) \<noteq> [] \<Longrightarrow>
   length (caRecords (fst (compactOldestTombstones c ov e))) < length (caRecords c)"
  using length_compactOldestTombstones [of c ov e]
  by (cases "snd (compactOldestTombstones c ov e)") auto

lemma compactOldestCompleted_shrinks:
  "snd (compactOldestCompleted c ov e) \<noteq> [] \<Longrightarrow>
   length (caRecords (fst (compactOldestCompleted c ov e))) < length (caRecords c)"
  using length_compactOldestCompleted [of c ov e]
  by (cases "snd (compactOldestCompleted c ov e)") auto

text \<open>
  The loop of \<open>encodeWithinCapacity\<close> re-encodes after every compaction. It ends because every
  compaction that lets it continue removes a record.
\<close>

function encodeLoop ::
  "(Catalog \<Rightarrow> goError + string) \<Rightarrow> JobRecord list \<Rightarrow> Catalog \<Rightarrow> goError + string \<times> Catalog \<times> JobRecord list" where
  "encodeLoop encode dropped c =
     (case encode c of
        Inl err \<Rightarrow> Inl err
      | Inr encoded \<Rightarrow>
          if int (length encoded) \<le> maximumJobState then Inr (encoded, c, dropped)
          else
            (let overshoot = int (length encoded) - maximumJobState;
                 tombstones = compactOldestTombstones c overshoot (int (length encoded));
                 completed = compactOldestCompleted c overshoot (int (length encoded))
             in if snd tombstones \<noteq> [] then encodeLoop encode dropped (fst tombstones)
                else if snd completed \<noteq> [] then encodeLoop encode (dropped @ snd completed) (fst completed)
                else Inl (ErrText ''jobs.json exceeds the safety limit with no tombstoned or completed records left to compact'')))"
  by pat_completeness auto

termination
  by (relation "measure (\<lambda>(encode, dropped, c). length (caRecords c))")
    (auto intro: compactOldestTombstones_shrinks compactOldestCompleted_shrinks)

end
