(* ===== verification/State_Store.thy ===== *)
theory State_Store
  imports Durable JobIndex
begin

text \<open>
  Persistence of the controller state: \<open>src/internal/state/store.go\<close> (the interface and the memory
  store) and \<open>src/internal/state/fs/store.go\<close> (the file store).

  A file of the state directory is named by its base name. Its JSON text is represented by what it
  decodes to (\<open>stateDoc\<close>): the value, or nothing when the text does not decode; whether it has
  fields the decoder does not know; whether a second value follows; and its length. The record
  \<open>storeEnv\<close> holds the outcome of every call the store makes to the operating system, the lock and
  the access controller during one operation.

  The locale \<open>state_store\<close> is the contract of \<open>state.Store\<close>: what a load returns after a save that
  succeeded and after one that failed. Both stores satisfy it, for the desired and for the observed
  state.
\<close>

section \<open>The memory store\<close>

record MemoryStore =
  msDesired :: DesiredState
  msObserved :: ObservedState
  msHasDesired :: bool
  msHasObserved :: bool

text \<open>HOL values are never shared, so a clone is the value itself.\<close>

definition clonePointer :: "'a option \<Rightarrow> 'a option" where
  "clonePointer p = (case p of None \<Rightarrow> None | Some v \<Rightarrow> Some v)"

definition cloneDesired :: "DesiredState \<Rightarrow> DesiredState" where
  "cloneDesired d = d\<lparr>dsTemporaryCapacityOverride := clonePointer (dsTemporaryCapacityOverride d)\<rparr>"

definition cloneObserved :: "ObservedState \<Rightarrow> ObservedState" where
  "cloneObserved obs =
     obs\<lparr>osDrainStartedAt := clonePointer (osDrainStartedAt obs),
         osResourceGate := (osResourceGate obs)
           \<lparr>rgHighCPUSince := clonePointer (rgHighCPUSince (osResourceGate obs)),
            rgHealthySince := clonePointer (rgHealthySince (osResourceGate obs))\<rparr>,
         osPowerGate := (osPowerGate obs)\<lparr>pgACSince := clonePointer (pgACSince (osPowerGate obs))\<rparr>\<rparr>"

definition memLoadDesired :: "goError option \<Rightarrow> MemoryStore \<Rightarrow> goError + DesiredState" where
  "memLoadDesired ctxErr s =
     (case ctxErr of
        Some err \<Rightarrow> Inl err
      | None \<Rightarrow> if \<not> msHasDesired s then Inl (Sentinel StateNotFound) else Inr (cloneDesired (msDesired s)))"

definition memSaveDesired :: "goError option \<Rightarrow> DesiredState \<Rightarrow> MemoryStore \<Rightarrow> goError option \<times> MemoryStore" where
  "memSaveDesired ctxErr desired s =
     (case ctxErr of
        Some err \<Rightarrow> (Some err, s)
      | None \<Rightarrow> (None, s\<lparr>msDesired := cloneDesired desired, msHasDesired := True\<rparr>))"

definition memLoadObserved :: "goError option \<Rightarrow> MemoryStore \<Rightarrow> goError + ObservedState" where
  "memLoadObserved ctxErr s =
     (case ctxErr of
        Some err \<Rightarrow> Inl err
      | None \<Rightarrow> if \<not> msHasObserved s then Inl (Sentinel StateNotFound) else Inr (cloneObserved (msObserved s)))"

definition memSaveObserved :: "goError option \<Rightarrow> ObservedState \<Rightarrow> MemoryStore \<Rightarrow> goError option \<times> MemoryStore" where
  "memSaveObserved ctxErr observed s =
     (case ctxErr of
        Some err \<Rightarrow> (Some err, s)
      | None \<Rightarrow> (None, s\<lparr>msObserved := cloneObserved observed, msHasObserved := True\<rparr>))"

section \<open>Validation\<close>

definition validateDesired :: "DesiredState \<Rightarrow> goError option" where
  "validateDesired v =
     (if dsSchemaVersion v \<noteq> 1 then Some (ErrText ''unsupported schemaVersion'')
      else if \<not> modeValid (dsMode v) then Some (ErrText ''unsupported mode'')
      else if (case dsTemporaryCapacityOverride v of None \<Rightarrow> False | Some c \<Rightarrow> c < 0) then
        Some (ErrText ''temporaryCapacityOverride must not be negative'')
      else if timeIsZero (dsUpdatedAt v) then Some (ErrText ''updatedAt is required'')
      else None)"

fun validPhase :: "Phase \<Rightarrow> bool" where
  "validPhase (PhaseOther _) = False"
| "validPhase _ = True"

fun validWorkerState :: "WorkerState \<Rightarrow> bool" where
  "validWorkerState (WorkerOther _) = False"
| "validWorkerState _ = True"

fun validateWorkers :: "string set \<Rightarrow> Worker list \<Rightarrow> goError option" where
  "validateWorkers ids [] = None"
| "validateWorkers ids (w # ws) =
     (if wID w = [] \<or> wPoolID w = [] then Some (ErrText ''workers require id and poolId'')
      else if wID w \<in> ids then Some (ErrText ''duplicate worker ID'')
      else if \<not> validWorkerState (wState w) then Some (ErrText ''worker has unsupported state'')
      else validateWorkers (insert (wID w) ids) ws)"

fun validatePools :: "string set \<Rightarrow> PoolObservation list \<Rightarrow> goError option" where
  "validatePools ids [] = None"
| "validatePools ids (p # ps) =
     (if poID p = [] then Some (ErrText ''pools require id'')
      else if poID p \<in> ids then Some (ErrText ''duplicate pool ID'')
      else if poTotalAssignedJobs p < 0 \<or> poMaxCapacity p < 0 \<or> poDrainServiceCapacity p < 0 \<or>
              poDesiredWorkers p < 0 then Some (ErrText ''pool contains a negative count'')
      else validatePools (insert (poID p) ids) ps)"

definition validateObserved :: "ObservedState \<Rightarrow> goError option" where
  "validateObserved v =
     (if osSchemaVersion v \<noteq> 1 then Some (ErrText ''unsupported schemaVersion'')
      else if \<not> validPhase (osPhase v) then Some (ErrText ''unsupported phase'')
      else if timeIsZero (osHeartbeatAt v) then Some (ErrText ''heartbeatAt is required'')
      else case validateWorkers {} (osWorkers v) of
             Some err \<Rightarrow> Some err
           | None \<Rightarrow> validatePools {} (osPools v))"

definition alphaNum :: "char \<Rightarrow> bool" where
  "alphaNum c \<longleftrightarrow>
     (let n = (of_char c :: nat) in 48 \<le> n \<and> n \<le> 57 \<or> 65 \<le> n \<and> n \<le> 90 \<or> 97 \<le> n \<and> n \<le> 122)"

text \<open>The pattern \<open>^[A-Za-z0-9][A-Za-z0-9._-]{0,127}$\<close>.\<close>

fun restartRequestIDMatches :: "string \<Rightarrow> bool" where
  "restartRequestIDMatches [] = False"
| "restartRequestIDMatches (c # cs) \<longleftrightarrow>
     alphaNum c \<and> length cs \<le> 127 \<and> list_all (\<lambda>d. alphaNum d \<or> d = CHR ''.'' \<or> d = CHR ''_'' \<or> d = CHR ''-'') cs"

definition validateRestartReceipt :: "RestartReceipt \<Rightarrow> goError option" where
  "validateRestartReceipt v =
     (if rrSchemaVersion v \<noteq> 1 then Some (ErrText ''unsupported schemaVersion'')
      else if \<not> restartRequestIDMatches (rrRequestID v) then
        Some (ErrText ''requestId contains unsupported characters or is too long'')
      else if rrProcessID v = 0 then Some (ErrText ''pid is required'')
      else if blank (rrVersion v) \<or> 128 < length (rrVersion v) then
        Some (ErrText ''version is required and must be at most 128 characters'')
      else if timeIsZero (rrCompletedAt v) then Some (ErrText ''completedAt is required'')
      else None)"

section \<open>The file store\<close>

datatype statePayload = DesiredDoc DesiredState | ObservedDoc ObservedState | RestartDoc RestartReceipt

fun desiredOf :: "statePayload \<Rightarrow> DesiredState option" where
  "desiredOf (DesiredDoc d) = Some d" | "desiredOf _ = None"

fun observedOf :: "statePayload \<Rightarrow> ObservedState option" where
  "observedOf (ObservedDoc d) = Some d" | "observedOf _ = None"

fun restartOf :: "statePayload \<Rightarrow> RestartReceipt option" where
  "restartOf (RestartDoc d) = Some d" | "restartOf _ = None"

record stateDoc =
  sdcPayload :: "statePayload option"
  sdcUnknownFields :: bool
  sdcTrailer :: bool
  sdcSize :: int

record storeEnv =
  seCtxErr :: "goError option"
  seLock :: "goError option"
  seUnlock :: "goError option"
  seOpen :: "goError option"
  seRead :: "goError option"
  seClose :: "goError option"
  seMkdir :: "goError option"
  seHarden :: "string \<Rightarrow> goError option"
  seEncode :: "statePayload \<Rightarrow> goError + int"
  seRandom :: string
  seIO :: ioFaults

definition desiredFilename :: string where "desiredFilename = ''desired.json''"
definition observedFilename :: string where "observedFilename = ''observed.json''"
definition restartFilename :: string where "restartFilename = ''restart-completed.json''"
definition maximumStateSize :: int where "maximumStateSize = 8388608"

text \<open>A deferred call that may fail joins its error to the result.\<close>

definition deferErr :: "string \<Rightarrow> goError option \<Rightarrow> goError option \<Rightarrow> goError option" where
  "deferErr label failure result =
     (case failure of None \<Rightarrow> result | Some err \<Rightarrow> errorsJoin [result, Some (ErrWrap label err)])"

definition decodeErr :: "(statePayload \<Rightarrow> 'a option) \<Rightarrow> bool \<Rightarrow> stateDoc \<Rightarrow> goError + 'a" where
  "decodeErr project rejectUnknown doc =
     (if maximumStateSize < sdcSize doc then Inl (ErrWrap ''exceeds the safety limit'' (Sentinel LoadContent))
      else case (case sdcPayload doc of None \<Rightarrow> None | Some p \<Rightarrow> project p) of
        None \<Rightarrow> Inl (ErrWrap ''decode'' (Sentinel LoadContent))
      | Some v \<Rightarrow>
          if rejectUnknown \<and> sdcUnknownFields doc then Inl (ErrWrap ''decode'' (Sentinel LoadContent))
          else if sdcTrailer doc then Inl (ErrWrap ''multiple JSON values are not allowed'' (Sentinel LoadContent))
          else Inr v)"

text \<open>The value and the error of a function that fills a destination and returns an error.\<close>

definition resultErr :: "goError + 'a \<Rightarrow> goError option" where
  "resultErr r = (case r of Inl err \<Rightarrow> Some err | Inr _ \<Rightarrow> None)"

definition withErr :: "goError + 'a \<Rightarrow> goError option \<Rightarrow> goError + 'a" where
  "withErr r err = (case err of None \<Rightarrow> r | Some e \<Rightarrow> Inl e)"

definition readFile ::
  "storeEnv \<Rightarrow> (statePayload \<Rightarrow> 'a option) \<Rightarrow> bool \<Rightarrow> stateDoc option \<Rightarrow> goError + 'a" where
  "readFile env project rejectUnknown file =
     (case seRead env of
        Some err \<Rightarrow> Inl (ErrWrap ''read'' err)
      | None \<Rightarrow>
          (case file of
             None \<Rightarrow> Inl (ErrWrap ''decode'' (Sentinel LoadContent))
           | Some doc \<Rightarrow> decodeErr project rejectUnknown doc))"

definition loadLocked ::
  "storeEnv \<Rightarrow> string \<Rightarrow> (statePayload \<Rightarrow> 'a option) \<Rightarrow> bool \<Rightarrow> stateDoc files \<Rightarrow> goError + 'a" where
  "loadLocked env name project rejectUnknown fs =
     (case map_of fs name of
        None \<Rightarrow> Inl (Sentinel StateNotFound)
      | Some file \<Rightarrow>
          (case seOpen env of
             Some err \<Rightarrow> Inl (ErrWrap ''open'' err)
           | None \<Rightarrow>
               (let r = readFile env project rejectUnknown file
                in withErr r (deferErr ''close'' (seClose env) (resultErr r)))))"

definition loadFile ::
  "storeEnv \<Rightarrow> string \<Rightarrow> (statePayload \<Rightarrow> 'a option) \<Rightarrow> bool \<Rightarrow> stateDoc files \<Rightarrow> goError + 'a" where
  "loadFile env name project rejectUnknown fs =
     (case seCtxErr env of
        Some err \<Rightarrow> Inl err
      | None \<Rightarrow> (case seLock env of
          Some err \<Rightarrow> Inl (ErrWrap ''lock state'' err)
        | None \<Rightarrow>
            (let r = loadLocked env name project rejectUnknown fs
             in withErr r (deferErr ''unlock state'' (seUnlock env) (resultErr r)))))"

definition storePlan :: "storeEnv \<Rightarrow> string \<Rightarrow> stateDoc DurableWrite" where
  "storePlan env name =
     \<lparr>dwTarget = name, dwTemporary = ''.'' @ name @ ''-'' @ seRandom env, dwHardenBeforeWrite = None,
      dwHardenBeforeReplace = Some (\<lambda>path. map_option (ErrWrap (''secure temporary '' @ name)) (seHarden env path)),
      dwHardenAfterReplace = Some (\<lambda>path. map_option (ErrWrap (''verify '' @ name @ '' ACL'')) (seHarden env path)),
      dwBeforeReplace = None, dwAfterReplace = None, dwOnCommitFailure = None, dwSkipDirectorySync = False,
      dwLabels = \<lparr>laCreateTemporary = ''create temporary '' @ name,
        laSetMode = ''set temporary '' @ name @ '' permissions'', laWrite = ''write temporary '' @ name,
        laFlush = ''flush temporary '' @ name, laClose = ''close temporary '' @ name,
        laReplace = ''replace '' @ name @ '' atomically'', laFlushDirectory = ''flush state directory''\<rparr>\<rparr>"

definition savedDoc :: "statePayload \<Rightarrow> int \<Rightarrow> stateDoc" where
  "savedDoc payload encoded =
     \<lparr>sdcPayload = Some payload, sdcUnknownFields = False, sdcTrailer = False, sdcSize = encoded\<rparr>"

definition saveLocked :: "storeEnv \<Rightarrow> string \<Rightarrow> statePayload \<Rightarrow> stateDoc files \<Rightarrow> goError option \<times> stateDoc files" where
  "saveLocked env name payload fs =
     (case seMkdir env of
        Some err \<Rightarrow> (Some (ErrWrap ''create state directory'' err), fs)
      | None \<Rightarrow> (case seHarden env ''.'' of
          Some err \<Rightarrow> (Some (ErrWrap ''secure state directory'' err), fs)
        | None \<Rightarrow> (case seEncode env payload of
            Inl err \<Rightarrow> (Some (ErrWrap (''encode '' @ name) err), fs)
          | Inr encoded \<Rightarrow> WriteBytes (seIO env) (storePlan env name) (savedDoc payload encoded) fs)))"

definition saveFile :: "storeEnv \<Rightarrow> string \<Rightarrow> statePayload \<Rightarrow> stateDoc files \<Rightarrow> goError option \<times> stateDoc files" where
  "saveFile env name payload fs =
     (case seCtxErr env of
        Some err \<Rightarrow> (Some err, fs)
      | None \<Rightarrow> (case seLock env of
          Some err \<Rightarrow> (Some (ErrWrap ''lock state'' err), fs)
        | None \<Rightarrow>
            (let (r, fs') = saveLocked env name payload fs
             in (deferErr ''unlock state'' (seUnlock env) r, fs'))))"

definition LoadDesired :: "storeEnv \<Rightarrow> stateDoc files \<Rightarrow> goError + DesiredState" where
  "LoadDesired env fs =
     bindE (loadFile env desiredFilename desiredOf True fs) (\<lambda>v.
       case validateDesired v of Some err \<Rightarrow> Inl (ErrWrap ''invalid desired state'' err) | None \<Rightarrow> Inr v)"

definition SaveDesired :: "storeEnv \<Rightarrow> DesiredState \<Rightarrow> stateDoc files \<Rightarrow> goError option \<times> stateDoc files" where
  "SaveDesired env v fs =
     (case validateDesired v of
        Some err \<Rightarrow> (Some (ErrWrap ''invalid desired state'' err), fs)
      | None \<Rightarrow> saveFile env desiredFilename (DesiredDoc v) fs)"

definition classifyObservedLoadErr :: "goError \<Rightarrow> goError" where
  "classifyObservedLoadErr err =
     (if errorsIs StateNotFound err then err
      else if errorsIs LoadContent err then ErrJoin [Sentinel CorruptObserved, err]
      else err)"

definition LoadObserved :: "storeEnv \<Rightarrow> stateDoc files \<Rightarrow> goError + ObservedState" where
  "LoadObserved env fs =
     (case loadFile env observedFilename observedOf False fs of
        Inl err \<Rightarrow> Inl (classifyObservedLoadErr err)
      | Inr v \<Rightarrow>
          (case validateObserved v of
             Some err \<Rightarrow> Inl (ErrJoin [Sentinel CorruptObserved, ErrWrap ''invalid observed state'' err])
           | None \<Rightarrow> Inr v))"

definition SaveObserved :: "storeEnv \<Rightarrow> ObservedState \<Rightarrow> stateDoc files \<Rightarrow> goError option \<times> stateDoc files" where
  "SaveObserved env v fs =
     (case validateObserved v of
        Some err \<Rightarrow> (Some (ErrWrap ''invalid observed state'' err), fs)
      | None \<Rightarrow> saveFile env observedFilename (ObservedDoc v) fs)"

definition LoadRestartReceipt :: "storeEnv \<Rightarrow> stateDoc files \<Rightarrow> goError + RestartReceipt" where
  "LoadRestartReceipt env fs =
     bindE (loadFile env restartFilename restartOf True fs) (\<lambda>v.
       case validateRestartReceipt v of Some err \<Rightarrow> Inl (ErrWrap ''invalid restart receipt'' err) | None \<Rightarrow> Inr v)"

definition SaveRestartReceipt :: "storeEnv \<Rightarrow> RestartReceipt \<Rightarrow> stateDoc files \<Rightarrow> goError option \<times> stateDoc files" where
  "SaveRestartReceipt env v fs =
     (case validateRestartReceipt v of
        Some err \<Rightarrow> (Some (ErrWrap ''invalid restart receipt'' err), fs)
      | None \<Rightarrow> saveFile env restartFilename (RestartDoc v) fs)"

text \<open>
  \<open>QuarantineObserved\<close> links the corrupt file under the first free evidence name of a hundred and
  leaves the source in place. The time stamp of the name and the outcome of each link call are
  arguments.
\<close>

definition evidenceName :: "string \<Rightarrow> nat \<Rightarrow> string" where
  "evidenceName stamp attempt = ''observed.corrupt-'' @ stamp @ ''-'' @ natString attempt @ ''.json''"

fun linkEvidence ::
  "(nat \<Rightarrow> goError option) \<Rightarrow> string \<Rightarrow> nat \<Rightarrow> nat \<Rightarrow> stateDoc files \<Rightarrow> goError + string \<times> stateDoc files" where
  "linkEvidence linkErr stamp attempt 0 fs =
     Inl (ErrText ''preserve corrupt observed state: unique evidence name exhausted'')"
| "linkEvidence linkErr stamp attempt (Suc left) fs =
     (if ghas fs (evidenceName stamp attempt) then linkEvidence linkErr stamp (Suc attempt) left fs
      else case linkErr attempt of
        Some err \<Rightarrow> Inl (ErrWrap ''preserve corrupt observed state'' err)
      | None \<Rightarrow> Inr (evidenceName stamp attempt,
          gput fs (evidenceName stamp attempt) (gget None fs observedFilename)))"

definition quarantineLocked ::
  "storeEnv \<Rightarrow> (nat \<Rightarrow> goError option) \<Rightarrow> string \<Rightarrow> stateDoc files \<Rightarrow> goError option \<times> stateDoc files" where
  "quarantineLocked env linkErr stamp fs =
     (if \<not> ghas fs observedFilename then
        (Some (ErrText ''inspect corrupt observed state''), fs)
      else case linkEvidence linkErr stamp 0 100 fs of
        Inl err \<Rightarrow> (Some err, fs)
      | Inr (evidence, fs') \<Rightarrow>
          (case seHarden env evidence of
             Some err \<Rightarrow> (Some (ErrWrap ''secure corrupt observed evidence'' err), fs')
           | None \<Rightarrow> (case ifSyncDirectory (seIO env) of
               Some err \<Rightarrow> (Some (ErrWrap ''flush corrupt observed evidence'' err), fs')
             | None \<Rightarrow> (None, fs'))))"

definition QuarantineObserved ::
  "storeEnv \<Rightarrow> (nat \<Rightarrow> goError option) \<Rightarrow> string \<Rightarrow> stateDoc files \<Rightarrow> goError option \<times> stateDoc files" where
  "QuarantineObserved env linkErr stamp fs =
     (case seCtxErr env of
        Some err \<Rightarrow> (Some err, fs)
      | None \<Rightarrow> (case seLock env of
          Some err \<Rightarrow> (Some (ErrWrap ''lock state'' err), fs)
        | None \<Rightarrow>
            (let (r, fs') = quarantineLocked env linkErr stamp fs
             in (deferErr ''unlock state'' (seUnlock env) r, fs'))))"

section \<open>The contract of a state store\<close>

fun runSaves :: "('e \<Rightarrow> 'v \<Rightarrow> 's \<Rightarrow> goError option \<times> 's) \<Rightarrow> ('e \<times> 'v) list \<Rightarrow> 's \<Rightarrow> 's" where
  "runSaves save [] s = s"
| "runSaves save ((e, v) # ops) s = runSaves save ops (snd (save e v s))"

locale state_store =
  fixes load :: "'s \<Rightarrow> goError + 'v"
    and save :: "'e \<Rightarrow> 'v \<Rightarrow> 's \<Rightarrow> goError option \<times> 's"
    and fits :: "'e \<Rightarrow> 'v \<Rightarrow> bool"
  assumes save_ok: "fits e v \<Longrightarrow> save e v s = (None, s') \<Longrightarrow> load s' = Inr v"
    and save_failed: "fits e v \<Longrightarrow> save e v s = (Some err, s') \<Longrightarrow> load s' = load s \<or> load s' = Inr v"
begin

lemma save_cases: "fits e v \<Longrightarrow> load (snd (save e v s)) = load s \<or> load (snd (save e v s)) = Inr v"
  using save_ok save_failed by (metis option.exhaust prod.collapse)

lemma load_after_saves:
  "list_all (\<lambda>x. fits (fst x) (snd x)) ops \<Longrightarrow>
   load (runSaves save ops s) \<in> insert (load s) (Inr ` snd ` set ops)"
proof (induction ops arbitrary: s)
  case (Cons x ops)
  obtain e v where x: "x = (e, v)" by fastforce
  have "load (runSaves save ops (snd (save e v s))) \<in> insert (load (snd (save e v s))) (Inr ` snd ` set ops)"
    using Cons by simp
  then show ?case
    using save_cases [of e v s] Cons.prems x by auto
qed simp

lemma load_after_last_save:
  assumes "list_all (\<lambda>x. fits (fst x) (snd x)) ops" and "fits e v"
    and "fst (save e v (runSaves save ops s)) = None"
  shows "load (runSaves save (ops @ [(e, v)]) s) = Inr v"
proof -
  have "runSaves save (ops @ [(e, v)]) s = snd (save e v (runSaves save ops s))"
    by (induction ops arbitrary: s) auto
  then show ?thesis
    using save_ok [OF assms(2)] assms(3) by (metis prod.collapse)
qed

end

lemma clone_id [simp]: "cloneDesired d = d" "cloneObserved obs = obs" "clonePointer p = p"
  by (simp_all add: cloneDesired_def cloneObserved_def clonePointer_def split: option.split)

interpretation mem_desired: state_store "memLoadDesired None" memSaveDesired "\<lambda>_ _. True"
  by unfold_locales (auto simp: memLoadDesired_def memSaveDesired_def split: option.splits)

interpretation mem_observed: state_store "memLoadObserved None" memSaveObserved "\<lambda>_ _. True"
  by unfold_locales (auto simp: memLoadObserved_def memSaveObserved_def split: option.splits)

definition quietStore :: storeEnv where
  "quietStore = \<lparr>seCtxErr = None, seLock = None, seUnlock = None, seOpen = None, seRead = None,
     seClose = None, seMkdir = None, seHarden = (\<lambda>_. None), seEncode = (\<lambda>_. Inr 0), seRandom = [],
     seIO = noFaults\<rparr>"

text \<open>Files the load can read back are no longer than the safety limit.\<close>

definition fitsLimit :: "('v \<Rightarrow> statePayload) \<Rightarrow> storeEnv \<Rightarrow> 'v \<Rightarrow> bool" where
  "fitsLimit doc env v = (case seEncode env (doc v) of Inl _ \<Rightarrow> True | Inr n \<Rightarrow> n \<le> maximumStateSize)"

lemma storePlan_keeps: "hd name \<noteq> CHR ''.'' \<Longrightarrow> keepsOthers (storePlan env name) {}"
  by (auto simp: keepsOthers_def storePlan_def Cons_eq_append_conv)

lemma deferErr_None [simp]: "deferErr label f r = None \<longleftrightarrow> f = None \<and> r = None"
  by (auto simp: deferErr_def errorsJoin_def List.map_filter_simps split: option.split)

lemma saveLocked_target:
  assumes "hd name \<noteq> CHR ''.''" and "saveLocked env name payload fs = (r, fs')"
  shows "(r \<noteq> None \<and> map_of fs' name = map_of fs name) \<or>
    (\<exists>n. seEncode env payload = Inr n \<and> map_of fs' name = Some (Some (savedDoc payload n)))"
proof -
  have target: "dwTarget (storePlan env name) = name" by (simp add: storePlan_def)
  have written: "(r \<noteq> None \<and> map_of f' name = map_of f name) \<or> map_of f' name = Some (Some c)"
    if "WriteBytes io (storePlan env name) c f = (r, f')" for io c f r f'
    using WriteBytes_spec [OF storePlan_keeps [OF assms(1)] that] unfolding target
    by (auto split: if_splits)
  show ?thesis
    using assms(2) by (auto simp: saveLocked_def split: option.splits sum.splits dest!: written)
qed

lemma saveFile_target:
  assumes "hd name \<noteq> CHR ''.''" and "saveFile env name payload fs = (r, fs')"
  shows "(r \<noteq> None \<and> map_of fs' name = map_of fs name) \<or>
    (\<exists>n. seEncode env payload = Inr n \<and> map_of fs' name = Some (Some (savedDoc payload n)))"
proof -
  obtain q f where q: "saveLocked env name payload fs = (q, f)" by fastforce
  have "deferErr l u q = None \<Longrightarrow> q = None" for l u by simp
  then show ?thesis
    using assms(2) saveLocked_target [OF assms(1) q] q
    by (auto simp: saveFile_def simp del: deferErr_None split: option.splits)
qed

lemma loadFile_saved:
  assumes "map_of fs name = Some (Some (savedDoc payload n))" and "n \<le> maximumStateSize"
    and "project payload = Some v"
  shows "loadFile quietStore name project reject fs = Inr v"
  using assms by (simp add: loadFile_def loadLocked_def readFile_def decodeErr_def savedDoc_def
      quietStore_def withErr_def resultErr_def deferErr_def)

lemma loadFile_cong: "map_of fs name = map_of fs' name \<Longrightarrow>
    loadFile env name project reject fs = loadFile env name project reject fs'"
  unfolding loadFile_def loadLocked_def by (simp split: option.split)

lemma SaveDesired_cases:
  assumes "fitsLimit DesiredDoc env v" and "SaveDesired env v fs = (r, fs')"
  shows "(r \<noteq> None \<and> LoadDesired quietStore fs' = LoadDesired quietStore fs) \<or> LoadDesired quietStore fs' = Inr v"
  using assms saveFile_target [of desiredFilename env "DesiredDoc v" fs r fs']
  by (auto simp: SaveDesired_def LoadDesired_def desiredFilename_def fitsLimit_def
      loadFile_saved cong: loadFile_cong split: option.splits sum.splits)

lemma SaveObserved_cases:
  assumes "fitsLimit ObservedDoc env v" and "SaveObserved env v fs = (r, fs')"
  shows "(r \<noteq> None \<and> LoadObserved quietStore fs' = LoadObserved quietStore fs) \<or> LoadObserved quietStore fs' = Inr v"
  using assms saveFile_target [of observedFilename env "ObservedDoc v" fs r fs']
  by (auto simp: SaveObserved_def LoadObserved_def observedFilename_def fitsLimit_def
      loadFile_saved cong: loadFile_cong split: option.splits sum.splits)

interpretation fs_desired: state_store "LoadDesired quietStore" SaveDesired "fitsLimit DesiredDoc"
  by unfold_locales (auto dest: SaveDesired_cases)

interpretation fs_observed: state_store "LoadObserved quietStore" SaveObserved "fitsLimit ObservedDoc"
  by unfold_locales (auto dest: SaveObserved_cases)

end
