(* ===== verification/Store_Theorems.thy ===== *)
theory Store_Theorems
  imports State_Store Samples
begin

text \<open>
  Properties of durable writes and of the state store.
\<close>

section \<open>Durable writes\<close>


definition samplePlan :: "string DurableWrite" where
  "samplePlan = \<lparr>dwTarget = ''jobs.json'', dwTemporary = ''.jobs.json-1'', dwHardenBeforeWrite = None,
     dwHardenBeforeReplace = None, dwHardenAfterReplace = None, dwBeforeReplace = None, dwAfterReplace = None,
     dwOnCommitFailure = None, dwSkipDirectorySync = False, dwLabels = noLabels\<rparr>"


section \<open>The state store\<close>


definition sampleObserved :: ObservedState where
  "sampleObserved = zeroObservedState\<lparr>osSchemaVersion := 1, osPhase := PhaseReady, osHeartbeatAt := 5\<rparr>"


text \<open>
  C28: A successful quarantine keeps every file of the state directory, the corrupt observed state
  included, and adds exactly one file, under a name that was free, with the contents of the corrupt
  file.\<close>

theorem quarantine_preserves_evidence:
  assumes "QuarantineObserved env linkErr stamp fs = (None, fs')"
  shows "\<exists>n < 100. \<not> ghas fs (evidenceName stamp n) \<and>
    map_of fs' = (map_of fs)(evidenceName stamp n \<mapsto> gget None fs observedFilename) \<and> ghas fs observedFilename"
proof -
  have links: "\<exists>n. attempt \<le> n \<and> n < attempt + left \<and> f = evidenceName stamp n \<and> \<not> ghas fs f \<and>
      g = gput fs f (gget None fs observedFilename)"
    if "linkEvidence linkErr stamp attempt left fs = Inr (f, g)" for attempt left f g
    using that
  proof (induction left arbitrary: attempt)
    case (Suc left)
    show ?case
    proof (cases "ghas fs (evidenceName stamp attempt)")
      case True
      then obtain n where "Suc attempt \<le> n" "n < Suc attempt + left" "f = evidenceName stamp n"
          "\<not> ghas fs f" "g = gput fs f (gget None fs observedFilename)"
        using Suc.IH [of "Suc attempt"] Suc.prems by auto
      then show ?thesis by (intro exI [of _ n]) simp
    next
      case False
      then show ?thesis
        using Suc.prems by (intro exI [of _ attempt]) (auto split: option.splits)
    qed
  qed simp
  obtain r where q: "quarantineLocked env linkErr stamp fs = (r, fs')" and r: "r = None"
    using assms by (auto simp: QuarantineObserved_def split: option.splits prod.splits)
  then obtain f where "linkEvidence linkErr stamp 0 100 fs = Inr (f, fs')" and "ghas fs observedFilename"
    by (auto simp: quarantineLocked_def split: if_splits sum.splits option.splits)
  then show ?thesis
    using links [of 0 100 f fs'] by (auto simp: fun_eq_iff)
qed

theorem quarantine_preserves_evidence_witness:
  "\<exists>n < 100. map_of (snd (QuarantineObserved quietStore (\<lambda>_. None) ''now'' [(observedFilename, None)])) =
     (map_of [(observedFilename, None :: stateDoc option)])(evidenceName ''now'' n \<mapsto> None)"
proof -
  let ?fs = "[(observedFilename, None :: stateDoc option)]"
  have free: "\<not> ghas ?fs (evidenceName ''now'' 0)"
    by (simp add: ghas_def observedFilename_def evidenceName_def)
  have "linkEvidence (\<lambda>_. None) ''now'' 0 100 ?fs =
      Inr (evidenceName ''now'' 0, gput ?fs (evidenceName ''now'' 0) (gget None ?fs observedFilename))"
    using free linkEvidence.simps(2) [of "\<lambda>_. None" "''now''" 0 99 ?fs] by simp
  then have "fst (QuarantineObserved quietStore (\<lambda>_. None) ''now'' ?fs) = None"
    by (simp add: QuarantineObserved_def quarantineLocked_def quietStore_def noFaults_def deferErr_def ghas_def)
  then have "QuarantineObserved quietStore (\<lambda>_. None) ''now'' ?fs =
      (None, snd (QuarantineObserved quietStore (\<lambda>_. None) ''now'' ?fs))"
    by (metis prod.collapse)
  from quarantine_preserves_evidence [OF this] show ?thesis
    by (auto simp: gget_def)
qed

section \<open>Corrupt and transient failures\<close>

definition transientOnly :: "storeEnv \<Rightarrow> bool" where
  "transientOnly env \<longleftrightarrow> list_all (\<lambda>e. case e of None \<Rightarrow> True
     | Some err \<Rightarrow> \<not> list_ex (\<lambda>s. errorsIs s err) [CorruptObserved, LoadContent, StateNotFound])
     [seCtxErr env, seLock env, seUnlock env, seOpen env, seRead env, seClose env]"

text \<open>
  C29: Only the contents of the observed-state file make it corrupt. When the lock, the operating
  system and the context report errors of their own, a load is classified as corrupt, and hence
  quarantined, exactly if the file was read and its contents do not decode or do not validate.\<close>

theorem corrupt_means_contents:
  assumes "transientOnly env"
  shows "(case LoadObserved env fs of Inl err \<Rightarrow> errorsIs CorruptObserved err | Inr _ \<Rightarrow> False) \<longleftrightarrow>
    seCtxErr env = None \<and> seLock env = None \<and> seOpen env = None \<and> seRead env = None \<and>
    (case map_of fs observedFilename of
       None \<Rightarrow> False
     | Some file \<Rightarrow>
         (case readFile env observedOf False file of
            Inl _ \<Rightarrow> True
          | Inr v \<Rightarrow> seClose env = None \<and> seUnlock env = None \<and> validateObserved v \<noteq> None))"
proof -
  have content: "errorsIs LoadContent err \<and> \<not> errorsIs StateNotFound err"
    if "readFile env observedOf False doc = Inl err" and "seRead env = None" for doc err
    using that by (auto simp: readFile_def decodeErr_def split: option.splits if_splits)
  have unread: "readFile env observedOf False doc = Inl (ErrWrap ''read'' err)" if "seRead env = Some err" for doc err
    using that by (simp add: readFile_def)
  show ?thesis
    using assms content unread
    by (auto simp: LoadObserved_def loadFile_def loadLocked_def withErr_def resultErr_def deferErr_def
        errorsJoin_def List.map_filter_simps classifyObservedLoadErr_def transientOnly_def Let_def
        split: option.splits sum.splits if_splits)
qed

theorem corrupt_means_contents_witness:
  "case LoadObserved quietStore [(observedFilename, None)] of
     Inl err \<Rightarrow> errorsIs CorruptObserved err | Inr _ \<Rightarrow> False"
proof -
  have "transientOnly quietStore"
    by (simp add: transientOnly_def quietStore_def)
  from corrupt_means_contents [OF this, of "[(observedFilename, None)]"] show ?thesis
    by (simp add: quietStore_def readFile_def)
qed

end
