(* ===== verification/Job_Store.thy ===== *)
theory Job_Store
  imports State_Store
begin

text \<open>
  The durable job index: the file operations of \<open>src/internal/jobindex/file_store.go\<close>, the
  assignment-time sidecar of \<open>assign_times.go\<close> and the drop journal of \<open>drop_journal.go\<close>, on the file
  system and the durable write of the theory \<open>Durable\<close>.

  A file is represented by what its text strictly decodes to, or nothing, and by its length. The
  record \<open>jobEnv\<close> holds the outcome of the calls to the lock, the access controller and the operating
  system during one operation, and the encodings whose lengths the code compares with its caps.
\<close>

section \<open>Sidecar and journal\<close>

record AssignTimeEntry =
  atPoolID :: string
  atRunnerName :: string
  atJobID :: string
  atRunnerAssignedAt :: time

record AssignTimesCatalog =
  acSchemaVersion :: int
  acEntries :: "AssignTimeEntry list"

record DropEntry =
  deDroppedAt :: time
  dePoolID :: string
  deRunnerName :: string
  deContainerID :: string
  deJobID :: string
  deLogPath :: string
  deDiagnosticPath :: string

record DropJournal =
  djSchemaVersion :: int
  djEntries :: "DropEntry list"

definition assignTimesByKey :: "AssignTimeEntry list \<Rightarrow> time gomap" where
  "assignTimesByKey entries =
     foldl (\<lambda>m e. if timeIsZero (atRunnerAssignedAt e) then m
       else gput m (recordKey (atPoolID e) (atRunnerName e)) (atRunnerAssignedAt e)) [] entries"

definition assignTimesByJob :: "AssignTimeEntry list \<Rightarrow> time gomap" where
  "assignTimesByJob entries =
     foldl (\<lambda>m e. if timeIsZero (atRunnerAssignedAt e) \<or> atJobID e = [] then m
       else gput m (atJobID e) (atRunnerAssignedAt e)) [] entries"

definition hydrateRecord :: "time gomap \<Rightarrow> time gomap \<Rightarrow> JobRecord \<Rightarrow> JobRecord" where
  "hydrateRecord byKey byJob r =
     (if jrRunnerAssignedAt r \<noteq> None then r
      else case map_of byKey (recordKey (jrPoolID r) (jrRunnerName r)) of
        Some assigned \<Rightarrow> r\<lparr>jrRunnerAssignedAt := Some assigned\<rparr>
      | None \<Rightarrow>
          if jrJobID r = [] then r
          else (case map_of byJob (jrJobID r) of
             Some assigned \<Rightarrow> r\<lparr>jrRunnerAssignedAt := Some assigned\<rparr>
           | None \<Rightarrow> r))"

definition hydrateAssignTimes :: "Catalog \<Rightarrow> AssignTimesCatalog \<Rightarrow> Catalog" where
  "hydrateAssignTimes c tc =
     (if acEntries tc = [] then c
      else c\<lparr>caRecords := map (hydrateRecord (assignTimesByKey (acEntries tc))
             (assignTimesByJob (acEntries tc))) (caRecords c)\<rparr>)"

definition assignTimesFromCatalog :: "Catalog \<Rightarrow> AssignTimesCatalog" where
  "assignTimesFromCatalog c =
     \<lparr>acSchemaVersion = 1,
      acEntries = sort_key (\<lambda>e. (atPoolID e, atRunnerName e))
        (concat (map (\<lambda>r. case jrRunnerAssignedAt r of
            None \<Rightarrow> []
          | Some t \<Rightarrow> if timeIsZero t then []
              else [\<lparr>atPoolID = jrPoolID r, atRunnerName = jrRunnerName r, atJobID = jrJobID r,
                     atRunnerAssignedAt = t\<rparr>]) (caRecords c)))\<rparr>"

definition dropEntryFromRecord :: "JobRecord \<Rightarrow> time \<Rightarrow> DropEntry" where
  "dropEntryFromRecord r droppedAt =
     \<lparr>deDroppedAt = droppedAt, dePoolID = jrPoolID r, deRunnerName = jrRunnerName r,
      deContainerID = jrContainerID r, deJobID = jrJobID r, deLogPath = jrLogPath r,
      deDiagnosticPath = jrDiagnosticPath r\<rparr>"

definition ArtifactPaths :: "PathOps \<Rightarrow> DropEntry \<Rightarrow> string list" where
  "ArtifactPaths px entry =
     (if deLogPath entry \<noteq> [] then [deLogPath entry] else []) @
     (if deDiagnosticPath entry \<noteq> [] then
        deDiagnosticPath entry #
        (case ResourceEvidencePath px (zeroJobRecord\<lparr>jrDiagnosticPath := deDiagnosticPath entry\<rparr>) of
           Inl _ \<Rightarrow> []
         | Inr sidecar \<Rightarrow> if sidecar \<noteq> [] then [sidecar] else [])
      else [])"

lemma godiv_nonneg: "0 \<le> a \<Longrightarrow> 0 < b \<Longrightarrow> 0 \<le> godiv a b"
  by (cases "a = 0") (simp_all add: godiv_def pos_imp_zdiv_nonneg_iff)

text \<open>The loop of \<open>encodeDropJournalWithinCapacity\<close> drops the oldest entries until the rest fits.\<close>

function trimDropJournal :: "(DropJournal \<Rightarrow> goError + int) \<Rightarrow> DropJournal \<Rightarrow> goError + DropJournal \<times> int" where
  "trimDropJournal encode journal =
     (case encode journal of
        Inl err \<Rightarrow> Inl (ErrWrap ''encode drop journal'' err)
      | Inr encoded \<Rightarrow>
          if djEntries journal = [] \<or> encoded \<le> maximumJobState then Inr (journal, encoded)
          else
            (let overshoot = encoded - maximumJobState;
                 averageEntryBytes = max (godiv encoded (int (length (djEntries journal)))) 1;
                 dropCount = min (godiv overshoot averageEntryBytes + 1) (int (length (djEntries journal)))
             in trimDropJournal encode (journal\<lparr>djEntries := drop (nat dropCount) (djEntries journal)\<rparr>)))"
  by pat_completeness auto

termination
  by (relation "measure (\<lambda>(encode, journal). length (djEntries journal))")
    (auto simp: Let_def maximumJobState_def godiv_nonneg add_nonneg_pos intro!: diff_less)

definition encodeDropJournalWithinCapacity :: "(DropJournal \<Rightarrow> goError + int) \<Rightarrow> DropJournal \<Rightarrow> goError + DropJournal \<times> int" where
  "encodeDropJournalWithinCapacity encode journal = trimDropJournal encode (journal\<lparr>djSchemaVersion := 1\<rparr>)"

section \<open>Files of the index\<close>

datatype jobPayload = JobsDoc Catalog | TimesDoc AssignTimesCatalog | DropsDoc DropJournal

record jobDoc =
  jdPayload :: "jobPayload option"
  jdSize :: int

record jobEnv =
  jeLock :: "goError option"
  jeUnlock :: "goError option"
  jeOpen :: "string \<Rightarrow> goError option"
  jeRead :: "string \<Rightarrow> goError option"
  jeClose :: "goError option"
  jeMkdir :: "goError option"
  jeHarden :: "string \<Rightarrow> goError option"
  jeVerify :: "string \<Rightarrow> goError option"
  jeRemoveTimes :: "goError option"
  jeEncode :: "Catalog \<Rightarrow> goError + string"
  jeEncodeTimes :: "AssignTimesCatalog \<Rightarrow> goError + int"
  jeEncodeDrops :: "DropJournal \<Rightarrow> goError + int"
  jeRandom :: string
  jeIO :: ioFaults
  jeTimesIO :: ioFaults
  jeDropsIO :: ioFaults
  jeNow :: time

definition jobsFilename :: string where "jobsFilename = ''jobs.json''"
definition assignTimesFilename :: string where "assignTimesFilename = ''runner-assign-times.json''"
definition dropJournalFilename :: string where "dropJournalFilename = ''jobs-drop.json''"
definition maximumJobStateLoad :: int where "maximumJobStateLoad = 4 * maximumJobState"

text \<open>jobs.json does not carry the assignment times; they live in the sidecar.\<close>

definition stripAssignTimes :: "Catalog \<Rightarrow> Catalog" where
  "stripAssignTimes c = c\<lparr>caRecords := map (\<lambda>r. r\<lparr>jrRunnerAssignedAt := None\<rparr>) (caRecords c)\<rparr>"

definition readCatalogBytes :: "jobEnv \<Rightarrow> jobDoc files \<Rightarrow> goError + jobDoc option" where
  "readCatalogBytes env fs =
     (case map_of fs jobsFilename of
        None \<Rightarrow> Inl (Sentinel JobIndexNotFound)
      | Some doc \<Rightarrow>
          (case jeOpen env jobsFilename of
             Some err \<Rightarrow> Inl (ErrWrap ''open jobs.json'' err)
           | None \<Rightarrow>
               (let r = (case jeRead env jobsFilename of Some err \<Rightarrow> Inl (ErrWrap ''read jobs.json'' err) | None \<Rightarrow> Inr doc)
                in withErr r (deferErr ''close jobs.json'' (jeClose env) (resultErr r)))))"

definition DecodeCatalog :: "PathOps \<Rightarrow> jobDoc option \<Rightarrow> goError + Catalog" where
  "DecodeCatalog px doc =
     (case doc of
        None \<Rightarrow> Inl (ErrText ''decode jobs.json'')
      | Some d \<Rightarrow>
          if maximumJobStateLoad < jdSize d then Inl (ErrText ''jobs.json exceeds the load safety limit'')
          else (case jdPayload d of
             Some (JobsDoc c) \<Rightarrow>
               (case validateCatalog px c of
                  Some err \<Rightarrow> Inl (ErrWrap ''invalid jobs.json'' err)
                | None \<Rightarrow> Inr c)
           | _ \<Rightarrow> Inl (ErrText ''decode jobs.json'')))"

definition loadAssignTimes :: "jobEnv \<Rightarrow> jobDoc files \<Rightarrow> goError + AssignTimesCatalog" where
  "loadAssignTimes env fs =
     (case map_of fs assignTimesFilename of
        None \<Rightarrow> Inr \<lparr>acSchemaVersion = 1, acEntries = []\<rparr>
      | Some doc \<Rightarrow>
          (case jeOpen env assignTimesFilename of
             Some err \<Rightarrow> Inl (ErrWrap ''open assign-times sidecar'' err)
           | None \<Rightarrow> (case jeRead env assignTimesFilename of
               Some err \<Rightarrow> Inl (ErrWrap ''read assign-times sidecar'' err)
             | None \<Rightarrow> (case doc of
                 None \<Rightarrow> Inl (ErrText ''decode assign-times sidecar'')
               | Some d \<Rightarrow>
                   if maximumJobState < jdSize d then Inl (ErrText ''assign-times sidecar exceeds the cap'')
                   else (case jdPayload d of
                      Some (TimesDoc tc) \<Rightarrow>
                        if acSchemaVersion tc \<noteq> 1 then Inl (ErrText ''unsupported assign-times schemaVersion'') else Inr tc
                    | _ \<Rightarrow> Inl (ErrText ''decode assign-times sidecar''))))))"

definition loadUnlocked :: "PathOps \<Rightarrow> jobEnv \<Rightarrow> jobDoc files \<Rightarrow> goError + Catalog" where
  "loadUnlocked px env fs =
     bindE (readCatalogBytes env fs) (\<lambda>doc.
     bindE (DecodeCatalog px doc) (\<lambda>c.
     bindE (loadAssignTimes env fs) (\<lambda>tc. Inr (hydrateAssignTimes c tc))))"

definition LoadDropJournal :: "jobEnv \<Rightarrow> jobDoc files \<Rightarrow> goError + DropJournal" where
  "LoadDropJournal env fs =
     (case map_of fs dropJournalFilename of
        None \<Rightarrow> Inr \<lparr>djSchemaVersion = 1, djEntries = []\<rparr>
      | Some doc \<Rightarrow>
          (case jeOpen env dropJournalFilename of
             Some err \<Rightarrow> Inl (ErrWrap ''open drop journal'' err)
           | None \<Rightarrow> (case jeRead env dropJournalFilename of
               Some err \<Rightarrow> Inl (ErrWrap ''read drop journal'' err)
             | None \<Rightarrow> (case doc of
                 None \<Rightarrow> Inl (ErrText ''decode drop journal'')
               | Some d \<Rightarrow>
                   if maximumJobState < jdSize d then Inl (ErrText ''drop journal exceeds the cap'')
                   else (case jdPayload d of
                      Some (DropsDoc dj) \<Rightarrow>
                        if djSchemaVersion dj \<noteq> 1 then Inl (ErrText ''unsupported drop journal schemaVersion'') else Inr dj
                    | _ \<Rightarrow> Inl (ErrText ''decode drop journal''))))))"

section \<open>Saving\<close>

definition hardenVerify :: "jobEnv \<Rightarrow> string \<Rightarrow> string \<Rightarrow> string \<Rightarrow> goError option" where
  "hardenVerify env secure verify path =
     (case jeHarden env path of
        Some err \<Rightarrow> Some (ErrWrap secure err)
      | None \<Rightarrow> map_option (ErrWrap verify) (jeVerify env path))"

definition dropsPlan :: "jobEnv \<Rightarrow> jobDoc DurableWrite" where
  "dropsPlan env =
     \<lparr>dwTarget = dropJournalFilename, dwTemporary = ''.jobs-drop.json-'' @ jeRandom env,
      dwHardenBeforeWrite = Some (\<lambda>_. None), dwHardenBeforeReplace = None,
      dwHardenAfterReplace = Some (\<lambda>_. None), dwBeforeReplace = None, dwAfterReplace = None,
      dwOnCommitFailure = None, dwSkipDirectorySync = False, dwLabels = noLabels\<rparr>"

definition appendDropJournal :: "jobEnv \<Rightarrow> JobRecord list \<Rightarrow> jobDoc files \<Rightarrow> jobDoc files" where
  "appendDropJournal env dropped fs =
     (if dropped = [] then fs
      else case LoadDropJournal env fs of
        Inl _ \<Rightarrow> fs
      | Inr journal \<Rightarrow>
          (case encodeDropJournalWithinCapacity (jeEncodeDrops env)
               (journal\<lparr>djEntries := djEntries journal @ map (\<lambda>r. dropEntryFromRecord r (jeNow env)) dropped\<rparr>) of
             Inl _ \<Rightarrow> fs
           | Inr (journal', encoded) \<Rightarrow>
               snd (WriteBytes (jeDropsIO env) (dropsPlan env)
                 \<lparr>jdPayload = Some (DropsDoc journal'), jdSize = encoded\<rparr> fs)))"

definition timesPlan :: "jobEnv \<Rightarrow> jobDoc DurableWrite" where
  "timesPlan env =
     \<lparr>dwTarget = assignTimesFilename, dwTemporary = ''.runner-assign-times.json-'' @ jeRandom env,
      dwHardenBeforeWrite = None,
      dwHardenBeforeReplace = Some (hardenVerify env ''secure temporary assign-times sidecar ACL''
        ''verify temporary assign-times sidecar ACL''),
      dwHardenAfterReplace = Some (hardenVerify env ''verify assign-times sidecar ACL'' ''verify assign-times sidecar ACL''),
      dwBeforeReplace = None, dwAfterReplace = None, dwOnCommitFailure = None, dwSkipDirectorySync = True,
      dwLabels = \<lparr>laCreateTemporary = ''create temporary assign-times sidecar'',
        laSetMode = ''secure temporary assign-times sidecar'', laWrite = ''write temporary assign-times sidecar'',
        laFlush = ''flush temporary assign-times sidecar'', laClose = ''close temporary assign-times sidecar'',
        laReplace = ''replace assign-times sidecar atomically'', laFlushDirectory = []\<rparr>\<rparr>"

definition saveAssignTimesUnlocked :: "jobEnv \<Rightarrow> Catalog \<Rightarrow> jobDoc files \<Rightarrow> goError option \<times> jobDoc files" where
  "saveAssignTimesUnlocked env c fs =
     (let tc = assignTimesFromCatalog c
      in if acEntries tc = [] then
           (if \<not> ghas fs assignTimesFilename then (None, fs)
            else case jeRemoveTimes env of
              Some err \<Rightarrow> (Some (ErrWrap ''remove empty assign-times sidecar'' err), fs)
            | None \<Rightarrow> (None, gdelete fs assignTimesFilename))
         else case jeEncodeTimes env tc of
           Inl err \<Rightarrow> (Some (ErrWrap ''encode assign-times sidecar'' err), fs)
         | Inr encoded \<Rightarrow>
             if maximumJobState < encoded then (Some (ErrText ''assign-times sidecar exceeds the cap''), fs)
             else WriteBytes (jeTimesIO env) (timesPlan env) \<lparr>jdPayload = Some (TimesDoc tc), jdSize = encoded\<rparr> fs)"

definition jobsPlan :: "jobEnv \<Rightarrow> Catalog \<Rightarrow> JobRecord list \<Rightarrow> jobDoc DurableWrite" where
  "jobsPlan env c dropped =
     \<lparr>dwTarget = jobsFilename, dwTemporary = ''.jobs.json-'' @ jeRandom env, dwHardenBeforeWrite = None,
      dwHardenBeforeReplace = Some (hardenVerify env ''secure temporary jobs.json ACL'' ''verify temporary jobs.json ACL''),
      dwHardenAfterReplace = Some (hardenVerify env ''verify jobs.json ACL'' ''verify jobs.json ACL''),
      dwBeforeReplace = None,
      dwAfterReplace = Some (\<lambda>fs. saveAssignTimesUnlocked env c (appendDropJournal env dropped fs)),
      dwOnCommitFailure = None, dwSkipDirectorySync = False,
      dwLabels = \<lparr>laCreateTemporary = ''create temporary jobs.json'', laSetMode = ''secure temporary jobs.json'',
        laWrite = ''write temporary jobs.json'', laFlush = ''flush temporary jobs.json'',
        laClose = ''close temporary jobs.json'', laReplace = ''replace jobs.json atomically'',
        laFlushDirectory = ''flush jobs state directory''\<rparr>\<rparr>"

definition saveUnlocked :: "jobEnv \<Rightarrow> Catalog \<Rightarrow> jobDoc files \<Rightarrow> goError option \<times> jobDoc files" where
  "saveUnlocked env c fs =
     (case jeMkdir env of
        Some err \<Rightarrow> (Some (ErrWrap ''create jobs state directory'' err), fs)
      | None \<Rightarrow> (case hardenVerify env ''secure jobs state directory'' ''verify jobs state directory ACL'' ''.'' of
          Some err \<Rightarrow> (Some err, fs)
        | None \<Rightarrow> (case encodeLoop (jeEncode env) [] c of
            Inl err \<Rightarrow> (Some err, fs)
          | Inr (encoded, c', dropped) \<Rightarrow>
              WriteBytes (jeIO env) (jobsPlan env c' dropped)
                \<lparr>jdPayload = Some (JobsDoc (stripAssignTimes c')), jdSize = int (length encoded)\<rparr> fs)))"

section \<open>Operations of the store\<close>

definition jobLoad :: "PathOps \<Rightarrow> jobEnv \<Rightarrow> jobDoc files \<Rightarrow> goError + Catalog" where
  "jobLoad px env fs =
     (case jeLock env of
        Some err \<Rightarrow> Inl (ErrWrap ''lock jobs index'' err)
      | None \<Rightarrow>
          (let r = loadUnlocked px env fs
           in withErr r (errorsJoin [resultErr r, jeUnlock env])))"

definition FindByJobID :: "PathOps \<Rightarrow> jobEnv \<Rightarrow> string \<Rightarrow> jobDoc files \<Rightarrow> goError + JobRecord" where
  "FindByJobID px env jobID fs =
     (if jobID = [] then Inl (Sentinel JobIndexNotFound)
      else bindE (jobLoad px env fs) (\<lambda>c.
        case findByJobID (caRecords c) jobID of None \<Rightarrow> Inl (Sentinel JobIndexNotFound) | Some r \<Rightarrow> Inr r))"

definition FindByRunner :: "PathOps \<Rightarrow> jobEnv \<Rightarrow> string \<Rightarrow> string \<Rightarrow> jobDoc files \<Rightarrow> goError + JobRecord" where
  "FindByRunner px env poolID runnerName fs =
     (if poolID = [] \<or> runnerName = [] then Inl (Sentinel JobIndexNotFound)
      else bindE (jobLoad px env fs) (\<lambda>c.
        case findByRunner (caRecords c) poolID runnerName of None \<Rightarrow> Inl (Sentinel JobIndexNotFound) | Some r \<Rightarrow> Inr r))"

definition storeActiveJob :: "PathOps \<Rightarrow> jobEnv \<Rightarrow> string \<Rightarrow> string \<Rightarrow> jobDoc files \<Rightarrow> goError + string \<times> bool" where
  "storeActiveJob px env poolID runnerName fs =
     (if poolID = [] \<or> runnerName = [] then Inr ([], False)
      else case jobLoad px env fs of
        Inl err \<Rightarrow> if errorsIs JobIndexNotFound err then Inr ([], False) else Inl err
      | Inr c \<Rightarrow> Inr (ActiveJob c poolID runnerName))"

text \<open>The error of the body is joined with the error of the deferred unlock.\<close>

definition PruneTombstones :: "PathOps \<Rightarrow> jobEnv \<Rightarrow> time \<Rightarrow> jobDoc files \<Rightarrow> int \<times> goError option \<times> jobDoc files" where
  "PruneTombstones px env before fs =
     (if timeIsZero before then (0, Some (ErrText ''tombstone prune cutoff is required''), fs)
      else case jeLock env of
        Some err \<Rightarrow> (0, Some (ErrWrap ''lock jobs index'' err), fs)
      | None \<Rightarrow>
          (case loadUnlocked px env fs of
             Inl err \<Rightarrow> (0, errorsJoin [if errorsIs JobIndexNotFound err then None else Some err, jeUnlock env], fs)
           | Inr c \<Rightarrow>
               (let removed = length (filter (prunable before) (caRecords c))
                in if removed = 0 then (0, errorsJoin [None, jeUnlock env], fs)
                   else (case saveUnlocked env (c\<lparr>caRecords := filter (\<lambda>r. \<not> prunable before r) (caRecords c)\<rparr>) fs of
                     (Some err, fs') \<Rightarrow> (0, errorsJoin [Some err, jeUnlock env], fs')
                   | (None, fs') \<Rightarrow> (int removed, errorsJoin [None, jeUnlock env], fs')))))"

definition upsertLocked :: "PathOps \<Rightarrow> jobEnv \<Rightarrow> JobPatch list \<Rightarrow> jobDoc files \<Rightarrow> JobRecord list \<times> goError option \<times> jobDoc files" where
  "upsertLocked px env patches fs =
     (case (case loadUnlocked px env fs of
          Inl err \<Rightarrow> if errorsIs JobIndexNotFound err then Inr \<lparr>caSchemaVersion = jobSchemaVersion, caRecords = []\<rparr> else Inl err
        | Inr c \<Rightarrow> Inr c) of
        Inl err \<Rightarrow> ([], Some err, fs)
      | Inr c \<Rightarrow>
          (let us = applyPatches px (jeNow env) c patches;
               mergeErrors = errorsJoin (map Some (usErrors us))
           in if \<not> usChanged us then (usResults us, mergeErrors, fs)
              else
                (let c' = sortCatalog (c\<lparr>caRecords := usRecords us\<rparr>)
                 in case validateCatalog px c' of
                      Some err \<Rightarrow> ([], Some (ErrWrap ''validate jobs index'' err), fs)
                    | None \<Rightarrow>
                        (case saveUnlocked env c' fs of
                           (Some err, fs') \<Rightarrow> ([], Some err, fs')
                         | (None, fs') \<Rightarrow> (usResults us, mergeErrors, fs')))))"

definition UpsertMany :: "PathOps \<Rightarrow> jobEnv \<Rightarrow> JobPatch list \<Rightarrow> jobDoc files \<Rightarrow> JobRecord list \<times> goError option \<times> jobDoc files" where
  "UpsertMany px env patches fs =
     (case jeLock env of
        Some err \<Rightarrow> ([], Some (ErrWrap ''lock jobs index'' err), fs)
      | None \<Rightarrow>
          (case upsertLocked px env patches fs of
             (results, err, fs') \<Rightarrow> (results, errorsJoin [err, jeUnlock env], fs')))"

definition Upsert :: "PathOps \<Rightarrow> jobEnv \<Rightarrow> JobPatch \<Rightarrow> jobDoc files \<Rightarrow> (goError + JobRecord) \<times> jobDoc files" where
  "Upsert px env patch fs =
     (case UpsertMany px env [patch] fs of
        (_, Some err, fs') \<Rightarrow> (Inl err, fs')
      | (results, None, fs') \<Rightarrow> (Inr (results ! 0), fs'))"

section \<open>Events of the listener\<close>

definition emptyPatch :: "string \<Rightarrow> string \<Rightarrow> JobPatch" where
  "emptyPatch poolID runnerName =
     \<lparr>jpPoolID = poolID, jpRunnerName = runnerName, jpContainerID = [], jpJobID = [], jpResult = [],
      jpLogPath = [], jpDiagnosticPath = [], jpArtifactStartedAt = 0, jpRunnerAssignedAt = 0, jpJobStartedAt = 0,
      jpCompletedAt = 0, jpFinalizedAt = 0, jpOpen = None, jpTombstonedAt = None\<rparr>"

definition JobStarted :: "string \<Rightarrow> string \<Rightarrow> string \<Rightarrow> time \<Rightarrow> time \<Rightarrow> JobPatch" where
  "JobStarted poolID runnerName jobID runnerAssignedAt now =
     (emptyPatch poolID runnerName)\<lparr>jpJobID := jobID, jpRunnerAssignedAt := runnerAssignedAt, jpJobStartedAt := now\<rparr>"

definition JobCompleted :: "string \<Rightarrow> string \<Rightarrow> string \<Rightarrow> string \<Rightarrow> time \<Rightarrow> time \<Rightarrow> JobPatch" where
  "JobCompleted poolID runnerName jobID result runnerAssignedAt now =
     (emptyPatch poolID runnerName)\<lparr>jpJobID := jobID, jpResult := result, jpRunnerAssignedAt := runnerAssignedAt,
       jpCompletedAt := now\<rparr>"

end
