(* ===== verification/Job_Theorems.thy ===== *)
theory Job_Theorems
  imports Job_Store "HOL-Library.Multiset"
begin

text \<open>
  Properties of the job index: merging is idempotent and monotone, compaction spares live jobs, and
  the sidecar restores what jobs.json leaves out.
\<close>

section \<open>Merging\<close>

lemma mergeImmutable_again:
  "mergeImmutable n cur inc = Inr v \<Longrightarrow> mergeImmutable n v inc = Inr v"
  by (auto simp: mergeImmutable_def split: if_splits)

lemma mergeImmutable_keeps: "mergeImmutable n cur inc = Inr v \<Longrightarrow> cur = [] \<or> v = cur"
  by (auto simp: mergeImmutable_def split: if_splits)

lemma mergePath_again: "mergePath px n cur inc = Inr v \<Longrightarrow> mergePath px n v inc = Inr v"
  by (auto simp: mergePath_def mergeImmutable_again split: if_splits)

lemma mergePath_keeps: "mergePath px n cur inc = Inr v \<Longrightarrow> cur = [] \<or> v = cur"
  by (auto simp: mergePath_def dest: mergeImmutable_keeps split: if_splits)

lemma mergeTime_again [simp]: "mergeTime (mergeTime d v) v = mergeTime d v"
  by (simp add: mergeTime_def)

lemma mergeOptionalTime_again [simp]: "mergeOptionalTime (mergeOptionalTime d v) v = mergeOptionalTime d v"
  by (simp add: mergeOptionalTime_def)

lemma mergeStrings_Inr:
  assumes "mergeStrings px r p = Inr r'"
  obtains c j re l d where
    "mergeImmutable ''container ID'' (jrContainerID r) (jpContainerID p) = Inr c"
    "mergeImmutable ''job ID'' (jrJobID r) (jpJobID p) = Inr j"
    "mergeImmutable ''job result'' (jrResult r) (jpResult p) = Inr re"
    "mergePath px ''worker log'' (jrLogPath r) (jpLogPath p) = Inr l"
    "mergePath px ''worker diagnostics'' (jrDiagnosticPath r) (jpDiagnosticPath p) = Inr d"
    "r' = r\<lparr>jrContainerID := c, jrJobID := j, jrResult := re, jrLogPath := l, jrDiagnosticPath := d\<rparr>"
  using assms unfolding mergeStrings_def bindE_Inr_iff by blast

lemma mergeStrings_again:
  assumes "mergeStrings px r p = Inr r'"
    and "jrContainerID q = jrContainerID r'" "jrJobID q = jrJobID r'" "jrResult q = jrResult r'"
      "jrLogPath q = jrLogPath r'" "jrDiagnosticPath q = jrDiagnosticPath r'"
  shows "mergeStrings px q p = Inr q"
  using assms(1)
proof (rule mergeStrings_Inr)
  fix c j re l d
  assume m: "mergeImmutable ''container ID'' (jrContainerID r) (jpContainerID p) = Inr c"
    "mergeImmutable ''job ID'' (jrJobID r) (jpJobID p) = Inr j"
    "mergeImmutable ''job result'' (jrResult r) (jpResult p) = Inr re"
    "mergePath px ''worker log'' (jrLogPath r) (jpLogPath p) = Inr l"
    "mergePath px ''worker diagnostics'' (jrDiagnosticPath r) (jpDiagnosticPath p) = Inr d"
    and r': "r' = r\<lparr>jrContainerID := c, jrJobID := j, jrResult := re, jrLogPath := l, jrDiagnosticPath := d\<rparr>"
  have "jrContainerID q = c" "jrJobID q = j" "jrResult q = re" "jrLogPath q = l" "jrDiagnosticPath q = d"
    using assms(2-) r' by simp_all
  then show ?thesis
    using mergeImmutable_again [OF m(1)] mergeImmutable_again [OF m(2)] mergeImmutable_again [OF m(3)]
      mergePath_again [OF m(4)] mergePath_again [OF m(5)]
    by (simp add: mergeStrings_def)
qed

lemma mergeFlags_again: "mergeFlags (mergeFlags r p) p = mergeFlags r p"
  by (simp add: mergeFlags_def Let_def split: option.split)

lemma mergeFlags_sel [simp]:
  "jrContainerID (mergeFlags r p) = jrContainerID r" "jrJobID (mergeFlags r p) = jrJobID r"
  "jrResult (mergeFlags r p) = jrResult r" "jrLogPath (mergeFlags r p) = jrLogPath r"
  "jrDiagnosticPath (mergeFlags r p) = jrDiagnosticPath r" "jrPoolID (mergeFlags r p) = jrPoolID r"
  "jrRunnerName (mergeFlags r p) = jrRunnerName r" "jrUpdatedAt (mergeFlags r p) = jrUpdatedAt r"
  "jrArtifactStartedAt (mergeFlags r p) = jrArtifactStartedAt r"
  "jrRunnerAssignedAt (mergeFlags r p) = jrRunnerAssignedAt r"
  "jrJobStartedAt (mergeFlags r p) = jrJobStartedAt r" "jrCompletedAt (mergeFlags r p) = jrCompletedAt r"
  "jrFinalizedAt (mergeFlags r p) = jrFinalizedAt r"
  by (simp_all add: mergeFlags_def Let_def split: option.split)

lemma mergeTimes_sel [simp]:
  "jrContainerID (mergeTimes r p) = jrContainerID r" "jrJobID (mergeTimes r p) = jrJobID r"
  "jrResult (mergeTimes r p) = jrResult r" "jrLogPath (mergeTimes r p) = jrLogPath r"
  "jrDiagnosticPath (mergeTimes r p) = jrDiagnosticPath r" "jrPoolID (mergeTimes r p) = jrPoolID r"
  "jrRunnerName (mergeTimes r p) = jrRunnerName r" "jrTombstonedAt (mergeTimes r p) = jrTombstonedAt r"
  by (simp_all add: mergeTimes_def)

lemma mergeTimes_fixed:
  assumes "jrArtifactStartedAt q = mergeTime a (jpArtifactStartedAt p)"
    "jrRunnerAssignedAt q = mergeOptionalTime b (jpRunnerAssignedAt p)"
    "jrJobStartedAt q = mergeTime c (jpJobStartedAt p)" "jrCompletedAt q = mergeTime d (jpCompletedAt p)"
    "jrFinalizedAt q = mergeTime e (jpFinalizedAt p)"
  shows "mergeTimes q p = q"
  using assms by (simp add: mergeTimes_def)

text \<open>A merge that succeeds is the identity, or the composition of its three parts.\<close>

lemma Merge_Inr:
  assumes "Merge px r p now = Inr r'"
  obtains e where "mergeIdentity r p = Inr e" "jrTombstonedAt e \<noteq> None" "r' = e"
  | e q where "mergeIdentity r p = Inr e" "jrTombstonedAt e = None" "mergeStrings px e p = Inr q"
      "r' = mergeFlags (mergeTimes q p) p \<or> r' = (mergeFlags (mergeTimes q p) p)\<lparr>jrUpdatedAt := now\<rparr>"
proof -
  have valid: "\<not> blank (jpPoolID p)" "\<not> blank (jpRunnerName p)" "\<not> timeIsZero now"
    using assms by (auto simp: Merge_def split: if_split_asm)
  obtain e where e: "mergeIdentity r p = Inr e"
    using assms valid by (cases "mergeIdentity r p") (simp_all add: Merge_def)
  show thesis
  proof (cases "jrTombstonedAt e = None")
    case True
    then obtain q where q: "mergeStrings px e p = Inr q"
      using assms valid e by (cases "mergeStrings px e p") (simp_all add: Merge_def)
    then have "r' = mergeFlags (mergeTimes q p) p \<or> r' = (mergeFlags (mergeTimes q p) p)\<lparr>jrUpdatedAt := now\<rparr>"
      using assms valid e True by (simp add: Merge_def Let_def split: if_split_asm)
    then show thesis
      using that(2) e True q by blast
  next
    case False
    then show thesis
      using that(1) assms valid e by (simp add: Merge_def)
  qed
qed

lemma mergeIdentity_Inr:
  "mergeIdentity r p = Inr e \<Longrightarrow>
     jrPoolID e = jpPoolID p \<and> jrRunnerName e = jpRunnerName p \<and>
     e = r\<lparr>jrPoolID := jpPoolID p, jrRunnerName := jpRunnerName p\<rparr>"
  by (auto simp: mergeIdentity_def split: if_splits)

lemma mergeIdentity_fixed:
  "jrPoolID r = jpPoolID p \<Longrightarrow> jrRunnerName r = jpRunnerName p \<Longrightarrow> mergeIdentity r p = Inr r"
  by (cases r) (auto simp: mergeIdentity_def)

lemma mergeFlags_UpdatedAt: "mergeFlags (r\<lparr>jrUpdatedAt := t\<rparr>) p = (mergeFlags r p)\<lparr>jrUpdatedAt := t\<rparr>"
  by (simp add: mergeFlags_def Let_def split: option.split)

lemma mergeStrings_identity:
  "mergeStrings px e p = Inr q \<Longrightarrow> jrPoolID q = jrPoolID e \<and> jrRunnerName q = jrRunnerName e \<and>
     jrTombstonedAt q = jrTombstonedAt e"
  by (erule mergeStrings_Inr) simp

lemma Merge_fixed:
  assumes "mergeIdentity r p = Inr e" and "mergeStrings px e p = Inr q"
    and "r' = mergeFlags (mergeTimes q p) p \<or> r' = (mergeFlags (mergeTimes q p) p)\<lparr>jrUpdatedAt := now\<rparr>"
  shows "mergeIdentity r' p = Inr r'" and "mergeStrings px r' p = Inr r'"
    and "mergeTimes r' p = r'" and "mergeFlags r' p = r'"
proof -
  show "mergeIdentity r' p = Inr r'"
    using mergeIdentity_Inr [OF assms(1)] mergeStrings_identity [OF assms(2)] assms(3)
    by (intro mergeIdentity_fixed) auto
  show "mergeStrings px r' p = Inr r'"
    using assms(3) by (intro mergeStrings_again [OF assms(2)]) auto
  show "mergeTimes r' p = r'"
    using assms(3)
    by (intro mergeTimes_fixed [of _ "jrArtifactStartedAt q" _ "jrRunnerAssignedAt q" "jrJobStartedAt q"
          "jrCompletedAt q" "jrFinalizedAt q"]) (auto simp: mergeTimes_def)
  show "mergeFlags r' p = r'"
    using assms(3) by (auto simp: mergeFlags_UpdatedAt mergeFlags_again)
qed

text \<open>
  C30: Merging is idempotent. Delivering a patch a second time succeeds and changes nothing, not even
  the time of the last update, so a repeated event causes no write.\<close>

theorem merge_idempotent:
  assumes "Merge px r p now = Inr r'" and "now' \<noteq> 0"
  shows "Merge px r' p now' = Inr r'"
proof -
  have valid: "\<not> blank (jpPoolID p)" "\<not> blank (jpRunnerName p)"
    using assms(1) by (auto simp: Merge_def split: if_split_asm)
  show ?thesis
    using assms(1)
  proof (cases rule: Merge_Inr)
    case (1 e)
    then have "mergeIdentity r' p = Inr r'"
      using mergeIdentity_Inr [OF 1(1)] by (intro mergeIdentity_fixed) auto
    then show ?thesis
      using 1 valid assms(2) by (simp add: Merge_def timeIsZero_def)
  next
    case (2 e q)
    show ?thesis
      using Merge_fixed [OF 2(1,3,4)] valid assms(2) by (simp add: Merge_def timeIsZero_def)
  qed
qed

definition sampleStart :: JobPatch where
  "sampleStart = JobStarted ''pool'' ''runner-1'' ''job-1'' 3 5"

theorem merge_idempotent_witness:
  "Merge unixPaths (zeroJobRecord\<lparr>jrPoolID := ''pool'', jrRunnerName := ''runner-1'', jrJobID := ''job-1'',
      jrRunnerAssignedAt := Some 3, jrJobStartedAt := 5, jrUpdatedAt := 6\<rparr>) sampleStart 9 =
   Inr (zeroJobRecord\<lparr>jrPoolID := ''pool'', jrRunnerName := ''runner-1'', jrJobID := ''job-1'',
      jrRunnerAssignedAt := Some 3, jrJobStartedAt := 5, jrUpdatedAt := 6\<rparr>)"
proof (rule merge_idempotent)
  show "Merge unixPaths zeroJobRecord sampleStart 6 =
      Inr (zeroJobRecord\<lparr>jrPoolID := ''pool'', jrRunnerName := ''runner-1'', jrJobID := ''job-1'',
        jrRunnerAssignedAt := Some 3, jrJobStartedAt := 5, jrUpdatedAt := 6\<rparr>)"
    by code_simp
qed simp

section \<open>Records only grow\<close>

text \<open>
  What a record has learned stays: identities, results and paths that are set, times that are set,
  and the whole record once it is tombstoned.
\<close>

definition keptStrings :: "JobRecord \<Rightarrow> JobRecord \<Rightarrow> bool" where
  "keptStrings r r' \<longleftrightarrow>
     list_all (\<lambda>f. f r = [] \<or> f r' = f r) [jrContainerID, jrJobID, jrResult, jrLogPath, jrDiagnosticPath]"

definition keptTimes :: "JobRecord \<Rightarrow> JobRecord \<Rightarrow> bool" where
  "keptTimes r r' \<longleftrightarrow>
     list_all (\<lambda>f. timeIsZero (f r) \<or> f r' = f r) [jrArtifactStartedAt, jrJobStartedAt, jrCompletedAt, jrFinalizedAt]"

definition extends :: "JobRecord \<Rightarrow> JobRecord \<Rightarrow> bool" where
  "extends r r' \<longleftrightarrow>
     (jrPoolID r = [] \<or> jrPoolID r' = jrPoolID r \<and> jrRunnerName r' = jrRunnerName r) \<and>
     keptStrings r r' \<and> keptTimes r r' \<and>
     (jrRunnerAssignedAt r = None \<or> jrRunnerAssignedAt r' = jrRunnerAssignedAt r) \<and>
     (jrTombstonedAt r = None \<or> jrPoolID r = [] \<or> r' = r)"

lemmas kept_defs = extends_def keptStrings_def keptTimes_def

lemma extends_refl [simp]: "extends r r"
  by (simp add: kept_defs)

lemma kept_trans:
  assumes "list_all (\<lambda>f. P (f r) \<or> f s = f r) fs" and "list_all (\<lambda>f. P (f s) \<or> f t = f s) fs"
  shows "list_all (\<lambda>f. P (f r) \<or> f t = f r) fs"
  using assms by (induction fs) auto

lemma keptStrings_trans: "keptStrings r s \<Longrightarrow> keptStrings s t \<Longrightarrow> keptStrings r t"
  unfolding keptStrings_def by (rule kept_trans [where P = "\<lambda>x. x = []"])

lemma keptTimes_trans: "keptTimes r s \<Longrightarrow> keptTimes s t \<Longrightarrow> keptTimes r t"
  unfolding keptTimes_def by (rule kept_trans [where P = timeIsZero])

lemma extends_trans:
  assumes rs: "extends r s" and st: "extends s t"
  shows "extends r t"
proof (cases "s = r")
  case True
  with st show ?thesis by simp
next
  case False
  have r: "jrPoolID r = [] \<or> jrPoolID s = jrPoolID r \<and> jrRunnerName s = jrRunnerName r"
      "jrRunnerAssignedAt r = None \<or> jrRunnerAssignedAt s = jrRunnerAssignedAt r"
      "jrTombstonedAt r = None \<or> jrPoolID r = []" "keptStrings r s" "keptTimes r s"
    using rs False unfolding extends_def by blast+
  have s: "jrPoolID s = [] \<or> jrPoolID t = jrPoolID s \<and> jrRunnerName t = jrRunnerName s"
      "jrRunnerAssignedAt s = None \<or> jrRunnerAssignedAt t = jrRunnerAssignedAt s" "keptStrings s t" "keptTimes s t"
    using st unfolding extends_def by blast+
  have "jrPoolID r = [] \<or> jrPoolID t = jrPoolID r \<and> jrRunnerName t = jrRunnerName r"
    using r(1) s(1) by metis
  moreover have "jrRunnerAssignedAt r = None \<or> jrRunnerAssignedAt t = jrRunnerAssignedAt r"
    using r(2) s(2) by metis
  ultimately show ?thesis
    unfolding extends_def using r(3) keptStrings_trans [OF r(4) s(3)] keptTimes_trans [OF r(5) s(4)] by blast
qed

lemma mergeTime_keeps: "timeIsZero d \<or> mergeTime d v = d"
  by (simp add: mergeTime_def)

lemma mergeOptionalTime_keeps: "d = None \<or> mergeOptionalTime d v = d"
  by (simp add: mergeOptionalTime_def)

lemma extends_mergeTimes: "jrTombstonedAt q = None \<Longrightarrow> extends q (mergeTimes q p)"
  using mergeTime_keeps mergeOptionalTime_keeps by (simp add: kept_defs mergeTimes_def)

lemma extends_mergeFlags: "jrTombstonedAt q = None \<Longrightarrow> extends q (mergeFlags q p)"
  by (simp add: kept_defs)

lemma extends_mergeStrings:
  "jrTombstonedAt e = None \<Longrightarrow> mergeStrings px e p = Inr q \<Longrightarrow> extends e q"
  by (erule mergeStrings_Inr)
    (auto simp: kept_defs dest!: mergeImmutable_keeps mergePath_keeps)

lemma extends_UpdatedAt: "jrTombstonedAt r = None \<Longrightarrow> extends r r' \<Longrightarrow> extends r (r'\<lparr>jrUpdatedAt := t\<rparr>)"
  by (simp add: kept_defs)

lemma extends_mergeIdentity: "mergeIdentity r p = Inr e \<Longrightarrow> extends r e"
  by (cases r) (auto simp: mergeIdentity_def kept_defs split: if_splits)

lemma Merge_extends:
  assumes "Merge px r p now = Inr r'"
  shows "extends r r'"
  using assms
proof (cases rule: Merge_Inr)
  case (1 e)
  then show ?thesis using extends_mergeIdentity by blast
next
  case (2 e q)
  have q: "jrTombstonedAt q = None"
    using mergeStrings_identity [OF 2(3)] 2(2) by simp
  have base: "extends e (mergeFlags (mergeTimes q p) p)"
    using extends_mergeStrings [OF 2(2,3)] extends_mergeTimes [OF q] extends_mergeFlags [of "mergeTimes q p" p] q
    by (auto intro: extends_trans)
  then show ?thesis
    using extends_mergeIdentity [OF 2(1)] extends_UpdatedAt [OF 2(2) base] 2(4)
    by (auto intro: extends_trans)
qed

definition indexesInRange :: "upsertState \<Rightarrow> bool" where
  "indexesInRange us \<longleftrightarrow> (\<forall>k i. map_of (usIndexes us) k = Some i \<longrightarrow> i < length (usRecords us))"

lemma recordIndexes_range: "map_of (recordIndexes rs) k = Some i \<Longrightarrow> i < length rs"
proof -
  have "\<forall>k i. map_of (foldl (\<lambda>m (i, r). gput m (recordKey (jrPoolID r) (jrRunnerName r)) i) [] (enumerate 0 rs)) k = Some i
      \<longrightarrow> i < length rs"
    by (rule foldl_invariant) (auto simp: in_set_enumerate_eq split: if_splits)
  then show "map_of (recordIndexes rs) k = Some i \<Longrightarrow> i < length rs"
    by (simp add: recordIndexes_def)
qed

lemma upsertPatch_grows:
  assumes "indexesInRange us"
  shows "indexesInRange (upsertPatch px now us p) \<and> length (usRecords us) \<le> length (usRecords (upsertPatch px now us p)) \<and>
    (\<forall>i < length (usRecords us). extends (usRecords us ! i) (usRecords (upsertPatch px now us p) ! i))"
proof -
  let ?key = "recordKey (jpPoolID p) (jpRunnerName p)"
  have idx: "gget 0 (usIndexes us) ?key < length (usRecords us)" if "ghas (usIndexes us) ?key"
    using assms that by (auto simp: indexesInRange_def ghas_def gget_def split: option.splits)
  show ?thesis
    using assms idx Merge_extends
    by (auto simp: upsertPatch_def Let_def indexesInRange_def nth_list_update nth_append less_Suc_eq
        split: sum.splits if_splits intro: less_SucI)
qed

lemma applyPatches_grows:
  assumes "indexesInRange us"
  shows "length (usRecords us) \<le> length (usRecords (foldl (upsertPatch px now) us ps)) \<and>
    (\<forall>i < length (usRecords us). extends (usRecords us ! i) (usRecords (foldl (upsertPatch px now) us ps) ! i))"
  using assms
proof (induction ps arbitrary: us)
  case (Cons p ps)
  let ?us = "upsertPatch px now us p"
  have step: "indexesInRange ?us" "length (usRecords us) \<le> length (usRecords ?us)"
      "\<forall>i < length (usRecords us). extends (usRecords us ! i) (usRecords ?us ! i)"
    using upsertPatch_grows [OF Cons.prems, of px now p] by simp_all
  have rest: "length (usRecords ?us) \<le> length (usRecords (foldl (upsertPatch px now) ?us ps))"
      "\<forall>i < length (usRecords ?us). extends (usRecords ?us ! i) (usRecords (foldl (upsertPatch px now) ?us ps) ! i)"
    using Cons.IH [OF step(1)] by simp_all
  have "extends (usRecords us ! i) (usRecords (foldl (upsertPatch px now) ?us ps) ! i)"
    if "i < length (usRecords us)" for i
    using step rest that by (meson extends_trans order_less_le_trans)
  then show ?case
    using step(2) rest(1) by simp
qed simp

text \<open>
  C31: Applying any list of patches forgets nothing: every record of the catalog keeps its place and
  everything it has learned, and a tombstoned record stays exactly as it is.\<close>

theorem patches_forget_nothing:
  "list_all2 extends (caRecords c) (take (length (caRecords c)) (usRecords (applyPatches px now c patches)))"
proof -
  let ?us = "\<lparr>usRecords = caRecords c, usIndexes = recordIndexes (caRecords c), usResults = [], usErrors = [],
    usChanged = False\<rparr>"
  have "indexesInRange ?us"
    using recordIndexes_range by (auto simp: indexesInRange_def)
  from applyPatches_grows [OF this, of px now patches] show ?thesis
    by (auto simp: applyPatches_def list_all2_conv_all_nth)
qed

section \<open>Compaction\<close>

lemma enumerate_filter_subseq: "subseq (map snd (filter P (enumerate n xs))) xs"
  by (metis map_snd_enumerate subseq_filter_left subseq_map)

lemma activeJobIn_filter:
  assumes "\<forall>x \<in> set ixs. \<not> P x \<longrightarrow> CompactableUnderCapacityPressure (snd x)"
    and "activeJobIn (map snd ixs) pool runner = (j, True)"
  shows "activeJobIn (map snd (filter P ixs)) pool runner = (j, True)"
  using assms
  by (induction ixs) (auto simp: CompactableUnderCapacityPressure_def split: if_splits)

lemma mset_filter_split:
  "mset (map snd (filter (\<lambda>x. \<not> P x) xs)) + mset (map snd (filter P xs)) = mset (map snd xs)"
  by (induction xs) auto

definition compacts :: "(JobRecord \<Rightarrow> bool) \<Rightarrow> Catalog \<Rightarrow> Catalog \<Rightarrow> JobRecord list \<Rightarrow> bool" where
  "compacts keep c c' removed \<longleftrightarrow> subseq (caRecords c') (caRecords c) \<and>
     mset (caRecords c) = mset (caRecords c') + mset removed \<and> list_all keep removed \<and>
     (\<forall>pool runner j. activeJobIn (caRecords c) pool runner = (j, True) \<longrightarrow>
        activeJobIn (caRecords c') pool runner = (j, True))"

lemma compactOldestFirst_compacts:
  assumes "\<And>i. i \<in> set idx \<Longrightarrow> i < length (caRecords c) \<and> keep (caRecords c ! i)"
    and "\<And>r. keep r \<Longrightarrow> CompactableUnderCapacityPressure r"
  shows "compacts keep c (fst (compactOldestFirst c idx ov e)) (snd (compactOldestFirst c idx ov e))"
proof -
  define D where "D = set (take (nat (min (godiv ov (max (godiv e (int (length (caRecords c)))) 1) + 1)
    (int (length idx)))) idx)"
  have D: "i \<in> D \<Longrightarrow> i < length (caRecords c) \<and> keep (caRecords c ! i)" for i
    using assms(1) by (auto simp: D_def dest: in_set_takeD)
  let ?ixs = "enumerate 0 (caRecords c)"
  have eq: "compactOldestFirst c idx ov e = (c\<lparr>caRecords := map snd (filter (\<lambda>x. fst x \<notin> D) ?ixs)\<rparr>,
      map snd (filter (\<lambda>x. fst x \<in> D) ?ixs))"
    by (simp add: compactOldestFirst_def D_def Let_def)
  have kept: "keep (snd x)" if "x \<in> set ?ixs" "fst x \<in> D" for x
    using that D [of "fst x"] by (auto simp: in_set_enumerate_eq)
  have "mset (map snd (filter (\<lambda>x. fst x \<notin> D) ?ixs)) + mset (map snd (filter (\<lambda>x. fst x \<in> D) ?ixs)) = mset (caRecords c)"
    using mset_filter_split [of "\<lambda>x. fst x \<in> D" ?ixs] by simp
  moreover have "activeJobIn (map snd (filter (\<lambda>x. fst x \<notin> D) ?ixs)) pool runner = (j, True)"
    if "activeJobIn (caRecords c) pool runner = (j, True)" for pool runner j
    using that kept assms(2) by (intro activeJobIn_filter) auto
  ultimately show ?thesis
    using kept by (auto simp: compacts_def eq enumerate_filter_subseq list_all_iff)
qed

lemma sortedIndexes_in: "i \<in> set (sortedIndexes keep stamp rs) \<Longrightarrow> i < length rs \<and> keep (rs ! i)"
  by (auto simp: sortedIndexes_def in_set_enumerate_eq)

lemma compacts_refl: "compacts keep c c []"
  by (simp add: compacts_def)

lemma compactOldestTombstones_compacts:
  "compacts isTombstoned c (fst (compactOldestTombstones c ov e)) (snd (compactOldestTombstones c ov e))"
  unfolding compactOldestTombstones_def Let_def
  by (auto simp: compacts_refl CompactableUnderCapacityPressure_def isTombstoned_def
      dest!: sortedIndexes_in intro!: compactOldestFirst_compacts)

definition terminalRecord :: "JobRecord \<Rightarrow> bool" where
  "terminalRecord r \<longleftrightarrow> jrTombstonedAt r = None \<and> CompactableUnderCapacityPressure r"

lemma compactOldestCompleted_compacts:
  "compacts terminalRecord c (fst (compactOldestCompleted c ov e)) (snd (compactOldestCompleted c ov e))"
  unfolding compactOldestCompleted_def Let_def
  by (auto simp: compacts_refl terminalRecord_def dest!: sortedIndexes_in intro!: compactOldestFirst_compacts)

text \<open>What the save may do to a catalog: drop tombstones silently and terminal records into the journal.\<close>

definition shrinksTo :: "Catalog \<Rightarrow> Catalog \<Rightarrow> JobRecord list \<Rightarrow> bool" where
  "shrinksTo c c' dropped \<longleftrightarrow> subseq (caRecords c') (caRecords c) \<and> list_all terminalRecord dropped \<and>
     filter_mset (\<lambda>r. \<not> isTombstoned r) (mset (caRecords c)) =
       filter_mset (\<lambda>r. \<not> isTombstoned r) (mset (caRecords c')) + mset dropped \<and>
     (\<forall>pool runner j. activeJobIn (caRecords c) pool runner = (j, True) \<longrightarrow>
        activeJobIn (caRecords c') pool runner = (j, True))"

lemma shrinksTo_tombstones:
  assumes "compacts isTombstoned c c1 removed" and "shrinksTo c1 c' dropped"
  shows "shrinksTo c c' dropped"
proof -
  have "filter_mset (\<lambda>r. \<not> isTombstoned r) (mset removed) = {#}"
    using assms(1) by (simp add: compacts_def list_all_iff flip: mset_filter)
  then show ?thesis
    using assms by (auto simp: compacts_def shrinksTo_def intro: subseq_order.order_trans)
qed

lemma shrinksTo_completed:
  assumes "compacts terminalRecord c c1 removed" and "shrinksTo c1 c' dropped"
  shows "shrinksTo c c' (removed @ dropped)"
proof -
  have "filter_mset (\<lambda>r. \<not> isTombstoned r) (mset removed) = mset removed"
    using assms(1) by (auto simp: compacts_def list_all_iff filter_mset_eq_conv terminalRecord_def isTombstoned_def)
  then show ?thesis
    using assms by (auto simp: compacts_def shrinksTo_def ac_simps intro: subseq_order.order_trans)
qed

lemma encodeLoop_shrinks:
  "encodeLoop encode dropped c = Inr (encoded, c', dropped') \<Longrightarrow>
   \<exists>new. dropped' = dropped @ new \<and> shrinksTo c c' new \<and> encode c' = Inr encoded \<and>
     int (length encoded) \<le> maximumJobState"
proof (induction encode dropped c rule: encodeLoop.induct)
  case (1 encode dropped c)
  obtain enc where enc: "encode c = Inr enc"
    using 1(3) by (cases "encode c") simp_all
  show ?case
  proof (cases "int (length enc) \<le> maximumJobState")
    case True
    then show ?thesis
      using 1(3) enc by (auto simp: shrinksTo_def)
  next
    case False
    let ?ov = "int (length enc) - maximumJobState"
    let ?t = "compactOldestTombstones c ?ov (int (length enc))"
    let ?k = "compactOldestCompleted c ?ov (int (length enc))"
    show ?thesis
    proof (cases "snd ?t = []")
      case t: True
      then have k: "snd ?k \<noteq> []"
        using 1(3) enc False by (auto simp: Let_def split: if_splits)
      then obtain new where "dropped' = (dropped @ snd ?k) @ new" "shrinksTo (fst ?k) c' new"
          "encode c' = Inr encoded" "int (length encoded) \<le> maximumJobState"
        using 1(2) [OF enc False refl refl refl] 1(3) enc False t by (auto simp: Let_def)
      then show ?thesis
        using shrinksTo_completed [OF compactOldestCompleted_compacts] by auto
    next
      case t: False
      then show ?thesis
        using 1(1) [OF enc False refl refl refl] 1(3) enc False
          shrinksTo_tombstones [OF compactOldestTombstones_compacts] by (auto simp: Let_def)
    qed
  qed
qed

lemma compactOldestFirst_removes:
  assumes "idx \<noteq> []" and "\<And>i. i \<in> set idx \<Longrightarrow> i < length (caRecords c)" and "0 \<le> ov"
  shows "snd (compactOldestFirst c idx ov e) \<noteq> []"
proof -
  define n where "n = nat (min (godiv ov (max (godiv e (int (length (caRecords c)))) 1) + 1) (int (length idx)))"
  have "0 \<le> godiv ov (max (godiv e (int (length (caRecords c)))) 1)"
    using assms(3) by (intro godiv_nonneg) simp_all
  then have "0 < n"
    using assms(1) by (simp add: n_def)
  then have "hd idx \<in> set (take n idx)"
    using assms(1) by (cases idx; cases n) auto
  moreover have "hd idx < length (caRecords c)"
    using assms(1,2) by simp
  ultimately have "(hd idx, caRecords c ! hd idx) \<in> set (filter (\<lambda>x. fst x \<in> set (take n idx)) (enumerate 0 (caRecords c)))"
    by (simp add: in_set_enumerate_eq)
  then have "filter (\<lambda>x. fst x \<in> set (take n idx)) (enumerate 0 (caRecords c)) \<noteq> []"
    by (metis empty_iff list.set(1))
  then show ?thesis
    by (simp add: compactOldestFirst_def Let_def flip: n_def)
qed

lemma filter_enumerate_empty:
  "filter (\<lambda>x. keep (snd x)) (enumerate n rs) = [] \<longleftrightarrow> list_all (\<lambda>r. \<not> keep r) rs"
  by (induction rs arbitrary: n) auto

lemma sortedIndexes_empty: "sortedIndexes keep stamp rs = [] \<longleftrightarrow> list_all (\<lambda>r. \<not> keep r) rs"
proof -
  have "sort_key f xs = [] \<longleftrightarrow> xs = []" for f :: "nat \<times> JobRecord \<Rightarrow> time \<times> string \<times> string" and xs
    by (metis set_empty set_sort)
  then show ?thesis
    by (simp add: sortedIndexes_def filter_enumerate_empty)
qed

lemma compactOldestTombstones_none:
  "0 \<le> ov \<Longrightarrow> snd (compactOldestTombstones c ov e) = [] \<Longrightarrow> list_all (\<lambda>r. \<not> isTombstoned r) (caRecords c)"
  unfolding compactOldestTombstones_def Let_def
  using compactOldestFirst_removes [of "sortedIndexes isTombstoned
      (\<lambda>r. case jrTombstonedAt r of None \<Rightarrow> 0 | Some t \<Rightarrow> t) (caRecords c)" c ov e]
  by (auto simp: sortedIndexes_empty dest: sortedIndexes_in split: if_splits)

lemma compactOldestCompleted_none:
  "0 \<le> ov \<Longrightarrow> snd (compactOldestCompleted c ov e) = [] \<Longrightarrow>
   list_all (\<lambda>r. jrTombstonedAt r \<noteq> None \<or> \<not> CompactableUnderCapacityPressure r) (caRecords c)"
  unfolding compactOldestCompleted_def Let_def
  using compactOldestFirst_removes [of "sortedIndexes (\<lambda>r. \<not> (jrTombstonedAt r \<noteq> None \<or> \<not> CompactableUnderCapacityPressure r))
      terminalTime (caRecords c)" c ov e]
  by (auto simp: sortedIndexes_empty dest: sortedIndexes_in split: if_splits)

text \<open>
  When the loop gives up although every catalog can be encoded, what is left is over the cap and
  holds no record that may be compacted.
\<close>

definition wedged :: "(Catalog \<Rightarrow> goError + string) \<Rightarrow> Catalog \<Rightarrow> bool" where
  "wedged encode c \<longleftrightarrow> (\<exists>c' enc dropped. shrinksTo c c' dropped \<and> encode c' = Inr enc \<and>
     maximumJobState < int (length enc) \<and> list_all (\<lambda>r. \<not> CompactableUnderCapacityPressure r) (caRecords c'))"

lemma encodeLoop_fails:
  "encodeLoop encode dropped c = Inl err \<Longrightarrow> \<forall>c'. \<exists>enc. encode c' = Inr enc \<Longrightarrow> wedged encode c"
proof (induction encode dropped c rule: encodeLoop.induct)
  case (1 encode dropped c)
  obtain enc where enc: "encode c = Inr enc"
    using 1(4) by blast
  have False: "\<not> int (length enc) \<le> maximumJobState"
    using 1(3) enc by auto
  let ?ov = "int (length enc) - maximumJobState"
  let ?t = "compactOldestTombstones c ?ov (int (length enc))"
  let ?k = "compactOldestCompleted c ?ov (int (length enc))"
  consider (t) "snd ?t \<noteq> []" | (k) "snd ?t = []" "snd ?k \<noteq> []" | (none) "snd ?t = []" "snd ?k = []"
    by blast
  then show ?case
  proof cases
    case t
    then show ?thesis
      using 1(1) [OF enc False refl refl refl] 1(3,4) enc False
        shrinksTo_tombstones [OF compactOldestTombstones_compacts]
      by (fastforce simp: Let_def wedged_def)
  next
    case k
    then show ?thesis
      using 1(2) [OF enc False refl refl refl] 1(3,4) enc False
        shrinksTo_completed [OF compactOldestCompleted_compacts]
      by (fastforce simp: Let_def wedged_def)
  next
    case none
    then have "list_all (\<lambda>r. \<not> CompactableUnderCapacityPressure r) (caRecords c)"
      using compactOldestTombstones_none [of ?ov c] compactOldestCompleted_none [of ?ov c] False
      by (fastforce simp: list_all_iff isTombstoned_def)
    moreover have "shrinksTo c c []"
      by (simp add: shrinksTo_def)
    ultimately show ?thesis
      using enc False by (auto simp: wedged_def not_le)
  qed
qed

text \<open>
  C32: Compaction under the size cap always ends with an encoding within the cap, unless only records
  that may not be compacted are left. It keeps the order of what it keeps, journals exactly the
  untombstoned records it drops, drops none but tombstoned and terminal records, and never drops a
  job that is still active.\<close>

theorem compaction_spares_live_jobs:
  assumes "\<forall>c'. \<exists>enc. encode c' = Inr enc"
  shows "case encodeLoop encode [] c of
      Inr (encoded, c', dropped) \<Rightarrow> shrinksTo c c' dropped \<and> encode c' = Inr encoded \<and>
        int (length encoded) \<le> maximumJobState
    | Inl err \<Rightarrow> wedged encode c"
  using encodeLoop_shrinks [of encode "[]" c] encodeLoop_fails [OF _ assms, of "[]" c]
  by (auto split: sum.split prod.split simp del: encodeLoop.simps)

theorem compaction_spares_live_jobs_witness:
  "case encodeLoop (\<lambda>_. Inr ''{}'') [] \<lparr>caSchemaVersion = 1, caRecords = [zeroJobRecord]\<rparr> of
      Inr (encoded, c', dropped) \<Rightarrow> shrinksTo \<lparr>caSchemaVersion = 1, caRecords = [zeroJobRecord]\<rparr> c' dropped
    | Inl err \<Rightarrow> wedged (\<lambda>_. Inr ''{}'') \<lparr>caSchemaVersion = 1, caRecords = [zeroJobRecord]\<rparr>"
  using compaction_spares_live_jobs [of "\<lambda>_. Inr ''{}''" "\<lparr>caSchemaVersion = 1, caRecords = [zeroJobRecord]\<rparr>"]
  by (auto split: sum.split prod.split simp del: encodeLoop.simps)

section \<open>The sidecar of assignment times\<close>

lemma validateRecords_distinct:
  "validateRecords px K J C rs = None \<Longrightarrow>
   distinct (map (\<lambda>r. recordKey (jrPoolID r) (jrRunnerName r)) rs) \<and>
   (\<forall>r \<in> set rs. recordKey (jrPoolID r) (jrRunnerName r) \<notin> K) \<and>
   distinct (filter (\<lambda>j. j \<noteq> []) (map jrJobID rs)) \<and> (\<forall>r \<in> set rs. jrJobID r = [] \<or> jrJobID r \<notin> J)"
  by (induction px K J C rs rule: validateRecords.induct) (auto split: if_splits)

lemma map_of_foldl_gput:
  assumes "distinct (map k (filter (\<lambda>x. \<not> P x) xs))"
  shows "map_of (foldl (\<lambda>m x. if P x then m else gput m (k x) (v x)) [] xs) key = Some t \<longleftrightarrow>
    (\<exists>x \<in> set xs. \<not> P x \<and> k x = key \<and> v x = t)"
  using assms by (induction xs rule: rev_induct) auto

definition assignEntry :: "JobRecord \<Rightarrow> AssignTimeEntry" where
  "assignEntry r = \<lparr>atPoolID = jrPoolID r, atRunnerName = jrRunnerName r, atJobID = jrJobID r,
     atRunnerAssignedAt = the (jrRunnerAssignedAt r)\<rparr>"

definition hasAssigned :: "JobRecord \<Rightarrow> bool" where
  "hasAssigned r \<longleftrightarrow> (case jrRunnerAssignedAt r of None \<Rightarrow> False | Some t \<Rightarrow> \<not> timeIsZero t)"

lemma acEntries_eq:
  "acEntries (assignTimesFromCatalog c) =
     sort_key (\<lambda>e. (atPoolID e, atRunnerName e)) (map assignEntry (filter hasAssigned (caRecords c)))"
proof -
  have "concat (map (\<lambda>r. case jrRunnerAssignedAt r of None \<Rightarrow> []
      | Some t \<Rightarrow> if timeIsZero t then [] else [\<lparr>atPoolID = jrPoolID r, atRunnerName = jrRunnerName r, atJobID = jrJobID r,
          atRunnerAssignedAt = t\<rparr>]) rs) = map assignEntry (filter hasAssigned rs)" for rs
    by (induction rs) (auto simp: assignEntry_def hasAssigned_def split: option.splits)
  then show ?thesis
    by (simp add: assignTimesFromCatalog_def)
qed

lemma distinct_map_mset: "mset xs = mset ys \<Longrightarrow> distinct (map f xs) \<longleftrightarrow> distinct (map f ys)"
  by (rule mset_eq_imp_distinct_iff) simp

lemma assigned_by_key:
  assumes "distinct (map (\<lambda>r. recordKey (jrPoolID r) (jrRunnerName r)) (caRecords c))"
  shows "map_of (assignTimesByKey (acEntries (assignTimesFromCatalog c))) key = Some t \<longleftrightarrow>
    (\<exists>r \<in> set (caRecords c). hasAssigned r \<and> recordKey (jrPoolID r) (jrRunnerName r) = key \<and> jrRunnerAssignedAt r = Some t)"
proof -
  let ?es = "acEntries (assignTimesFromCatalog c)"
  have "distinct (map (\<lambda>e. recordKey (atPoolID e) (atRunnerName e)) ?es)"
    using assms by (simp add: acEntries_eq distinct_map_mset [OF mset_sort] comp_def assignEntry_def distinct_map_filter)
  then have "distinct (map (\<lambda>e. recordKey (atPoolID e) (atRunnerName e)) (filter (\<lambda>e. \<not> timeIsZero (atRunnerAssignedAt e)) ?es))"
    by (rule distinct_map_filter)
  from map_of_foldl_gput [OF this, of atRunnerAssignedAt key t] show ?thesis
    by (auto simp: assignTimesByKey_def acEntries_eq assignEntry_def hasAssigned_def split: option.splits)
qed

lemma assigned_by_job:
  assumes "distinct (filter (\<lambda>j. j \<noteq> []) (map jrJobID (caRecords c)))"
  shows "map_of (assignTimesByJob (acEntries (assignTimesFromCatalog c))) job = Some t \<longleftrightarrow>
    (\<exists>r \<in> set (caRecords c). hasAssigned r \<and> jrJobID r \<noteq> [] \<and> jrJobID r = job \<and> jrRunnerAssignedAt r = Some t)"
proof -
  let ?es = "acEntries (assignTimesFromCatalog c)"
  let ?Q = "\<lambda>e. \<not> (timeIsZero (atRunnerAssignedAt e) \<or> atJobID e = [])"
  have "distinct (map jrJobID (filter (\<lambda>r. jrJobID r \<noteq> []) (caRecords c)))"
    using assms by (simp add: filter_map comp_def)
  then have jobs: "distinct (map jrJobID (filter (\<lambda>r. hasAssigned r \<and> ?Q (assignEntry r)) (filter (\<lambda>r. jrJobID r \<noteq> []) (caRecords c))))"
    by (rule distinct_map_filter)
  have "mset (filter ?Q ?es) = mset (map assignEntry (filter (\<lambda>r. hasAssigned r \<and> ?Q (assignEntry r)) (caRecords c)))"
  proof -
    have "mset (filter ?Q (sort_key f xs)) = mset (filter ?Q xs)"
      for f :: "AssignTimeEntry \<Rightarrow> string \<times> string" and xs
      by (simp add: mset_filter)
    moreover have "filter ?Q (map assignEntry (filter hasAssigned rs)) =
        map assignEntry (filter (\<lambda>r. hasAssigned r \<and> ?Q (assignEntry r)) rs)" for rs
      by (induction rs) auto
    ultimately show ?thesis
      unfolding acEntries_eq by metis
  qed
  then have "distinct (map atJobID (filter ?Q ?es)) \<longleftrightarrow>
      distinct (map atJobID (map assignEntry (filter (\<lambda>r. hasAssigned r \<and> ?Q (assignEntry r)) (caRecords c))))"
    by (rule distinct_map_mset)
  also have "map atJobID (map assignEntry (filter (\<lambda>r. hasAssigned r \<and> ?Q (assignEntry r)) (caRecords c))) =
      map jrJobID (filter (\<lambda>r. hasAssigned r \<and> ?Q (assignEntry r)) (filter (\<lambda>r. jrJobID r \<noteq> []) (caRecords c)))"
    by (auto simp: assignEntry_def comp_def intro!: arg_cong [where f = "map jrJobID"] filter_cong)
  finally have "distinct (map atJobID (filter ?Q ?es))"
    using jobs by simp
  from map_of_foldl_gput [OF this, of atRunnerAssignedAt job t] show ?thesis
    by (auto simp: assignTimesByJob_def acEntries_eq assignEntry_def hasAssigned_def split: option.splits)
qed

lemma distinct_map_inj: "distinct (map f xs) \<Longrightarrow> x \<in> set xs \<Longrightarrow> y \<in> set xs \<Longrightarrow> f x = f y \<Longrightarrow> x = y"
  by (auto simp: distinct_map inj_on_def)

lemma hydrateRecord_inverse:
  assumes keys: "distinct (map (\<lambda>r. recordKey (jrPoolID r) (jrRunnerName r)) (caRecords c))"
    and jobs: "distinct (filter (\<lambda>j. j \<noteq> []) (map jrJobID (caRecords c)))"
    and r: "r \<in> set (caRecords c)" and assigned: "hasAssigned r \<longleftrightarrow> jrRunnerAssignedAt r \<noteq> None"
  shows "hydrateRecord (assignTimesByKey (acEntries (assignTimesFromCatalog c)))
    (assignTimesByJob (acEntries (assignTimesFromCatalog c))) (r\<lparr>jrRunnerAssignedAt := None\<rparr>) = r"
proof (cases "jrRunnerAssignedAt r")
  case (Some t)
  then have "map_of (assignTimesByKey (acEntries (assignTimesFromCatalog c))) (recordKey (jrPoolID r) (jrRunnerName r)) = Some t"
    using r assigned by (auto simp: assigned_by_key [OF keys])
  then show ?thesis
    using Some by (simp add: hydrateRecord_def)
next
  case None
  have "map_of (assignTimesByKey (acEntries (assignTimesFromCatalog c))) (recordKey (jrPoolID r) (jrRunnerName r)) \<noteq> Some t" for t
  proof
    assume "map_of (assignTimesByKey (acEntries (assignTimesFromCatalog c))) (recordKey (jrPoolID r) (jrRunnerName r)) = Some t"
    then obtain r' where "r' \<in> set (caRecords c)" "jrRunnerAssignedAt r' = Some t"
        "recordKey (jrPoolID r') (jrRunnerName r') = recordKey (jrPoolID r) (jrRunnerName r)"
      by (auto simp: assigned_by_key [OF keys])
    then show False
      using distinct_map_inj [OF keys _ r, of r'] None by simp
  qed
  moreover have "jrJobID r = [] \<or> map_of (assignTimesByJob (acEntries (assignTimesFromCatalog c))) (jrJobID r) \<noteq> Some t" for t
  proof (rule disjCI)
    assume "\<not> map_of (assignTimesByJob (acEntries (assignTimesFromCatalog c))) (jrJobID r) \<noteq> Some t"
    then obtain r' where "r' \<in> set (caRecords c)" "jrRunnerAssignedAt r' = Some t" "jrJobID r' = jrJobID r"
      by (auto simp: assigned_by_job [OF jobs])
    then show "jrJobID r = []"
      using distinct_map_inj [of jrJobID "filter (\<lambda>r. jrJobID r \<noteq> []) (caRecords c)" r' r] jobs r None
      by (cases "jrJobID r = []") (auto simp: filter_map comp_def)
  qed
  ultimately show ?thesis
    using None by (cases r) (auto simp: hydrateRecord_def split: option.split)
qed

lemma stripAssignTimes_none:
  assumes "acEntries (assignTimesFromCatalog c) = []"
    and "\<And>r. r \<in> set (caRecords c) \<Longrightarrow> hasAssigned r \<longleftrightarrow> jrRunnerAssignedAt r \<noteq> None"
  shows "stripAssignTimes c = c"
proof -
  have "filter hasAssigned (caRecords c) = []"
    using arg_cong [OF assms(1), of length] by (simp add: acEntries_eq)
  then have "r\<lparr>jrRunnerAssignedAt := None\<rparr> = r" if "r \<in> set (caRecords c)" for r
    using assms(2) that by (cases r) (auto simp: filter_empty_conv)
  then have "map (\<lambda>r. r\<lparr>jrRunnerAssignedAt := None\<rparr>) (caRecords c) = caRecords c"
    by (intro map_idI)
  then show ?thesis
    by (simp add: stripAssignTimes_def)
qed

text \<open>
  C33: The sidecar restores what jobs.json leaves out. For a valid catalog whose assignment times are
  not zero, loading the stripped catalog and hydrating it from the sidecar that was written with it
  gives back the catalog.\<close>

theorem sidecar_roundtrip:
  assumes "validateCatalog px c = None"
    and "list_all (\<lambda>r. jrRunnerAssignedAt r \<noteq> Some 0) (caRecords c)"
  shows "hydrateAssignTimes (stripAssignTimes c) (assignTimesFromCatalog c) = c"
proof -
  have distinct: "distinct (map (\<lambda>r. recordKey (jrPoolID r) (jrRunnerName r)) (caRecords c))"
      "distinct (filter (\<lambda>j. j \<noteq> []) (map jrJobID (caRecords c)))"
    using assms(1) validateRecords_distinct [of px "{}" "{}" "{}" "caRecords c"]
    by (auto simp: validateCatalog_def split: if_splits)
  have assigned: "hasAssigned r \<longleftrightarrow> jrRunnerAssignedAt r \<noteq> None" if "r \<in> set (caRecords c)" for r
    using assms(2) that by (auto simp: hasAssigned_def list_all_iff timeIsZero_def split: option.splits)
  have "map (\<lambda>r. hydrateRecord (assignTimesByKey (acEntries (assignTimesFromCatalog c)))
      (assignTimesByJob (acEntries (assignTimesFromCatalog c))) (r\<lparr>jrRunnerAssignedAt := None\<rparr>)) (caRecords c) = caRecords c"
    using hydrateRecord_inverse [OF distinct] assigned by (intro map_idI) blast
  then show ?thesis
    using stripAssignTimes_none [of c] assigned
    by (auto simp: hydrateAssignTimes_def stripAssignTimes_def comp_def)
qed

theorem sidecar_roundtrip_witness:
  "hydrateAssignTimes (stripAssignTimes \<lparr>caSchemaVersion = 1, caRecords =
       [zeroJobRecord\<lparr>jrPoolID := ''a'', jrRunnerName := ''r'', jrUpdatedAt := 2, jrRunnerAssignedAt := Some 5\<rparr>]\<rparr>)
     (assignTimesFromCatalog \<lparr>caSchemaVersion = 1, caRecords =
       [zeroJobRecord\<lparr>jrPoolID := ''a'', jrRunnerName := ''r'', jrUpdatedAt := 2, jrRunnerAssignedAt := Some 5\<rparr>]\<rparr>) =
   \<lparr>caSchemaVersion = 1, caRecords =
       [zeroJobRecord\<lparr>jrPoolID := ''a'', jrRunnerName := ''r'', jrUpdatedAt := 2, jrRunnerAssignedAt := Some 5\<rparr>]\<rparr>"
  by (rule sidecar_roundtrip [of unixPaths])
    (simp_all add: validateCatalog_def jobSchemaVersion_def timeIsZero_def zeroJobRecord_def)

end
