(* ===== verification/World.thy ===== *)
theory World
  imports Capacity Retry JobIndex
begin

text \<open>
  The world the reconciler runs in: the adapters of \<open>src/internal/controller/ports.go\<close>, and the
  mutable state of the \<open>Reconciler\<close> of \<open>src/internal/controller/reconciler.go\<close>.

  Every call of an adapter is an \<open>event\<close> that carries the call's arguments and its answer. The
  adapters are code outside the controller, so they are parameters: an \<open>Env\<close> gives each adapter as
  a function from the history of earlier events to its next answer. A theorem over every \<open>Env\<close>
  holds for every behaviour of the adapters, failures and races with other processes included.
  The history is kept newest first.

  A step runs under a context that its caller, the safety watcher or a shutdown request may cancel
  at any moment: \<open>enCancel\<close> decides at each reading of the context whether that has happened. The
  first cause is kept, as \<open>context.Cause\<close> keeps it.

  The reconciler's operations are actions of the state monad over \<open>rstate\<close>. Variables of
  \<open>step\<close> that its closures write (\<open>now\<close>, \<open>operationErrors\<close>, \<open>operationProblems\<close>) are fields of
  \<open>rstate\<close>. \<open>emits E m\<close> says that the action \<open>m\<close> only appends events that satisfy \<open>E\<close> to the
  history; the rules in the collection \<open>emits_rules\<close> compose it along the monad.
\<close>

named_theorems emits_rules "composition rules for the events an action may append"

section \<open>Requests, log events and problem codes\<close>

record Definition =
  sfTargetID :: string
  sfURL :: string
  sfScope :: string
  sfClientID :: string
  sfInstallationID :: int
  sfSecretID :: string
  sfRunnerGroup :: string
  sfScaleSetName :: string
  sfLabels :: "string list"

record JITConfig =
  jitEncoded :: string
  jitRunnerID :: int

record StartWorkerRequest =
  swPoolID :: string
  swName :: string
  swResourceTier :: string
  swJITConfig :: JITConfig
  swLimits :: ConfigWorker
  swSeccompProfile :: string

text \<open>The cause of a log event is the error itself instead of its text.\<close>

record LogEvent =
  leAt :: time
  leCode :: string
  leMessage :: string
  leCause :: "goError option"
  leSource :: string
  lePoolID :: string
  leWorkerID :: string

definition logEvent :: "time \<Rightarrow> string \<Rightarrow> string \<Rightarrow> string \<Rightarrow> LogEvent" where
  "logEvent now code message poolID =
     \<lparr>leAt = now, leCode = code, leMessage = message, leCause = None, leSource = [],
      lePoolID = poolID, leWorkerID = []\<rparr>"

section \<open>Events and the environment\<close>

datatype cancellation = ParentCancelled goError | SafetyInputsChanged | ShutdownBegun

datatype event =
    NowRead time
  | ContextRead "cancellation option"
  | ShuttingDownRead bool
  | DesiredLoaded "goError + DesiredState"
  | DesiredSaved DesiredState "goError option"
  | ObservedLoaded "goError + ObservedState"
  | ObservedQuarantined "goError option"
  | ObservedSaved ObservedState "goError option"
  | InputIdleRead "goError + duration"
  | PowerRead "goError + PowerSnapshot"
  | ResourcesRead "goError + ResourceSnapshot"
  | DesktopRead "goError + DesktopStatus"
  | DesktopStarted "goError option"
  | DesktopStopped "goError option"
  | WSLShutDown "goError option"
  | EngineMemoryRead "goError + u64"
  | WorkersListed "goError + Worker list"
  | JobsLoaded "goError + Catalog"
  | Ensured string "Identity option" "goError + Identity"
  | Polled Identity int "goError + Statistics"
  | JITCreated Identity string "goError + JITConfig"
  | RegistrationChecked string int string "goError + bool"
  | RunnerRemoved string int "goError option"
  | WorkerStarted StartWorkerRequest "goError + Worker"
  | RemovedIfIdle string "goError + bool"
  | Slept duration "cancellation option"
  | DetachedSlept duration "goError option"
  | Drew "int option"
  | DetachedRead "goError option"
  | CPURead float64
  | TicksCounted nat
  | PollsReturned bool
  | Logged LogEvent
  | StepCancelled goError
  | ShutdownStarted
  | ScaleSetsClosed "goError option"
  | WorkersClosed "goError option"
  | ForceStopped string "goError option"
  | GoroutinesDumped string "goError + string"

type_synonym history = "event list"

text \<open>
  \<open>enQuarantine\<close>, \<open>enInputIdle\<close> are None when the store cannot quarantine and when there is no
  presence monitor. \<open>enDetached\<close> and \<open>enDetachedTimer\<close> are the context with its own timeout that
  cleanup calls run under. \<open>enTimer\<close> is None when the timer fires first and the cancellation when
  the context is done first. \<open>enTicks\<close> is the number of times the reconcile ticker fires while the
  listener polls are open, and \<open>enPollsReturned\<close> whether they have returned at a given moment.
  \<open>enCloseScaleSets\<close>, \<open>enCloseWorkers\<close> and \<open>enForceStop\<close> are None when the adapter does not implement
  that optional interface. \<open>enShuttingDown\<close> says whether another goroutine has begun the shutdown.
\<close>

record Env =
  enNow :: "history \<Rightarrow> time"
  enCancel :: "history \<Rightarrow> cancellation option"
  enShuttingDown :: "history \<Rightarrow> bool"
  enLoadDesired :: "history \<Rightarrow> goError + DesiredState"
  enSaveDesired :: "history \<Rightarrow> DesiredState \<Rightarrow> goError option"
  enLoadObserved :: "history \<Rightarrow> goError + ObservedState"
  enQuarantine :: "(history \<Rightarrow> goError option) option"
  enSaveObserved :: "history \<Rightarrow> ObservedState \<Rightarrow> goError option"
  enInputIdle :: "(history \<Rightarrow> goError + duration) option"
  enPower :: "history \<Rightarrow> goError + PowerSnapshot"
  enResources :: "history \<Rightarrow> goError + ResourceSnapshot"
  enDesktopStatus :: "history \<Rightarrow> goError + DesktopStatus"
  enDesktopStart :: "history \<Rightarrow> goError option"
  enDesktopStop :: "history \<Rightarrow> goError option"
  enShutdownAllWSL :: "history \<Rightarrow> goError option"
  enEngineMemory :: "history \<Rightarrow> goError + u64"
  enListWorkers :: "history \<Rightarrow> goError + Worker list"
  enLoadJobs :: "history \<Rightarrow> goError + Catalog"
  enEnsure :: "history \<Rightarrow> Definition \<Rightarrow> Identity option \<Rightarrow> goError + Identity"
  enStatistics :: "history \<Rightarrow> Identity \<Rightarrow> int \<Rightarrow> goError + Statistics"
  enCreateJIT :: "history \<Rightarrow> Identity \<Rightarrow> string \<Rightarrow> goError + JITConfig"
  enRegistered :: "history \<Rightarrow> string \<Rightarrow> int \<Rightarrow> string \<Rightarrow> goError + bool"
  enRemoveRunner :: "history \<Rightarrow> string \<Rightarrow> int \<Rightarrow> goError option"
  enStartWorker :: "history \<Rightarrow> StartWorkerRequest \<Rightarrow> goError + Worker"
  enRemoveIfIdle :: "history \<Rightarrow> string \<Rightarrow> goError + bool"
  enTimer :: "history \<Rightarrow> duration \<Rightarrow> cancellation option"
  enDraw :: "history \<Rightarrow> int option"
  enDetached :: "history \<Rightarrow> goError option"
  enDetachedTimer :: "history \<Rightarrow> duration \<Rightarrow> goError option"
  enProcessCPU :: "history \<Rightarrow> float64"
  enTicks :: "history \<Rightarrow> nat"
  enPollsReturned :: "history \<Rightarrow> bool"
  enCloseScaleSets :: "(history \<Rightarrow> goError option) option"
  enCloseWorkers :: "(history \<Rightarrow> goError option) option"
  enForceStop :: "(history \<Rightarrow> string \<Rightarrow> goError option) option"
  enGoroutineDump :: "history \<Rightarrow> string \<Rightarrow> goError + string"

section \<open>The reconciler\<close>

datatype capState = capStateUnknown | capStateReleased | capStateEngaged

text \<open>The fields of \<open>Reconciler\<close> that \<open>NewReconciler\<close> sets once.\<close>

record Reconciler =
  rnConfig :: Config
  rnVersion :: string
  rnBackoff :: BackoffPolicy
  rnEnv :: Env

text \<open>
  The fields the reconciler changes. \<open>rxContext\<close> is the state of the step's context: its error and
  its cause once it is cancelled. The last three fields are the variables of one \<open>step\<close> that its
  \<open>record\<close> and \<open>note\<close> closures share.
\<close>

record rstate =
  rxHistory :: history
  rxContext :: "(goError \<times> goError) option"
  rxDrainCapacity :: "int gomap"
  rxSequence :: u64
  rxPendingCapacity :: "int gomap"
  rxEngineMemoryTotal :: u64
  rxInputIdle :: "duration option"
  rxFinalAdmission :: bool
  rxRegistrationCursor :: u64
  rxRetirementCursor :: u64
  rxStaleCycles :: int
  rxReregister :: bool
  rxHeartbeat :: time
  rxLastTick :: duration
  rxCapLogged :: capState
  rxNow :: time
  rxErrors :: "goError list"
  rxProblems :: "Problem list"

type_synonym 'a action = "(rstate, 'a) state"

definition newReconcilerState :: rstate where
  "newReconcilerState = \<lparr>rxHistory = [], rxContext = None, rxDrainCapacity = [], rxSequence = 0,
     rxPendingCapacity = [], rxEngineMemoryTotal = 0, rxInputIdle = None, rxFinalAdmission = False,
     rxRegistrationCursor = 0, rxRetirementCursor = 0, rxStaleCycles = 0, rxReregister = False,
     rxHeartbeat = 0, rxLastTick = 0, rxCapLogged = capStateUnknown, rxNow = 0, rxErrors = [],
     rxProblems = []\<rparr>"

definition newBackoff :: "Config \<Rightarrow> BackoffPolicy" where
  "newBackoff cfg = (let r = ghRetry (cfGitHub cfg) in
     \<lparr>bpInitial = ryInitial r, bpMaximum = ryMaximum r, bpMultiplier = ryMultiplier r,
      bpJitterRatio = ryJitterRatio r, bpMaxAttempts = ryMaxAttempts r, bpJitter = Some cryptoJitter\<rparr>)"

section \<open>Primitive actions\<close>

definition readState :: "(rstate \<Rightarrow> 'a) \<Rightarrow> 'a action" where
  "readState f = State (\<lambda>s. (f s, s))"

definition modifyState :: "(rstate \<Rightarrow> rstate) \<Rightarrow> unit action" where
  "modifyState f = State (\<lambda>s. ((), f s))"

text \<open>Call an adapter: its answer depends on the history and the call is added to the history.\<close>

definition ask :: "(history \<Rightarrow> 'a) \<Rightarrow> ('a \<Rightarrow> event) \<Rightarrow> 'a action" where
  "ask answer event = State (\<lambda>s. let a = answer (rxHistory s)
     in (a, s\<lparr>rxHistory := event a # rxHistory s\<rparr>))"

definition tell :: "event \<Rightarrow> unit action" where
  "tell e = modifyState (\<lambda>s. s\<lparr>rxHistory := e # rxHistory s\<rparr>)"

fun cancellationErrors :: "cancellation \<Rightarrow> goError \<times> goError" where
  "cancellationErrors (ParentCancelled err) = (err, err)"
| "cancellationErrors SafetyInputsChanged = (Sentinel Canceled, Sentinel ReconcileInputsChanged)"
| "cancellationErrors ShutdownBegun = (Sentinel Canceled, Sentinel ShutdownRequested)"

definition latchContext :: "cancellation option \<Rightarrow> unit action" where
  "latchContext c = modifyState (\<lambda>s. case rxContext s of
       Some _ \<Rightarrow> s
     | None \<Rightarrow> s\<lparr>rxContext := map_option cancellationErrors c\<rparr>)"

text \<open>\<open>ctx.Err()\<close> and \<open>context.Cause(ctx)\<close>.\<close>

definition ctxErr :: "Env \<Rightarrow> goError option action" where
  "ctxErr env = do {
     c \<leftarrow> ask (enCancel env) ContextRead;
     latchContext c;
     readState (\<lambda>s. map_option fst (rxContext s))
   }"

definition ctxCause :: "Env \<Rightarrow> goError option action" where
  "ctxCause env = do {
     c \<leftarrow> ask (enCancel env) ContextRead;
     latchContext c;
     readState (\<lambda>s. map_option snd (rxContext s))
   }"

definition cancelStep :: "goError \<Rightarrow> unit action" where
  "cancelStep cause = do {
     tell (StepCancelled cause);
     modifyState (\<lambda>s. case rxContext s of
         Some _ \<Rightarrow> s
       | None \<Rightarrow> s\<lparr>rxContext := Some (Sentinel Canceled, cause)\<rparr>)
   }"

definition timeNow :: "Env \<Rightarrow> time action" where
  "timeNow env = ask (enNow env) NowRead"

text \<open>The flag \<open>shuttingDown\<close> is set by \<open>BeginShutdown\<close>, whoever calls it, and never cleared.\<close>

definition shutdownBegun :: "Env \<Rightarrow> history \<Rightarrow> bool" where
  "shutdownBegun env h \<longleftrightarrow> ShutdownStarted \<in> set h \<or> enShuttingDown env h"

definition BeginShutdown :: "unit action" where
  "BeginShutdown = tell ShutdownStarted"

definition ShuttingDown :: "Env \<Rightarrow> bool action" where
  "ShuttingDown env = ask (shutdownBegun env) ShuttingDownRead"

definition writeLog :: "LogEvent \<Rightarrow> unit action" where
  "writeLog e = tell (Logged e)"

section \<open>Which events an action appends\<close>

definition emits :: "(event \<Rightarrow> bool) \<Rightarrow> 'a action \<Rightarrow> bool" where
  "emits E m \<longleftrightarrow> (\<forall>s. \<exists>new. rxHistory (snd (run_state m s)) = new @ rxHistory s \<and> (\<forall>e\<in>set new. E e))"

lemma emitsI:
  assumes "\<And>s. \<exists>new. rxHistory (snd (run_state m s)) = new @ rxHistory s \<and> (\<forall>e\<in>set new. E e)"
  shows "emits E m"
  using assms by (simp add: emits_def)

lemma emitsE:
  assumes "emits E m" and "run_state m s = (a, s')"
  obtains new where "rxHistory s' = new @ rxHistory s" and "\<forall>e\<in>set new. E e"
  using assms unfolding emits_def by (metis snd_conv)

lemma emits_mono: "emits E m \<Longrightarrow> (\<And>e. E e \<Longrightarrow> F e) \<Longrightarrow> emits F m"
  unfolding emits_def by meson

lemma emits_return [emits_rules, intro]: "emits E (State_Monad.return x)"
  by (simp add: emits_def)

lemma emits_bind [emits_rules, intro]:
  assumes m: "emits E m" and f: "\<And>x. emits E (f x)"
  shows "emits E (State_Monad.bind m f)"
proof (rule emitsI)
  fix s
  obtain a s1 where r1: "run_state m s = (a, s1)"
    by (cases "run_state m s")
  obtain b s2 where r2: "run_state (f a) s1 = (b, s2)"
    by (cases "run_state (f a) s1")
  obtain new1 where n1: "rxHistory s1 = new1 @ rxHistory s" "\<forall>e\<in>set new1. E e"
    using m r1 by (rule emitsE)
  obtain new2 where n2: "rxHistory s2 = new2 @ rxHistory s1" "\<forall>e\<in>set new2. E e"
    using f r2 by (rule emitsE)
  show "\<exists>new. rxHistory (snd (run_state (State_Monad.bind m f) s)) = new @ rxHistory s \<and> (\<forall>e\<in>set new. E e)"
    using n1 n2 r1 r2 by (intro exI [of _ "new2 @ new1"]) auto
qed

lemma emits_readState [emits_rules, intro]: "emits E (readState f)"
  by (simp add: emits_def readState_def)

lemma emits_modifyState:
  "(\<And>s. rxHistory (f s) = rxHistory s) \<Longrightarrow> emits E (modifyState f)"
  by (simp add: emits_def modifyState_def)

lemma emits_ask [emits_rules, intro]: "(\<And>a. E (ev a)) \<Longrightarrow> emits E (ask answer ev)"
  by (simp add: emits_def ask_def Let_def)

lemma emits_tell [emits_rules, intro]: "E e \<Longrightarrow> emits E (tell e)"
  by (simp add: emits_def tell_def modifyState_def)

lemma emits_if [emits_rules, intro]: "(b \<Longrightarrow> emits E m) \<Longrightarrow> (\<not> b \<Longrightarrow> emits E n) \<Longrightarrow> emits E (if b then m else n)"
  by simp

lemma emits_option [emits_rules, intro]:
  "(x = None \<Longrightarrow> emits E m) \<Longrightarrow> (\<And>y. x = Some y \<Longrightarrow> emits E (f y)) \<Longrightarrow>
   emits E (case x of None \<Rightarrow> m | Some y \<Rightarrow> f y)"
  by (cases x) simp_all

lemma emits_sum [emits_rules, intro]:
  "(\<And>y. x = Inl y \<Longrightarrow> emits E (f y)) \<Longrightarrow> (\<And>y. x = Inr y \<Longrightarrow> emits E (g y)) \<Longrightarrow>
   emits E (case x of Inl y \<Rightarrow> f y | Inr y \<Rightarrow> g y)"
  by (cases x) simp_all

lemma emits_prod [emits_rules, intro]:
  "(\<And>a b. x = (a, b) \<Longrightarrow> emits E (f a b)) \<Longrightarrow> emits E (case x of (a, b) \<Rightarrow> f a b)"
  by (cases x) simp_all

lemma emits_Let [emits_rules, intro]: "(\<And>y. y = x \<Longrightarrow> emits E (f y)) \<Longrightarrow> emits E (let y = x in f y)"
  by simp

lemma emits_retryLoop:
  assumes "emits E (rcCtxErr ctx)" and "\<And>d. emits E (rcTimer ctx d)" and "emits E (rcDraw ctx)"
    and "emits E op"
  shows "emits E (retryLoop ctx p retryable op left attempt)"
  by (induction left arbitrary: attempt)
    (auto simp: clockSleep_def assms intro!: emits_rules)

lemma emits_RetryValue [emits_rules]:
  assumes "emits E (rcCtxErr ctx)" and "\<And>d. emits E (rcTimer ctx d)" and "emits E (rcDraw ctx)"
    and "emits E op"
  shows "emits E (RetryValue ctx p retryable op)"
  using emits_retryLoop [OF assms] by (auto simp: RetryValue_def split: option.split)

lemma emits_latchContext [emits_rules]: "emits E (latchContext c)"
  unfolding latchContext_def by (rule emits_modifyState) (simp split: option.split)

lemma emits_ctxErr [emits_rules]: "(\<And>c. E (ContextRead c)) \<Longrightarrow> emits E (ctxErr env)"
  unfolding ctxErr_def by (intro emits_rules)

lemma emits_ctxCause [emits_rules]: "(\<And>c. E (ContextRead c)) \<Longrightarrow> emits E (ctxCause env)"
  unfolding ctxCause_def by (intro emits_rules)

lemma emits_cancelStep [emits_rules]: "E (StepCancelled cause) \<Longrightarrow> emits E (cancelStep cause)"
  unfolding cancelStep_def
  by (intro emits_rules emits_modifyState) (simp_all split: option.split)

lemma emits_timeNow [emits_rules]: "(\<And>t. E (NowRead t)) \<Longrightarrow> emits E (timeNow env)"
  unfolding timeNow_def by (intro emits_rules)

lemma emits_ShuttingDown [emits_rules]: "(\<And>t. E (ShuttingDownRead t)) \<Longrightarrow> emits E (ShuttingDown env)"
  unfolding ShuttingDown_def by (intro emits_rules)

lemma emits_writeLog [emits_rules]: "E (Logged e) \<Longrightarrow> emits E (writeLog e)"
  unfolding writeLog_def by (intro emits_rules)

section \<open>Weakest preconditions and event invariants\<close>

text \<open>
  \<open>wp m Q s\<close> says that \<open>Q\<close> holds of the result and the state that \<open>m\<close> produces from \<open>s\<close>; it
  distributes over the monad by rewriting. \<open>everyEvent P h\<close> says that each event of the history
  \<open>h\<close> was admissible (\<open>P\<close>) after the events before it, and \<open>keeps P m\<close> that the action \<open>m\<close> only
  appends admissible events.
\<close>

definition wp :: "'a action \<Rightarrow> ('a \<Rightarrow> rstate \<Rightarrow> bool) \<Rightarrow> rstate \<Rightarrow> bool" where
  "wp m Q s = (case run_state m s of (a, s') \<Rightarrow> Q a s')"

named_theorems wp_simps "weakest preconditions of actions"

lemma wp_return [wp_simps, simp]: "wp (State_Monad.return x) Q = Q x"
  by (simp add: wp_def fun_eq_iff)

lemma wp_bind [wp_simps, simp]: "wp (State_Monad.bind m f) Q = wp m (\<lambda>a. wp (f a) Q)"
  by (simp add: wp_def fun_eq_iff case_prod_unfold)

lemma wp_readState [wp_simps, simp]: "wp (readState f) Q = (\<lambda>s. Q (f s) s)"
  by (simp add: wp_def fun_eq_iff readState_def)

lemma wp_modifyState [wp_simps, simp]: "wp (modifyState f) Q = (\<lambda>s. Q () (f s))"
  by (simp add: wp_def fun_eq_iff modifyState_def)

lemma wp_ask [wp_simps, simp]:
  "wp (ask answer ev) Q =
     (\<lambda>s. Q (answer (rxHistory s)) (s\<lparr>rxHistory := ev (answer (rxHistory s)) # rxHistory s\<rparr>))"
  by (simp add: wp_def fun_eq_iff ask_def Let_def)

lemma wp_tell [wp_simps, simp]: "wp (tell e) Q = (\<lambda>s. Q () (s\<lparr>rxHistory := e # rxHistory s\<rparr>))"
  by (simp add: tell_def)

lemma wp_const [simp]: "wp m (\<lambda>_ _. C) s = C"
  by (simp add: wp_def case_prod_unfold)

lemma wp_mono: "wp m R s \<Longrightarrow> (\<And>a s'. R a s' \<Longrightarrow> Q a s') \<Longrightarrow> wp m Q s"
  by (auto simp: wp_def)

lemma wp_conj: "wp m Q s \<Longrightarrow> wp m R s \<Longrightarrow> wp m (\<lambda>a s'. Q a s' \<and> R a s') s"
  by (auto simp: wp_def)

lemma wp_emits: "emits E m \<Longrightarrow> wp m (\<lambda>_ s'. \<exists>new. rxHistory s' = new @ rxHistory s \<and> (\<forall>e\<in>set new. E e)) s"
  by (auto simp: wp_def emits_def case_prod_unfold)

fun everyEvent :: "(event \<Rightarrow> history \<Rightarrow> bool) \<Rightarrow> history \<Rightarrow> bool" where
  "everyEvent P [] \<longleftrightarrow> True"
| "everyEvent P (e # h) \<longleftrightarrow> P e h \<and> everyEvent P h"

lemma everyEvent_append: "everyEvent P h \<Longrightarrow> (\<And>e h. e \<in> set new \<Longrightarrow> P e h) \<Longrightarrow> everyEvent P (new @ h)"
  by (induction new) auto

definition keeps :: "(event \<Rightarrow> history \<Rightarrow> bool) \<Rightarrow> 'a action \<Rightarrow> bool" where
  "keeps P m \<longleftrightarrow> (\<forall>s. everyEvent P (rxHistory s) \<longrightarrow> wp m (\<lambda>_ s'. everyEvent P (rxHistory s')) s)"

named_theorems keeps_rules "composition rules for actions that only append admissible events"

lemma keepsD: "keeps P m \<Longrightarrow> everyEvent P (rxHistory s) \<Longrightarrow> wp m (\<lambda>_ s'. everyEvent P (rxHistory s')) s"
  by (simp add: keeps_def)

lemma keepsI:
  "(\<And>s. everyEvent P (rxHistory s) \<Longrightarrow> wp m (\<lambda>_ s'. everyEvent P (rxHistory s')) s) \<Longrightarrow> keeps P m"
  by (simp add: keeps_def)

lemma keeps_bind [keeps_rules]:
  assumes "keeps P m" and "\<And>x. keeps P (f x)"
  shows "keeps P (State_Monad.bind m f)"
  unfolding keeps_def wp_bind
proof (intro allI impI)
  fix s :: rstate assume "everyEvent P (rxHistory s)"
  then show "wp m (\<lambda>a. wp (f a) (\<lambda>_ s'. everyEvent P (rxHistory s'))) s"
    by (rule wp_mono [OF keepsD [OF assms(1)] keepsD [OF assms(2)]])
qed

text \<open>An action whose result matters for the rest: \<open>R\<close> is what is known when it returns.\<close>

lemma keeps_bind_known:
  assumes "\<And>s. everyEvent P (rxHistory s) \<Longrightarrow> wp m (\<lambda>a s'. everyEvent P (rxHistory s') \<and> R a s') s"
    and "\<And>a s. everyEvent P (rxHistory s) \<Longrightarrow> R a s \<Longrightarrow> wp (f a) (\<lambda>_ s'. everyEvent P (rxHistory s')) s"
  shows "keeps P (State_Monad.bind m f)"
  unfolding keeps_def wp_bind
proof (intro allI impI)
  fix s :: rstate assume "everyEvent P (rxHistory s)"
  then show "wp m (\<lambda>a. wp (f a) (\<lambda>_ s'. everyEvent P (rxHistory s'))) s"
    by (rule wp_mono [OF assms(1)]) (simp add: assms(2))
qed

lemma keeps_emits: "emits E m \<Longrightarrow> (\<And>e h. E e \<Longrightarrow> P e h) \<Longrightarrow> keeps P m"
  by (rule keepsI, rule wp_mono [OF wp_emits]) (auto simp: everyEvent_append)

lemma keeps_return [keeps_rules]: "keeps P (State_Monad.return x)"
  by (simp add: keeps_def)

lemma keeps_readState [keeps_rules]: "keeps P (readState f)"
  by (simp add: keeps_def)

lemma keeps_modifyState: "(\<And>s. rxHistory (f s) = rxHistory s) \<Longrightarrow> keeps P (modifyState f)"
  by (simp add: keeps_def)

lemma keeps_if [keeps_rules]: "(b \<Longrightarrow> keeps P m) \<Longrightarrow> (\<not> b \<Longrightarrow> keeps P n) \<Longrightarrow> keeps P (if b then m else n)"
  by simp

lemma keeps_option [keeps_rules]:
  "(x = None \<Longrightarrow> keeps P m) \<Longrightarrow> (\<And>y. x = Some y \<Longrightarrow> keeps P (f y)) \<Longrightarrow>
   keeps P (case x of None \<Rightarrow> m | Some y \<Rightarrow> f y)"
  by (cases x) simp_all

lemma keeps_sum [keeps_rules]:
  "(\<And>y. x = Inl y \<Longrightarrow> keeps P (f y)) \<Longrightarrow> (\<And>y. x = Inr y \<Longrightarrow> keeps P (g y)) \<Longrightarrow>
   keeps P (case x of Inl y \<Rightarrow> f y | Inr y \<Rightarrow> g y)"
  by (cases x) simp_all

lemma keeps_prod [keeps_rules]:
  "(\<And>a b. x = (a, b) \<Longrightarrow> keeps P (f a b)) \<Longrightarrow> keeps P (case x of (a, b) \<Rightarrow> f a b)"
  by (cases x) simp_all

lemma keeps_Let [keeps_rules]: "(\<And>y. y = x \<Longrightarrow> keeps P (f y)) \<Longrightarrow> keeps P (let y = x in f y)"
  by simp

section \<open>Harmless events\<close>

text \<open>
  Events that change nothing outside the controller's own state: readings, log lines and writes of
  the desired and observed state. Loading the observed state marks the beginning of a step and is
  kept apart. \<open>tolerates E\<close> says that \<open>E\<close> admits all harmless events.
\<close>

definition harmless :: "event \<Rightarrow> bool" where
  "harmless e = (case e of
       ObservedLoaded _ \<Rightarrow> False
     | DesktopStarted _ \<Rightarrow> False
     | DesktopStopped _ \<Rightarrow> False
     | WSLShutDown _ \<Rightarrow> False
     | Ensured _ _ _ \<Rightarrow> False
     | Polled _ _ _ \<Rightarrow> False
     | JITCreated _ _ _ \<Rightarrow> False
     | RunnerRemoved _ _ _ \<Rightarrow> False
     | WorkerStarted _ _ \<Rightarrow> False
     | RemovedIfIdle _ _ \<Rightarrow> False
     | ScaleSetsClosed _ \<Rightarrow> False
     | WorkersClosed _ \<Rightarrow> False
     | ForceStopped _ _ \<Rightarrow> False
     | _ \<Rightarrow> True)"

definition tolerates :: "(event \<Rightarrow> bool) \<Rightarrow> bool" where
  "tolerates E \<longleftrightarrow> (\<forall>e. harmless e \<longrightarrow> E e)"

lemma toleratesD: "tolerates E \<Longrightarrow> harmless e \<Longrightarrow> E e"
  by (simp add: tolerates_def)

lemma harmless_simps [simp]:
  "harmless (NowRead t)" "harmless (ContextRead c)" "harmless (ShuttingDownRead b)" "harmless (DesiredLoaded d)"
  "harmless (DesiredSaved ds r)" "harmless (ObservedQuarantined r)"
  "harmless (ObservedSaved os r)" "harmless (InputIdleRead i)" "harmless (PowerRead p)" "harmless (ResourcesRead rs)"
  "harmless (DesktopRead dt)" "harmless (EngineMemoryRead m)" "harmless (WorkersListed ws)" "harmless (JobsLoaded j)"
  "harmless (RegistrationChecked pool rid name b')" "harmless (Slept d' c)" "harmless (DetachedSlept d' r)"
  "harmless (Drew n)" "harmless (DetachedRead r)" "harmless (CPURead f)" "harmless (TicksCounted k)"
  "harmless (PollsReturned b)" "harmless (Logged l)" "harmless (StepCancelled g)"
  "harmless ShutdownStarted" "harmless (GoroutinesDumped reason dump)"
  by (simp_all add: harmless_def)

lemmas harmless_events [intro] = harmless_simps [THEN toleratesD [rotated]]

end
