(* ===== verification/Problem_Codes.thy ===== *)
theory Problem_Codes
  imports World
begin

text \<open>
  The problems and log lines one reconciliation step writes
  (\<open>record\<close>, \<open>note\<close> and \<open>safeScaleSetMessage\<close> of \<open>src/internal/controller/reconciler.go\<close>).
  Each problem code appears in the source with its message, so the pair is one constant here. The
  message of a scale-set failure is composed from the name of the operation, which the pair then
  holds instead, and the kind and status of the error; the error's own text is never part of it.
\<close>

type_synonym opCode = "string \<times> string"

abbreviation codeText :: "opCode \<Rightarrow> string" where "codeText \<equiv> fst"
abbreviation codeMessage :: "opCode \<Rightarrow> string" where "codeMessage \<equiv> snd"

definition DesiredStateError :: opCode where
  "DesiredStateError = (''desired-state-error'',
     ''desired state could not be read; capacity is held at zero'')"

definition ObservedStateError :: opCode where
  "ObservedStateError = (''observed-state-error'',
     ''observed state could not be read; new work is blocked'')"

definition ObservedStateRecovered :: opCode where
  "ObservedStateRecovered = (''observed-state-recovered'',
     ''corrupt observed state was quarantined; exact configured listeners are held at zero and lifecycle mutations are suspended'')"

definition PowerMonitorError :: opCode where
  "PowerMonitorError = (''power-monitor-error'',
     ''power observation failed; new work is blocked'')"

definition DesktopStatusError :: opCode where
  "DesktopStatusError = (''desktop-status-error'',
     ''Docker Desktop status failed; new work is blocked'')"

definition DesktopStartError :: opCode where
  "DesktopStartError = (''desktop-start-error'',
     ''Docker Desktop did not start within the configured policy'')"

definition DesktopStartStatusError :: opCode where
  "DesktopStartStatusError = (''desktop-start-status-error'',
     ''Docker Desktop status could not be verified after startup'')"

definition DesktopStartVerificationError :: opCode where
  "DesktopStartVerificationError = (''desktop-start-verification-error'',
     ''Docker Desktop did not reach a usable state after startup'')"

definition ResourceMonitorError :: opCode where
  "ResourceMonitorError = (''resource-monitor-error'',
     ''resource observation failed; new work is blocked'')"

definition WorkerInventoryError :: opCode where
  "WorkerInventoryError = (''worker-inventory-error'',
     ''managed-worker inventory failed; new work is blocked'')"

definition JobIndexError :: opCode where
  "JobIndexError = (''job-index-error'',
     ''durable job lifecycle state could not be read; new work and automatic retirement are blocked'')"

definition ListenerHandshakeReregister :: opCode where
  "ListenerHandshakeReregister = (''listener-handshake-reregister'',
     ''repeated stale capacity handshake; opening a new listener session'')"

definition WorkerPrePollRefreshError :: opCode where
  "WorkerPrePollRefreshError = (''worker-pre-poll-refresh-error'',
     ''managed-worker refresh failed before the listener poll; new work is blocked'')"

definition JobIndexPrePollRefreshError :: opCode where
  "JobIndexPrePollRefreshError = (''job-index-pre-poll-refresh-error'',
     ''durable job lifecycle state could not be refreshed before the listener poll; new work is blocked'')"

definition ReconcileCanceled :: opCode where
  "ReconcileCanceled = (''reconcile-canceled'',
     ''reconciliation was canceled before a serving checkpoint; new work is blocked'')"

definition ReconcileCheckpointError :: opCode where
  "ReconcileCheckpointError = (''reconcile-checkpoint-error'',
     ''controller heartbeat checkpoint failed during the listener poll'')"

definition WorkerRefreshError :: opCode where
  "WorkerRefreshError = (''worker-refresh-error'',
     ''managed-worker refresh failed after capacity update; new work is blocked'')"

definition JobIndexRefreshError :: opCode where
  "JobIndexRefreshError = (''job-index-refresh-error'',
     ''durable job lifecycle state could not be refreshed after the capacity update; automatic retirement is blocked'')"

definition RegistrationCheckDeferred :: opCode where
  "RegistrationCheckDeferred = (''worker-registration-check-deferred-step-budget'',
     ''registration verification was deferred to a later reconcile step because this step already reached its per-step registration-check budget'')"

definition RunnerRegistrationMissing :: opCode where
  "RunnerRegistrationMissing = (''runner-registration-missing'',
     ''idle worker registration no longer exists and will be retired'')"

definition BusyWorkerRemovalRefused :: opCode where
  "BusyWorkerRemovalRefused = (''busy-worker-removal-refused'',
     ''controller policy refused to remove a busy worker'')"

definition UnregisteredWorkerRemoveError :: opCode where
  "UnregisteredWorkerRemoveError = (''unregistered-worker-remove-error'',
     ''unregistered idle worker removal failed'')"

definition UnregisteredWorkerBecameBusy :: opCode where
  "UnregisteredWorkerBecameBusy = (''unregistered-worker-became-busy'',
     ''worker acquired work during final removal verification and was preserved'')"

definition UnregisteredWorkerRemoved :: opCode where
  "UnregisteredWorkerRemoved = (''unregistered-worker-removed'',
     ''removed idle container after GitHub deleted its one-job registration'')"

definition RetirementPoolUnknown :: opCode where
  "RetirementPoolUnknown = (''worker-retirement-pool-unknown'',
     ''automatic retirement was refused because the worker pool is not configured and cannot be quiesced'')"

definition RetirementJobStateUnknown :: opCode where
  "RetirementJobStateUnknown = (''worker-retirement-job-state-unknown'',
     ''automatic retirement was refused because durable job state is unavailable'')"

definition RemovalCapacityUnconfirmed :: opCode where
  "RemovalCapacityUnconfirmed = (''worker-removal-capacity-unconfirmed'',
     ''idle worker removal was deferred because the listener did not acknowledge the capacity update'')"

definition RemovalCapacityStale :: opCode where
  "RemovalCapacityStale = (''worker-removal-capacity-stale'',
     ''idle worker removal was deferred until the listener acknowledges the current planned capacity'')"

definition RetirementQuiescenceRequired :: opCode where
  "RetirementQuiescenceRequired = (''worker-retirement-quiescence-required'',
     ''automatic retirement was deferred because the pool still advertises assignment headroom'')"

definition RemovalZeroUnconfirmed :: opCode where
  "RemovalZeroUnconfirmed = (''worker-removal-zero-unconfirmed'',
     ''idle worker removal was deferred until the listener acknowledges zero capacity'')"

definition RetirementZeroStabilityUnconfirmed :: opCode where
  "RetirementZeroStabilityUnconfirmed = (''worker-retirement-zero-stability-unconfirmed'',
     ''automatic retirement was deferred until two capacity-zero polls report no assigned jobs'')"

definition RetirementRunnerIDMissing :: opCode where
  "RetirementRunnerIDMissing = (''worker-retirement-runner-id-missing'',
     ''automatic retirement was refused because the managed worker has no persisted GitHub runner ID'')"

definition RetirementDeferredStepBudget :: opCode where
  "RetirementDeferredStepBudget = (''worker-retirement-deferred-step-budget'',
     ''idle worker retirement was deferred to a later reconcile step to stay within this step's deregistration retry budget'')"

definition WorkerRemoveError :: opCode where
  "WorkerRemoveError = (''worker-remove-error'',
     ''idle worker removal failed'')"

definition WorkerBecameBusy :: opCode where
  "WorkerBecameBusy = (''worker-became-busy'',
     ''worker acquired work during drain and was preserved'')"

definition GamingZeroUnconfirmed :: opCode where
  "GamingZeroUnconfirmed = (''gaming-zero-capacity-unconfirmed'',
     ''Docker and WSL shutdown was deferred until every listener has two zero-capacity, zero-assignment confirmations'')"

definition GamingPreflightError :: opCode where
  "GamingPreflightError = (''gaming-preflight-error'',
     ''gaming shutdown was deferred because worker status could not be verified'')"

definition GamingJobIndexError :: opCode where
  "GamingJobIndexError = (''gaming-job-index-error'',
     ''gaming shutdown was deferred because durable job lifecycle state could not be verified'')"

definition GamingActiveRace :: opCode where
  "GamingActiveRace = (''gaming-active-race'',
     ''gaming shutdown was deferred because a managed worker is still active'')"

definition DesktopStopError :: opCode where
  "DesktopStopError = (''desktop-stop-error'',
     ''Docker Desktop did not stop within the configured policy'')"

definition WSLShutdownError :: opCode where
  "WSLShutdownError = (''wsl-shutdown-error'',
     ''one or more WSL distributions remain running'')"

definition DesktopFinalStatusError :: opCode where
  "DesktopFinalStatusError = (''desktop-final-status-error'',
     ''final Docker Desktop status failed'')"

definition JobIndexFinalError :: opCode where
  "JobIndexFinalError = (''job-index-final-error'',
     ''final durable job lifecycle state could not be read'')"

definition WorkerFinalInventoryError :: opCode where
  "WorkerFinalInventoryError = (''worker-final-inventory-error'',
     ''final managed-worker inventory failed'')"

definition MemoryClampedCapacity :: opCode where
  "MemoryClampedCapacity = (''memory-clamped-capacity'',
     ''the memory term or host-floor backstop clamped worker starts or advertised capacity below host and pool limits'')"

definition DrainWarning :: opCode where
  "DrainWarning = (''drain-warning'',
     ''drain is taking longer than the configured warning threshold; active work will continue'')"

definition EngineMemoryProbeError :: opCode where
  "EngineMemoryProbeError = (''engine-memory-probe-error'',
     ''engine VM memory could not be probed; the configured workerMemoryBudget is used unverified'')"

definition WorkerProfileMissing :: opCode where
  "WorkerProfileMissing = (''worker-profile-missing'',
     ''planned worker target has no configured resource profile'')"

definition WorkerStartFailed :: opCode where
  "WorkerStartFailed = (''worker-start-error'',
     ''one-job worker start failed; inventory will reconcile before retry'')"

definition CadenceObservationError :: opCode where
  "CadenceObservationError = (''listener-cadence-observation-error'',
     ''host observation failed during an open listener poll; the poll will restart'')"

text \<open>Failures of scale-set operations, with the operation the message names.\<close>

definition ScaleSetEnsureError :: opCode where
  "ScaleSetEnsureError = (''scale-set-ensure-error'', ''ensure'')"

definition ScaleSetStatisticsError :: opCode where
  "ScaleSetStatisticsError = (''scale-set-statistics-error'', ''poll'')"

definition RegistrationCheckError :: opCode where
  "RegistrationCheckError = (''runner-registration-check-error'', ''verify runner registration'')"

definition RunnerDeregistrationError :: opCode where
  "RunnerDeregistrationError = (''runner-deregistration-error'', ''deregister quiesced runner'')"

definition JITConfigError :: opCode where
  "JITConfigError = (''jit-config-error'', ''create JIT configuration'')"

definition UnusedJITRunnerCleanupError :: opCode where
  "UnusedJITRunnerCleanupError = (''unused-jit-runner-cleanup-error'', ''deregister unused JIT runner'')"

definition FailedStartCleanupError :: opCode where
  "FailedStartCleanupError = (''failed-start-runner-cleanup-error'', ''deregister runner after pre-start failure'')"

text \<open>The two reasons for restarting an open listener poll.\<close>

definition PollRestoring :: opCode where
  "PollRestoring = (''listener-poll-superseded'',
     ''open listener poll was restarted to advertise restored capacity'')"

definition PollWithdrawing :: opCode where
  "PollWithdrawing = (''listener-poll-superseded'',
     ''open listener poll was restarted to withdraw advertised capacity'')"

fun kindString :: "ErrorKind \<Rightarrow> string" where
  "kindString ErrorUnauthorized = ''unauthorized''"
| "kindString ErrorForbidden = ''forbidden''"
| "kindString ErrorNotFound = ''not-found''"
| "kindString ErrorConflict = ''conflict''"
| "kindString ErrorRateLimited = ''rate-limited''"
| "kindString ErrorServer = ''server''"
| "kindString ErrorTransport = ''transport''"
| "kindString ErrorInvalid = ''invalid-response''"
| "kindString (ErrorKindOther s) = s"

definition safeScaleSetMessage :: "string \<Rightarrow> goError \<Rightarrow> string" where
  "safeScaleSetMessage operation err =
     (case asScaleSet err of
        None \<Rightarrow> ''scale-set '' @ operation @ '' failed''
      | Some typed \<Rightarrow>
          if 0 < seStatusCode typed then
            ''scale-set '' @ operation @ '' failed ('' @ kindString (seKind typed) @ '', HTTP '' @
              natString (nat (seStatusCode typed)) @ '')''
          else ''scale-set '' @ operation @ '' failed ('' @ kindString (seKind typed) @ '')'')"

section \<open>Recording a problem\<close>

definition recordMessage :: "opCode \<Rightarrow> string \<Rightarrow> string \<Rightarrow> bool \<Rightarrow> goError option \<Rightarrow> unit action" where
  "recordMessage code message poolID retryable err = do {
     now \<leftarrow> readState rxNow;
     modifyState (\<lambda>s. s\<lparr>rxProblems := rxProblems s @ [problem now (codeText code) message poolID retryable]\<rparr>);
     (case err of
        None \<Rightarrow> State_Monad.return ()
      | Some e \<Rightarrow> modifyState (\<lambda>s. s\<lparr>rxErrors := rxErrors s @ [e]\<rparr>));
     writeLog ((logEvent now (codeText code) message poolID)\<lparr>leCause := err\<rparr>)
   }"

definition recordProblem :: "opCode \<Rightarrow> string \<Rightarrow> bool \<Rightarrow> goError option \<Rightarrow> unit action" where
  "recordProblem code poolID retryable err = recordMessage code (codeMessage code) poolID retryable err"

text \<open>A failed scale-set operation: \<open>record(code, safeScaleSetMessage(...), pool, Retryable(err), err)\<close>.\<close>

definition recordScaleSet :: "opCode \<Rightarrow> string \<Rightarrow> goError \<Rightarrow> unit action" where
  "recordScaleSet code poolID err =
     recordMessage code (safeScaleSetMessage (codeMessage code) err) poolID (Retryable err) (Some err)"

definition noteCode :: "opCode \<Rightarrow> string \<Rightarrow> unit action" where
  "noteCode code poolID = do {
     now \<leftarrow> readState rxNow;
     writeLog (logEvent now (codeText code) (codeMessage code) poolID)
   }"

definition noteWorker :: "opCode \<Rightarrow> Worker \<Rightarrow> unit action" where
  "noteWorker code w = do {
     now \<leftarrow> readState rxNow;
     writeLog ((logEvent now (codeText code) (codeMessage code) (wPoolID w))\<lparr>leWorkerID := wID w\<rparr>)
   }"

lemma emits_recordMessage [emits_rules]:
  "(\<And>e. E (Logged e)) \<Longrightarrow> emits E (recordMessage code message poolID retryable err)"
  unfolding recordMessage_def by (intro emits_rules emits_modifyState) simp_all

lemma emits_recordProblem [emits_rules]:
  "(\<And>e. E (Logged e)) \<Longrightarrow> emits E (recordProblem code poolID retryable err)"
  unfolding recordProblem_def by (intro emits_rules)

lemma emits_recordScaleSet [emits_rules]:
  "(\<And>e. E (Logged e)) \<Longrightarrow> emits E (recordScaleSet code poolID err)"
  unfolding recordScaleSet_def by (intro emits_rules)

lemma emits_noteCode [emits_rules]: "(\<And>e. E (Logged e)) \<Longrightarrow> emits E (noteCode code poolID)"
  unfolding noteCode_def by (intro emits_rules)

lemma emits_noteWorker [emits_rules]: "(\<And>e. E (Logged e)) \<Longrightarrow> emits E (noteWorker code w)"
  unfolding noteWorker_def by (intro emits_rules)

end
