(* ===== verification/Reconcile_Ops.thy ===== *)
theory Reconcile_Ops
  imports Problem_Codes
begin

text \<open>
  The operations \<open>step\<close> of \<open>src/internal/controller/reconciler.go\<close> is composed of: comparisons of
  intent and capacity, runner names, the remembered drain capacity and stale-handshake counters,
  the interactive-cap log, and the adapter calls that run under a retry policy (\<open>ensure\<close>,
  \<open>statistics\<close>, \<open>deregisterRunner\<close>, \<open>runnerRegistered\<close>).
\<close>

section \<open>Pure helpers\<close>

definition sameAdmissionIntent :: "DesiredState \<Rightarrow> DesiredState \<Rightarrow> bool" where
  "sameAdmissionIntent left right =
     (if dsSchemaVersion left \<noteq> dsSchemaVersion right \<or> dsMode left \<noteq> dsMode right then False
      else if dsTemporaryCapacityOverride left = None \<or> dsTemporaryCapacityOverride right = None
      then dsTemporaryCapacityOverride left = None \<and> dsTemporaryCapacityOverride right = None
      else the (dsTemporaryCapacityOverride left) = the (dsTemporaryCapacityOverride right))"

definition alignAdvertisedCapacity :: "int gomap \<Rightarrow> int gomap \<Rightarrow> bool gomap \<Rightarrow> int gomap" where
  "alignAdvertisedCapacity planned acknowledged acked =
     foldl (\<lambda>m entry. if getb acked (fst entry) then gput m (fst entry) (snd entry) else m)
       planned acknowledged"

definition plansStart :: "Plan \<Rightarrow> string \<Rightarrow> bool" where
  "plansStart plan poolID = list_ex (\<lambda>d. sdPoolID d = poolID \<and> 0 < sdCount d) (plStart plan)"

definition containsActiveWorker :: "Worker list \<Rightarrow> bool" where
  "containsActiveWorker workers = list_ex workerActive workers"

definition allTargetsStablyZero :: "Target list \<Rightarrow> bool gomap \<Rightarrow> int gomap \<Rightarrow> bool" where
  "allTargetsStablyZero targets acknowledged confirmations =
     list_all (\<lambda>t. \<not> (\<not> getb acknowledged (tgID t) \<or> geti confirmations (tgID t) < 2)) targets"

definition mayHaveManagedWorkers :: "DesktopStatus \<Rightarrow> bool \<Rightarrow> bool" where
  "mayHaveManagedWorkers desktop statusKnown \<longleftrightarrow>
     \<not> statusKnown \<or> dtDesktopRunning desktop \<or> dtEngineReachable desktop"

fun resourceTierIn :: "Target list \<Rightarrow> string \<Rightarrow> string" where
  "resourceTierIn [] poolID = ''unknown''"
| "resourceTierIn (t # ts) poolID =
     (if tgID t = poolID then
        (if tgResourcesWorker t \<noteq> None then ''target_override'' else ''default'')
      else resourceTierIn ts poolID)"

definition resourceTier :: "Reconciler \<Rightarrow> string \<Rightarrow> string" where
  "resourceTier rn poolID = resourceTierIn (cfTargets (rnConfig rn)) poolID"

definition zeroTarget :: Target where
  "zeroTarget = \<lparr>tgID = [], tgURL = [], tgScope = ScopeOther [], tgClientID = [], tgInstallationID = 0,
     tgSecretID = [], tgRunnerGroup = [], tgScaleSetName = [], tgLabels = [], tgWarmIdle = 0,
     tgMaxCapacity = 0, tgPriority = 0, tgResourcesWorker = None, tgSeccompProfile = []\<rparr>"

fun targetIn :: "Target list \<Rightarrow> string \<Rightarrow> Target" where
  "targetIn [] i = zeroTarget\<lparr>tgID := i\<rparr>"
| "targetIn (t # ts) i = (if tgID t = i then t else targetIn ts i)"

definition reconcilerTarget :: "Reconciler \<Rightarrow> string \<Rightarrow> Target" where
  "reconcilerTarget rn i = targetIn (cfTargets (rnConfig rn)) i"

definition capStateOf :: "bool \<Rightarrow> capState" where
  "capStateOf active = (if active then capStateEngaged else capStateReleased)"

section \<open>Runner names\<close>

text \<open>\<open>Time.UnixNano\<close>: nanoseconds since 1970, which is 62135596800 seconds after the zero time.\<close>

definition unixNano :: "time \<Rightarrow> int" where
  "unixNano t = wrap64 (t - 62135596800 * second)"

definition trimRight :: "string \<Rightarrow> string \<Rightarrow> string" where
  "trimRight s cutset = rev (dropWhile (\<lambda>c. c \<in> set cutset) (rev s))"

definition runnerSuffix :: "time \<Rightarrow> u64 \<Rightarrow> string" where
  "runnerSuffix now sequence = ''-'' @ formatInt 36 (unixNano now) @ ''-'' @ formatNat 36 (unat sequence)"

definition runnerName :: "string \<Rightarrow> time \<Rightarrow> u64 \<Rightarrow> string" where
  "runnerName start now sequence =
     (let suffix = runnerSuffix now sequence;
          base = (if 64 < length start + length suffix
            then trimRight (take (64 - length suffix) start) ''-._'' else start)
      in base @ suffix)"

definition nextRunnerName :: "Reconciler \<Rightarrow> time \<Rightarrow> string action" where
  "nextRunnerName rn now = do {
     modifyState (\<lambda>s. s\<lparr>rxSequence := rxSequence s + 1\<rparr>);
     sequence \<leftarrow> readState rxSequence;
     State_Monad.return (runnerName (hoRunnerNamePrefix (cfHost (rnConfig rn))) now sequence)
   }"

section \<open>Remembered state\<close>

definition rememberDrainCapacity :: "string \<Rightarrow> int \<Rightarrow> unit action" where
  "rememberDrainCapacity poolID capacity = modifyState (\<lambda>s.
     if capacity \<le> 0 then s\<lparr>rxDrainCapacity := gdelete (rxDrainCapacity s) poolID\<rparr>
     else s\<lparr>rxDrainCapacity := gput (rxDrainCapacity s) poolID capacity\<rparr>)"

definition handshakeStaleCycleLimit :: int where "handshakeStaleCycleLimit = 3"

definition noteStaleHandshake :: "unit action" where
  "noteStaleHandshake = modifyState (\<lambda>s.
     let cycles = rxStaleCycles s + 1
     in s\<lparr>rxStaleCycles := cycles,
          rxReregister := (if handshakeStaleCycleLimit \<le> cycles then True else rxReregister s)\<rparr>)"

definition clearStaleHandshake :: "unit action" where
  "clearStaleHandshake = modifyState (\<lambda>s. s\<lparr>rxStaleCycles := 0, rxReregister := False\<rparr>)"

definition readInputIdle :: "Env \<Rightarrow> duration option action" where
  "readInputIdle env =
     (case enInputIdle env of
        None \<Rightarrow> State_Monad.return None
      | Some monitor \<Rightarrow> do {
          r \<leftarrow> ask monitor InputIdleRead;
          State_Monad.return (case r of Inl _ \<Rightarrow> None | Inr idle \<Rightarrow> Some idle)
        })"

text \<open>\<open>fmt.Sprintf("%.0fs", idle.Seconds())\<close>: rounded to the nearest integer, ties to even.\<close>

definition formatSeconds :: "duration \<Rightarrow> string" where
  "formatSeconds d =
     (case durationSeconds d of
        Fin q \<Rightarrow> (if q < 0 then ''-'' else []) @ natString (nat (roundHalfEven \<bar>q\<bar>)) @ ''s''
      | _ \<Rightarrow> [])"

definition noteInteractiveCap :: "PlanInput \<Rightarrow> time \<Rightarrow> unit action" where
  "noteInteractiveCap input now = do {
     let active = interactiveCapActive input;
     prior \<leftarrow> readState rxCapLogged;
     modifyState (\<lambda>s. s\<lparr>rxCapLogged := capStateOf active\<rparr>);
     if prior = capStateOf active then State_Monad.return ()
     else
       (let code = (if active then ''interactive-cap-activated'' else ''interactive-cap-deactivated'');
            capText = (if active then ''engaged'' else ''released'');
            idle = (case piInputIdle input of None \<Rightarrow> ''unknown'' | Some d \<Rightarrow> formatSeconds d)
        in writeLog (logEvent now code
             (''interactive worker cap '' @ capText @ ''; input idle '' @ idle) []))
   }"

definition probeEngineMemory :: "Reconciler \<Rightarrow> bool \<Rightarrow> DesktopStatus \<Rightarrow> unit action" where
  "probeEngineMemory rn desktopStatusKnown desktop =
     (if reWorkerMemoryBudget (cfResources (rnConfig rn)) = 0 then State_Monad.return ()
      else if \<not> desktopStatusKnown then State_Monad.return ()
      else if \<not> dtDesktopRunning desktop \<or> \<not> dtEngineReachable desktop
      then modifyState (\<lambda>s. s\<lparr>rxEngineMemoryTotal := 0\<rparr>)
      else do {
        cached \<leftarrow> readState rxEngineMemoryTotal;
        if cached \<noteq> 0 then State_Monad.return ()
        else do {
          r \<leftarrow> ask (enEngineMemory (rnEnv rn)) EngineMemoryRead;
          case r of
            Inl _ \<Rightarrow> noteCode EngineMemoryProbeError []
          | Inr bytes \<Rightarrow>
              if bytes = 0 then noteCode EngineMemoryProbeError []
              else modifyState (\<lambda>s. s\<lparr>rxEngineMemoryTotal := bytes\<rparr>)
        }
      })"

definition controllerCost :: "Reconciler \<Rightarrow> ControllerCost action" where
  "controllerCost rn = do {
     tick \<leftarrow> readState rxLastTick;
     cpu \<leftarrow> ask (enProcessCPU (rnEnv rn)) CPURead;
     State_Monad.return \<lparr>ccLastTickDurationSeconds = durationSeconds tick, ccProcessCPUSeconds = cpu\<rparr>
   }"

definition persistObserved :: "Reconciler \<Rightarrow> ObservedState \<Rightarrow> goError option action" where
  "persistObserved rn observed = do {
     r \<leftarrow> ask (\<lambda>h. enSaveObserved (rnEnv rn) h observed) (ObservedSaved observed);
     case r of
       Some err \<Rightarrow> State_Monad.return (Some err)
     | None \<Rightarrow> do {
         modifyState (\<lambda>s. s\<lparr>rxHeartbeat := unixNano (osHeartbeatAt observed)\<rparr>);
         State_Monad.return None
       }
   }"

text \<open>The checkpoint of an open poll, which reads and updates the pending capacity.\<close>

definition takeCheckpoint ::
  "Reconciler \<Rightarrow> ObservedState \<Rightarrow> PoolSnapshot list \<Rightarrow> Worker list \<Rightarrow> ResourceSnapshot \<Rightarrow> PowerSnapshot
     \<Rightarrow> DesktopStatus \<Rightarrow> Plan \<Rightarrow> time \<Rightarrow> Problem list \<Rightarrow> ObservedState action" where
  "takeCheckpoint rn previous pools workers resources pwr desktop plan now problems = do {
     cost \<leftarrow> controllerCost rn;
     pending \<leftarrow> readState rxPendingCapacity;
     let (observed, pending') = pollCheckpoint (rnConfig rn) (rnVersion rn) cost pending previous pools
           workers resources pwr desktop plan now problems;
     modifyState (\<lambda>s. s\<lparr>rxPendingCapacity := pending'\<rparr>);
     State_Monad.return observed
   }"

section \<open>Calls under a retry policy\<close>

definition stepRetry :: "Env \<Rightarrow> rstate RetryContext" where
  "stepRetry env = \<lparr>rcCtxErr = ctxErr env,
     rcTimer = (\<lambda>d. do {
       c \<leftarrow> ask (\<lambda>h. enTimer env h d) (Slept d);
       case c of
         None \<Rightarrow> State_Monad.return None
       | Some _ \<Rightarrow> do {
           latchContext c;
           readState (\<lambda>s. map_option fst (rxContext s))
         }
     }),
     rcDraw = ask (enDraw env) Drew\<rparr>"

definition detachedRetry :: "Env \<Rightarrow> rstate RetryContext" where
  "detachedRetry env = \<lparr>rcCtxErr = ask (enDetached env) DetachedRead,
     rcTimer = (\<lambda>d. ask (\<lambda>h. enDetachedTimer env h d) (DetachedSlept d)),
     rcDraw = ask (enDraw env) Drew\<rparr>"

definition scopeString :: "Scope \<Rightarrow> string" where
  "scopeString s = (case s of ScopeOrganization \<Rightarrow> ''organization'' | ScopeRepository \<Rightarrow> ''repository''
     | ScopeOther t \<Rightarrow> t)"

definition ensureDefinition :: "Target \<Rightarrow> Definition" where
  "ensureDefinition t = \<lparr>sfTargetID = tgID t, sfURL = tgURL t, sfScope = scopeString (tgScope t),
     sfClientID = tgClientID t, sfInstallationID = tgInstallationID t, sfSecretID = tgSecretID t,
     sfRunnerGroup = tgRunnerGroup t, sfScaleSetName = tgScaleSetName t, sfLabels = tgLabels t\<rparr>"

definition ensureCall :: "Env \<Rightarrow> Target \<Rightarrow> Identity option \<Rightarrow> (goError + Identity) action" where
  "ensureCall env t previous =
     ask (\<lambda>h. enEnsure env h (ensureDefinition t) previous) (Ensured (tgID t) previous)"

definition ensure :: "Reconciler \<Rightarrow> Target \<Rightarrow> Identity option \<Rightarrow> (goError + Identity) action" where
  "ensure rn t previous =
     RetryValue (stepRetry (rnEnv rn)) (rnBackoff rn) Retryable (ensureCall (rnEnv rn) t previous)"

definition pollCall :: "Env \<Rightarrow> Identity \<Rightarrow> int \<Rightarrow> (goError + Statistics) action" where
  "pollCall env identity maxCapacity =
     ask (\<lambda>h. enStatistics env h identity maxCapacity) (Polled identity maxCapacity)"

definition pollRetried :: "Reconciler \<Rightarrow> Identity \<Rightarrow> int \<Rightarrow> (goError + Statistics) action" where
  "pollRetried rn identity maxCapacity =
     RetryValue (stepRetry (rnEnv rn)) (rnBackoff rn) Retryable (pollCall (rnEnv rn) identity maxCapacity)"

text \<open>The identity is returned with every outcome, as the Go function returns it.\<close>

definition statistics :: "Reconciler \<Rightarrow> Target \<Rightarrow> Identity \<Rightarrow> int \<Rightarrow> ((goError + Statistics) \<times> Identity) action" where
  "statistics rn t identity maxCapacity = do {
     r \<leftarrow> pollRetried rn identity maxCapacity;
     case r of
       Inr stats \<Rightarrow> State_Monad.return (Inr stats, identity)
     | Inl err \<Rightarrow>
         if \<not> IsKind err ErrorNotFound then State_Monad.return (Inl err, identity)
         else do {
           e \<leftarrow> ensure rn t None;
           case e of
             Inl ensureErr \<Rightarrow> State_Monad.return (Inl (ErrJoin [err, ensureErr]), identity)
           | Inr recreated \<Rightarrow> do {
               again \<leftarrow> pollRetried rn recreated maxCapacity;
               State_Monad.return (again, recreated)
             }
         }
   }"

definition removeRunnerCall :: "Env \<Rightarrow> string \<Rightarrow> int \<Rightarrow> (goError + unit) action" where
  "removeRunnerCall env poolID runnerID = do {
     r \<leftarrow> ask (\<lambda>h. enRemoveRunner env h poolID runnerID) (RunnerRemoved poolID runnerID);
     State_Monad.return (case r of
         None \<Rightarrow> Inr ()
       | Some err \<Rightarrow> if IsKind err ErrorNotFound then Inr () else Inl err)
   }"

definition deregisterRunner :: "Reconciler \<Rightarrow> rstate RetryContext \<Rightarrow> string \<Rightarrow> int \<Rightarrow> goError option action" where
  "deregisterRunner rn ctx poolID runnerID =
     (if poolID = [] \<or> runnerID \<le> 0
      then State_Monad.return (Some (ErrText ''positive GitHub runner ID and pool ID are required for deregistration''))
      else do {
        r \<leftarrow> RetryValue ctx (rnBackoff rn) Retryable (removeRunnerCall (rnEnv rn) poolID runnerID);
        State_Monad.return (case r of Inl err \<Rightarrow> Some err | Inr _ \<Rightarrow> None)
      })"

definition registeredCall :: "Env \<Rightarrow> string \<Rightarrow> int \<Rightarrow> string \<Rightarrow> (goError + bool) action" where
  "registeredCall env poolID runnerID name =
     ask (\<lambda>h. enRegistered env h poolID runnerID name) (RegistrationChecked poolID runnerID name)"

definition runnerRegistered :: "Reconciler \<Rightarrow> string \<Rightarrow> int \<Rightarrow> string \<Rightarrow> (goError + bool) action" where
  "runnerRegistered rn poolID runnerID name =
     RetryValue (stepRetry (rnEnv rn)) (rnBackoff rn) Retryable (registeredCall (rnEnv rn) poolID runnerID name)"

definition createJITCall :: "Env \<Rightarrow> Identity \<Rightarrow> string \<Rightarrow> (goError + JITConfig) action" where
  "createJITCall env identity name = ask (\<lambda>h. enCreateJIT env h identity name) (JITCreated identity name)"

section \<open>Worker inventory\<close>

definition enrichWith :: "Catalog \<Rightarrow> Worker list \<Rightarrow> Worker list" where
  "enrichWith catalog workers = map (\<lambda>w.
     case ActiveJob catalog (wPoolID w) (wName w) of (jobID, found) \<Rightarrow>
       if found then w\<lparr>wJobID := jobID, wState := WorkerBusy\<rparr> else w) workers"

definition enrichWorkerJobs :: "Env \<Rightarrow> Worker list \<Rightarrow> (goError + Worker list) action" where
  "enrichWorkerJobs env workers =
     (if workers = [] then State_Monad.return (Inr [])
      else do {
        r \<leftarrow> ask (enLoadJobs env) JobsLoaded;
        case r of
          Inl err \<Rightarrow>
            if errorsIs JobIndexNotFound err
            then State_Monad.return (Inr (enrichWith \<lparr>caSchemaVersion = 0, caRecords = []\<rparr> workers))
            else State_Monad.return (Inl err)
        | Inr catalog \<Rightarrow> State_Monad.return (Inr (enrichWith catalog workers))
      })"

definition listWorkers :: "Env \<Rightarrow> (goError + Worker list) action" where
  "listWorkers env = ask (enListWorkers env) WorkersListed"

end
