(* ===== verification/Starts.thy ===== *)
theory Starts
  imports Reconcile_Ops
begin

text \<open>
  Starting workers: \<open>freshStartAllowed\<close> and \<open>executePlannedStarts\<close> of
  \<open>src/internal/controller/reconciler.go\<close>. Before a one-job registration is created and again before
  the container is started, every safety and admission input is read again and the plan is
  rebuilt from the fresh readings. The inputs that one call of \<open>executePlannedStarts\<close> passes to
  every admission check are the record \<open>StartInputs\<close>.
\<close>

record StartInputs =
  sxPools :: "PoolSnapshot list"
  sxPrevious :: ObservedState
  sxDesired :: DesiredState
  sxPower :: PowerSnapshot
  sxResources :: ResourceSnapshot
  sxDesktop :: DesktopStatus
  sxNow :: time

section \<open>Fresh admission\<close>

definition disabledIntent :: "time \<Rightarrow> DesiredState" where
  "disabledIntent now = \<lparr>dsSchemaVersion = 1, dsMode = ModeDisabled, dsTemporaryCapacityOverride = None,
     dsUpdatedAt = now\<rparr>"

text \<open>A missing desired state reads as disabled.\<close>

definition readDesired :: "Env \<Rightarrow> (goError + DesiredState) action" where
  "readDesired env = do {
     r \<leftarrow> ask (enLoadDesired env) DesiredLoaded;
     State_Monad.return (case r of
         Inl err \<Rightarrow> if errorsIs StateNotFound err then Inr (disabledIntent 0) else Inl err
       | Inr desired \<Rightarrow> Inr desired)
   }"

definition drainIntent :: "bool \<Rightarrow> DesiredState \<Rightarrow> DesiredState" where
  "drainIntent draining desired =
     (if draining then desired\<lparr>dsMode := ModeDisabled, dsTemporaryCapacityOverride := None\<rparr> else desired)"

definition sameResources :: "ResourceSnapshot \<Rightarrow> ResourceSnapshot \<Rightarrow> bool" where
  "sameResources a b \<longleftrightarrow> rsTotalMemoryBytes a = rsTotalMemoryBytes b \<and>
     rsAvailableMemoryBytes a = rsAvailableMemoryBytes b \<and>
     f64Eq (rsCPUUtilizationPercent a) (rsCPUUtilizationPercent b)"

text \<open>The verdict is the Go function's three results: allowed, safety inputs changed, error.\<close>

type_synonym verdict = "bool \<times> bool \<times> goError option"

definition orUnsafe :: "(goError + 'a) action \<Rightarrow> ('a \<Rightarrow> verdict action) \<Rightarrow> verdict action" where
  "orUnsafe m f = do {
     r \<leftarrow> m;
     case r of
       Inl err \<Rightarrow> State_Monad.return (False, True, Some err)
     | Inr v \<Rightarrow> f v
   }"

definition startInput ::
  "Reconciler \<Rightarrow> StartInputs \<Rightarrow> DesiredState \<Rightarrow> PowerSnapshot \<Rightarrow> ResourceSnapshot \<Rightarrow> DesktopStatus
     \<Rightarrow> Worker list \<Rightarrow> u64 \<Rightarrow> duration option \<Rightarrow> time \<Rightarrow> PlanInput" where
  "startInput rn sx desired pwr resources desktop workers engineMemory idle now =
     \<lparr>piConfig = rnConfig rn, piDesired = desired, piPrevious = sxPrevious sx, piCapacityHysteresis = [],
      piPools = sxPools sx, piWorkers = workers, piResources = resources, piPower = pwr,
      piDesktop = desktop, piEngineMemoryTotalBytes = engineMemory, piInputIdle = idle, piNow = now\<rparr>"

definition reserveStarted :: "Reconciler \<Rightarrow> ResourceSnapshot \<Rightarrow> u64 \<Rightarrow> ResourceSnapshot" where
  "reserveStarted rn resources reserved =
     (if reWorkerMemoryBudget (cfResources (rnConfig rn)) = 0
      then resources\<lparr>rsAvailableMemoryBytes :=
        availableAfterMemoryReservation (rsAvailableMemoryBytes resources) reserved\<rparr>
      else resources)"

definition judgeStart ::
  "Reconciler \<Rightarrow> string \<Rightarrow> StartInputs \<Rightarrow> u64 \<Rightarrow> DesiredState \<Rightarrow> PowerSnapshot \<Rightarrow> ResourceSnapshot
     \<Rightarrow> DesktopStatus \<Rightarrow> Worker list \<Rightarrow> verdict action" where
  "judgeStart rn poolID sx reserved desired pwr resources0 desktop workers = do {
     now \<leftarrow> timeNow (rnEnv rn);
     engineMemory \<leftarrow> readState rxEngineMemoryTotal;
     idle \<leftarrow> readState rxInputIdle;
     final \<leftarrow> readState rxFinalAdmission;
     let resources = reserveStarted rn resources0 reserved;
     let input = startInput rn sx desired pwr resources desktop workers engineMemory idle now;
     State_Monad.return
       (if plansStart (buildPlan now input) poolID then (True, False, None)
        else if 0 < reserved \<or> final \<or> (sameResources resources (sxResources sx) \<and> desktop = sxDesktop sx)
        then (False, False, None)
        else (False, plansStart (buildPlan now
            (input\<lparr>piResources := sxResources sx, piDesktop := sxDesktop sx\<rparr>)) poolID, None))
   }"

definition freshStartAllowed ::
  "Reconciler \<Rightarrow> string \<Rightarrow> StartInputs \<Rightarrow> u64 \<Rightarrow> verdict action" where
  "freshStartAllowed rn poolID sx reserved =
     orUnsafe (readDesired (rnEnv rn)) (\<lambda>loaded. do {
       draining \<leftarrow> ShuttingDown (rnEnv rn);
       let desired = drainIntent draining loaded;
       if \<not> sameAdmissionIntent (sxDesired sx) desired then State_Monad.return (False, True, None)
       else orUnsafe (ask (enPower (rnEnv rn)) PowerRead) (\<lambda>pwr.
         if pcPolicy (cfPower (rnConfig rn)) = PowerACOnly \<and> pwACConnected pwr \<noteq> pwACConnected (sxPower sx)
         then State_Monad.return (False, True, None)
         else orUnsafe (ask (enResources (rnEnv rn)) ResourcesRead) (\<lambda>resources.
           orUnsafe (ask (enDesktopStatus (rnEnv rn)) DesktopRead) (\<lambda>desktop.
             orUnsafe (listWorkers (rnEnv rn)) (\<lambda>listed.
               orUnsafe (enrichWorkerJobs (rnEnv rn) listed) (\<lambda>workers.
                 judgeStart rn poolID sx reserved desired pwr resources desktop workers)))))
     })"

section \<open>Executing planned starts\<close>

datatype loopControl = NextStart u64 | StopPool u64 | AbortStep goError

definition abortChanged :: "loopControl action" where
  "abortChanged = do {
     cancelStep (Sentinel ReconcileInputsChanged);
     State_Monad.return (AbortStep (Sentinel ReconcileInputsChanged))
   }"

definition cleanupRunner :: "Reconciler \<Rightarrow> string \<Rightarrow> JITConfig \<Rightarrow> goError option action" where
  "cleanupRunner rn poolID jit = deregisterRunner rn (detachedRetry (rnEnv rn)) poolID (jitRunnerID jit)"

definition cleanupRecording :: "Reconciler \<Rightarrow> opCode \<Rightarrow> string \<Rightarrow> JITConfig \<Rightarrow> unit action" where
  "cleanupRecording rn code poolID jit = do {
     cleanupErr \<leftarrow> cleanupRunner rn poolID jit;
     case cleanupErr of
       None \<Rightarrow> State_Monad.return ()
     | Some err \<Rightarrow> recordScaleSet code poolID err
   }"

definition cleanupLogging :: "Reconciler \<Rightarrow> string \<Rightarrow> JITConfig \<Rightarrow> unit action" where
  "cleanupLogging rn poolID jit = do {
     cleanupErr \<leftarrow> cleanupRunner rn poolID jit;
     case cleanupErr of
       None \<Rightarrow> State_Monad.return ()
     | Some err \<Rightarrow> do {
         now \<leftarrow> timeNow (rnEnv rn);
         writeLog (logEvent now (codeText UnusedJITRunnerCleanupError)
           (safeScaleSetMessage (codeMessage UnusedJITRunnerCleanupError) err) poolID)
       }
   }"

definition startRequest :: "Reconciler \<Rightarrow> string \<Rightarrow> string \<Rightarrow> JITConfig \<Rightarrow> ConfigWorker \<Rightarrow> StartWorkerRequest" where
  "startRequest rn poolID name jit limits =
     \<lparr>swPoolID = poolID, swName = name, swResourceTier = resourceTier rn poolID, swJITConfig = jit,
      swLimits = limits, swSeccompProfile = SeccompProfileForTarget (rnConfig rn) poolID\<rparr>"

definition startContainer ::
  "Reconciler \<Rightarrow> string \<Rightarrow> string \<Rightarrow> JITConfig \<Rightarrow> ConfigWorker \<Rightarrow> u64 \<Rightarrow> loopControl action" where
  "startContainer rn poolID name jit limits reserved = do {
     r \<leftarrow> ask (\<lambda>h. enStartWorker (rnEnv rn) h (startRequest rn poolID name jit limits))
       (WorkerStarted (startRequest rn poolID name jit limits));
     case r of
       Inl startErr \<Rightarrow> do {
         recordProblem WorkerStartFailed poolID True (Some startErr);
         (if \<not> RunnerStartMayBeActive startErr
          then cleanupRecording rn FailedStartCleanupError poolID jit else State_Monad.return ());
         State_Monad.return (StopPool reserved)
       }
     | Inr _ \<Rightarrow> State_Monad.return (NextStart (saturatingAddUint64 reserved (cwMemory limits)))
   }"

text \<open>From the created registration to the container start, with its own fresh admission.\<close>

definition startRegistered ::
  "Reconciler \<Rightarrow> string \<Rightarrow> string \<Rightarrow> JITConfig \<Rightarrow> ConfigWorker \<Rightarrow> StartInputs \<Rightarrow> u64 \<Rightarrow> loopControl action" where
  "startRegistered rn poolID name jit limits sx reserved = do {
     (allowed, safetyChanged, admissionErr) \<leftarrow> freshStartAllowed rn poolID sx reserved;
     if admissionErr \<noteq> None \<or> safetyChanged then do {
       cleanupLogging rn poolID jit;
       abortChanged
     }
     else if \<not> allowed then do {
       cleanupRecording rn UnusedJITRunnerCleanupError poolID jit;
       State_Monad.return (StopPool reserved)
     }
     else startContainer rn poolID name jit limits reserved
   }"

definition startWorker ::
  "Reconciler \<Rightarrow> string \<Rightarrow> Identity \<Rightarrow> ConfigWorker \<Rightarrow> StartInputs \<Rightarrow> u64 \<Rightarrow> loopControl action" where
  "startWorker rn poolID identity limits sx reserved = do {
     cancelled \<leftarrow> ctxErr (rnEnv rn);
     case cancelled of
       Some err \<Rightarrow> do {
         modifyState (\<lambda>s. s\<lparr>rxErrors := rxErrors s @ [err]\<rparr>);
         State_Monad.return (StopPool reserved)
       }
     | None \<Rightarrow> do {
         (allowed, safetyChanged, admissionErr) \<leftarrow> freshStartAllowed rn poolID sx reserved;
         if admissionErr \<noteq> None \<or> safetyChanged then abortChanged
         else if \<not> allowed then State_Monad.return (StopPool reserved)
         else do {
           name \<leftarrow> nextRunnerName rn (sxNow sx);
           jit \<leftarrow> RetryValue (stepRetry (rnEnv rn)) (rnBackoff rn) Retryable (createJITCall (rnEnv rn) identity name);
           case jit of
             Inl jitErr \<Rightarrow> do {
               recordScaleSet JITConfigError poolID jitErr;
               State_Monad.return (StopPool reserved)
             }
           | Inr config \<Rightarrow> startRegistered rn poolID name config limits sx reserved
         }
       }
   }"

fun startWorkers ::
  "Reconciler \<Rightarrow> string \<Rightarrow> Identity \<Rightarrow> ConfigWorker \<Rightarrow> StartInputs \<Rightarrow> nat \<Rightarrow> u64 \<Rightarrow> (goError + u64) action" where
  "startWorkers rn poolID identity limits sx 0 reserved = State_Monad.return (Inr reserved)"
| "startWorkers rn poolID identity limits sx (Suc n) reserved = do {
     control \<leftarrow> startWorker rn poolID identity limits sx reserved;
     case control of
       NextStart reserved' \<Rightarrow> startWorkers rn poolID identity limits sx n reserved'
     | StopPool reserved' \<Rightarrow> State_Monad.return (Inr reserved')
     | AbortStep err \<Rightarrow> State_Monad.return (Inl err)
   }"

text \<open>
  The result is the error that aborts the step, or the memory reserved by the workers this step
  has started so far (\<open>*reservedMemory\<close>).
\<close>

fun executePlannedStarts ::
  "Reconciler \<Rightarrow> StartDecision list \<Rightarrow> Identity gomap \<Rightarrow> StartInputs \<Rightarrow> u64 \<Rightarrow> (goError + u64) action" where
  "executePlannedStarts rn [] identities sx reserved = State_Monad.return (Inr reserved)"
| "executePlannedStarts rn (decision # starts) identities sx reserved =
     (case map_of identities (sdPoolID decision) of
        None \<Rightarrow> executePlannedStarts rn starts identities sx reserved
      | Some identity \<Rightarrow>
          (case WorkerForTarget (rnConfig rn) (sdPoolID decision) of
             None \<Rightarrow> do {
               recordProblem WorkerProfileMissing (sdPoolID decision) False None;
               executePlannedStarts rn starts identities sx reserved
             }
           | Some limits \<Rightarrow> do {
               r \<leftarrow> startWorkers rn (sdPoolID decision) identity limits sx (nat (sdCount decision)) reserved;
               case r of
                 Inl err \<Rightarrow> State_Monad.return (Inl err)
               | Inr reserved' \<Rightarrow> executePlannedStarts rn starts identities sx reserved'
             }))"

end
