(* ===== verification/Polling.thy ===== *)
theory Polling
  imports Starts
begin

text \<open>
  The listener polls of one step and the watchers that run beside them:
  \<open>watchPollCadence\<close> of \<open>src/internal/controller/poll_cadence.go\<close>, one tick of
  \<open>watchSafetyInputs\<close>, and the processing of poll results in \<open>step\<close> of
  \<open>src/internal/controller/reconciler.go\<close>.

  The polls of a step run concurrently with the cadence watcher. In the model the polls come first,
  in the order of the pools, and the ticks that fire while they are open follow. An answer of
  \<open>enStatistics\<close> may be any outcome, \<open>context.Canceled\<close> included, so a poll that the watcher cancels is
  a run of the model too.
\<close>

section \<open>Safety inputs\<close>

text \<open>
  One tick of \<open>watchSafetyInputs\<close>: whether the reading cancels the step. The power reading happens
  only when the intent is unchanged and the policy is AC only.
\<close>

definition watchSafetyTick :: "Reconciler \<Rightarrow> DesiredState \<Rightarrow> PowerSnapshot \<Rightarrow> bool \<Rightarrow> bool action" where
  "watchSafetyTick rn desired pwr forcedZero =
     (if forcedZero then State_Monad.return False
      else do {
        latest \<leftarrow> readDesired (rnEnv rn);
        case latest of
          Inl _ \<Rightarrow> do {
            cancelStep (Sentinel ReconcileInputsChanged);
            State_Monad.return True
          }
        | Inr latestDesired \<Rightarrow>
            if \<not> sameAdmissionIntent desired latestDesired then do {
              cancelStep (Sentinel ReconcileInputsChanged);
              State_Monad.return True
            }
            else if pcPolicy (cfPower (rnConfig rn)) = PowerACOnly then do {
              latestPower \<leftarrow> ask (enPower (rnEnv rn)) PowerRead;
              let changed = (case latestPower of Inl _ \<Rightarrow> True
                | Inr p \<Rightarrow> pwACConnected p \<noteq> pwACConnected pwr);
              (if changed then cancelStep (Sentinel ReconcileInputsChanged) else State_Monad.return ());
              State_Monad.return changed
            }
            else State_Monad.return False
      })"

section \<open>The cadence watcher\<close>

record pollCadenceState =
  cdDesired :: DesiredState
  cdObserved :: ObservedState
  cdPools :: "PoolSnapshot list"
  cdWorkers :: "Worker list"
  cdDesktop :: DesktopStatus
  cdAdvertised :: "int gomap"
  cdOperationProblems :: "Problem list"
  cdForcedZero :: bool
  cdEngineMemoryTotal :: u64

record pollCadenceResult =
  crObserved :: ObservedState
  crCheckpointErr :: "goError option"
  crSuperseded :: bool

text \<open>The watcher's context is done when the step's is, or when the polls have returned.\<close>

definition watchDone :: "Env \<Rightarrow> bool action" where
  "watchDone env = do {
     err \<leftarrow> ctxErr env;
     returned \<leftarrow> ask (enPollsReturned env) PollsReturned;
     State_Monad.return (err \<noteq> None \<or> returned)
   }"

text \<open>A tick either ends the watcher or goes on; both carry the result so far.\<close>

type_synonym cadenceStep = "(pollCadenceState \<times> pollCadenceResult) + pollCadenceResult"

definition savedResult :: "Env \<Rightarrow> goError option \<Rightarrow> pollCadenceResult \<Rightarrow> pollCadenceResult action" where
  "savedResult env checkpointErr result = do {
     stopped \<leftarrow> watchDone env;
     State_Monad.return (if stopped then result else result\<lparr>crCheckpointErr := checkpointErr\<rparr>)
   }"

definition logSources :: "time \<Rightarrow> string list \<Rightarrow> unit action" where
  "logSources now sources = foldr (\<lambda>source rest. do {
     writeLog ((logEvent now (codeText CadenceObservationError) (codeMessage CadenceObservationError) [])
       \<lparr>leSource := source\<rparr>);
     rest
   }) sources (State_Monad.return ())"

text \<open>The lines after the observation: a heartbeat, and the end of the watcher if a reading failed.\<close>

definition cadenceHeartbeat ::
  "Reconciler \<Rightarrow> pollCadenceState \<Rightarrow> pollCadenceResult \<Rightarrow> time \<Rightarrow> bool \<Rightarrow> string list \<Rightarrow> cadenceStep action" where
  "cadenceHeartbeat rn st result now failed sources = do {
     let checkpoint = (cdObserved st)\<lparr>osHeartbeatAt := now\<rparr>;
     checkpointErr \<leftarrow> persistObserved rn checkpoint;
     result' \<leftarrow> savedResult (rnEnv rn) checkpointErr (result\<lparr>crObserved := checkpoint\<rparr>);
     if failed then do {
       logSources now sources;
       cancelStep (Sentinel ReconcileInputsChanged);
       State_Monad.return (Inr result')
     }
     else State_Monad.return (Inl (st\<lparr>cdObserved := checkpoint\<rparr>, result'))
   }"

definition cadenceInput ::
  "Reconciler \<Rightarrow> pollCadenceState \<Rightarrow> Worker list \<Rightarrow> ResourceSnapshot \<Rightarrow> PowerSnapshot \<Rightarrow> duration option
     \<Rightarrow> time \<Rightarrow> PlanInput" where
  "cadenceInput rn st workers resources pwr idle now =
     \<lparr>piConfig = rnConfig rn, piDesired = cdDesired st, piPrevious = cdObserved st,
      piCapacityHysteresis = cdAdvertised st, piPools = cdPools st, piWorkers = workers,
      piResources = resources, piPower = pwr, piDesktop = cdDesktop st,
      piEngineMemoryTotalBytes = cdEngineMemoryTotal st, piInputIdle = idle, piNow = now\<rparr>"

definition withdrawsAdvertised :: "Reconciler \<Rightarrow> pollCadenceState \<Rightarrow> Plan \<Rightarrow> ResourceSnapshot \<Rightarrow> Worker list \<Rightarrow> bool" where
  "withdrawsAdvertised rn st plan resources workers \<longleftrightarrow>
     capacityDecreased (cdAdvertised st) (plAdvertisedCapacity plan) \<or>
     advertisedCapacityExceedsMemoryFunding (cdAdvertised st) resources workers (rnConfig rn) (cdEngineMemoryTotal st)"

text \<open>A complete set of readings: checkpoint, and restart the poll if it must not stay open.\<close>

definition cadenceObserved ::
  "Reconciler \<Rightarrow> pollCadenceState \<Rightarrow> pollCadenceResult \<Rightarrow> time \<Rightarrow> PowerSnapshot \<Rightarrow> ResourceSnapshot
     \<Rightarrow> Worker list \<Rightarrow> cadenceStep action" where
  "cadenceObserved rn st result now pwr resources workers = do {
     idle \<leftarrow> readInputIdle (rnEnv rn);
     let input = cadenceInput rn st workers resources pwr idle now;
     noteInteractiveCap input now;
     let plan0 = buildPlan now input;
     let plan = plan0\<lparr>plAdvertisedCapacity := sequenceCapacityTransfer (cdObserved st) (plAdvertisedCapacity plan0)\<rparr>;
     checkpoint \<leftarrow> takeCheckpoint rn (cdObserved st) (cdPools st) (cdWorkers st) resources pwr
       (cdDesktop st) plan now (cdOperationProblems st);
     checkpointErr \<leftarrow> persistObserved rn checkpoint;
     result' \<leftarrow> savedResult (rnEnv rn) checkpointErr (result\<lparr>crObserved := checkpoint\<rparr>);
     let withdrawn = withdrawsAdvertised rn st plan resources workers;
     let restored = capacityRestoredFromZero (cdAdvertised st) (plAdvertisedCapacity plan);
     if withdrawn \<or> (restored \<and> checkpointErr = None) then do {
       (if withdrawn then modifyState (\<lambda>s. s\<lparr>rxPendingCapacity :=
           seedPendingCapacity (rxPendingCapacity s)
             (memoryAffordableAdvertisedCapacity (cdAdvertised st) resources workers (rnConfig rn)
               (cdEngineMemoryTotal st))\<rparr>)
        else State_Monad.return ());
       (let code = (if withdrawn then PollWithdrawing else PollRestoring)
        in writeLog (logEvent now (codeText code) (codeMessage code) []));
       cancelStep (Sentinel ReconcileInputsChanged);
       State_Monad.return (Inr (result'\<lparr>crSuperseded := True\<rparr>))
     }
     else State_Monad.return (Inl (st\<lparr>cdObserved := checkpoint\<rparr>, result'))
   }"

definition listEnriched :: "Env \<Rightarrow> (string \<times> goError + Worker list) action" where
  "listEnriched env = do {
     listed \<leftarrow> listWorkers env;
     case listed of
       Inl err \<Rightarrow> State_Monad.return (Inl (''workers'', err))
     | Inr workers \<Rightarrow> do {
         enriched \<leftarrow> enrichWorkerJobs env workers;
         State_Monad.return (case enriched of Inl err \<Rightarrow> Inl (''worker-jobs'', err) | Inr ws \<Rightarrow> Inr ws)
       }
   }"

definition cadenceTick :: "Reconciler \<Rightarrow> pollCadenceState \<Rightarrow> pollCadenceResult \<Rightarrow> cadenceStep action" where
  "cadenceTick rn st result = do {
     now \<leftarrow> timeNow (rnEnv rn);
     if cdForcedZero st then cadenceHeartbeat rn st result now False []
     else do {
       pwr \<leftarrow> ask (enPower (rnEnv rn)) PowerRead;
       resources \<leftarrow> ask (enResources (rnEnv rn)) ResourcesRead;
       workers \<leftarrow> listEnriched (rnEnv rn);
       stopped \<leftarrow> watchDone (rnEnv rn);
       if stopped then State_Monad.return (Inr result)
       else
         (case (pwr, resources, workers) of
            (Inr p, Inr r, Inr ws) \<Rightarrow>
              if \<not> sameWorkerInventory (cdWorkers st) ws then do {
                cancelStep (Sentinel ReconcileInputsChanged);
                State_Monad.return (Inr result)
              }
              else cadenceObserved rn st result now p r ws
          | _ \<Rightarrow> cadenceHeartbeat rn st result now True
              ((case pwr of Inl _ \<Rightarrow> [''power''] | Inr _ \<Rightarrow> []) @
               (case resources of Inl _ \<Rightarrow> [''resources''] | Inr _ \<Rightarrow> []) @
               (case workers of Inl (source, _) \<Rightarrow> [source] | Inr _ \<Rightarrow> [])))
     }
   }"

fun watchTicks :: "Reconciler \<Rightarrow> nat \<Rightarrow> pollCadenceState \<Rightarrow> pollCadenceResult \<Rightarrow> pollCadenceResult action" where
  "watchTicks rn 0 st result = State_Monad.return result"
| "watchTicks rn (Suc n) st result = do {
     stopped \<leftarrow> watchDone (rnEnv rn);
     if stopped then State_Monad.return result
     else do {
       r \<leftarrow> cadenceTick rn st result;
       case r of
         Inr result' \<Rightarrow> State_Monad.return result'
       | Inl (st', result') \<Rightarrow> watchTicks rn n st' result'
     }
   }"

definition watchPollCadence :: "Reconciler \<Rightarrow> pollCadenceState \<Rightarrow> goError option \<Rightarrow> pollCadenceResult action" where
  "watchPollCadence rn st checkpointErr = do {
     ticks \<leftarrow> ask (enTicks (rnEnv rn)) TicksCounted;
     watchTicks rn ticks st
       \<lparr>crObserved = cdObserved st, crCheckpointErr = checkpointErr, crSuperseded = False\<rparr>
   }"

section \<open>Poll results\<close>

record pollResult =
  prIndex :: nat
  prStats :: "goError + Statistics"
  prIdentity :: Identity
  prAdvertised :: int

fun pollPools :: "Reconciler \<Rightarrow> int gomap \<Rightarrow> nat \<Rightarrow> PoolSnapshot list \<Rightarrow> pollResult list action" where
  "pollPools rn advertised index [] = State_Monad.return []"
| "pollPools rn advertised index (pool # pools) =
     (if \<not> psReady pool then pollPools rn advertised (Suc index) pools
      else do {
        let capacity = geti advertised (psTargetID pool);
        (stats, identity) \<leftarrow> statistics rn (reconcilerTarget rn (psTargetID pool)) (psIdentity pool) capacity;
        results \<leftarrow> pollPools rn advertised (Suc index) pools;
        State_Monad.return (\<lparr>prIndex = index, prStats = stats, prIdentity = identity, prAdvertised = capacity\<rparr> # results)
      })"

text \<open>What the processed polls say of the listeners: the maps of \<open>step\<close> and its pools and identities.\<close>

record Acknowledgements =
  akPools :: "PoolSnapshot list"
  akIdentities :: "Identity gomap"
  akAcknowledgedCapacity :: "int gomap"
  akCapacityAcknowledged :: "bool gomap"
  akZeroAcknowledged :: "bool gomap"
  akZeroConfirmations :: "int gomap"

definition confirmZero :: "PoolObservation \<Rightarrow> int" where
  "confirmZero prior =
     (if poCapacityAcknowledged prior \<and> poMaxCapacity prior = 0 \<and> poTotalAssignedJobs prior = 0 \<and>
         0 < poZeroCapacityConfirmations prior
      then min 2 (poZeroCapacityConfirmations prior + 1) else 1)"

definition drainAfterPoll :: "pollResult \<Rightarrow> int \<Rightarrow> PoolSnapshot \<Rightarrow> PoolSnapshot" where
  "drainAfterPoll r assigned pool =
     (if 0 < prAdvertised r then pool\<lparr>psDrainServiceCapacity := prAdvertised r\<rparr>
      else if assigned = 0 then pool\<lparr>psDrainServiceCapacity := 0\<rparr> else pool)"

definition rememberAfterPoll :: "pollResult \<Rightarrow> int \<Rightarrow> string \<Rightarrow> unit action" where
  "rememberAfterPoll r assigned poolID =
     (if 0 < prAdvertised r then rememberDrainCapacity poolID (prAdvertised r)
      else if assigned = 0 then rememberDrainCapacity poolID 0 else State_Monad.return ())"

definition acknowledgePoll ::
  "PoolObservation gomap \<Rightarrow> pollResult \<Rightarrow> Statistics \<Rightarrow> Acknowledgements \<Rightarrow> Acknowledgements" where
  "acknowledgePoll previousPools r stats ak =
     (let pool = akPools ak ! prIndex r;
          poolID = psTargetID pool;
          assigned = statTotalAssignedJobs stats;
          zero = (prAdvertised r = 0)
      in ak\<lparr>akPools := (akPools ak)[prIndex r := drainAfterPoll r assigned
               (pool\<lparr>psIdentity := prIdentity r, psTotalAssignedJobs := assigned\<rparr>)],
            akIdentities := gput (akIdentities ak) poolID (prIdentity r),
            akAcknowledgedCapacity := gput (akAcknowledgedCapacity ak) poolID (prAdvertised r),
            akCapacityAcknowledged := gput (akCapacityAcknowledged ak) poolID True,
            akZeroAcknowledged := gput (akZeroAcknowledged ak) poolID zero,
            akZeroConfirmations :=
              (if zero \<and> assigned = 0
               then gput (akZeroConfirmations ak) poolID
                 (confirmZero (gget zeroPoolObservation previousPools poolID))
               else akZeroConfirmations ak)\<rparr>)"

definition processPoll ::
  "PoolObservation gomap \<Rightarrow> Acknowledgements \<Rightarrow> pollResult \<Rightarrow> Acknowledgements action" where
  "processPoll previousPools ak r =
     (case prStats r of
        Inl err \<Rightarrow> do {
          let pool = akPools ak ! prIndex r;
          (if pollSuperseded err then State_Monad.return ()
           else recordScaleSet ScaleSetStatisticsError (psTargetID pool) err);
          State_Monad.return (ak\<lparr>akPools := (akPools ak)[prIndex r := pool\<lparr>psReady := False\<rparr>]\<rparr>)
        }
      | Inr stats \<Rightarrow> do {
          rememberAfterPoll r (statTotalAssignedJobs stats) (psTargetID (akPools ak ! prIndex r));
          State_Monad.return (acknowledgePoll previousPools r stats ak)
        })"

fun processPolls ::
  "PoolObservation gomap \<Rightarrow> Acknowledgements \<Rightarrow> pollResult list \<Rightarrow> Acknowledgements action" where
  "processPolls previousPools ak [] = State_Monad.return ak"
| "processPolls previousPools ak (r # rs) = do {
     ak' \<leftarrow> processPoll previousPools ak r;
     processPolls previousPools ak' rs
   }"

end
