(* ===== verification/Retire.thy ===== *)
theory Retire
  imports Polling
begin

text \<open>
  Retiring workers and stopping the host's engine: the part of \<open>step\<close> of
  \<open>src/internal/controller/reconciler.go\<close> that runs after the listener polls. Idle workers whose
  registration is gone are marked, planned removals are carried out under the conditions the
  comments there give, and Docker Desktop and WSL are stopped in gaming mode.
\<close>

section \<open>Registration checks\<close>

definition registrationCandidate :: "PoolSnapshot list \<Rightarrow> Worker \<Rightarrow> bool" where
  "registrationCandidate pools w \<longleftrightarrow>
     \<not> (wState w \<noteq> WorkerIdle \<or> wJobID w \<noteq> [] \<or> wRunnerID w \<le> 0) \<and> psReady (findPool pools (wPoolID w))"

definition registrationCandidates :: "PoolSnapshot list \<Rightarrow> Worker list \<Rightarrow> nat list" where
  "registrationCandidates pools workers =
     List.map_filter (\<lambda>(i, w). if registrationCandidate pools w then Some i else None) (enumerate 0 workers)"

text \<open>The rotation both loops use: the first index is the cursor modulo the number of entries.\<close>

definition rotation :: "u64 \<Rightarrow> nat \<Rightarrow> nat list" where
  "rotation cursor n = map (\<lambda>i. (unat cursor mod n + i) mod n) [0..<n]"

definition checkRegistration :: "Reconciler \<Rightarrow> Worker list \<Rightarrow> nat \<Rightarrow> Worker list action" where
  "checkRegistration rn workers index = do {
     let w = workers ! index;
     r \<leftarrow> runnerRegistered rn (wPoolID w) (wRunnerID w) (wName w);
     case r of
       Inl err \<Rightarrow> do {
         recordScaleSet RegistrationCheckError (wPoolID w) err;
         State_Monad.return workers
       }
     | Inr registered \<Rightarrow>
         if registered then State_Monad.return workers
         else do {
           noteWorker RunnerRegistrationMissing w;
           State_Monad.return (workers[index := w\<lparr>wState := WorkerUnregistered\<rparr>])
         }
   }"

fun checkRegistrations ::
  "Reconciler \<Rightarrow> int \<Rightarrow> nat list \<Rightarrow> int \<Rightarrow> Worker list \<Rightarrow> (Worker list \<times> int) action" where
  "checkRegistrations rn limit [] checked workers = State_Monad.return (workers, checked)"
| "checkRegistrations rn limit (index # indexes) checked workers =
     (if limit \<le> checked then do {
        noteCode RegistrationCheckDeferred (wPoolID (workers ! index));
        checkRegistrations rn limit indexes checked workers
      }
      else do {
        workers' \<leftarrow> checkRegistration rn workers index;
        checkRegistrations rn limit indexes (checked + 1) workers'
      })"

definition stepBudget :: "Reconciler \<Rightarrow> int" where
  "stepBudget rn = max (reMaximumConcurrentWorkers (cfResources (rnConfig rn))) 1"

definition verifyRegistrations :: "Reconciler \<Rightarrow> PoolSnapshot list \<Rightarrow> Worker list \<Rightarrow> Worker list action" where
  "verifyRegistrations rn pools workers =
     (let candidates = registrationCandidates pools workers
      in if candidates = [] then State_Monad.return workers
         else do {
           cursor \<leftarrow> readState rxRegistrationCursor;
           (workers', checked) \<leftarrow> checkRegistrations rn (stepBudget rn)
             (map (\<lambda>i. candidates ! i) (rotation cursor (length candidates))) 0 workers;
           modifyState (\<lambda>s. s\<lparr>rxRegistrationCursor := rxRegistrationCursor s + word_of_int checked\<rparr>);
           State_Monad.return workers'
         })"

section \<open>Retirement\<close>

text \<open>
  The loop's state: the IDs already tried, the deregistrations this step has spent and whether a
  removal was deferred because the acknowledged capacity is stale.
\<close>

record retireState =
  rtSeen :: "string list"
  rtDeregistrations :: int
  rtStale :: bool

definition removeIfIdle :: "Reconciler \<Rightarrow> Worker \<Rightarrow> (goError + bool) action" where
  "removeIfIdle rn w = ask (\<lambda>h. enRemoveIfIdle (rnEnv rn) h (wID w)) (RemovedIfIdle (wID w))"

definition removeUnregistered :: "Reconciler \<Rightarrow> Worker \<Rightarrow> unit action" where
  "removeUnregistered rn w = do {
     r \<leftarrow> removeIfIdle rn w;
     case r of
       Inl err \<Rightarrow> recordProblem UnregisteredWorkerRemoveError (wPoolID w) True (Some err)
     | Inr removed \<Rightarrow>
         if \<not> removed then recordProblem UnregisteredWorkerBecameBusy (wPoolID w) False None
         else noteWorker UnregisteredWorkerRemoved w
   }"

definition removeQuiesced :: "Reconciler \<Rightarrow> Worker \<Rightarrow> unit action" where
  "removeQuiesced rn w = do {
     r \<leftarrow> removeIfIdle rn w;
     case r of
       Inl err \<Rightarrow> recordProblem WorkerRemoveError (wPoolID w) True (Some err)
     | Inr removed \<Rightarrow>
         if \<not> removed then recordProblem WorkerBecameBusy (wPoolID w) False None
         else State_Monad.return ()
   }"

definition deregisterAndRemove :: "Reconciler \<Rightarrow> retireState \<Rightarrow> Worker \<Rightarrow> retireState action" where
  "deregisterAndRemove rn st w =
     (if wRunnerID w \<le> 0 then do {
        recordProblem RetirementRunnerIDMissing (wPoolID w) False None;
        State_Monad.return st
      }
      else if stepBudget rn \<le> rtDeregistrations st then do {
        noteCode RetirementDeferredStepBudget (wPoolID w);
        State_Monad.return st
      }
      else do {
        let st' = st\<lparr>rtDeregistrations := rtDeregistrations st + 1\<rparr>;
        r \<leftarrow> deregisterRunner rn (stepRetry (rnEnv rn)) (wPoolID w) (wRunnerID w);
        case r of
          Some err \<Rightarrow> do {
            recordScaleSet RunnerDeregistrationError (wPoolID w) err;
            State_Monad.return st'
          }
        | None \<Rightarrow> do {
            removeQuiesced rn w;
            State_Monad.return st'
          }
      })"

definition deferRecording :: "opCode \<Rightarrow> Worker \<Rightarrow> bool \<Rightarrow> retireState \<Rightarrow> retireState action" where
  "deferRecording code w retryable st = do {
     recordProblem code (wPoolID w) retryable None;
     State_Monad.return st
   }"

definition deferNoting :: "opCode \<Rightarrow> Worker \<Rightarrow> retireState \<Rightarrow> retireState action" where
  "deferNoting code w st = do {
     noteCode code (wPoolID w);
     State_Monad.return st
   }"

definition retireWorker ::
  "Reconciler \<Rightarrow> bool \<Rightarrow> int gomap \<Rightarrow> Acknowledgements \<Rightarrow> retireState \<Rightarrow> Worker \<Rightarrow> retireState action" where
  "retireWorker rn jobStateKnown advertised ak st w =
     (let requiredCapacity = geti advertised (wPoolID w);
          configuredPool = ghas advertised (wPoolID w);
          exited = (wState w = WorkerExited)
      in if wState w = WorkerBusy then deferRecording BusyWorkerRemovalRefused w False st
         else if wState w = WorkerUnregistered then do {
           removeUnregistered rn w;
           State_Monad.return st
         }
         else if \<not> exited \<and> \<not> configuredPool then deferRecording RetirementPoolUnknown w False st
         else if \<not> exited \<and> \<not> jobStateKnown then deferRecording RetirementJobStateUnknown w True st
         else if configuredPool \<and> \<not> getb (akCapacityAcknowledged ak) (wPoolID w)
         then deferRecording RemovalCapacityUnconfirmed w True st
         else if configuredPool \<and> geti (akAcknowledgedCapacity ak) (wPoolID w) \<noteq> requiredCapacity
         then deferRecording RemovalCapacityStale w True (st\<lparr>rtStale := True\<rparr>)
         else if \<not> exited \<and> configuredPool \<and> requiredCapacity \<noteq> 0
         then deferRecording RetirementQuiescenceRequired w False st
         else if configuredPool \<and> requiredCapacity = 0 \<and> \<not> getb (akZeroAcknowledged ak) (wPoolID w)
         then deferNoting RemovalZeroUnconfirmed w st
         else if \<not> exited \<and> (psTotalAssignedJobs (findPool (akPools ak) (wPoolID w)) \<noteq> 0 \<or>
                geti (akZeroConfirmations ak) (wPoolID w) < 2)
         then deferNoting RetirementZeroStabilityUnconfirmed w st
         else if \<not> exited then deregisterAndRemove rn st w
         else do {
           removeQuiesced rn w;
           State_Monad.return st
         })"

fun retireLoop ::
  "Reconciler \<Rightarrow> bool \<Rightarrow> int gomap \<Rightarrow> Acknowledgements \<Rightarrow> Worker list \<Rightarrow> retireState \<Rightarrow> retireState action" where
  "retireLoop rn jobStateKnown advertised ak [] st = State_Monad.return st"
| "retireLoop rn jobStateKnown advertised ak (w # ws) st =
     (if wID w \<in> set (rtSeen st) then retireLoop rn jobStateKnown advertised ak ws st
      else do {
        st' \<leftarrow> retireWorker rn jobStateKnown advertised ak (st\<lparr>rtSeen := wID w # rtSeen st\<rparr>) w;
        retireLoop rn jobStateKnown advertised ak ws st'
      })"

definition retireWorkers ::
  "Reconciler \<Rightarrow> bool \<Rightarrow> int gomap \<Rightarrow> Acknowledgements \<Rightarrow> Worker list \<Rightarrow> bool \<Rightarrow> bool action" where
  "retireWorkers rn jobStateKnown advertised ak removals stale = do {
     cursor \<leftarrow> readState rxRetirementCursor;
     st \<leftarrow> retireLoop rn jobStateKnown advertised ak
       (map (\<lambda>i. removals ! i) (rotation cursor (length removals)))
       \<lparr>rtSeen = [], rtDeregistrations = 0, rtStale = stale\<rparr>;
     modifyState (\<lambda>s. s\<lparr>rxRetirementCursor := rxRetirementCursor s + word_of_int (rtDeregistrations st)\<rparr>);
     State_Monad.return (rtStale st)
   }"

section \<open>Stopping the host's engine\<close>

definition stopHost :: "Reconciler \<Rightarrow> bool \<Rightarrow> bool \<Rightarrow> unit action" where
  "stopHost rn stopDesktop shutdownWSL = do {
     (if stopDesktop then do {
        r \<leftarrow> ask (enDesktopStop (rnEnv rn)) DesktopStopped;
        case r of
          None \<Rightarrow> State_Monad.return ()
        | Some err \<Rightarrow> recordProblem DesktopStopError [] True (Some err)
      } else State_Monad.return ());
     (if shutdownWSL then do {
        r \<leftarrow> ask (enShutdownAllWSL (rnEnv rn)) WSLShutDown;
        case r of
          None \<Rightarrow> State_Monad.return ()
        | Some err \<Rightarrow> recordProblem WSLShutdownError [] True (Some err)
      } else State_Monad.return ())
   }"

definition gamingShutdown ::
  "Reconciler \<Rightarrow> Acknowledgements \<Rightarrow> DesktopStatus \<Rightarrow> bool \<Rightarrow> bool \<Rightarrow> bool \<Rightarrow> unit action" where
  "gamingShutdown rn ak desktop desktopStatusKnown stopDesktop shutdownWSL =
     (if \<not> (stopDesktop \<or> shutdownWSL) then State_Monad.return ()
      else if \<not> allTargetsStablyZero (cfTargets (rnConfig rn)) (akZeroAcknowledged ak) (akZeroConfirmations ak)
      then noteCode GamingZeroUnconfirmed []
      else do {
        inventory \<leftarrow> (if mayHaveManagedWorkers desktop desktopStatusKnown then listWorkers (rnEnv rn)
          else State_Monad.return (Inr []));
        case inventory of
          Inl err \<Rightarrow> recordProblem GamingPreflightError [] True (Some err)
        | Inr workers \<Rightarrow> do {
            enriched \<leftarrow> enrichWorkerJobs (rnEnv rn) workers;
            case enriched of
              Inl err \<Rightarrow> recordProblem GamingJobIndexError [] True (Some err)
            | Inr current \<Rightarrow>
                if containsActiveWorker current then recordProblem GamingActiveRace [] False None
                else stopHost rn stopDesktop shutdownWSL
          }
      })"

end
