(* ===== verification/Step.thy ===== *)
theory Step
  imports Retire
begin

text \<open>
  One reconciliation: \<open>step\<close> and \<open>Step\<close> of \<open>src/internal/controller/reconciler.go\<close>, composed of
  the operations of the theories before. The local variables of \<open>step\<close> are the record \<open>Locals\<close>, and
  each phase of the function is one action that returns them updated. The value an adapter returns
  beside an error is the zero value of its type. The safety watcher runs beside all of it; its
  cancellations reach the step through \<open>enCancel\<close>. Telemetry has no effect on a step and is left out.
\<close>

record ReconcileResult =
  rzObserved :: ObservedState
  rzPlan :: Plan
  rzCheckpointAge :: duration
  rzCheckpointAgeValid :: bool
  rzNewWorkBlocked :: bool

definition zeroResult :: ReconcileResult where
  "zeroResult = \<lparr>rzObserved = zeroObservedState, rzPlan = zeroPlan, rzCheckpointAge = 0,
     rzCheckpointAgeValid = False, rzNewWorkBlocked = False\<rparr>"

type_synonym outcome = "ReconcileResult \<times> goError option"

record Locals =
  lvDesired :: DesiredState
  lvDesiredErr :: "goError option"
  lvPrevious :: ObservedState
  lvCheckpointAge :: duration
  lvCheckpointAgeValid :: bool
  lvRecoveryOnly :: bool
  lvObservedErr :: "goError option"
  lvObservationFailed :: bool
  lvPower :: PowerSnapshot
  lvPowerFailed :: bool
  lvDesktop :: DesktopStatus
  lvDesktopKnown :: bool
  lvResources :: ResourceSnapshot
  lvWorkers :: "Worker list"
  lvJobStateKnown :: bool
  lvPreviousPools :: "PoolObservation gomap"
  lvIdentities :: "Identity gomap"
  lvPools :: "PoolSnapshot list"
  lvReserved :: u64

definition zeroPower :: PowerSnapshot where "zeroPower = \<lparr>pwACConnected = False, pwObservedAt = 0\<rparr>"

definition zeroDesktop :: DesktopStatus where
  "zeroDesktop = \<lparr>dtDesktopRunning = False, dtEngineReachable = False, dtRunningWSLCount = 0\<rparr>"

definition zeroLocals :: Locals where
  "zeroLocals = \<lparr>lvDesired = disabledIntent 0, lvDesiredErr = None, lvPrevious = zeroObservedState,
     lvCheckpointAge = 0, lvCheckpointAgeValid = False, lvRecoveryOnly = False, lvObservedErr = None,
     lvObservationFailed = False, lvPower = zeroPower, lvPowerFailed = False, lvDesktop = zeroDesktop,
     lvDesktopKnown = False, lvResources = zeroResourceSnapshot, lvWorkers = [], lvJobStateKnown = True,
     lvPreviousPools = [], lvIdentities = [], lvPools = [], lvReserved = 0\<rparr>"

section \<open>Loading intent and the last observation\<close>

definition blockedResult :: ReconcileResult where
  "blockedResult = zeroResult\<lparr>rzNewWorkBlocked := True\<rparr>"

definition loadIntent :: "Reconciler \<Rightarrow> time \<Rightarrow> (outcome + DesiredState \<times> goError option) action" where
  "loadIntent rn now = do {
     r \<leftarrow> ask (enLoadDesired (rnEnv rn)) DesiredLoaded;
     case r of
       Inr desired \<Rightarrow> State_Monad.return (Inr (desired, None))
     | Inl err \<Rightarrow>
         if errorsIs StateNotFound err then do {
           saved \<leftarrow> ask (\<lambda>h. enSaveDesired (rnEnv rn) h (disabledIntent now)) (DesiredSaved (disabledIntent now));
           State_Monad.return (case saved of
               Some saveErr \<Rightarrow> Inl (blockedResult, Some (ErrWrap ''initialize desired state'' saveErr))
             | None \<Rightarrow> Inr (disabledIntent now, None))
         }
         else State_Monad.return (Inr (disabledIntent now, Some (ErrWrap ''load desired state'' err)))
   }"

definition checkpointAgeAt :: "ObservedState \<Rightarrow> time \<Rightarrow> Locals \<Rightarrow> Locals" where
  "checkpointAgeAt previous now lv =
     (let valid = (\<not> timeIsZero (osHeartbeatAt previous) \<and> \<not> now < osHeartbeatAt previous)
      in lv\<lparr>lvPrevious := previous, lvCheckpointAgeValid := valid,
            lvCheckpointAge := (if valid then timeSub now (osHeartbeatAt previous) else 0)\<rparr>)"

definition loadPrevious :: "Reconciler \<Rightarrow> time \<Rightarrow> Locals \<Rightarrow> (outcome + Locals) action" where
  "loadPrevious rn now lv = do {
     r \<leftarrow> ask (enLoadObserved (rnEnv rn)) ObservedLoaded;
     case r of
       Inr previous \<Rightarrow> State_Monad.return (Inr (checkpointAgeAt previous now lv))
     | Inl err \<Rightarrow>
         if errorsIs StateNotFound err then State_Monad.return (Inr lv)
         else if errorsIs CorruptObserved err then
           (case enQuarantine (rnEnv rn) of
              None \<Rightarrow> State_Monad.return
                (Inl (blockedResult, Some (ErrJoin [Sentinel UnsafeObservedState, err])))
            | Some quarantine \<Rightarrow> do {
                q \<leftarrow> ask quarantine ObservedQuarantined;
                State_Monad.return (case q of
                    Some quarantineErr \<Rightarrow>
                      Inl (blockedResult, Some (ErrJoin [Sentinel UnsafeObservedState, err, quarantineErr]))
                  | None \<Rightarrow>
                      Inr (lv\<lparr>lvObservedErr := Some err, lvRecoveryOnly := True,
                              lvDesired := drainIntent True (lvDesired lv)\<rparr>))
              })
         else State_Monad.return
           (Inr (lv\<lparr>lvObservedErr := Some (ErrWrap ''load observed state'' err), lvObservationFailed := True\<rparr>))
   }"

definition loadState :: "Reconciler \<Rightarrow> (outcome + Locals) action" where
  "loadState rn = do {
     now \<leftarrow> timeNow (rnEnv rn);
     modifyState (\<lambda>s. s\<lparr>rxNow := now, rxErrors := [], rxProblems := []\<rparr>);
     intent \<leftarrow> loadIntent rn now;
     case intent of
       Inl result \<Rightarrow> State_Monad.return (Inl result)
     | Inr (desired, desiredErr) \<Rightarrow> do {
         draining \<leftarrow> ShuttingDown (rnEnv rn);
         loadPrevious rn now (zeroLocals\<lparr>lvDesired := drainIntent draining desired, lvDesiredErr := desiredErr\<rparr>)
       }
   }"

definition recordLoads :: "Locals \<Rightarrow> unit action" where
  "recordLoads lv = do {
     (case lvDesiredErr lv of
        None \<Rightarrow> State_Monad.return ()
      | Some err \<Rightarrow> recordProblem DesiredStateError [] True (Some err));
     (case lvObservedErr lv of
        None \<Rightarrow> State_Monad.return ()
      | Some err \<Rightarrow>
          if lvObservationFailed lv then recordProblem ObservedStateError [] True (Some err)
          else recordProblem ObservedStateRecovered [] False (Some err))
   }"

section \<open>Observing the host\<close>

definition capInput :: "Reconciler \<Rightarrow> DesiredState \<Rightarrow> duration option \<Rightarrow> PlanInput" where
  "capInput rn desired idle =
     \<lparr>piConfig = rnConfig rn, piDesired = desired, piPrevious = zeroObservedState, piCapacityHysteresis = [],
      piPools = [], piWorkers = [], piResources = zeroResourceSnapshot, piPower = zeroPower,
      piDesktop = zeroDesktop, piEngineMemoryTotalBytes = 0, piInputIdle = idle, piNow = 0\<rparr>"

definition observePresence :: "Reconciler \<Rightarrow> Locals \<Rightarrow> unit action" where
  "observePresence rn lv = do {
     idle \<leftarrow> readInputIdle (rnEnv rn);
     modifyState (\<lambda>s. s\<lparr>rxInputIdle := idle,
       rxCapLogged := (if rxCapLogged s = capStateUnknown
         then capStateOf (prsInteractiveCapActive (osPresence (lvPrevious lv))) else rxCapLogged s)\<rparr>);
     now \<leftarrow> readState rxNow;
     noteInteractiveCap (capInput rn (lvDesired lv) idle) now
   }"

definition observePower :: "Reconciler \<Rightarrow> Locals \<Rightarrow> Locals action" where
  "observePower rn lv = do {
     r \<leftarrow> ask (enPower (rnEnv rn)) PowerRead;
     case r of
       Inr pwr \<Rightarrow> State_Monad.return (lv\<lparr>lvPower := pwr\<rparr>)
     | Inl err \<Rightarrow> do {
         recordProblem PowerMonitorError [] True (Some err);
         State_Monad.return (lv\<lparr>lvPowerFailed := True, lvObservationFailed := True\<rparr>)
       }
   }"

text \<open>The flag handed to the safety watcher, which reads the shutdown flag only if it must.\<close>

definition watcherForcedZero :: "Reconciler \<Rightarrow> Locals \<Rightarrow> bool action" where
  "watcherForcedZero rn lv =
     (if lvRecoveryOnly lv \<or> lvDesiredErr lv \<noteq> None \<or> lvPowerFailed lv then State_Monad.return True
      else ShuttingDown (rnEnv rn))"

definition observeDesktop :: "Reconciler \<Rightarrow> Locals \<Rightarrow> Locals action" where
  "observeDesktop rn lv = do {
     r \<leftarrow> ask (enDesktopStatus (rnEnv rn)) DesktopRead;
     case r of
       Inr desktop \<Rightarrow> State_Monad.return (lv\<lparr>lvDesktop := desktop, lvDesktopKnown := True\<rparr>)
     | Inl err \<Rightarrow> do {
         recordProblem DesktopStatusError [] True (Some err);
         State_Monad.return (lv\<lparr>lvDesktopKnown := False, lvObservationFailed := True\<rparr>)
       }
   }"

definition engineUsable :: "DesktopStatus \<Rightarrow> bool" where
  "engineUsable desktop \<longleftrightarrow> \<not> (\<not> dtDesktopRunning desktop \<or> \<not> dtEngineReachable desktop)"

definition startDesktop :: "Reconciler \<Rightarrow> goError option action" where
  "startDesktop rn = ask (enDesktopStart (rnEnv rn)) DesktopStarted"

definition verifyDesktopStart :: "Reconciler \<Rightarrow> Locals \<Rightarrow> Locals action" where
  "verifyDesktopStart rn lv = do {
     started \<leftarrow> startDesktop rn;
     case started of
       Some startErr \<Rightarrow> do {
         recordProblem DesktopStartError [] True (Some startErr);
         State_Monad.return (lv\<lparr>lvObservationFailed := True\<rparr>)
       }
     | None \<Rightarrow> do {
         r \<leftarrow> ask (enDesktopStatus (rnEnv rn)) DesktopRead;
         case r of
           Inl statusErr \<Rightarrow> do {
             recordProblem DesktopStartStatusError [] True (Some statusErr);
             State_Monad.return (lv\<lparr>lvDesktopKnown := False, lvObservationFailed := True\<rparr>)
           }
         | Inr refreshed \<Rightarrow>
             if engineUsable refreshed then State_Monad.return (lv\<lparr>lvDesktop := refreshed\<rparr>)
             else do {
               recordProblem DesktopStartVerificationError [] True
                 (Some (ErrText ''desktop remained stopped or its Docker engine remained unreachable after startup''));
               State_Monad.return (lv\<lparr>lvDesktop := refreshed, lvObservationFailed := True\<rparr>)
             }
       }
   }"

definition bootstrapDesktop :: "Reconciler \<Rightarrow> Locals \<Rightarrow> Locals action" where
  "bootstrapDesktop rn lv = do {
     now \<leftarrow> readState rxNow;
     if dsMode (lvDesired lv) = ModeEnabled \<and> lvDesktopKnown lv \<and> \<not> lvPowerFailed lv \<and>
        snd (evaluatePowerGate (osPowerGate (lvPrevious lv)) (lvPower lv) (cfPower (rnConfig rn)) now) \<and>
        \<not> engineUsable (lvDesktop lv)
     then verifyDesktopStart rn lv
     else State_Monad.return lv
   }"

definition observeResources :: "Reconciler \<Rightarrow> Locals \<Rightarrow> Locals action" where
  "observeResources rn lv = do {
     r \<leftarrow> ask (enResources (rnEnv rn)) ResourcesRead;
     case r of
       Inr resources \<Rightarrow> State_Monad.return (lv\<lparr>lvResources := resources\<rparr>)
     | Inl err \<Rightarrow> do {
         recordProblem ResourceMonitorError [] True (Some err);
         State_Monad.return (lv\<lparr>lvObservationFailed := True\<rparr>)
       }
   }"

definition observeInventory :: "Reconciler \<Rightarrow> Locals \<Rightarrow> Locals action" where
  "observeInventory rn lv =
     (if mayHaveManagedWorkers (lvDesktop lv) (lvDesktopKnown lv) then do {
        r \<leftarrow> listWorkers (rnEnv rn);
        case r of
          Inr latest \<Rightarrow> State_Monad.return (lv\<lparr>lvWorkers := latest\<rparr>)
        | Inl err \<Rightarrow> do {
            recordProblem WorkerInventoryError [] True (Some err);
            State_Monad.return (lv\<lparr>lvObservationFailed := True\<rparr>)
          }
      }
      else State_Monad.return lv)"

definition desktopKnownDown :: "Locals \<Rightarrow> bool" where
  "desktopKnownDown lv \<longleftrightarrow>
     lvDesktopKnown lv \<and> \<not> dtDesktopRunning (lvDesktop lv) \<and> \<not> dtEngineReachable (lvDesktop lv)"

definition invalidateResources :: "Locals \<Rightarrow> Locals" where
  "invalidateResources lv =
     (if lvObservationFailed lv \<and> \<not> desktopKnownDown lv then lv\<lparr>lvResources := zeroResourceSnapshot\<rparr> else lv)"

text \<open>A failed reading of the durable job state blocks new work and automatic retirement.\<close>

definition jobStateLost :: "Locals \<Rightarrow> Locals" where
  "jobStateLost lv =
     lv\<lparr>lvJobStateKnown := False, lvObservationFailed := True, lvResources := zeroResourceSnapshot\<rparr>"

definition observeJobs :: "Reconciler \<Rightarrow> Locals \<Rightarrow> Locals action" where
  "observeJobs rn lv = do {
     r \<leftarrow> enrichWorkerJobs (rnEnv rn) (lvWorkers lv);
     case r of
       Inr enriched \<Rightarrow> State_Monad.return (lv\<lparr>lvWorkers := enriched\<rparr>)
     | Inl err \<Rightarrow> do {
         recordProblem JobIndexError [] True (Some err);
         State_Monad.return (jobStateLost lv)
       }
   }"

definition observeHost :: "Reconciler \<Rightarrow> Locals \<Rightarrow> Locals action" where
  "observeHost rn lv = do {
     observePresence rn lv;
     lv \<leftarrow> observePower rn lv;
     _ \<leftarrow> watcherForcedZero rn lv;
     lv \<leftarrow> observeDesktop rn lv;
     lv \<leftarrow> bootstrapDesktop rn lv;
     probeEngineMemory rn (lvDesktopKnown lv) (lvDesktop lv);
     lv \<leftarrow> observeResources rn lv;
     lv \<leftarrow> observeInventory rn lv;
     observeJobs rn (invalidateResources lv)
   }"

section \<open>Listener identities\<close>

definition priorIdentity :: "PoolObservation gomap \<Rightarrow> string \<Rightarrow> Identity option" where
  "priorIdentity previousPools poolID =
     (case map_of previousPools poolID of
        None \<Rightarrow> None
      | Some saved \<Rightarrow>
          if 0 < poScaleSetID saved \<and> poListenerID saved \<noteq> []
          then Some \<lparr>idScaleSetID = poScaleSetID saved, idListenerID = poListenerID saved\<rparr> else None)"

definition readyPool :: "PoolObservation \<Rightarrow> int \<Rightarrow> string \<Rightarrow> Identity \<Rightarrow> PoolSnapshot" where
  "readyPool prior remembered poolID identity =
     (let drain = (if poDrainServiceCapacity prior = 0 \<and> 0 < poMaxCapacity prior
            then poMaxCapacity prior else poDrainServiceCapacity prior)
      in \<lparr>psTargetID = poolID, psIdentity = identity, psTotalAssignedJobs = poTotalAssignedJobs prior,
          psDrainServiceCapacity = (if drain < remembered then remembered else drain), psReady = True\<rparr>)"

text \<open>One target of the loop; the flag says that a re-registration failed.\<close>

definition ensureTarget :: "Reconciler \<Rightarrow> bool \<Rightarrow> Locals \<times> bool \<Rightarrow> Target \<Rightarrow> (Locals \<times> bool) action" where
  "ensureTarget rn reregister acc t = do {
     let (lv, failed) = acc;
     r \<leftarrow> ensure rn t (if reregister then None else priorIdentity (lvPreviousPools lv) (tgID t));
     case r of
       Inl err \<Rightarrow> do {
         recordScaleSet ScaleSetEnsureError (tgID t) err;
         State_Monad.return
           (lv\<lparr>lvPools := lvPools lv @ [zeroPoolSnapshot\<lparr>psTargetID := tgID t\<rparr>]\<rparr>, failed \<or> reregister)
       }
     | Inr identity \<Rightarrow> do {
         remembered \<leftarrow> readState (\<lambda>s. geti (rxDrainCapacity s) (tgID t));
         State_Monad.return
           (lv\<lparr>lvIdentities := gput (lvIdentities lv) (tgID t) identity,
               lvPools := lvPools lv @ [readyPool (gget zeroPoolObservation (lvPreviousPools lv) (tgID t))
                 remembered (tgID t) identity]\<rparr>, failed)
       }
   }"

fun ensureTargets :: "Reconciler \<Rightarrow> bool \<Rightarrow> Target list \<Rightarrow> Locals \<times> bool \<Rightarrow> (Locals \<times> bool) action" where
  "ensureTargets rn reregister [] acc = State_Monad.return acc"
| "ensureTargets rn reregister (t # ts) acc = do {
     acc' \<leftarrow> ensureTarget rn reregister acc t;
     ensureTargets rn reregister ts acc'
   }"

definition ensureListeners :: "Reconciler \<Rightarrow> Locals \<Rightarrow> Locals action" where
  "ensureListeners rn lv = do {
     reregister \<leftarrow> readState rxReregister;
     (if reregister then noteCode ListenerHandshakeReregister [] else State_Monad.return ());
     (lv', failed) \<leftarrow> ensureTargets rn reregister (cfTargets (rnConfig rn))
       (lv\<lparr>lvPreviousPools := previousPoolsByID (lvPrevious lv)\<rparr>, False);
     (if reregister \<and> \<not> failed then clearStaleHandshake else State_Monad.return ());
     State_Monad.return lv'
   }"

section \<open>Plans\<close>

definition planWith :: "Reconciler \<Rightarrow> Locals \<Rightarrow> int gomap \<Rightarrow> PoolSnapshot list \<Rightarrow> Plan action" where
  "planWith rn lv hysteresis pools = do {
     engineMemory \<leftarrow> readState rxEngineMemoryTotal;
     idle \<leftarrow> readState rxInputIdle;
     now \<leftarrow> readState rxNow;
     State_Monad.return (buildPlan now
       \<lparr>piConfig = rnConfig rn, piDesired = lvDesired lv, piPrevious = lvPrevious lv,
        piCapacityHysteresis = hysteresis, piPools = pools, piWorkers = lvWorkers lv,
        piResources = lvResources lv, piPower = lvPower lv, piDesktop = lvDesktop lv,
        piEngineMemoryTotalBytes = engineMemory, piInputIdle = idle, piNow = now\<rparr>)
   }"

definition startDesktopIf :: "Reconciler \<Rightarrow> bool \<Rightarrow> unit action" where
  "startDesktopIf rn wanted =
     (if wanted then do {
        r \<leftarrow> startDesktop rn;
        case r of
          None \<Rightarrow> State_Monad.return ()
        | Some err \<Rightarrow> recordProblem DesktopStartError [] True (Some err)
      } else State_Monad.return ())"

definition runStarts ::
  "Reconciler \<Rightarrow> Locals \<Rightarrow> StartDecision list \<Rightarrow> Identity gomap \<Rightarrow> PoolSnapshot list \<Rightarrow> (goError + u64) action" where
  "runStarts rn lv starts identities pools = do {
     now \<leftarrow> readState rxNow;
     executePlannedStarts rn starts identities
       \<lparr>sxPools = pools, sxPrevious = lvPrevious lv, sxDesired = lvDesired lv, sxPower = lvPower lv,
        sxResources = lvResources lv, sxDesktop = lvDesktop lv, sxNow = now\<rparr> (lvReserved lv)
   }"

text \<open>
  List the workers and their jobs again. The flag of the result is false when that failed; the two
  codes are the problems recorded for a failed listing and a failed lookup.
\<close>

definition refreshWorkers :: "Reconciler \<Rightarrow> opCode \<Rightarrow> opCode \<Rightarrow> Locals \<Rightarrow> (Locals \<times> bool) action" where
  "refreshWorkers rn listCode jobsCode lv =
     (if \<not> mayHaveManagedWorkers (lvDesktop lv) (lvDesktopKnown lv) then State_Monad.return (lv, True)
      else do {
        r \<leftarrow> listWorkers (rnEnv rn);
        case r of
          Inl err \<Rightarrow> do {
            recordProblem listCode [] True (Some err);
            State_Monad.return (jobStateLost lv, False)
          }
        | Inr latest \<Rightarrow> do {
            e \<leftarrow> enrichWorkerJobs (rnEnv rn) latest;
            case e of
              Inl err \<Rightarrow> do {
                recordProblem jobsCode [] True (Some err);
                State_Monad.return (jobStateLost lv, False)
              }
            | Inr enriched \<Rightarrow> State_Monad.return (lv\<lparr>lvWorkers := enriched\<rparr>, True)
          }
      })"

section \<open>Before the polls\<close>

definition prePollStarts :: "Reconciler \<Rightarrow> Plan \<Rightarrow> Locals \<Rightarrow> (goError + Locals \<times> bool) action" where
  "prePollStarts rn provisional lv =
     (if lvRecoveryOnly lv then State_Monad.return (Inr (lv, True))
      else do {
        startDesktopIf rn (plStartDesktop provisional);
        if plStart provisional = [] then State_Monad.return (Inr (lv, True))
        else do {
          r \<leftarrow> runStarts rn lv (plStart provisional) (lvIdentities lv) (lvPools lv);
          case r of
            Inl err \<Rightarrow> State_Monad.return (Inl err)
          | Inr reserved \<Rightarrow> do {
              refreshed \<leftarrow> refreshWorkers rn WorkerPrePollRefreshError JobIndexPrePollRefreshError
                (lv\<lparr>lvReserved := reserved\<rparr>);
              State_Monad.return (Inr refreshed)
            }
        }
      })"

definition clampPending :: "int gomap \<Rightarrow> int gomap \<Rightarrow> int gomap" where
  "clampPending pending advertised =
     map (\<lambda>(poolID, capacity).
       (poolID, case map_of pending poolID of
          None \<Rightarrow> capacity
        | Some limit \<Rightarrow> if limit < capacity then limit else capacity)) advertised"

definition zeroAll :: "int gomap \<Rightarrow> int gomap" where
  "zeroAll advertised = map (\<lambda>(poolID, _). (poolID, 0)) advertised"

definition pollPlanFor :: "ObservedState \<Rightarrow> int gomap \<Rightarrow> bool \<Rightarrow> Plan \<Rightarrow> Plan" where
  "pollPlanFor previous pending refreshed provisional =
     (let advertised = clampPending pending (sequenceCapacityTransfer previous (plAdvertisedCapacity provisional))
      in provisional\<lparr>plAdvertisedCapacity := (if refreshed then advertised else zeroAll advertised)\<rparr>)"

section \<open>Polling\<close>

definition cadenceForcedZero :: "Reconciler \<Rightarrow> Locals \<Rightarrow> bool action" where
  "cadenceForcedZero rn lv =
     (if lvRecoveryOnly lv \<or> lvDesiredErr lv \<noteq> None \<or> lvObservationFailed lv then State_Monad.return True
      else do {
        draining \<leftarrow> ShuttingDown (rnEnv rn);
        State_Monad.return (draining \<or> dsMode (lvDesired lv) \<noteq> ModeEnabled)
      })"

definition pollListeners ::
  "Reconciler \<Rightarrow> Locals \<Rightarrow> Plan \<Rightarrow> (pollResult list \<times> pollCadenceResult) action" where
  "pollListeners rn lv pollPlan = do {
     now \<leftarrow> timeNow (rnEnv rn);
     problems \<leftarrow> readState rxProblems;
     engineMemory \<leftarrow> readState rxEngineMemoryTotal;
     checkpoint \<leftarrow> takeCheckpoint rn (lvPrevious lv) (lvPools lv) (lvWorkers lv) (lvResources lv)
       (lvPower lv) (lvDesktop lv) pollPlan now problems;
     if \<not> containsReadyPool (lvPools lv)
     then State_Monad.return ([], \<lparr>crObserved = checkpoint, crCheckpointErr = None, crSuperseded = False\<rparr>)
     else do {
       checkpointErr \<leftarrow> persistObserved rn checkpoint;
       forcedZero \<leftarrow> cadenceForcedZero rn lv;
       results \<leftarrow> pollPools rn (plAdvertisedCapacity pollPlan) 0 (lvPools lv);
       cadence \<leftarrow> watchPollCadence rn
         \<lparr>cdDesired = lvDesired lv, cdObserved = checkpoint, cdPools = lvPools lv, cdWorkers = lvWorkers lv,
          cdDesktop = lvDesktop lv, cdAdvertised = plAdvertisedCapacity pollPlan,
          cdOperationProblems = problems, cdForcedZero = forcedZero,
          cdEngineMemoryTotal = engineMemory\<rparr> checkpointErr;
       State_Monad.return (results, cadence)
     }
   }"

definition applyCadence :: "pollCadenceResult \<Rightarrow> Locals \<Rightarrow> Locals" where
  "applyCadence cadence lv =
     (let observed = crObserved cadence
      in lv\<lparr>lvResources := osResources observed, lvPower := osPower observed,
            lvPrevious := (lvPrevious lv)\<lparr>osResourceGate := osResourceGate observed,
              osPowerGate := osPowerGate observed\<rparr>\<rparr>)"

definition unacknowledged :: "Locals \<Rightarrow> Acknowledgements" where
  "unacknowledged lv = \<lparr>akPools = lvPools lv, akIdentities = lvIdentities lv, akAcknowledgedCapacity = [],
     akCapacityAcknowledged = [], akZeroAcknowledged = [], akZeroConfirmations = []\<rparr>"

text \<open>The exit of a step whose context was cancelled during the polls.\<close>

definition canceledExit ::
  "Reconciler \<Rightarrow> Locals \<Rightarrow> Plan \<Rightarrow> Acknowledgements \<Rightarrow> bool \<Rightarrow> goError \<Rightarrow> outcome action" where
  "canceledExit rn lv pollPlan ak stale cause = do {
     (if stale then noteStaleHandshake else State_Monad.return ());
     if errorsIs ReconcileInputsChanged cause then State_Monad.return (zeroResult, Some cause)
     else do {
       problems \<leftarrow> readState rxProblems;
       (if problems = [] then do {
          at1 \<leftarrow> timeNow (rnEnv rn);
          modifyState (\<lambda>s. s\<lparr>rxProblems :=
            [problem at1 (codeText ReconcileCanceled) (codeMessage ReconcileCanceled) [] True]\<rparr>)
        } else State_Monad.return ());
       now \<leftarrow> timeNow (rnEnv rn);
       problems' \<leftarrow> readState rxProblems;
       canceled \<leftarrow> takeCheckpoint rn (lvPrevious lv) (akPools ak) (lvWorkers lv) (lvResources lv)
         (lvPower lv) (lvDesktop lv) pollPlan now problems';
       saved \<leftarrow> persistObserved rn canceled;
       errs \<leftarrow> readState rxErrors;
       (let errs' = (case saved of None \<Rightarrow> errs | Some err \<Rightarrow> errs @ [ErrWrap ''save observed state'' err])
        in State_Monad.return
          (zeroResult\<lparr>rzObserved := canceled,
             rzNewWorkBlocked := (lvObservationFailed lv \<or> lvDesiredErr lv \<noteq> None)\<rparr>,
           errorsJoin [Some cause, errorsJoin (map Some errs')]))
     }
   }"

section \<open>After the polls\<close>

definition recoveryPlan :: "bool \<Rightarrow> Plan \<Rightarrow> Plan" where
  "recoveryPlan recoveryOnly plan =
     (if recoveryOnly then plan\<lparr>plStart := [], plRemove := [], plStartDesktop := False,
        plStopDesktop := False, plShutdownWSL := False\<rparr> else plan)"

definition alignedPlan :: "Reconciler \<Rightarrow> Locals \<Rightarrow> Acknowledgements \<Rightarrow> Plan action" where
  "alignedPlan rn lv ak = do {
     plan \<leftarrow> planWith rn lv (akAcknowledgedCapacity ak) (akPools ak);
     State_Monad.return (plan\<lparr>plAdvertisedCapacity :=
       alignAdvertisedCapacity (plAdvertisedCapacity plan) (akAcknowledgedCapacity ak) (akCapacityAcknowledged ak)\<rparr>)
   }"

definition finalDesktop :: "Reconciler \<Rightarrow> Locals \<Rightarrow> Locals action" where
  "finalDesktop rn lv = do {
     r \<leftarrow> ask (enDesktopStatus (rnEnv rn)) DesktopRead;
     case r of
       Inr latest \<Rightarrow> State_Monad.return (lv\<lparr>lvDesktop := latest, lvDesktopKnown := True\<rparr>)
     | Inl err \<Rightarrow> do {
         recordProblem DesktopFinalStatusError [] True (Some err);
         State_Monad.return (lv\<lparr>lvDesktopKnown := False\<rparr>)
       }
   }"

definition finalWorkers :: "Reconciler \<Rightarrow> Locals \<Rightarrow> Locals action" where
  "finalWorkers rn lv =
     (if \<not> mayHaveManagedWorkers (lvDesktop lv) (lvDesktopKnown lv) then State_Monad.return (lv\<lparr>lvWorkers := []\<rparr>)
      else do {
        r \<leftarrow> listWorkers (rnEnv rn);
        case r of
          Inl err \<Rightarrow> do {
            recordProblem WorkerFinalInventoryError [] True (Some err);
            State_Monad.return lv
          }
        | Inr latest \<Rightarrow> do {
            e \<leftarrow> enrichWorkerJobs (rnEnv rn) latest;
            case e of
              Inl err \<Rightarrow> do {
                recordProblem JobIndexFinalError [] True (Some err);
                State_Monad.return lv
              }
            | Inr enriched \<Rightarrow> State_Monad.return (lv\<lparr>lvWorkers := enriched\<rparr>)
          }
      })"

definition observePool ::
  "PoolObservation gomap \<Rightarrow> Acknowledgements \<Rightarrow> int gomap \<Rightarrow> Plan \<Rightarrow> time
     \<Rightarrow> PoolObservation list \<times> int gomap \<Rightarrow> Target \<Rightarrow> PoolObservation list \<times> int gomap" where
  "observePool cadencePools ak polled postPlan now acc t =
     (let pool = findPool (akPools ak) (tgID t);
          prior = gget zeroPoolObservation cadencePools (tgID t);
          acknowledged = getb (akCapacityAcknowledged ak) (tgID t);
          actualCapacity = (if acknowledged then geti (akAcknowledgedCapacity ak) (tgID t) else poMaxCapacity prior);
          (updatedAt, pending) = reconcilerTransitionAt (snd acc) (tgID t) prior
            (idScaleSetID (psIdentity pool)) (idListenerID (psIdentity pool))
            actualCapacity (geti polled (tgID t)) acknowledged now
      in (fst acc @
            [\<lparr>poID = tgID t, poScaleSetID = idScaleSetID (psIdentity pool),
              poListenerID = idListenerID (psIdentity pool),
              poTotalAssignedJobs = psTotalAssignedJobs pool, poMaxCapacity = actualCapacity,
              poCapacityAcknowledged = acknowledged,
              poZeroCapacityConfirmations = geti (akZeroConfirmations ak) (tgID t),
              poDrainServiceCapacity = psDrainServiceCapacity pool,
              poDesiredWorkers = geti (plDesiredWorkers postPlan) (tgID t),
              poUpdatedAt = updatedAt\<rparr>], pending))"

definition drainWarning :: "Config \<Rightarrow> time option \<Rightarrow> time \<Rightarrow> Problem list" where
  "drainWarning cfg started now =
     (case started of
        None \<Rightarrow> []
      | Some t \<Rightarrow>
          if drWarningAfter (cfDrain cfg) \<le> timeSub now t
          then [problem now (codeText DrainWarning) (codeMessage DrainWarning) [] False] else [])"

definition noteClamped :: "Plan \<Rightarrow> Target list \<Rightarrow> unit action" where
  "noteClamped plan targets = foldr (\<lambda>t rest. do {
     (if getb (plMemoryClamped plan) (tgID t) then noteCode MemoryClampedCapacity (tgID t)
      else State_Monad.return ());
     rest
   }) targets (State_Monad.return ())"

definition observedState ::
  "Reconciler \<Rightarrow> Locals \<Rightarrow> Plan \<Rightarrow> PoolObservation list \<Rightarrow> Problem list \<Rightarrow> time \<Rightarrow> time \<Rightarrow> ControllerCost
     \<Rightarrow> ObservedState" where
  "observedState rn lv postPlan observedPools operationProblems now heartbeat cost =
     (let started = drainStarted (lvPrevious lv) (plPhase postPlan) now
      in \<lparr>osSchemaVersion = 1,
          osPhase = (if operationProblems \<noteq> [] then PhaseDegraded else plPhase postPlan),
          osHeartbeatAt = heartbeat, osDrainStartedAt = started, osQuiesceReason = plQuiesceReason postPlan,
          osVersion = rnVersion rn, osPools = observedPools, osWorkers = lvWorkers lv,
          osResources = lvResources lv, osPower = lvPower lv, osDesktop = lvDesktop lv,
          osResourceGate = plResourceGate postPlan, osPowerGate = plPowerGate postPlan,
          osController = cost, osPresence = plPresence postPlan,
          osProblems = plProblems postPlan @ operationProblems @ drainWarning (rnConfig rn) started now\<rparr>)"

text \<open>The end of the step, once the final inventory is taken.\<close>

definition reportStep ::
  "Reconciler \<Rightarrow> Locals \<Rightarrow> PoolObservation gomap \<Rightarrow> Acknowledgements \<Rightarrow> int gomap \<Rightarrow> bool \<Rightarrow> outcome action" where
  "reportStep rn lv cadencePools ak polled stale = do {
     postPlan \<leftarrow> alignedPlan rn lv ak;
     now \<leftarrow> readState rxNow;
     pending \<leftarrow> readState rxPendingCapacity;
     let (observedPools, pending') = foldl (observePool cadencePools ak polled postPlan now) ([], pending)
           (cfTargets (rnConfig rn));
     modifyState (\<lambda>s. s\<lparr>rxPendingCapacity := pending'\<rparr>);
     noteClamped postPlan (cfTargets (rnConfig rn));
     operationProblems \<leftarrow> readState rxProblems;
     heartbeat \<leftarrow> timeNow (rnEnv rn);
     cost \<leftarrow> controllerCost rn;
     let observed = observedState rn lv postPlan observedPools operationProblems now heartbeat cost;
     saved \<leftarrow> persistObserved rn observed;
     (if stale then noteStaleHandshake
      else if containsReadyPool (akPools ak) then clearStaleHandshake else State_Monad.return ());
     errs \<leftarrow> readState rxErrors;
     (let errs' = (case saved of None \<Rightarrow> errs | Some err \<Rightarrow> errs @ [ErrWrap ''save observed state'' err])
      in State_Monad.return
        (\<lparr>rzObserved = observed, rzPlan = postPlan, rzCheckpointAge = lvCheckpointAge lv,
          rzCheckpointAgeValid = lvCheckpointAgeValid lv,
          rzNewWorkBlocked = (lvObservationFailed lv \<or> lvDesiredErr lv \<noteq> None)\<rparr>,
         errorsJoin (map Some errs')))
   }"

definition finishStep ::
  "Reconciler \<Rightarrow> Locals \<Rightarrow> PoolObservation gomap \<Rightarrow> Acknowledgements \<Rightarrow> int gomap \<Rightarrow> bool \<Rightarrow> outcome action" where
  "finishStep rn lv0 cadencePools ak polled stale = do {
     lv \<leftarrow> finalDesktop rn lv0;
     lv \<leftarrow> finalWorkers rn lv;
     reportStep rn lv cadencePools ak polled stale
   }"

text \<open>From the refresh after the polls to the end of the step.\<close>

definition serveStep ::
  "Reconciler \<Rightarrow> Locals \<Rightarrow> PoolObservation gomap \<Rightarrow> Acknowledgements \<Rightarrow> int gomap \<Rightarrow> bool \<Rightarrow> outcome action" where
  "serveStep rn lv0 cadencePools ak polled stale0 = do {
     (lv1, _) \<leftarrow> refreshWorkers rn WorkerRefreshError JobIndexRefreshError lv0;
     workers \<leftarrow> (if lvJobStateKnown lv1 then verifyRegistrations rn (akPools ak) (lvWorkers lv1)
       else State_Monad.return (lvWorkers lv1));
     let lv = lv1\<lparr>lvWorkers := workers\<rparr>;
     plan0 \<leftarrow> alignedPlan rn lv ak;
     let plan = recoveryPlan (lvRecoveryOnly lv) plan0;
     startDesktopIf rn (plStartDesktop plan);
     stale \<leftarrow> retireWorkers rn (lvJobStateKnown lv) (plAdvertisedCapacity plan) ak (plRemove plan) stale0;
     started \<leftarrow> runStarts rn lv (plStart plan) (akIdentities ak) (akPools ak);
     case started of
       Inl err \<Rightarrow> State_Monad.return (zeroResult, Some err)
     | Inr _ \<Rightarrow> do {
         gamingShutdown rn ak (lvDesktop lv) (lvDesktopKnown lv) (plStopDesktop plan) (plShutdownWSL plan);
         finishStep rn lv cadencePools ak polled stale
       }
   }"

definition pollStep :: "Reconciler \<Rightarrow> Locals \<Rightarrow> Plan \<Rightarrow> outcome action" where
  "pollStep rn lv0 pollPlan = do {
     (results, cadence) \<leftarrow> pollListeners rn lv0 pollPlan;
     let lv = applyCadence cadence lv0;
     now \<leftarrow> timeNow (rnEnv rn);
     modifyState (\<lambda>s. s\<lparr>rxNow := now\<rparr>);
     ak \<leftarrow> processPolls (lvPreviousPools lv) (unacknowledged lv) results;
     cause \<leftarrow> ctxCause (rnEnv rn);
     case cause of
       Some c \<Rightarrow> canceledExit rn lv pollPlan ak (crSuperseded cadence) c
     | None \<Rightarrow> do {
         (case crCheckpointErr cadence of
            None \<Rightarrow> State_Monad.return ()
          | Some err \<Rightarrow> recordProblem ReconcileCheckpointError [] True (Some err));
         serveStep rn lv (previousPoolsByID (crObserved cadence)) ak (plAdvertisedCapacity pollPlan)
           (crSuperseded cadence)
       }
   }"

section \<open>The step\<close>

definition reconcileStep :: "Reconciler \<Rightarrow> outcome action" where
  "reconcileStep rn = do {
     cancelled \<leftarrow> ctxErr (rnEnv rn);
     case cancelled of
       Some err \<Rightarrow> State_Monad.return (zeroResult, Some err)
     | None \<Rightarrow> do {
         loaded \<leftarrow> loadState rn;
         case loaded of
           Inl result \<Rightarrow> State_Monad.return result
         | Inr lv0 \<Rightarrow> do {
             recordLoads lv0;
             lv \<leftarrow> observeHost rn lv0;
             lv \<leftarrow> ensureListeners rn lv;
             hysteresis \<leftarrow> readState rxPendingCapacity;
             provisional \<leftarrow> planWith rn lv hysteresis (lvPools lv);
             pre \<leftarrow> prePollStarts rn provisional lv;
             case pre of
               Inl err \<Rightarrow> State_Monad.return (zeroResult, Some err)
             | Inr (lv', refreshed) \<Rightarrow> do {
                 pending \<leftarrow> readState rxPendingCapacity;
                 pollStep rn lv' (pollPlanFor (lvPrevious lv') pending refreshed provisional)
               }
           }
       }
   }"

definition maxImmediateReruns :: nat where "maxImmediateReruns = 3"

text \<open>
  The loop of \<open>Step\<close>. The parent context's error is read again after each run; a fresh step
  context starts uncancelled. A run whose safety inputs changed is repeated at once, so the loop
  has no bound of its own: it recurses on fuel, and None means that the inputs were still
  changing when the fuel ran out.
\<close>

definition parentErr :: "Env \<Rightarrow> goError option action" where
  "parentErr env = do {
     c \<leftarrow> ask (enCancel env) ContextRead;
     State_Monad.return (case c of Some (ParentCancelled err) \<Rightarrow> Some err | _ \<Rightarrow> None)
   }"

definition runOnce :: "Reconciler \<Rightarrow> nat \<Rightarrow> (outcome \<times> goError option) action" where
  "runOnce rn reruns = do {
     modifyState (\<lambda>s. s\<lparr>rxContext := None, rxFinalAdmission := (maxImmediateReruns \<le> reruns)\<rparr>);
     result \<leftarrow> reconcileStep rn;
     cause \<leftarrow> ctxCause (rnEnv rn);
     State_Monad.return (result, cause)
   }"

fun stepLoop :: "Reconciler \<Rightarrow> nat \<Rightarrow> nat \<Rightarrow> outcome option action" where
  "stepLoop rn 0 reruns = State_Monad.return None"
| "stepLoop rn (Suc fuel) reruns = do {
     cancelled \<leftarrow> parentErr (rnEnv rn);
     case cancelled of
       Some err \<Rightarrow> State_Monad.return (Some (zeroResult, Some err))
     | None \<Rightarrow> do {
         (result, cause) \<leftarrow> runOnce rn reruns;
         parent \<leftarrow> parentErr (rnEnv rn);
         case parent of
           Some err \<Rightarrow> State_Monad.return (Some (fst result, Some err))
         | None \<Rightarrow>
             (case cause of
                None \<Rightarrow> State_Monad.return (Some result)
              | Some c \<Rightarrow>
                  if errorsIs ReconcileInputsChanged c then stepLoop rn fuel (Suc reruns)
                  else State_Monad.return (Some (fst result, if snd result = None then Some c else snd result)))
       }
   }"

definition StepWithin :: "Reconciler \<Rightarrow> nat \<Rightarrow> outcome option action" where
  "StepWithin rn fuel = do {
     started \<leftarrow> timeNow (rnEnv rn);
     result \<leftarrow> stepLoop rn fuel 0;
     finished \<leftarrow> timeNow (rnEnv rn);
     modifyState (\<lambda>s. s\<lparr>rxLastTick := timeSub finished started\<rparr>);
     State_Monad.return result
   }"

end
