(* ===== verification/Step_Frames.thy ===== *)
theory Step_Frames
  imports Step
begin

text \<open>
  Which events the operations of a step append to the history. Readings of the adapters, log lines
  and checkpoints are harmless; the lemmas here say that an operation appends nothing else, apart
  from the events named in their premises. They are the rules of \<open>emits_rules\<close>, so the frame of a
  composed operation follows by applying them.
\<close>

section \<open>Weakest preconditions of the readings\<close>

lemma wp_ShuttingDown [simp]: "wp (ShuttingDown env) Q s =
    Q (shutdownBegun env (rxHistory s))
      (s\<lparr>rxHistory := ShuttingDownRead (shutdownBegun env (rxHistory s)) # rxHistory s\<rparr>)"
  by (simp add: ShuttingDown_def)

lemma wp_timeNow [simp]: "wp (timeNow env) Q s =
    Q (enNow env (rxHistory s)) (s\<lparr>rxHistory := NowRead (enNow env (rxHistory s)) # rxHistory s\<rparr>)"
  by (simp add: timeNow_def)

lemma wp_listWorkers [simp]: "wp (listWorkers env) Q s =
    Q (enListWorkers env (rxHistory s))
      (s\<lparr>rxHistory := WorkersListed (enListWorkers env (rxHistory s)) # rxHistory s\<rparr>)"
  by (simp add: listWorkers_def)

lemma wp_orUnsafe:
  "wp (orUnsafe m f) Q s = wp m (\<lambda>r s'. case r of Inl err \<Rightarrow> Q (False, True, Some err) s' | Inr v \<Rightarrow> wp (f v) Q s') s"
  unfolding orUnsafe_def wp_bind by (rule arg_cong [where f = "\<lambda>R. wp m R s"]) (auto intro!: ext split: sum.split)

section \<open>Operations that only read, log or checkpoint\<close>

lemma emits_nextRunnerName [emits_rules]: "emits E (nextRunnerName rn now)"
  unfolding nextRunnerName_def by (intro emits_rules emits_modifyState) simp

lemma emits_rememberDrainCapacity [emits_rules]: "emits E (rememberDrainCapacity poolID capacity)"
  unfolding rememberDrainCapacity_def by (intro emits_modifyState) simp

lemma emits_noteStaleHandshake [emits_rules]: "emits E noteStaleHandshake"
  unfolding noteStaleHandshake_def by (intro emits_modifyState) (simp add: Let_def)

lemma emits_clearStaleHandshake [emits_rules]: "emits E clearStaleHandshake"
  unfolding clearStaleHandshake_def by (intro emits_modifyState) simp

lemma emits_readInputIdle [emits_rules]: "tolerates E \<Longrightarrow> emits E (readInputIdle env)"
  unfolding readInputIdle_def by (intro emits_rules) auto

lemma emits_noteInteractiveCap [emits_rules]: "tolerates E \<Longrightarrow> emits E (noteInteractiveCap input now)"
  unfolding noteInteractiveCap_def by (intro emits_rules emits_modifyState) auto

lemma emits_probeEngineMemory [emits_rules]: "tolerates E \<Longrightarrow> emits E (probeEngineMemory rn known desktop)"
  unfolding probeEngineMemory_def by (intro emits_rules emits_modifyState) auto

lemma emits_controllerCost [emits_rules]: "tolerates E \<Longrightarrow> emits E (controllerCost rn)"
  unfolding controllerCost_def by (intro emits_rules) auto

lemma emits_persistObserved [emits_rules]: "tolerates E \<Longrightarrow> emits E (persistObserved rn observed)"
  unfolding persistObserved_def by (intro emits_rules emits_modifyState) auto

lemma emits_takeCheckpoint [emits_rules]:
  "tolerates E \<Longrightarrow> emits E (takeCheckpoint rn previous pools workers resources pwr desktop plan now problems)"
  unfolding takeCheckpoint_def by (intro emits_rules emits_modifyState) auto

lemma emits_enrichWorkerJobs [emits_rules]: "tolerates E \<Longrightarrow> emits E (enrichWorkerJobs env workers)"
  unfolding enrichWorkerJobs_def by (intro emits_rules) auto

lemma emits_listWorkers [emits_rules]: "tolerates E \<Longrightarrow> emits E (listWorkers env)"
  unfolding listWorkers_def by (intro emits_rules) auto

section \<open>Calls under a retry policy\<close>

lemma emits_stepRetry [emits_rules]:
  assumes "tolerates E"
  shows "emits E (rcCtxErr (stepRetry env))" and "emits E (rcTimer (stepRetry env) d)"
    and "emits E (rcDraw (stepRetry env))"
  using assms unfolding stepRetry_def by (auto intro!: emits_rules)

lemma emits_detachedRetry [emits_rules]:
  assumes "tolerates E"
  shows "emits E (rcCtxErr (detachedRetry env))" and "emits E (rcTimer (detachedRetry env) d)"
    and "emits E (rcDraw (detachedRetry env))"
  using assms unfolding detachedRetry_def by (auto intro!: emits_rules)

lemma emits_retried [emits_rules]:
  assumes "tolerates E" and "emits E op"
  shows "emits E (RetryValue (stepRetry env) p retryable op)"
    and "emits E (RetryValue (detachedRetry env) p retryable op)"
  using assms by (auto intro!: emits_RetryValue emits_stepRetry emits_detachedRetry)

lemma emits_ensure [emits_rules]:
  "tolerates E \<Longrightarrow> (\<And>prior r. E (Ensured (tgID t) prior r)) \<Longrightarrow> emits E (ensure rn t previous)"
  unfolding ensure_def ensureCall_def by (intro emits_rules) auto

lemma emits_pollRetried [emits_rules]:
  "tolerates E \<Longrightarrow> (\<And>r. E (Polled identity capacity r)) \<Longrightarrow> emits E (pollRetried rn identity capacity)"
  unfolding pollRetried_def pollCall_def by (intro emits_rules) auto

lemma emits_statistics [emits_rules]:
  "tolerates E \<Longrightarrow> (\<And>i prior r. E (Ensured i prior r)) \<Longrightarrow> (\<And>identity r. E (Polled identity capacity r)) \<Longrightarrow>
   emits E (statistics rn t identity capacity)"
  unfolding statistics_def by (intro emits_rules) auto

lemma emits_deregisterRunner [emits_rules]:
  assumes "tolerates E" and "\<And>r. E (RunnerRemoved poolID runnerID r)"
  shows "emits E (deregisterRunner rn (stepRetry env) poolID runnerID)"
    and "emits E (deregisterRunner rn (detachedRetry env) poolID runnerID)"
  using assms unfolding deregisterRunner_def removeRunnerCall_def by (auto intro!: emits_rules)

lemma emits_runnerRegistered [emits_rules]:
  "tolerates E \<Longrightarrow> emits E (runnerRegistered rn poolID runnerID name)"
  unfolding runnerRegistered_def registeredCall_def by (intro emits_rules) auto

section \<open>Admission\<close>

lemma emits_readDesired [emits_rules]: "tolerates E \<Longrightarrow> emits E (readDesired env)"
  unfolding readDesired_def by (intro emits_rules) auto

lemma emits_orUnsafe [emits_rules]:
  "emits E m \<Longrightarrow> (\<And>v. emits E (f v)) \<Longrightarrow> emits E (orUnsafe m f)"
  unfolding orUnsafe_def by (intro emits_rules) auto

lemma emits_judgeStart [emits_rules]:
  "tolerates E \<Longrightarrow> emits E (judgeStart rn poolID sx reserved desired pwr resources desktop workers)"
  unfolding judgeStart_def by (intro emits_rules) auto

lemma emits_freshStartAllowed [emits_rules]:
  "tolerates E \<Longrightarrow> emits E (freshStartAllowed rn poolID sx reserved)"
  unfolding freshStartAllowed_def by (intro emits_rules) auto

lemma emits_abortChanged [emits_rules]: "tolerates E \<Longrightarrow> emits E abortChanged"
  unfolding abortChanged_def by (intro emits_rules) auto

lemma emits_cleanup [emits_rules]:
  assumes "tolerates E" and "\<And>r. E (RunnerRemoved poolID (jitRunnerID jit) r)"
  shows "emits E (cleanupRunner rn poolID jit)" and "emits E (cleanupRecording rn code poolID jit)"
    and "emits E (cleanupLogging rn poolID jit)"
  using assms unfolding cleanupRunner_def cleanupRecording_def cleanupLogging_def
  by (auto intro!: emits_rules)

lemma emits_startWorker [emits_rules]:
  assumes "tolerates E" and "\<And>ident name r. E (JITCreated ident name r)"
    and "\<And>rid r. E (RunnerRemoved poolID rid r)" and "\<And>req r. E (WorkerStarted req r)"
  shows "emits E (startWorker rn poolID identity limits sx reserved)"
  using assms unfolding startWorker_def startRegistered_def startContainer_def createJITCall_def
  by (intro emits_rules emits_modifyState) auto

lemma emits_startWorkers [emits_rules]:
  assumes "tolerates E" and "\<And>ident name r. E (JITCreated ident name r)"
    and "\<And>rid r. E (RunnerRemoved poolID rid r)" and "\<And>req r. E (WorkerStarted req r)"
  shows "emits E (startWorkers rn poolID identity limits sx n reserved)"
  by (induction n arbitrary: reserved) (auto intro!: emits_rules assms split: loopControl.split)

lemma emits_executePlannedStarts [emits_rules]:
  assumes "tolerates E" and "\<And>ident name r. E (JITCreated ident name r)"
    and "\<And>poolID rid r. E (RunnerRemoved poolID rid r)" and "\<And>req r. E (WorkerStarted req r)"
  shows "emits E (executePlannedStarts rn starts identities sx reserved)"
proof (induction starts arbitrary: reserved)
  case (Cons decision starts)
  show ?case
    unfolding executePlannedStarts.simps
    by (intro emits_rules Cons.IH assms) (simp add: toleratesD [OF assms(1)])
qed (simp add: emits_return)

lemma emits_runStarts [emits_rules]:
  assumes "tolerates E" and "\<And>ident name r. E (JITCreated ident name r)"
    and "\<And>poolID rid r. E (RunnerRemoved poolID rid r)" and "\<And>req r. E (WorkerStarted req r)"
  shows "emits E (runStarts rn lv starts identities pools)"
  unfolding runStarts_def by (intro emits_rules assms)

section \<open>Watchers and polls\<close>

lemma emits_watchSafetyTick [emits_rules]: "tolerates E \<Longrightarrow> emits E (watchSafetyTick rn desired pwr forcedZero)"
  unfolding watchSafetyTick_def by (intro emits_rules) auto

lemma emits_watchDone [emits_rules]: "tolerates E \<Longrightarrow> emits E (watchDone env)"
  unfolding watchDone_def by (intro emits_rules) auto

lemma emits_savedResult [emits_rules]: "tolerates E \<Longrightarrow> emits E (savedResult env err result)"
  unfolding savedResult_def by (intro emits_rules) auto

lemma emits_logSources [emits_rules]: "tolerates E \<Longrightarrow> emits E (logSources now sources)"
  unfolding logSources_def by (induction sources) (auto intro!: emits_rules)

lemma emits_cadenceHeartbeat [emits_rules]:
  "tolerates E \<Longrightarrow> emits E (cadenceHeartbeat rn st result now failed sources)"
  unfolding cadenceHeartbeat_def by (intro emits_rules) auto

lemma emits_cadenceObserved [emits_rules]:
  "tolerates E \<Longrightarrow> emits E (cadenceObserved rn st result now pwr resources workers)"
  unfolding cadenceObserved_def by (intro emits_rules emits_modifyState) auto

lemma emits_listEnriched [emits_rules]: "tolerates E \<Longrightarrow> emits E (listEnriched env)"
  unfolding listEnriched_def by (intro emits_rules) auto

lemma emits_cadenceTick [emits_rules]: "tolerates E \<Longrightarrow> emits E (cadenceTick rn st result)"
  unfolding cadenceTick_def by (intro emits_rules) auto

lemma emits_watchTicks [emits_rules]: "tolerates E \<Longrightarrow> emits E (watchTicks rn n st result)"
  by (induction n arbitrary: st result) (auto intro!: emits_rules)

lemma emits_watchPollCadence [emits_rules]: "tolerates E \<Longrightarrow> emits E (watchPollCadence rn st err)"
  unfolding watchPollCadence_def by (intro emits_rules) auto

lemma emits_pollPools [emits_rules]:
  assumes "tolerates E" and "\<And>i prior r. E (Ensured i prior r)"
    and "\<And>pool identity r. pool \<in> set pools \<Longrightarrow> E (Polled identity (geti advertised (psTargetID pool)) r)"
  shows "emits E (pollPools rn advertised index pools)"
  using assms(3) by (induction pools arbitrary: index) (auto simp: assms(1,2) Let_def intro!: emits_rules)

lemma emits_processPoll [emits_rules]: "tolerates E \<Longrightarrow> emits E (processPoll previousPools ak r)"
  unfolding processPoll_def rememberAfterPoll_def by (intro emits_rules) auto

lemma emits_processPolls [emits_rules]: "tolerates E \<Longrightarrow> emits E (processPolls previousPools ak rs)"
  by (induction rs arbitrary: ak) (auto intro!: emits_rules)

section \<open>Registration checks\<close>

lemma emits_checkRegistration [emits_rules]: "tolerates E \<Longrightarrow> emits E (checkRegistration rn workers index)"
  unfolding checkRegistration_def by (intro emits_rules) auto

lemma emits_checkRegistrations [emits_rules]:
  "tolerates E \<Longrightarrow> emits E (checkRegistrations rn limit indexes checked workers)"
  by (induction indexes arbitrary: checked workers) (auto intro!: emits_rules)

lemma emits_verifyRegistrations [emits_rules]: "tolerates E \<Longrightarrow> emits E (verifyRegistrations rn pools workers)"
  unfolding verifyRegistrations_def by (intro emits_rules emits_modifyState) auto

section \<open>Retirement and shutdown\<close>

lemma emits_removals [emits_rules]:
  assumes "tolerates E" and "\<And>r. E (RemovedIfIdle (wID w) r)"
  shows "emits E (removeUnregistered rn w)" and "emits E (removeQuiesced rn w)"
  using assms unfolding removeUnregistered_def removeQuiesced_def removeIfIdle_def by (auto intro!: emits_rules)

lemma emits_defer [emits_rules]:
  "tolerates E \<Longrightarrow> emits E (deferRecording code w retryable st)"
  "tolerates E \<Longrightarrow> emits E (deferNoting code w st)"
  unfolding deferRecording_def deferNoting_def by (auto intro!: emits_rules)

lemma emits_retireWorker [emits_rules]:
  assumes "tolerates E" and "\<And>r. E (RemovedIfIdle (wID w) r)"
    and "\<And>r. E (RunnerRemoved (wPoolID w) (wRunnerID w) r)"
  shows "emits E (retireWorker rn known advertised ak st w)"
  using assms unfolding retireWorker_def deregisterAndRemove_def by (intro emits_rules) auto

lemma emits_retireLoop [emits_rules]:
  assumes "tolerates E" and "\<And>wid r. E (RemovedIfIdle wid r)" and "\<And>poolID rid r. E (RunnerRemoved poolID rid r)"
  shows "emits E (retireLoop rn known advertised ak ws st)"
  by (induction ws arbitrary: st) (auto intro!: emits_rules assms)

lemma emits_retireWorkers [emits_rules]:
  assumes "tolerates E" and "\<And>wid r. E (RemovedIfIdle wid r)" and "\<And>poolID rid r. E (RunnerRemoved poolID rid r)"
  shows "emits E (retireWorkers rn known advertised ak removals stale)"
  unfolding retireWorkers_def by (intro emits_rules emits_modifyState assms) simp

lemma emits_stopHost [emits_rules]:
  assumes "tolerates E" and "\<And>r. stopDesktop \<Longrightarrow> E (DesktopStopped r)" and "\<And>r. shutdownWSL \<Longrightarrow> E (WSLShutDown r)"
  shows "emits E (stopHost rn stopDesktop shutdownWSL)"
  using assms unfolding stopHost_def by (intro emits_rules) auto

lemma emits_gamingShutdown [emits_rules]:
  assumes "tolerates E" and "\<And>r. stopDesktop \<Longrightarrow> E (DesktopStopped r)" and "\<And>r. shutdownWSL \<Longrightarrow> E (WSLShutDown r)"
  shows "emits E (gamingShutdown rn ak desktop known stopDesktop shutdownWSL)"
  using assms unfolding gamingShutdown_def by (intro emits_rules) auto

section \<open>Phases of the step\<close>

lemma emits_loadState [emits_rules]: "tolerates E \<Longrightarrow> (\<And>r. E (ObservedLoaded r)) \<Longrightarrow> emits E (loadState rn)"
  unfolding loadState_def loadIntent_def loadPrevious_def by (intro emits_rules emits_modifyState) auto

lemma emits_recordLoads [emits_rules]: "tolerates E \<Longrightarrow> emits E (recordLoads lv)"
  unfolding recordLoads_def by (intro emits_rules) auto

lemma emits_observe [emits_rules]:
  assumes "tolerates E"
  shows "emits E (observePresence rn lv)" and "emits E (observePower rn lv)" and "emits E (watcherForcedZero rn lv)"
    and "emits E (observeDesktop rn lv)" and "emits E (observeResources rn lv)" and "emits E (observeInventory rn lv)"
    and "emits E (observeJobs rn lv)"
  using assms unfolding observePresence_def observePower_def watcherForcedZero_def observeDesktop_def
    observeResources_def observeInventory_def observeJobs_def
  by (auto intro!: emits_rules emits_modifyState)

lemma emits_startDesktopIf [emits_rules]:
  "tolerates E \<Longrightarrow> (\<And>r. wanted \<Longrightarrow> E (DesktopStarted r)) \<Longrightarrow> emits E (startDesktopIf rn wanted)"
  unfolding startDesktopIf_def startDesktop_def by (intro emits_rules) auto

lemma emits_bootstrapDesktop [emits_rules]:
  "tolerates E \<Longrightarrow> (\<And>r. dsMode (lvDesired lv) = ModeEnabled \<Longrightarrow> E (DesktopStarted r)) \<Longrightarrow> emits E (bootstrapDesktop rn lv)"
  unfolding bootstrapDesktop_def verifyDesktopStart_def startDesktop_def by (intro emits_rules) auto

lemma emits_ensureTargets [emits_rules]:
  "tolerates E \<Longrightarrow> (\<And>i prior r. E (Ensured i prior r)) \<Longrightarrow> emits E (ensureTargets rn reregister ts acc)"
  by (induction ts arbitrary: acc) (auto simp: ensureTarget_def intro!: emits_rules)

lemma emits_ensureListeners [emits_rules]:
  "tolerates E \<Longrightarrow> (\<And>i prior r. E (Ensured i prior r)) \<Longrightarrow> emits E (ensureListeners rn lv)"
  unfolding ensureListeners_def by (intro emits_rules) auto

lemma emits_planWith [emits_rules]: "emits E (planWith rn lv hysteresis pools)"
  unfolding planWith_def by (intro emits_rules)

lemma emits_alignedPlan [emits_rules]: "emits E (alignedPlan rn lv ak)"
  unfolding alignedPlan_def by (intro emits_rules)

lemma emits_refreshWorkers [emits_rules]: "tolerates E \<Longrightarrow> emits E (refreshWorkers rn listCode jobsCode lv)"
  unfolding refreshWorkers_def by (intro emits_rules) auto

lemma emits_cadenceForcedZero [emits_rules]: "tolerates E \<Longrightarrow> emits E (cadenceForcedZero rn lv)"
  unfolding cadenceForcedZero_def by (intro emits_rules) auto

lemma emits_pollListeners [emits_rules]:
  assumes "tolerates E" and "\<And>i prior r. E (Ensured i prior r)"
    and "\<And>pool identity r. pool \<in> set (lvPools lv) \<Longrightarrow>
      E (Polled identity (geti (plAdvertisedCapacity plan) (psTargetID pool)) r)"
  shows "emits E (pollListeners rn lv plan)"
  using assms unfolding pollListeners_def by (intro emits_rules) auto

lemma emits_canceledExit [emits_rules]: "tolerates E \<Longrightarrow> emits E (canceledExit rn lv plan ak stale cause)"
  unfolding canceledExit_def by (intro emits_rules emits_modifyState) auto

lemma emits_noteClamped [emits_rules]: "tolerates E \<Longrightarrow> emits E (noteClamped plan targets)"
  unfolding noteClamped_def by (induction targets) (auto intro!: emits_rules)

lemma emits_reportStep [emits_rules]: "tolerates E \<Longrightarrow> emits E (reportStep rn lv cadencePools ak polled stale)"
  unfolding reportStep_def by (intro emits_rules emits_modifyState) auto

lemma emits_finishStep [emits_rules]: "tolerates E \<Longrightarrow> emits E (finishStep rn lv cadencePools ak polled stale)"
  unfolding finishStep_def finalDesktop_def finalWorkers_def by (intro emits_rules) auto

end
