(* ===== verification/Step_Knowledge.thy ===== *)
theory Step_Knowledge
  imports Step_Frames Plan_Theorems
begin

text \<open>
  What a step knows when it retires workers. The events of the current step are those after the
  last loading of the observed state. Each phase is shown to leave its local variables backed by
  events of the step: a worker was listed, a pool's identity was ensured, a confirmation of zero
  capacity was polled.
\<close>

section \<open>The events of the current step\<close>

definition isLoad :: "event \<Rightarrow> bool" where
  "isLoad e = (case e of ObservedLoaded _ \<Rightarrow> True | _ \<Rightarrow> False)"

definition thisStep :: "history \<Rightarrow> history" where
  "thisStep h = takeWhile (\<lambda>e. \<not> isLoad e) h"

text \<open>The observed state the step started from, which is the zero state if none could be loaded.\<close>

definition loadedState :: "history \<Rightarrow> ObservedState" where
  "loadedState h = (case dropWhile (\<lambda>e. \<not> isLoad e) h of
     ObservedLoaded (Inr observed) # _ \<Rightarrow> observed | _ \<Rightarrow> zeroObservedState)"

definition later :: "history \<Rightarrow> history \<Rightarrow> bool" where
  "later h h' \<longleftrightarrow> (\<exists>new. h' = new @ h \<and> (\<forall>e\<in>set new. \<not> isLoad e))"

lemma later_refl [simp]: "later h h"
  by (simp add: later_def)

lemma later_trans [trans]: "later h h' \<Longrightarrow> later h' h'' \<Longrightarrow> later h h''"
  unfolding later_def by fastforce

lemma later_Cons [simp]: "\<not> isLoad e \<Longrightarrow> later h (e # h)"
  unfolding later_def by (rule exI [of _ "[e]"]) simp

lemma thisStep_later: "later h h' \<Longrightarrow> e \<in> set (thisStep h) \<Longrightarrow> e \<in> set (thisStep h')"
  by (auto simp: later_def thisStep_def takeWhile_append2)

lemma loadedState_later: "later h h' \<Longrightarrow> loadedState h' = loadedState h"
  by (auto simp: later_def loadedState_def dropWhile_append2)

lemma isLoad_simps [simp]: "\<not> isLoad e" if "harmless e"
  using that by (auto simp: isLoad_def harmless_def split: event.splits)

lemma isLoad_acts [simp]:
  "\<not> isLoad (DesktopStarted r)" "\<not> isLoad (DesktopStopped r)" "\<not> isLoad (WSLShutDown r)"
  "\<not> isLoad (Ensured i prior ident)" "\<not> isLoad (Polled ident' capacity stats)"
  "\<not> isLoad (JITCreated ident' name jit)" "\<not> isLoad (RunnerRemoved poolID rid r)"
  "\<not> isLoad (WorkerStarted req w)" "\<not> isLoad (RemovedIfIdle wid removed)"
  by (simp_all add: isLoad_def)

lemma tolerates_later: "tolerates (\<lambda>e. \<not> isLoad e)"
  by (simp add: tolerates_def)

lemma wp_later: "emits (\<lambda>e. \<not> isLoad e) m \<Longrightarrow> wp m (\<lambda>_ s'. later (rxHistory s) (rxHistory s')) s"
  by (rule wp_mono [OF wp_emits]) (auto simp: later_def)

text \<open>What is known of a history stays known while the step goes on.\<close>

definition durable :: "(history \<Rightarrow> bool) \<Rightarrow> bool" where
  "durable K \<longleftrightarrow> (\<forall>h h'. later h h' \<longrightarrow> K h \<longrightarrow> K h')"

lemma wp_durable:
  assumes "emits (\<lambda>e. \<not> isLoad e) m" and "durable K" and "K (rxHistory s)"
  shows "wp m (\<lambda>_ s'. K (rxHistory s')) s"
  using assms(2,3) by (auto simp: durable_def intro: wp_mono [OF wp_later [OF assms(1)]])

section \<open>Facts the local variables stand for\<close>

definition listedWorker :: "history \<Rightarrow> Worker \<Rightarrow> bool" where
  "listedWorker h w \<longleftrightarrow> (\<exists>ws w0. WorkersListed (Inr ws) \<in> set (thisStep h) \<and> w0 \<in> set ws \<and>
     wID w = wID w0 \<and> wPoolID w = wPoolID w0 \<and> wRunnerID w = wRunnerID w0 \<and>
     (wState w = WorkerBusy \<or> w = w0 \<or>
      wState w0 = WorkerIdle \<and> wState w = WorkerUnregistered \<and>
      RegistrationChecked (wPoolID w) (wRunnerID w) (wName w) (Inr False) \<in> set (thisStep h)))"

definition ensuredPool :: "history \<Rightarrow> string \<Rightarrow> Identity \<Rightarrow> bool" where
  "ensuredPool h poolID identity \<longleftrightarrow> (\<exists>prior. Ensured poolID prior (Inr identity) \<in> set (thisStep h))"

text \<open>
  Two confirmations of zero capacity: the step's own poll of the pool's listener reports no
  assigned job at capacity zero, and so did the state the step started from.
\<close>

definition polledAt :: "Identity \<Rightarrow> int \<Rightarrow> Statistics \<Rightarrow> history \<Rightarrow> bool" where
  "polledAt identity capacity stats h \<longleftrightarrow> Polled identity capacity (Inr stats) \<in> set (thisStep h)"

definition zeroPolled :: "history \<Rightarrow> string \<Rightarrow> bool" where
  "zeroPolled h poolID \<longleftrightarrow>
     (\<exists>identity. ensuredPool h poolID identity \<and> polledAt identity 0 \<lparr>statTotalAssignedJobs = 0\<rparr> h)"

definition zeroBefore :: "PoolObservation \<Rightarrow> bool" where
  "zeroBefore prior \<longleftrightarrow> poCapacityAcknowledged prior \<and> poMaxCapacity prior = 0 \<and>
     poTotalAssignedJobs prior = 0 \<and> 0 < poZeroCapacityConfirmations prior"

definition zeroConfirmed :: "history \<Rightarrow> string \<Rightarrow> bool" where
  "zeroConfirmed h poolID \<longleftrightarrow> zeroPolled h poolID \<and>
     zeroBefore (gget zeroPoolObservation (previousPoolsByID (loadedState h)) poolID)"

text \<open>A known desktop status was read in this step.\<close>

definition desktopSeen :: "DesktopStatus \<Rightarrow> bool \<Rightarrow> history \<Rightarrow> bool" where
  "desktopSeen desktop known h \<longleftrightarrow> (known \<longrightarrow> DesktopRead (Inr desktop) \<in> set (thisStep h))"

lemma listedWorkerI:
  assumes "WorkersListed (Inr ws) \<in> set (thisStep h)" and "w0 \<in> set ws"
    and "wID w = wID w0" and "wPoolID w = wPoolID w0" and "wRunnerID w = wRunnerID w0"
    and "wState w = WorkerBusy \<or> w = w0 \<or>
      wState w0 = WorkerIdle \<and> wState w = WorkerUnregistered \<and>
      RegistrationChecked (wPoolID w) (wRunnerID w) (wName w) (Inr False) \<in> set (thisStep h)"
  shows "listedWorker h w"
  unfolding listedWorker_def using assms by blast

lemma durable_listed: "durable (\<lambda>h. listedWorker h w)"
  unfolding durable_def
proof (intro allI impI)
  fix h h' assume later: "later h h'" and "listedWorker h w"
  then obtain ws w0 where "WorkersListed (Inr ws) \<in> set (thisStep h)" "w0 \<in> set ws"
    "wID w = wID w0" "wPoolID w = wPoolID w0" "wRunnerID w = wRunnerID w0"
    "wState w = WorkerBusy \<or> w = w0 \<or>
      wState w0 = WorkerIdle \<and> wState w = WorkerUnregistered \<and>
      RegistrationChecked (wPoolID w) (wRunnerID w) (wName w) (Inr False) \<in> set (thisStep h)"
    unfolding listedWorker_def by blast
  then show "listedWorker h' w"
    using thisStep_later [OF later] by (intro listedWorkerI [of ws h' w0 w]) blast+
qed

lemma durable_ensured: "durable (\<lambda>h. ensuredPool h poolID identity)"
  unfolding durable_def ensuredPool_def by (meson thisStep_later)

lemma durable_polledAt: "durable (polledAt identity capacity stats)"
  unfolding durable_def polledAt_def by (meson thisStep_later)

lemma durable_zeroPolled: "durable (\<lambda>h. zeroPolled h poolID)"
  using durable_ensured durable_polledAt unfolding durable_def zeroPolled_def by blast

lemma durable_confirmed: "durable (\<lambda>h. zeroConfirmed h poolID)"
  using durable_zeroPolled unfolding durable_def zeroConfirmed_def by (simp add: loadedState_later)

lemma durable_desktopSeen: "durable (desktopSeen desktop known)"
  unfolding durable_def desktopSeen_def by (meson thisStep_later)

lemma durable_all: "(\<And>x. durable (K x)) \<Longrightarrow> durable (\<lambda>h. \<forall>x\<in>A. K x h)"
  unfolding durable_def by blast

lemma durable_imp: "(\<And>x. durable (K x)) \<Longrightarrow> durable (\<lambda>h. \<forall>x. C x \<longrightarrow> K x h)"
  unfolding durable_def by blast

lemma durable_conj: "durable K \<Longrightarrow> durable L \<Longrightarrow> durable (\<lambda>h. K h \<and> L h)"
  unfolding durable_def by blast

lemma durable_const: "durable (\<lambda>h. C)"
  unfolding durable_def by blast

lemma durable_loaded: "durable (\<lambda>h. loadedState h = observed)"
  unfolding durable_def by (simp add: loadedState_later)

lemmas durable_rules = durable_listed durable_ensured durable_confirmed durable_all durable_imp durable_conj
  durable_const durable_loaded

definition workersListed :: "Worker list \<Rightarrow> history \<Rightarrow> bool" where
  "workersListed ws h \<longleftrightarrow> (\<forall>w\<in>set ws. listedWorker h w)"

lemma durable_workersListed: "durable (workersListed ws)"
  unfolding workersListed_def by (intro durable_rules)

lemma enrichWith_listed:
  assumes "WorkersListed (Inr ws) \<in> set (thisStep h)"
  shows "workersListed (enrichWith catalog ws) h"
  unfolding workersListed_def
proof
  fix w assume "w \<in> set (enrichWith catalog ws)"
  then obtain w0 where "w0 \<in> set ws" and w: "w = (case ActiveJob catalog (wPoolID w0) (wName w0) of (jobID, found) \<Rightarrow>
      if found then w0\<lparr>wJobID := jobID, wState := WorkerBusy\<rparr> else w0)"
    by (auto simp: enrichWith_def)
  moreover from w have "w = w0 \<or> (\<exists>jobID. w = w0\<lparr>wJobID := jobID, wState := WorkerBusy\<rparr>)"
    by (auto split: prod.splits if_splits)
  ultimately show "listedWorker h w"
    using assms by (intro listedWorkerI [of ws h w0 w]) auto
qed

text \<open>Listing the workers and their jobs: the enriched workers were listed in this step.\<close>

lemma wp_enrich_listed:
  assumes "WorkersListed (Inr ws) \<in> set (thisStep (rxHistory s))"
  shows "wp (enrichWorkerJobs env ws) (\<lambda>r s'. \<forall>enriched. r = Inr enriched \<longrightarrow> workersListed enriched (rxHistory s')) s"
proof -
  have "workersListed (enrichWith catalog ws) (JobsLoaded r # rxHistory s)" for catalog r
    using assms by (intro enrichWith_listed) (simp add: thisStep_def)
  then show ?thesis
    by (auto simp: enrichWorkerJobs_def workersListed_def split: sum.split)
qed

lemma rawListed:
  assumes "ws = [] \<or> WorkersListed (Inr ws) \<in> set (thisStep h)"
  shows "workersListed ws h"
  using assms unfolding workersListed_def listedWorker_def by auto

text \<open>
  The form of every fact about a phase: the phase only adds events to the step, what was known
  stays known, and its result satisfies \<open>V\<close> in the new history.
\<close>

definition phase :: "'a action \<Rightarrow> ('a \<Rightarrow> history \<Rightarrow> bool) \<Rightarrow> rstate \<Rightarrow> bool" where
  "phase m V s \<longleftrightarrow> wp m (\<lambda>a s'. later (rxHistory s) (rxHistory s') \<and> V a (rxHistory s')) s"

lemma phaseI:
  assumes "emits (\<lambda>e. \<not> isLoad e) m" and "wp m (\<lambda>a s'. V a (rxHistory s')) s"
  shows "phase m V s"
  unfolding phase_def by (rule wp_conj [OF wp_later [OF assms(1)] assms(2)])

lemma phase_bind:
  assumes "phase m R s" and "\<And>a s'. later (rxHistory s) (rxHistory s') \<Longrightarrow> R a (rxHistory s') \<Longrightarrow> phase (f a) V s'"
  shows "phase (State_Monad.bind m f) V s"
  using assms(1) unfolding phase_def wp_bind
  by (rule wp_mono) (auto intro: later_trans wp_mono [OF assms(2) [unfolded phase_def]])

lemma phase_bind_keep:
  assumes "durable K" and "K (rxHistory s)" and "phase m R s"
    and "\<And>a s'. K (rxHistory s') \<Longrightarrow> R a (rxHistory s') \<Longrightarrow> phase (f a) V s'"
  shows "phase (State_Monad.bind m f) V s"
  using assms(1,2,4) by (intro phase_bind [OF assms(3)]) (auto simp: durable_def)

lemma phase_mono: "phase m R s \<Longrightarrow> (\<And>a h. later (rxHistory s) h \<Longrightarrow> R a h \<Longrightarrow> V a h) \<Longrightarrow> phase m V s"
  unfolding phase_def by (erule wp_mono) auto

lemma phase_return [simp]: "phase (State_Monad.return x) V s \<longleftrightarrow> V x (rxHistory s)"
  by (simp add: phase_def)

lemma phase_frame:
  assumes "emits (\<lambda>e. \<not> isLoad e) m"
  shows "phase m (\<lambda>_ h. True) s"
  using assms by (simp add: phaseI)

lemma phase_readState [simp]: "phase (State_Monad.bind (readState f) g) V s \<longleftrightarrow> phase (g (f s)) V s"
  by (simp add: phase_def)

text \<open>Recording a problem before a result is returned.\<close>

lemma phase_then:
  assumes "emits (\<lambda>e. \<not> isLoad e) m" and "\<And>h. later (rxHistory s) h \<Longrightarrow> V x h"
  shows "phase (do { m; State_Monad.return x }) V s"
  using assms(2) by (auto intro!: phase_bind [OF phase_frame [OF assms(1)]])

text \<open>A fact about the result alone.\<close>

lemma phase_value:
  assumes "emits (\<lambda>e. \<not> isLoad e) m" and "wp m (\<lambda>a _. V a) s"
  shows "phase m (\<lambda>a _. V a) s"
  using assms by (rule phaseI)

section \<open>Retried calls\<close>

lemma phase_retryLoop:
  assumes ctx: "emits (\<lambda>e. \<not> isLoad e) (rcCtxErr ctx)" "\<And>d. emits (\<lambda>e. \<not> isLoad e) (rcTimer ctx d)"
      "emits (\<lambda>e. \<not> isLoad e) (rcDraw ctx)"
    and op: "\<And>s. phase op (\<lambda>r h. \<forall>v. r = Inr v \<longrightarrow> F v h) s"
  shows "phase (retryLoop ctx p retryable op left attempt) (\<lambda>r h. \<forall>v. r = Inr v \<longrightarrow> F v h) s"
proof (induction left arbitrary: attempt s)
  case (Suc left)
  have sleep: "emits (\<lambda>e. \<not> isLoad e) (clockSleep (rcCtxErr ctx) (rcTimer ctx) d)" for d
    using ctx by (simp add: clockSleep_def)
  show ?case
    unfolding retryLoop.simps
    by (rule phase_bind [OF phase_frame [OF ctx(1)]])
      (auto intro!: phase_bind [OF op] phase_bind [OF phase_frame [OF ctx(3)]] phase_bind [OF phase_frame [OF sleep]]
        Suc.IH split: option.split sum.split)
qed simp

lemma phase_retried:
  assumes "\<And>s. phase op (\<lambda>r h. \<forall>v. r = Inr v \<longrightarrow> F v h) s"
  shows "phase (RetryValue (stepRetry env) p retryable op) (\<lambda>r h. \<forall>v. r = Inr v \<longrightarrow> F v h) s"
  unfolding RetryValue_def
  by (auto split: option.split intro!: phase_retryLoop emits_stepRetry tolerates_later assms)

lemma phase_ensure: "phase (ensure rn t previous) (\<lambda>r h. \<forall>identity. r = Inr identity \<longrightarrow> ensuredPool h (tgID t) identity) s"
  unfolding ensure_def
  by (rule phase_retried) (auto simp: phase_def ensureCall_def ensuredPool_def thisStep_def)

lemma phase_pollRetried: "phase (pollRetried rn identity capacity) (\<lambda>r h. \<forall>stats. r = Inr stats \<longrightarrow> polledAt identity capacity stats h) s"
  unfolding pollRetried_def
  by (rule phase_retried) (auto simp: phase_def pollCall_def polledAt_def thisStep_def)

text \<open>A successful poll is one of the identity it returns, which was ensured for the target.\<close>

lemma phase_statistics:
  assumes "ensuredPool (rxHistory s) (tgID t) identity"
  shows "phase (statistics rn t identity capacity)
    (\<lambda>(r, identity') h. \<forall>stats. r = Inr stats \<longrightarrow> polledAt identity' capacity stats h \<and> ensuredPool h (tgID t) identity') s"
  unfolding statistics_def
proof (rule phase_bind [OF phase_pollRetried], goal_cases)
  case (1 r s1)
  have ensured: "ensuredPool (rxHistory s1) (tgID t) identity"
    using durable_ensured assms 1(1) by (auto simp: durable_def)
  show ?case
  proof (cases r)
    case (Inr stats)
    then show ?thesis using 1 ensured by simp
  next
    case (Inl err)
    have again: "phase (do { e \<leftarrow> ensure rn t None;
        case e of
          Inl ensureErr \<Rightarrow> State_Monad.return (Inl (ErrJoin [err, ensureErr]), identity)
        | Inr recreated \<Rightarrow> do {
            again \<leftarrow> pollRetried rn recreated capacity;
            State_Monad.return (again, recreated)
          } })
      (\<lambda>(r, identity') h. \<forall>stats. r = Inr stats \<longrightarrow> polledAt identity' capacity stats h \<and> ensuredPool h (tgID t) identity') s1"
    proof (rule phase_bind [OF phase_ensure], goal_cases)
      case (1 e s2)
      then show ?case
        using durable_ensured
        by (auto split: sum.split intro!: phase_bind [OF phase_pollRetried] simp: durable_def)
    qed
    then show ?thesis
      using Inl by simp
  qed
qed

section \<open>Loading and observing\<close>

lemma loadState_knows:
  "wp (loadState rn) (\<lambda>r s'. \<forall>lv. r = Inr lv \<longrightarrow>
     lvPrevious lv = loadedState (rxHistory s') \<and> lvWorkers lv = [] \<and> lvPools lv = []) s"
  unfolding loadState_def loadIntent_def loadPrevious_def
  by (auto simp: loadedState_def isLoad_def zeroLocals_def checkpointAgeAt_def Let_def
      split: sum.split option.split)

text \<open>The variables that observing the host leaves alone.\<close>

definition sameCore :: "Locals \<Rightarrow> Locals \<Rightarrow> bool" where
  "sameCore lv lv' \<longleftrightarrow> lvPrevious lv' = lvPrevious lv \<and> lvPools lv' = lvPools lv \<and>
     lvPreviousPools lv' = lvPreviousPools lv"

definition samePlace :: "Locals \<Rightarrow> Locals \<Rightarrow> bool" where
  "samePlace lv lv' \<longleftrightarrow> sameCore lv lv' \<and> lvDesktop lv' = lvDesktop lv \<and> lvDesktopKnown lv' = lvDesktopKnown lv"

lemmas same_defs = sameCore_def samePlace_def

lemma samePlace_refl [simp]: "samePlace lv lv"
  by (simp add: same_defs)

lemma observe_samePlace:
  "wp (observePower rn lv) (\<lambda>lv' _. samePlace lv lv' \<and> lvWorkers lv' = lvWorkers lv) s"
  "wp (observeResources rn lv) (\<lambda>lv' _. samePlace lv lv' \<and> lvWorkers lv' = lvWorkers lv) s"
  by (auto simp: observePower_def observeResources_def same_defs split: sum.split)

lemma wp_recordMessage [simp]:
  "wp (recordMessage code message poolID retryable err) Q = (\<lambda>s.
     let ps = rxProblems s @ [problem (rxNow s) (codeText code) message poolID retryable];
         h = Logged ((logEvent (rxNow s) (codeText code) message poolID)\<lparr>leCause := err\<rparr>) # rxHistory s
     in case err of
          None \<Rightarrow> Q () (s\<lparr>rxProblems := ps, rxHistory := h\<rparr>)
        | Some e \<Rightarrow> Q () (s\<lparr>rxProblems := ps, rxErrors := rxErrors s @ [e], rxHistory := h\<rparr>))"
  by (auto simp: recordMessage_def writeLog_def fun_eq_iff Let_def split: option.split)

lemma wp_recordProblem [simp]:
  "wp (recordProblem code poolID retryable err) = wp (recordMessage code (codeMessage code) poolID retryable err)"
  by (simp add: recordProblem_def)

definition desktopView :: "Locals \<Rightarrow> Locals \<Rightarrow> history \<Rightarrow> bool" where
  "desktopView lv lv' h \<longleftrightarrow> sameCore lv lv' \<and> lvWorkers lv' = lvWorkers lv \<and> desktopSeen (lvDesktop lv') (lvDesktopKnown lv') h"

lemma observeDesktop_knows: "phase (observeDesktop rn lv) (desktopView lv) s"
proof (rule phaseI)
  show "emits (\<lambda>e. \<not> isLoad e) (observeDesktop rn lv)"
    by (intro emits_rules tolerates_later)
  show "wp (observeDesktop rn lv) (\<lambda>lv' s'. desktopView lv lv' (rxHistory s')) s"
    by (auto simp: observeDesktop_def desktopView_def same_defs desktopSeen_def thisStep_def split: sum.split)
qed

lemma bootstrapDesktop_knows:
  assumes "desktopSeen (lvDesktop lv) (lvDesktopKnown lv) (rxHistory s)"
  shows "phase (bootstrapDesktop rn lv) (desktopView lv) s"
proof (rule phaseI)
  show "emits (\<lambda>e. \<not> isLoad e) (bootstrapDesktop rn lv)"
    by (intro emits_rules tolerates_later) simp
  show "wp (bootstrapDesktop rn lv) (\<lambda>lv' s'. desktopView lv lv' (rxHistory s')) s"
    using assms
    by (auto simp: bootstrapDesktop_def verifyDesktopStart_def startDesktop_def desktopView_def same_defs
        desktopSeen_def thisStep_def split: sum.split option.split)
qed

lemma observeInventory_knows:
  "phase (observeInventory rn lv) (\<lambda>lv' h. samePlace lv lv' \<and>
     (lvWorkers lv' = lvWorkers lv \<or> WorkersListed (Inr (lvWorkers lv')) \<in> set (thisStep h))) s"
proof (rule phaseI)
  show "emits (\<lambda>e. \<not> isLoad e) (observeInventory rn lv)"
    by (intro emits_rules tolerates_later)
  show "wp (observeInventory rn lv) (\<lambda>lv' s'. samePlace lv lv' \<and>
     (lvWorkers lv' = lvWorkers lv \<or> WorkersListed (Inr (lvWorkers lv')) \<in> set (thisStep (rxHistory s')))) s"
    by (auto simp: observeInventory_def thisStep_def same_defs split: sum.split)
qed

lemma phase_enrich:
  assumes "ws = [] \<or> WorkersListed (Inr ws) \<in> set (thisStep (rxHistory s))"
  shows "phase (enrichWorkerJobs env ws) (\<lambda>r h. \<forall>enriched. r = Inr enriched \<longrightarrow> workersListed enriched h) s"
proof (rule phaseI)
  show "emits (\<lambda>e. \<not> isLoad e) (enrichWorkerJobs env ws)"
    by (intro emits_rules tolerates_later)
  show "wp (enrichWorkerJobs env ws) (\<lambda>r s'. \<forall>enriched. r = Inr enriched \<longrightarrow> workersListed enriched (rxHistory s')) s"
  proof (cases "ws = []")
    case True
    then show ?thesis by (simp add: enrichWorkerJobs_def workersListed_def)
  next
    case False
    then show ?thesis using assms wp_enrich_listed by blast
  qed
qed

lemma observeJobs_knows:
  assumes "lvWorkers lv = [] \<or> WorkersListed (Inr (lvWorkers lv)) \<in> set (thisStep (rxHistory s))"
  shows "phase (observeJobs rn lv) (\<lambda>lv' h. samePlace lv lv' \<and> workersListed (lvWorkers lv') h) s"
proof -
  have raw: "workersListed (lvWorkers lv) h" if "later (rxHistory s) h" for h
    using that durable_workersListed rawListed [OF assms] unfolding durable_def by blast
  show ?thesis
    unfolding observeJobs_def
  proof (rule phase_bind [OF phase_enrich [OF assms]], goal_cases)
    case (1 r s1)
    have "phase (do { recordProblem JobIndexError [] True (Some err); State_Monad.return (jobStateLost lv) })
      (\<lambda>lv' h. samePlace lv lv' \<and> workersListed (lvWorkers lv') h) s1" for err
      using raw later_trans [OF 1(1)]
      by (intro phase_then) (auto intro!: emits_rules simp: jobStateLost_def same_defs)
    then show ?case
      using 1(2) by (auto simp: same_defs split: sum.split)
  qed
qed

text \<open>What a step knows of the host: its workers were listed and its desktop status was read.\<close>

definition hostKnown :: "Locals \<Rightarrow> history \<Rightarrow> bool" where
  "hostKnown lv h \<longleftrightarrow> workersListed (lvWorkers lv) h \<and> desktopSeen (lvDesktop lv) (lvDesktopKnown lv) h"

lemma durable_hostKnown: "durable (hostKnown lv)"
  using durable_workersListed durable_desktopSeen unfolding durable_def hostKnown_def by blast

lemma observeRest_knows:
  assumes "lvWorkers lv = []" and "desktopSeen (lvDesktop lv) (lvDesktopKnown lv) (rxHistory s)"
  shows "phase (do {
      probeEngineMemory rn (lvDesktopKnown lv) (lvDesktop lv);
      lv \<leftarrow> observeResources rn lv;
      lv \<leftarrow> observeInventory rn lv;
      observeJobs rn (invalidateResources lv)
    }) (\<lambda>lv' h. sameCore lv lv' \<and> hostKnown lv' h) s"
proof -
  let ?K = "desktopSeen (lvDesktop lv) (lvDesktopKnown lv)"
  have frame: "emits (\<lambda>e. \<not> isLoad e) (probeEngineMemory rn (lvDesktopKnown lv) (lvDesktop lv))"
      "emits (\<lambda>e. \<not> isLoad e) (observeResources rn lv')" for lv'
    by (intro emits_rules tolerates_later)+
  have invalidated: "samePlace lv' (invalidateResources lv') \<and> lvWorkers (invalidateResources lv') = lvWorkers lv'" for lv'
    by (simp add: invalidateResources_def same_defs)
  have jobs: "phase (observeJobs rn (invalidateResources lv')) (\<lambda>lv'' h. sameCore lv lv'' \<and> hostKnown lv'' h) s'"
    if "?K (rxHistory s')" "samePlace lv lv'" "lvWorkers lv' = [] \<or> WorkersListed (Inr (lvWorkers lv')) \<in> set (thisStep (rxHistory s'))"
    for lv' and s' :: rstate
  proof (rule phase_mono [OF phaseI])
    show "emits (\<lambda>e. \<not> isLoad e) (observeJobs rn (invalidateResources lv'))"
      by (intro emits_rules tolerates_later)
    show "wp (observeJobs rn (invalidateResources lv'))
        (\<lambda>lv'' s''. samePlace (invalidateResources lv') lv'' \<and> workersListed (lvWorkers lv'') (rxHistory s'')) s'"
      using observeJobs_knows [of "invalidateResources lv'" s' rn] that(3) invalidated [of lv']
      by (auto simp: phase_def elim: wp_mono)
    fix lv'' h
    assume "later (rxHistory s') h" and "samePlace (invalidateResources lv') lv'' \<and> workersListed (lvWorkers lv'') h"
    then show "sameCore lv lv'' \<and> hostKnown lv'' h"
      using that(1,2) invalidated [of lv'] durable_desktopSeen unfolding durable_def by (auto simp: same_defs hostKnown_def)
  qed
  show ?thesis
    using assms(1)
    by (intro phase_bind_keep [OF durable_desktopSeen assms(2) phase_frame [OF frame(1)]]
        phase_bind_keep [OF durable_desktopSeen _ phase_value [OF frame(2) observe_samePlace(2)]]
        phase_bind_keep [OF durable_desktopSeen _ observeInventory_knows] jobs)
      (auto simp: same_defs)
qed

lemma emits_observeHost [emits_rules]:
  "tolerates E \<Longrightarrow> (\<And>r. E (DesktopStarted r)) \<Longrightarrow> emits E (observeHost rn lv)"
  unfolding observeHost_def by (intro emits_rules) auto

lemma observeHost_knows:
  assumes "lvWorkers lv = []"
  shows "phase (observeHost rn lv) (\<lambda>lv' h. sameCore lv lv' \<and> hostKnown lv' h) s"
  unfolding observeHost_def
  apply (rule phase_bind [OF phase_frame], intro emits_rules tolerates_later)
  apply (rule phase_bind [OF phase_value [OF _ observe_samePlace(1)]], intro emits_rules tolerates_later)
  apply (rule phase_bind [OF phase_frame], intro emits_rules tolerates_later)
  apply (rule phase_bind [OF observeDesktop_knows])
  apply (rule phase_bind [OF bootstrapDesktop_knows], simp add: desktopView_def)
  apply (rule phase_mono [OF observeRest_knows])
  using assms by (simp_all add: same_defs desktopView_def)

section \<open>Listeners\<close>

definition poolsEnsured :: "PoolSnapshot list \<Rightarrow> history \<Rightarrow> bool" where
  "poolsEnsured pools h \<longleftrightarrow> (\<forall>p\<in>set pools. psReady p \<longrightarrow> ensuredPool h (psTargetID p) (psIdentity p))"

lemma durable_poolsEnsured: "durable (poolsEnsured pools)"
  unfolding durable_def poolsEnsured_def using durable_ensured unfolding durable_def by blast

definition sameWorkers :: "Locals \<Rightarrow> Locals \<Rightarrow> bool" where
  "sameWorkers lv lv' \<longleftrightarrow> lvPrevious lv' = lvPrevious lv \<and> lvWorkers lv' = lvWorkers lv \<and>
     lvPreviousPools lv' = lvPreviousPools lv \<and> lvDesktop lv' = lvDesktop lv \<and> lvDesktopKnown lv' = lvDesktopKnown lv"

lemma ensureTarget_knows:
  assumes "poolsEnsured (lvPools (fst acc)) (rxHistory s)"
  shows "phase (ensureTarget rn reregister acc t) (\<lambda>acc' h. sameWorkers (fst acc) (fst acc') \<and>
    poolsEnsured (lvPools (fst acc')) h) s"
proof -
  obtain lv failed where acc: "acc = (lv, failed)" by (cases acc)
  have keep: "poolsEnsured (lvPools lv) h" if "later (rxHistory s) h" for h
    using durable_poolsEnsured assms that acc by (auto simp: durable_def)
  show ?thesis
    unfolding ensureTarget_def acc prod.case Let_def fst_conv
  proof (rule phase_bind [OF phase_ensure], goal_cases)
    case (1 r s1)
    have "phase (do {
      recordScaleSet ScaleSetEnsureError (tgID t) err;
      State_Monad.return
        (lv\<lparr>lvPools := lvPools lv @ [zeroPoolSnapshot\<lparr>psTargetID := tgID t\<rparr>]\<rparr>, failed \<or> reregister)
    }) (\<lambda>acc' h. sameWorkers lv (fst acc') \<and> poolsEnsured (lvPools (fst acc')) h) s1" for err
      using keep later_trans [OF 1(1)]
      by (intro phase_then) (auto intro!: emits_rules simp: sameWorkers_def poolsEnsured_def zeroPoolSnapshot_def)
    moreover have "poolsEnsured (lvPools lv @ [readyPool prior remembered (tgID t) identity]) (rxHistory s1)"
      if "r = Inr identity" for prior remembered identity
      using keep [OF 1(1)] 1(2) that by (simp add: poolsEnsured_def readyPool_def Let_def)
    ultimately show ?case
      by (auto simp: sameWorkers_def split: sum.split)
  qed
qed

lemma ensureTargets_knows:
  assumes "poolsEnsured (lvPools (fst acc)) (rxHistory s)"
  shows "phase (ensureTargets rn reregister ts acc) (\<lambda>acc' h. sameWorkers (fst acc) (fst acc') \<and>
    poolsEnsured (lvPools (fst acc')) h) s"
  using assms
proof (induction ts arbitrary: acc s)
  case (Cons t ts)
  show ?case
    unfolding ensureTargets.simps
    by (rule phase_bind [OF ensureTarget_knows [OF Cons.prems]], rule phase_mono [OF Cons.IH])
      (auto simp: sameWorkers_def)
qed (simp add: sameWorkers_def)

lemma ensureListeners_knows:
  assumes "lvPools lv = []"
  shows "phase (ensureListeners rn lv) (\<lambda>lv' h. lvPrevious lv' = lvPrevious lv \<and> lvWorkers lv' = lvWorkers lv \<and>
    lvDesktop lv' = lvDesktop lv \<and> lvDesktopKnown lv' = lvDesktopKnown lv \<and>
    lvPreviousPools lv' = previousPoolsByID (lvPrevious lv) \<and> poolsEnsured (lvPools lv') h) s"
proof -
  let ?acc = "(lv\<lparr>lvPreviousPools := previousPoolsByID (lvPrevious lv)\<rparr>, False)"
  have start: "poolsEnsured (lvPools (fst ?acc)) (rxHistory s')" for s' :: rstate
    using assms by (simp add: poolsEnsured_def)
  show ?thesis
    unfolding ensureListeners_def phase_readState
  proof (rule phase_bind [OF phase_frame], goal_cases)
    case 1
    show ?case by (intro emits_rules) simp
  next
    case (2 a s1)
    show ?case
    proof (rule phase_bind [OF ensureTargets_knows [OF start]], goal_cases)
      case (1 acc s2)
      then show ?case
        using durable_poolsEnsured unfolding durable_def
        by (auto simp: sameWorkers_def intro!: phase_then emits_rules split: prod.split)
    qed
  qed
qed

section \<open>Before the polls\<close>

lemma refreshWorkers_knows:
  assumes "hostKnown lv (rxHistory s)"
  shows "phase (refreshWorkers rn listCode jobsCode lv) (\<lambda>r h. samePlace lv (fst r) \<and> hostKnown (fst r) h) s"
proof -
  have keep: "hostKnown lv h" if "later (rxHistory s) h" for h
    using durable_hostKnown assms that unfolding durable_def by blast
  have lost: "phase (do { recordProblem code [] True (Some err); State_Monad.return (jobStateLost lv, False) })
      (\<lambda>r h. samePlace lv (fst r) \<and> hostKnown (fst r) h) s1"
    if "later (rxHistory s) (rxHistory s1)" for code err and s1 :: rstate
    using keep later_trans [OF that]
    by (intro phase_then) (auto intro!: emits_rules simp: same_defs jobStateLost_def hostKnown_def)
  have listed: "phase (listWorkers (rnEnv rn))
      (\<lambda>r h. \<forall>ws. r = Inr ws \<longrightarrow> WorkersListed (Inr ws) \<in> set (thisStep h)) s"
    by (rule phaseI) (auto intro!: emits_rules tolerates_later simp: thisStep_def)
  have found: "phase (do {
      e \<leftarrow> enrichWorkerJobs (rnEnv rn) ws;
      case e of
        Inl err \<Rightarrow> do { recordProblem jobsCode [] True (Some err); State_Monad.return (jobStateLost lv, False) }
      | Inr enriched \<Rightarrow> State_Monad.return (lv\<lparr>lvWorkers := enriched\<rparr>, True)
    }) (\<lambda>r h. samePlace lv (fst r) \<and> hostKnown (fst r) h) s1"
    if "later (rxHistory s) (rxHistory s1)" and "WorkersListed (Inr ws) \<in> set (thisStep (rxHistory s1))"
    for ws and s1 :: rstate
  proof (rule phase_bind [OF phase_enrich], goal_cases)
    case (2 r s2)
    then show ?case
      using keep [OF later_trans [OF that(1)]] lost [OF later_trans [OF that(1)]]
      by (auto simp: same_defs hostKnown_def split: sum.split)
  qed (use that in simp)
  show ?thesis
    unfolding refreshWorkers_def
    using assms lost [where code = listCode] found by (auto split: sum.split intro!: phase_bind [OF listed])
qed

lemma prePollStarts_knows:
  assumes "hostKnown lv (rxHistory s)"
  shows "phase (prePollStarts rn provisional lv)
    (\<lambda>r h. \<forall>lv' refreshed. r = Inr (lv', refreshed) \<longrightarrow> samePlace lv lv' \<and> hostKnown lv' h) s"
proof -
  have frame: "emits (\<lambda>e. \<not> isLoad e) (startDesktopIf rn wanted)"
    "emits (\<lambda>e. \<not> isLoad e) (runStarts rn lv starts identities pools)" for wanted starts identities pools
    by (intro emits_rules tolerates_later; simp)+
  have refresh: "phase (do {
      refreshed \<leftarrow> refreshWorkers rn WorkerPrePollRefreshError JobIndexPrePollRefreshError (lv\<lparr>lvReserved := reserved\<rparr>);
      State_Monad.return (Inr refreshed)
    }) (\<lambda>r h. \<forall>lv' refreshed. r = Inr (lv', refreshed) \<longrightarrow> samePlace lv lv' \<and> hostKnown lv' h) s1"
    if "hostKnown lv (rxHistory s1)" for reserved and s1 :: rstate
    using that by (intro phase_bind [OF refreshWorkers_knows]) (auto simp: hostKnown_def same_defs)
  show ?thesis
    unfolding prePollStarts_def using assms refresh
    by (auto simp: same_defs split: sum.split
        intro!: phase_bind_keep [OF durable_hostKnown _ phase_frame [OF frame(1)]]
          phase_bind_keep [OF durable_hostKnown _ phase_frame [OF frame(2)]])
qed

section \<open>Polls\<close>

lemma reconcilerTarget_ID [simp]: "tgID (reconcilerTarget rn i) = i"
proof -
  have "tgID (targetIn ts i) = i" for ts by (induction ts) auto
  then show ?thesis by (simp add: reconcilerTarget_def)
qed

definition pollKnown :: "PoolSnapshot list \<Rightarrow> nat \<Rightarrow> pollResult \<Rightarrow> history \<Rightarrow> bool" where
  "pollKnown pools index r h \<longleftrightarrow> index \<le> prIndex r \<and> prIndex r < index + length pools \<and>
     (\<forall>stats. prStats r = Inr stats \<longrightarrow> polledAt (prIdentity r) (prAdvertised r) stats h \<and>
        ensuredPool h (psTargetID (pools ! (prIndex r - index))) (prIdentity r))"

lemma durable_pollKnown: "durable (pollKnown pools index r)"
  using durable_polledAt durable_ensured unfolding durable_def pollKnown_def by blast

lemma pollPools_knows:
  assumes "poolsEnsured pools (rxHistory s)"
  shows "phase (pollPools rn advertised index pools) (\<lambda>rs h. \<forall>r\<in>set rs. pollKnown pools index r h) s"
  using assms
proof (induction pools arbitrary: index s)
  case (Cons pool pools)
  have shift: "pollKnown (pool # pools) index r h" if "pollKnown pools (Suc index) r h" for r h
    using that by (auto simp: pollKnown_def nth_Cons' Suc_diff_le)
  have ensured: "poolsEnsured pools h" if "later (rxHistory s) h" for h
    using durable_poolsEnsured Cons.prems that unfolding durable_def poolsEnsured_def by auto
  show ?case
  proof (cases "psReady pool")
    case False
    then show ?thesis
      using phase_mono [OF Cons.IH [OF ensured [OF later_refl]]] shift by fastforce
  next
    case True
    let ?capacity = "geti advertised (psTargetID pool)"
    have own: "ensuredPool (rxHistory s) (tgID (reconcilerTarget rn (psTargetID pool))) (psIdentity pool)"
      using Cons.prems True by (simp add: poolsEnsured_def)
    have rest: "phase (do {
        results \<leftarrow> pollPools rn advertised (Suc index) pools;
        State_Monad.return (\<lparr>prIndex = index, prStats = stats, prIdentity = identity, prAdvertised = ?capacity\<rparr> # results)
      }) (\<lambda>rs h. \<forall>r\<in>set rs. pollKnown (pool # pools) index r h) s1"
      if "later (rxHistory s) (rxHistory s1)"
        and "pollKnown (pool # pools) index
          \<lparr>prIndex = index, prStats = stats, prIdentity = identity, prAdvertised = ?capacity\<rparr> (rxHistory s1)"
      for stats identity and s1 :: rstate
    proof (rule phase_bind [OF Cons.IH [OF ensured [OF that(1)]]], goal_cases)
      case (1 results s2)
      then show ?case
        using that(2) durable_pollKnown shift unfolding durable_def by auto
    qed
    have first: "pollKnown (pool # pools) index
        \<lparr>prIndex = index, prStats = stats, prIdentity = identity, prAdvertised = ?capacity\<rparr> h"
      if "\<forall>st. stats = Inr st \<longrightarrow> polledAt identity ?capacity st h \<and> ensuredPool h (psTargetID pool) identity"
      for stats identity h
      using that by (simp add: pollKnown_def)
    show ?thesis
      unfolding pollPools.simps Let_def using True
      by (auto intro!: phase_bind [OF phase_statistics [OF own]] rest first)
  qed
qed simp

lemma pollListeners_knows:
  assumes "poolsEnsured (lvPools lv) (rxHistory s)"
  shows "phase (pollListeners rn lv plan) (\<lambda>(rs, _) h. \<forall>r\<in>set rs. pollKnown (lvPools lv) 0 r h) s"
proof -
  have polls: "durable (\<lambda>h. \<forall>r\<in>set rs. pollKnown (lvPools lv) 0 r h)" for rs
    using durable_pollKnown unfolding durable_def by blast
  have polled: "phase (do {
      results \<leftarrow> pollPools rn advertised 0 (lvPools lv);
      cadence \<leftarrow> watchPollCadence rn st err;
      State_Monad.return (results, cadence)
    }) (\<lambda>(rs, _) h. \<forall>r\<in>set rs. pollKnown (lvPools lv) 0 r h) s1"
    if "poolsEnsured (lvPools lv) (rxHistory s1)" for advertised st err and s1 :: rstate
    by (rule phase_bind [OF pollPools_knows [OF that]],
        rule phase_bind_keep [OF polls _ phase_frame]) (auto intro!: emits_rules tolerates_later)
  note keep = phase_bind_keep [OF durable_poolsEnsured [of "lvPools lv"] _ phase_frame]
  show ?thesis
    unfolding pollListeners_def using assms
    by (intro keep) (auto intro!: keep polled emits_rules tolerates_later)
qed

text \<open>What the processed polls say is backed by the polls of this step and the state it started from.\<close>

definition acksKnown :: "PoolObservation gomap \<Rightarrow> PoolSnapshot list \<Rightarrow> Acknowledgements \<Rightarrow> history \<Rightarrow> bool" where
  "acksKnown previousPools pools ak h \<longleftrightarrow>
     map psTargetID (akPools ak) = map psTargetID pools \<and>
     (\<forall>poolID. 2 \<le> geti (akZeroConfirmations ak) poolID \<longrightarrow>
        zeroPolled h poolID \<and> zeroBefore (gget zeroPoolObservation previousPools poolID))"

lemma durable_acksKnown: "durable (acksKnown previousPools pools ak)"
  using durable_zeroPolled unfolding durable_def acksKnown_def by blast

lemma map_update_same: "f y = f (xs ! i) \<Longrightarrow> map f (xs[i := y]) = map f xs"
  by (metis list_update_id map_update)

lemma acknowledgePoll_pools:
  "map psTargetID (akPools (acknowledgePoll previousPools r stats ak)) = map psTargetID (akPools ak)"
  by (simp add: acknowledgePoll_def Let_def drainAfterPoll_def map_update_same)

lemma acknowledgePoll_knows:
  assumes ak: "acksKnown previousPools pools ak h" and r: "pollKnown pools 0 r h" and "prStats r = Inr stats"
  shows "acksKnown previousPools pools (acknowledgePoll previousPools r stats ak) h"
proof -
  have index: "prIndex r < length (akPools ak)" "psTargetID (akPools ak ! prIndex r) = psTargetID (pools ! prIndex r)"
    using ak r map_eq_imp_length_eq nth_map unfolding acksKnown_def pollKnown_def
    by (metis add_0 map_eq_imp_length_eq, metis add_0 map_eq_imp_length_eq nth_map)
  have polled: "polledAt (prIdentity r) (prAdvertised r) stats h" "ensuredPool h (psTargetID (pools ! prIndex r)) (prIdentity r)"
    using r assms(3) by (auto simp: pollKnown_def)
  have "zeroPolled h poolID \<and> zeroBefore (gget zeroPoolObservation previousPools poolID)"
    if "2 \<le> geti (akZeroConfirmations (acknowledgePoll previousPools r stats ak)) poolID" for poolID
  proof (cases "prAdvertised r = 0 \<and> statTotalAssignedJobs stats = 0 \<and> poolID = psTargetID (pools ! prIndex r)")
    case True
    then have "2 \<le> confirmZero (gget zeroPoolObservation previousPools poolID)"
      using that index by (simp add: acknowledgePoll_def Let_def)
    then have "zeroBefore (gget zeroPoolObservation previousPools poolID)"
      by (auto simp: confirmZero_def zeroBefore_def split: if_splits)
    moreover have "polledAt (prIdentity r) 0 \<lparr>statTotalAssignedJobs = 0\<rparr> h"
      using polled(1) True by (cases stats) simp
    ultimately show ?thesis
      using True polled(2) unfolding zeroPolled_def by blast
  next
    case False
    then have "2 \<le> geti (akZeroConfirmations ak) poolID"
      using that index by (auto simp: acknowledgePoll_def Let_def split: if_splits)
    then show ?thesis
      using ak by (simp add: acksKnown_def)
  qed
  then show ?thesis
    using ak acknowledgePoll_pools by (simp add: acksKnown_def)
qed

lemma processPoll_knows:
  assumes "acksKnown previousPools pools ak (rxHistory s)" and "pollKnown pools 0 r (rxHistory s)"
  shows "phase (processPoll previousPools ak r) (acksKnown previousPools pools) s"
proof (rule phaseI)
  show "emits (\<lambda>e. \<not> isLoad e) (processPoll previousPools ak r)"
    by (intro emits_rules tolerates_later)
  have "map psTargetID ((akPools ak)[prIndex r := (akPools ak ! prIndex r)\<lparr>psReady := False\<rparr>]) = map psTargetID (akPools ak)"
    by (rule map_update_same) simp
  then have lost: "acksKnown previousPools pools
      (ak\<lparr>akPools := (akPools ak)[prIndex r := (akPools ak ! prIndex r)\<lparr>psReady := False\<rparr>]\<rparr>) h"
    if "later (rxHistory s) h" for h
    using assms(1) durable_acksKnown that unfolding durable_def by (simp add: acksKnown_def)
  have kept: "acksKnown previousPools pools (acknowledgePoll previousPools r stats ak) h"
    if "prStats r = Inr stats" "h = rxHistory s" for stats h
    using acknowledgePoll_knows [OF assms that(1)] that(2) by simp
  show "wp (processPoll previousPools ak r) (\<lambda>ak' s'. acksKnown previousPools pools ak' (rxHistory s')) s"
    unfolding processPoll_def
    by (auto simp: rememberAfterPoll_def rememberDrainCapacity_def recordScaleSet_def Let_def
        intro!: lost kept split: sum.split)
qed

lemma processPolls_knows:
  assumes "acksKnown previousPools pools ak (rxHistory s)" and "\<forall>r\<in>set rs. pollKnown pools 0 r (rxHistory s)"
  shows "phase (processPolls previousPools ak rs) (acksKnown previousPools pools) s"
  using assms
proof (induction rs arbitrary: ak s)
  case (Cons r rs)
  then show ?case
    using durable_pollKnown unfolding durable_def
    by (auto intro!: phase_bind [OF processPoll_knows] Cons.IH)
qed simp

section \<open>Registration checks and planned removals\<close>

lemma phase_registered: "phase (runnerRegistered rn poolID runnerID name)
    (\<lambda>r h. \<forall>b. r = Inr b \<longrightarrow> RegistrationChecked poolID runnerID name (Inr b) \<in> set (thisStep h)) s"
  unfolding runnerRegistered_def
  by (rule phase_retried) (auto simp: phase_def registeredCall_def thisStep_def)

lemma listed_unregistered:
  assumes "listedWorker h w" and "wState w = WorkerIdle \<or> wState w = WorkerUnregistered"
    and "RegistrationChecked (wPoolID w) (wRunnerID w) (wName w) (Inr False) \<in> set (thisStep h)"
  shows "listedWorker h (w\<lparr>wState := WorkerUnregistered\<rparr>)"
proof -
  obtain ws w0 where w0: "WorkersListed (Inr ws) \<in> set (thisStep h)" "w0 \<in> set ws"
    "wID w = wID w0" "wPoolID w = wPoolID w0" "wRunnerID w = wRunnerID w0"
    "wState w = WorkerBusy \<or> w = w0 \<or> wState w0 = WorkerIdle \<and> wState w = WorkerUnregistered"
    using assms(1) unfolding listedWorker_def by blast
  show ?thesis
  proof (cases "wState w = WorkerUnregistered")
    case True
    then have "w\<lparr>wState := WorkerUnregistered\<rparr> = w" by simp
    then show ?thesis using assms(1) by simp
  next
    case False
    then have "w = w0" and "wState w0 = WorkerIdle"
      using assms(2) w0(6) by auto
    then show ?thesis
      using assms(3) w0 by (intro listedWorkerI [of ws h w0]) auto
  qed
qed

definition checkable :: "nat list \<Rightarrow> Worker list \<Rightarrow> bool" where
  "checkable indexes workers \<longleftrightarrow> (\<forall>i\<in>set indexes. i < length workers \<and>
     (wState (workers ! i) = WorkerIdle \<or> wState (workers ! i) = WorkerUnregistered))"

lemma checkRegistration_knows:
  assumes "workersListed workers (rxHistory s)" and "checkable (index # indexes) workers"
  shows "phase (checkRegistration rn workers index) (\<lambda>ws h. workersListed ws h \<and> checkable indexes ws) s"
proof -
  let ?w = "workers ! index"
  have keep: "workersListed workers h" if "later (rxHistory s) h" for h
    using durable_workersListed assms(1) that unfolding durable_def by blast
  have w: "?w \<in> set workers" "wState ?w = WorkerIdle \<or> wState ?w = WorkerUnregistered" and rest: "checkable indexes workers"
    and inside: "index < length workers"
    using assms(2) by (auto simp: checkable_def)
  have marked: "workersListed (workers[index := ?w\<lparr>wState := WorkerUnregistered\<rparr>]) h"
    if "later (rxHistory s) h" "RegistrationChecked (wPoolID ?w) (wRunnerID ?w) (wName ?w) (Inr False) \<in> set (thisStep h)" for h
    using keep [OF that(1)] listed_unregistered [OF _ w(2) that(2)] w(1) set_update_subset_insert [of workers index]
    unfolding workersListed_def by blast
  have marked': "checkable indexes (workers[index := ?w\<lparr>wState := WorkerUnregistered\<rparr>])"
    using rest inside by (auto simp: checkable_def nth_list_update)
  show ?thesis
    unfolding checkRegistration_def Let_def
  proof (rule phase_bind [OF phase_registered], goal_cases)
    case (1 r s1)
    note lat = later_trans [OF 1(1)]
    have "phase (do { recordScaleSet RegistrationCheckError (wPoolID ?w) err; State_Monad.return workers })
        (\<lambda>ws h. workersListed ws h \<and> checkable indexes ws) s1" for err
      using keep lat rest by (intro phase_then) (auto intro!: emits_rules)
    moreover have "phase (do {
        noteWorker RunnerRegistrationMissing ?w;
        State_Monad.return (workers[index := ?w\<lparr>wState := WorkerUnregistered\<rparr>])
      }) (\<lambda>ws h. workersListed ws h \<and> checkable indexes ws) s1" if "r = Inr False"
      using marked lat marked' 1(2) that
      by (intro phase_then) (auto intro!: emits_rules dest: thisStep_later)
    ultimately show ?case
      using keep [OF 1(1)] rest by (auto split: sum.split)
  qed
qed

lemma checkRegistrations_knows:
  assumes "workersListed workers (rxHistory s)" and "checkable indexes workers"
  shows "phase (checkRegistrations rn limit indexes checked workers) (\<lambda>r h. workersListed (fst r) h) s"
  using assms
proof (induction indexes arbitrary: checked workers s)
  case (Cons index indexes)
  have "phase (do { noteCode RegistrationCheckDeferred (wPoolID (workers ! index));
        checkRegistrations rn limit indexes checked workers }) (\<lambda>r h. workersListed (fst r) h) s"
    using Cons.prems
    by (intro phase_bind_keep [OF durable_workersListed _ phase_frame] Cons.IH) (auto intro!: emits_rules simp: checkable_def)
  moreover have "phase (do { workers' \<leftarrow> checkRegistration rn workers index;
        checkRegistrations rn limit indexes (checked + 1) workers' }) (\<lambda>r h. workersListed (fst r) h) s"
    using Cons.IH by (intro phase_bind [OF checkRegistration_knows [OF Cons.prems]]) auto
  ultimately show ?case by simp
qed simp

lemma rotation_less: "i \<in> set (rotation cursor n) \<Longrightarrow> i < n"
  by (auto simp: rotation_def)

lemma candidates_checkable:
  "checkable (map (\<lambda>i. registrationCandidates pools workers ! i)
     (rotation cursor (length (registrationCandidates pools workers)))) workers"
proof -
  have "i < length workers \<and> wState (workers ! i) = WorkerIdle"
    if "i \<in> set (registrationCandidates pools workers)" for i
    using that
    by (auto simp: registrationCandidates_def List.map_filter_def in_set_enumerate_eq registrationCandidate_def split: if_splits)
  then show ?thesis
    using rotation_less by (auto simp: checkable_def)
qed

lemma verifyRegistrations_knows:
  assumes "workersListed workers (rxHistory s)"
  shows "phase (verifyRegistrations rn pools workers) (\<lambda>ws h. workersListed ws h) s"
  unfolding verifyRegistrations_def Let_def
  using assms
  by (auto intro!: phase_bind [OF checkRegistrations_knows [OF _ candidates_checkable]] phase_then emits_modifyState
      dest: durable_workersListed [unfolded durable_def, rule_format])

text \<open>A planned removal names a listed worker that is not busy.\<close>

lemma buildPlan_removes_listed:
  "w \<in> set (plRemove (buildPlan clock i)) \<Longrightarrow> w \<in> set (piWorkers i) \<and> wState w \<noteq> WorkerBusy"
  using buildPlan_removeOK [of i clock] by (auto simp: removeOK_def isGone_def isNonbusy_def)

lemma alignedPlan_removes:
  "wp (alignedPlan rn lv ak) (\<lambda>plan _. \<forall>w\<in>set (plRemove plan). w \<in> set (lvWorkers lv) \<and> wState w \<noteq> WorkerBusy) s"
  by (auto simp: alignedPlan_def planWith_def dest!: buildPlan_removes_listed)

end
