(* ===== verification/Step_Truth.thy ===== *)
theory Step_Truth
  imports Step_Knowledge
begin

text \<open>
  What the result of a step says about the host. A step that returns without an error reports
  zero-capacity confirmations that are backed by its own poll and by the state it started from, and
  a worker inventory that is backed by a listing of this step (\<open>truthful\<close>). Errors recorded on the
  way are never dropped (\<open>carries\<close>), so a failed listing shows in the step's error.
\<close>

section \<open>Facts about the traces\<close>

definition confirmationsKnown :: "Acknowledgements \<Rightarrow> history \<Rightarrow> bool" where
  "confirmationsKnown ak h \<longleftrightarrow>
     (\<forall>poolID. 2 \<le> geti (akZeroConfirmations ak) poolID \<longrightarrow> zeroConfirmed h poolID)"

lemma durable_confirmationsKnown: "durable (confirmationsKnown ak)"
  using durable_confirmed unfolding durable_def confirmationsKnown_def by blast

lemma confirmationsI:
  assumes "acksKnown previousPools pools ak h" and "previousPools = previousPoolsByID (loadedState h)"
  shows "confirmationsKnown ak h"
  using assms by (simp add: acksKnown_def confirmationsKnown_def zeroConfirmed_def)

text \<open>
  The inventory covers the host: Docker Desktop was read as down in this step, or every active
  worker of a listing of this step is an active worker of the inventory.
\<close>

definition inventoryCovers :: "Worker list \<Rightarrow> history \<Rightarrow> bool" where
  "inventoryCovers workers h \<longleftrightarrow>
     (\<exists>desktop. DesktopRead (Inr desktop) \<in> set (thisStep h) \<and> \<not> mayHaveManagedWorkers desktop True) \<or>
     (\<exists>listed. WorkersListed (Inr listed) \<in> set (thisStep h) \<and>
        (\<forall>w\<in>set listed. workerActive w \<longrightarrow> (\<exists>w'\<in>set workers. wID w' = wID w \<and> workerActive w')))"

lemma durable_inventoryCovers: "durable (inventoryCovers workers)"
  unfolding durable_def inventoryCovers_def by (meson thisStep_later)

definition truthful :: "outcome \<Rightarrow> history \<Rightarrow> bool" where
  "truthful r h \<longleftrightarrow> (snd r = None \<longrightarrow>
     (\<forall>p\<in>set (osPools (rzObserved (fst r))). 2 \<le> poZeroCapacityConfirmations p \<longrightarrow> zeroConfirmed h (poID p)) \<and>
     inventoryCovers (osWorkers (rzObserved (fst r))) h)"

lemma truthful_error [simp]: "truthful (result, Some err) h"
  by (simp add: truthful_def)

lemma truthful_caused [simp]: "truthful (result, if err = None then Some c else err) h"
  by (cases err) (simp_all add: truthful_def)

lemma truthful_later: "later h h' \<Longrightarrow> truthful r h \<Longrightarrow> truthful r h'"
  using durable_confirmed durable_inventoryCovers unfolding truthful_def durable_def by blast

section \<open>Errors are carried to the end\<close>

named_theorems carries_rules "actions that never drop a recorded error"

definition carries :: "'a action \<Rightarrow> bool" where
  "carries m \<longleftrightarrow> (\<forall>s. rxErrors s \<noteq> [] \<longrightarrow> wp m (\<lambda>_ s'. rxErrors s' \<noteq> []) s)"

lemma carriesD: "carries m \<Longrightarrow> rxErrors s \<noteq> [] \<Longrightarrow> wp m (\<lambda>_ s'. rxErrors s' \<noteq> []) s"
  by (simp add: carries_def)

lemma carries_bind [carries_rules]:
  assumes "carries m" and "\<And>x. carries (f x)"
  shows "carries (State_Monad.bind m f)"
  unfolding carries_def wp_bind
proof (intro allI impI)
  fix s :: rstate assume "rxErrors s \<noteq> []"
  then show "wp m (\<lambda>a. wp (f a) (\<lambda>_ s'. rxErrors s' \<noteq> [])) s"
    by (rule wp_mono [OF carriesD [OF assms(1)] carriesD [OF assms(2)]])
qed

lemma carries_basic [carries_rules]:
  "carries (State_Monad.return x)" "carries (readState f)" "carries (ask answer ev)" "carries (tell e)"
  by (simp_all add: carries_def)

lemma carries_modifyState: "(\<And>s. rxErrors s \<noteq> [] \<Longrightarrow> rxErrors (f s) \<noteq> []) \<Longrightarrow> carries (modifyState f)"
  by (simp add: carries_def)

lemma carries_if [carries_rules]: "(b \<Longrightarrow> carries m) \<Longrightarrow> (\<not> b \<Longrightarrow> carries n) \<Longrightarrow> carries (if b then m else n)"
  by simp

lemma carries_option [carries_rules]:
  "(x = None \<Longrightarrow> carries m) \<Longrightarrow> (\<And>y. x = Some y \<Longrightarrow> carries (f y)) \<Longrightarrow> carries (case x of None \<Rightarrow> m | Some y \<Rightarrow> f y)"
  by (cases x) simp_all

lemma carries_noteClamped: "carries (noteClamped plan ts)"
  by (induction ts) (auto simp: noteClamped_def noteCode_def writeLog_def intro!: carries_rules)

section \<open>The end of a step\<close>

lemma observePools_confirmations:
  assumes "p \<in> set (fst (foldl (observePool cadencePools ak polled postPlan now) acc ts))" and "p \<notin> set (fst acc)"
  shows "poZeroCapacityConfirmations p = geti (akZeroConfirmations ak) (poID p)"
  using assms
proof (induction ts arbitrary: acc)
  case (Cons t ts)
  then show ?case
    by (cases "p \<in> set (fst (observePool cadencePools ak polled postPlan now acc t))")
      (auto simp: observePool_def Let_def split: prod.splits)
qed simp

lemma enrichWith_covers:
  assumes "w \<in> set ws" and "workerActive w"
  shows "\<exists>w'\<in>set (enrichWith catalog ws). wID w' = wID w \<and> workerActive w'"
  using assms unfolding enrichWith_def by (force simp: workerActive_def split: prod.splits)

lemma wp_any: "(\<And>a s'. Q a s') \<Longrightarrow> wp m Q s"
  by (simp add: wp_def case_prod_unfold)

lemma reportStep_reports:
  "wp (reportStep rn lv cadencePools ak polled stale) (\<lambda>r s'. osWorkers (rzObserved (fst r)) = lvWorkers lv \<and>
     (\<forall>p\<in>set (osPools (rzObserved (fst r))). poZeroCapacityConfirmations p = geti (akZeroConfirmations ak) (poID p)) \<and>
     (snd r = None \<longrightarrow> rxErrors s' = [])) s"
proof -
  have pools: "\<forall>p\<in>set observedPools. poZeroCapacityConfirmations p = geti (akZeroConfirmations ak) (poID p)"
    if "foldl (observePool cadencePools ak polled postPlan now) ([], pending) ts = (observedPools, pending')"
    for postPlan now pending ts observedPools pending'
    using observePools_confirmations [of _ cadencePools ak polled postPlan now "([], pending)" ts] that by auto
  show ?thesis
    unfolding reportStep_def
    by (auto simp: observedState_def Let_def errorsJoin_None_iff list_all_iff
        split: prod.split option.splits intro!: wp_any dest: pools)
qed

lemma carries_reportStep: "carries (reportStep rn lv cadencePools ak polled stale)"
  unfolding reportStep_def alignedPlan_def planWith_def timeNow_def controllerCost_def persistObserved_def
    noteStaleHandshake_def clearStaleHandshake_def Let_def case_prod_unfold
  by (intro carries_rules carries_noteClamped carries_modifyState) (auto simp: Let_def)

lemma carries_recordProblem: "wp (recordProblem code pool retryable (Some err)) (\<lambda>_ s'. rxErrors s' \<noteq> []) s"
  by simp

lemma finalWorkers_covers:
  assumes "desktopSeen (lvDesktop lv) (lvDesktopKnown lv) (rxHistory s)"
  shows "wp (finalWorkers rn lv) (\<lambda>lv' s'. rxErrors s' \<noteq> [] \<or> inventoryCovers (lvWorkers lv') (rxHistory s')) s"
proof (cases "mayHaveManagedWorkers (lvDesktop lv) (lvDesktopKnown lv)")
  case False
  then show ?thesis
    using assms by (auto simp: finalWorkers_def inventoryCovers_def desktopSeen_def mayHaveManagedWorkers_def)
next
  case True
  have listed: "inventoryCovers (enrichWith catalog listed) h"
    if "WorkersListed (Inr listed) \<in> set (thisStep h)" for listed catalog h
    using that enrichWith_covers unfolding inventoryCovers_def by blast
  have none: "inventoryCovers [] h" if "WorkersListed (Inr []) \<in> set (thisStep h)" for h
    using that unfolding inventoryCovers_def by (intro disjI2 exI [of _ "[]"]) simp
  show ?thesis
    unfolding finalWorkers_def enrichWorkerJobs_def using True
    by (auto simp: thisStep_def intro!: listed none split: sum.split)
qed

lemma finishStep_truthful:
  assumes "confirmationsKnown ak (rxHistory s)"
  shows "wp (finishStep rn lv cadencePools ak polled stale) (\<lambda>r s'. truthful r (rxHistory s')) s"
proof -
  have report: "wp (reportStep rn lv' cadencePools ak polled stale) (\<lambda>r s'. truthful r (rxHistory s')) s1"
    if "confirmationsKnown ak (rxHistory s1)" "rxErrors s1 \<noteq> [] \<or> inventoryCovers (lvWorkers lv') (rxHistory s1)"
    for lv' and s1 :: rstate
  proof -
    have later: "wp (reportStep rn lv' cadencePools ak polled stale) (\<lambda>_ s'. later (rxHistory s1) (rxHistory s')) s1"
      by (intro wp_later emits_rules tolerates_later)
    have errs: "wp (reportStep rn lv' cadencePools ak polled stale) (\<lambda>_ s'. rxErrors s1 \<noteq> [] \<longrightarrow> rxErrors s' \<noteq> []) s1"
      using carriesD [OF carries_reportStep, of s1] by (cases "rxErrors s1 = []") (auto intro: wp_any)
    show ?thesis
    proof (rule wp_mono [OF wp_conj [OF later wp_conj [OF errs reportStep_reports]]], goal_cases)
      case (1 r s2)
      then have "confirmationsKnown ak (rxHistory s2)"
        using durable_confirmationsKnown that(1) unfolding durable_def by blast
      moreover have "inventoryCovers (lvWorkers lv') (rxHistory s2)" if "snd r = None"
        using 1 that \<open>rxErrors s1 \<noteq> [] \<or> _\<close> durable_inventoryCovers unfolding durable_def by blast
      ultimately show ?case
        using 1 by (auto simp: truthful_def confirmationsKnown_def)
    qed
  qed
  have desktop: "wp (finalDesktop rn lv) (\<lambda>lv' s'. later (rxHistory s) (rxHistory s') \<and>
      desktopSeen (lvDesktop lv') (lvDesktopKnown lv') (rxHistory s')) s"
    by (auto simp: finalDesktop_def desktopSeen_def thisStep_def later_def split: sum.split)
  have frame: "emits (\<lambda>e. \<not> isLoad e) (finalWorkers rn lv')" for lv'
    unfolding finalWorkers_def by (intro emits_rules tolerates_later) auto
  have known: "confirmationsKnown ak h" if "later (rxHistory s) h" for h
    using durable_confirmationsKnown assms that unfolding durable_def by blast
  show ?thesis
    unfolding finishStep_def wp_bind [of "finalDesktop rn lv"]
  proof (rule wp_mono [OF desktop], goal_cases)
    case (1 lv1 s1)
    then have seen: "desktopSeen (lvDesktop lv1) (lvDesktopKnown lv1) (rxHistory s1)"
      by simp
    show ?case
      unfolding wp_bind
      by (rule wp_mono [OF wp_conj [OF wp_later [OF frame] finalWorkers_covers [OF seen]]])
        (use 1 known later_trans report in blast)
  qed
qed

lemma canceledExit_fails: "wp (canceledExit rn lv plan ak stale cause) (\<lambda>r _. snd r \<noteq> None) s"
  unfolding canceledExit_def by (auto simp: Let_def errorsJoin_None_iff intro!: wp_any)

lemma loadState_fails: "wp (loadState rn) (\<lambda>r _. \<forall>result. r = Inl result \<longrightarrow> snd result \<noteq> None) s"
  unfolding loadState_def loadIntent_def loadPrevious_def
  by (auto simp: Let_def split: sum.split option.split)

end
