(* ===== verification/Step_Invariant.thy ===== *)
theory Step_Invariant
  imports Step_Truth
begin

text \<open>
  Invariants of the controller's trace. The locale \<open>step_invariant\<close> is the contract between an
  invariant of the events and the parts of a step: the invariant admits every reading, starting
  workers keeps it, and retiring workers and stopping the host keep it whenever the zero-capacity
  confirmations and the planned removals are backed by events of the step (\<open>confirmationsKnown\<close>,
  \<open>removalsKnown\<close>). Then every step keeps the invariant, and so does every call of \<open>Step\<close> with its
  immediate reruns and every sequence of such calls.
\<close>

section \<open>What is known when workers are retired\<close>

definition removalsKnown :: "Worker list \<Rightarrow> history \<Rightarrow> bool" where
  "removalsKnown removals h \<longleftrightarrow> (\<forall>w\<in>set removals. listedWorker h w \<and> wState w \<noteq> WorkerBusy)"

lemma durable_removalsKnown: "durable (removalsKnown removals)"
  using durable_listed unfolding durable_def removalsKnown_def by blast

section \<open>Traces of a controller\<close>

text \<open>
  The controller's main loop calls \<open>Step\<close> again and again on one reconciler. \<open>controllerTrace\<close> is
  the history of a new reconciler after one call for each number of the list, the bound on that
  call's immediate reruns.
\<close>

fun runSteps :: "Reconciler \<Rightarrow> nat list \<Rightarrow> outcome option list action" where
  "runSteps rn [] = State_Monad.return []"
| "runSteps rn (fuel # fuels) = do {
     result \<leftarrow> StepWithin rn fuel;
     results \<leftarrow> runSteps rn fuels;
     State_Monad.return (result # results)
   }"

definition controllerTrace :: "Reconciler \<Rightarrow> nat list \<Rightarrow> history" where
  "controllerTrace rn fuels = rxHistory (snd (run_state (runSteps rn fuels) newReconcilerState))"

lemma everyEvent_split: "everyEvent P (newer @ e # older) \<Longrightarrow> P e older"
  by (induction newer) auto

section \<open>The contract\<close>

locale step_invariant =
  fixes rn :: Reconciler
    and P :: "event \<Rightarrow> history \<Rightarrow> bool"
  assumes admits_harmless: "harmless e \<Longrightarrow> P e h"
    and admits_loaded: "P (ObservedLoaded ob) h"
    and admits_ensured: "P (Ensured i prior ident) h"
    and admits_polled: "P (Polled identity capacity stats) h"
    and admits_desktop: "P (DesktopStarted err) h"
    and starts_keep: "keeps P (executePlannedStarts rn starts identities sx reserved)"
    and retire_keeps: "everyEvent P (rxHistory s) \<Longrightarrow> removalsKnown removals (rxHistory s) \<Longrightarrow>
      confirmationsKnown ak (rxHistory s) \<Longrightarrow>
      wp (retireWorkers rn jobStateKnown advertised ak removals stale) (\<lambda>_ s'. everyEvent P (rxHistory s')) s"
    and stop_keeps: "everyEvent P (rxHistory s) \<Longrightarrow> confirmationsKnown ak (rxHistory s) \<Longrightarrow>
      desktopSeen desktop known (rxHistory s) \<Longrightarrow>
      wp (gamingShutdown rn ak desktop known stopDesktop shutdownWSL) (\<lambda>_ s'. everyEvent P (rxHistory s')) s"
begin

lemma keeps_emitted: "emits (\<lambda>e. \<forall>h. P e h) m \<Longrightarrow> keeps P m"
  by (erule keeps_emits) simp

lemma tolerant: "tolerates (\<lambda>e. \<forall>h. P e h)"
  by (auto simp: tolerates_def intro: admits_harmless)

lemmas admits = admits_loaded admits_ensured admits_polled admits_desktop

text \<open>Sequencing: the first action keeps the invariant and what it establishes is known to the rest.\<close>

lemma inv_bind:
  assumes "keeps P m" and "everyEvent P (rxHistory s)" and "phase m R s"
    and "\<And>a s'. everyEvent P (rxHistory s') \<Longrightarrow> later (rxHistory s) (rxHistory s') \<Longrightarrow> R a (rxHistory s') \<Longrightarrow> wp (f a) Q s'"
  shows "wp (State_Monad.bind m f) Q s"
  unfolding wp_bind
  by (rule wp_mono [OF wp_conj [OF keepsD [OF assms(1,2)] assms(3) [unfolded phase_def]]]) (auto intro: assms(4))

lemma inv_frame:
  assumes "keeps P m" and "emits (\<lambda>e. \<not> isLoad e) m" and "everyEvent P (rxHistory s)"
    and "\<And>a s'. everyEvent P (rxHistory s') \<Longrightarrow> later (rxHistory s) (rxHistory s') \<Longrightarrow> wp (f a) Q s'"
  shows "wp (State_Monad.bind m f) Q s"
  by (rule inv_bind [OF assms(1,3) phase_frame [OF assms(2)] assms(4)])

text \<open>What a step ends with: the invariant holds and its result is truthful.\<close>

definition sound :: "outcome \<Rightarrow> rstate \<Rightarrow> bool" where
  "sound r s \<longleftrightarrow> everyEvent P (rxHistory s) \<and> truthful r (rxHistory s)"

lemma sound_error [simp]: "sound (result, Some err) s \<longleftrightarrow> everyEvent P (rxHistory s)"
  by (simp add: sound_def)

lemma runStarts_keep: "keeps P (runStarts rn lv starts identities pools)"
  unfolding runStarts_def by (intro keeps_rules starts_keep)

lemma finishStep_sound:
  assumes "everyEvent P (rxHistory s)" and "confirmationsKnown ak (rxHistory s)"
  shows "wp (finishStep rn lv cadencePools ak polled stale) sound s"
proof -
  have "keeps P (finishStep rn lv cadencePools ak polled stale)"
    by (intro keeps_emitted emits_rules tolerant)
  from wp_conj [OF keepsD [OF this assms(1)] finishStep_truthful [OF assms(2)]] show ?thesis
    by (rule wp_mono) (simp add: sound_def)
qed

lemma serveRest_sound:
  assumes "everyEvent P (rxHistory s)" and "confirmationsKnown ak (rxHistory s)" and "hostKnown lv (rxHistory s)"
    and "\<forall>w\<in>set (plRemove plan). w \<in> set (lvWorkers lv) \<and> wState w \<noteq> WorkerBusy"
  shows "wp (do {
      startDesktopIf rn (plStartDesktop plan);
      stale \<leftarrow> retireWorkers rn (lvJobStateKnown lv) (plAdvertisedCapacity plan) ak (plRemove plan) stale0;
      started \<leftarrow> runStarts rn lv (plStart plan) (akIdentities ak) (akPools ak);
      case started of
        Inl err \<Rightarrow> State_Monad.return (zeroResult, Some err)
      | Inr _ \<Rightarrow> do {
          gamingShutdown rn ak (lvDesktop lv) (lvDesktopKnown lv) (plStopDesktop plan) (plShutdownWSL plan);
          finishStep rn lv cadencePools ak polled stale
        }
    }) sound s"
proof -
  let ?K = "\<lambda>h. confirmationsKnown ak h \<and> hostKnown lv h"
  have K: "durable ?K"
    by (intro durable_conj durable_confirmationsKnown durable_hostKnown)
  have desktop: "keeps P (startDesktopIf rn wanted)" "emits (\<lambda>e. \<not> isLoad e) (startDesktopIf rn wanted)" for wanted
    by (intro keeps_emitted emits_rules tolerant tolerates_later; simp add: admits)+
  have frames: "emits (\<lambda>e. \<not> isLoad e) (retireWorkers rn known advertised ak removals stale)"
    "emits (\<lambda>e. \<not> isLoad e) (runStarts rn lv starts identities pools)"
    "emits (\<lambda>e. \<not> isLoad e) (gamingShutdown rn ak desktop desktopKnown stopDesktop shutdownWSL)"
    for known advertised removals stale starts identities pools desktop desktopKnown stopDesktop shutdownWSL
    by (intro emits_rules tolerates_later; simp)+
  have later_K: "?K h'" if "later h h'" "?K h" for h h'
    using K that unfolding durable_def by blast
  have stop: "wp (do {
      gamingShutdown rn ak (lvDesktop lv) (lvDesktopKnown lv) (plStopDesktop plan) (plShutdownWSL plan);
      finishStep rn lv cadencePools ak polled stale
    }) sound s1"
    if "everyEvent P (rxHistory s1)" "?K (rxHistory s1)" for stale and s1 :: rstate
  proof -
    have "wp (gamingShutdown rn ak (lvDesktop lv) (lvDesktopKnown lv) (plStopDesktop plan) (plShutdownWSL plan))
        (\<lambda>_ s'. everyEvent P (rxHistory s')) s1"
      using that by (intro stop_keeps) (auto simp: hostKnown_def)
    from wp_conj [OF this wp_later [OF frames(3)]] show ?thesis
      unfolding wp_bind by (rule wp_mono) (use later_K that(2) finishStep_sound in blast)
  qed
  have start: "wp (do {
      started \<leftarrow> runStarts rn lv (plStart plan) (akIdentities ak) (akPools ak);
      case started of
        Inl err \<Rightarrow> State_Monad.return (zeroResult, Some err)
      | Inr _ \<Rightarrow> do {
          gamingShutdown rn ak (lvDesktop lv) (lvDesktopKnown lv) (plStopDesktop plan) (plShutdownWSL plan);
          finishStep rn lv cadencePools ak polled stale
        }
    }) sound s1"
    if "everyEvent P (rxHistory s1)" "?K (rxHistory s1)" for stale and s1 :: rstate
    using that stop later_K
    by (intro inv_frame [OF runStarts_keep frames(2)]) (auto split: sum.split simp del: wp_bind)
  have retire: "wp (do {
      stale \<leftarrow> retireWorkers rn (lvJobStateKnown lv) (plAdvertisedCapacity plan) ak (plRemove plan) stale0;
      started \<leftarrow> runStarts rn lv (plStart plan) (akIdentities ak) (akPools ak);
      case started of
        Inl err \<Rightarrow> State_Monad.return (zeroResult, Some err)
      | Inr _ \<Rightarrow> do {
          gamingShutdown rn ak (lvDesktop lv) (lvDesktopKnown lv) (plStopDesktop plan) (plShutdownWSL plan);
          finishStep rn lv cadencePools ak polled stale
        }
    }) sound s1"
    if inv: "everyEvent P (rxHistory s1)" and known: "?K (rxHistory s1)" for s1 :: rstate
  proof -
    have "removalsKnown (plRemove plan) (rxHistory s1)"
      using assms(4) known by (auto simp: removalsKnown_def hostKnown_def workersListed_def)
    then have "wp (retireWorkers rn (lvJobStateKnown lv) (plAdvertisedCapacity plan) ak (plRemove plan) stale0)
        (\<lambda>_ s'. everyEvent P (rxHistory s')) s1"
      using inv known by (intro retire_keeps) auto
    from wp_conj [OF this wp_later [OF frames(1)]] show ?thesis
      unfolding wp_bind [of "retireWorkers _ _ _ _ _ _"]
      by (rule wp_mono) (use start later_K known in blast)
  qed
  show ?thesis
    using assms(1-3) retire later_K by (intro inv_frame [OF desktop]) auto
qed

lemma serveStep_sound:
  assumes "everyEvent P (rxHistory s)" and "confirmationsKnown ak (rxHistory s)" and "hostKnown lv (rxHistory s)"
  shows "wp (serveStep rn lv cadencePools ak polled stale0) sound s"
proof -
  have acks: "confirmationsKnown ak h'" if "later h h'" "confirmationsKnown ak h" for h h'
    using durable_confirmationsKnown that unfolding durable_def by blast
  have keeps: "keeps P (refreshWorkers rn c d lv')" "keeps P (verifyRegistrations rn pools ws)" "keeps P (alignedPlan rn lv' ak)"
    for c d lv' pools ws
    by (intro keeps_emitted emits_rules tolerant)+
  have verified: "phase (if lvJobStateKnown lv1 then verifyRegistrations rn (akPools ak) (lvWorkers lv1)
      else State_Monad.return (lvWorkers lv1)) (\<lambda>ws h. hostKnown (lv1\<lparr>lvWorkers := ws\<rparr>) h) s1"
    if "hostKnown lv1 (rxHistory s1)" for lv1 and s1 :: rstate
  proof -
    have "desktopSeen (lvDesktop lv1) (lvDesktopKnown lv1) h" if "later (rxHistory s1) h" for h
      using durable_desktopSeen \<open>hostKnown lv1 (rxHistory s1)\<close> that unfolding durable_def hostKnown_def by blast
    then show ?thesis
      using that phase_mono [OF verifyRegistrations_knows [of "lvWorkers lv1" s1 rn "akPools ak"]]
      by (auto simp: hostKnown_def)
  qed
  have planned: "phase (alignedPlan rn lv' ak)
      (\<lambda>plan _. \<forall>w\<in>set (plRemove plan). w \<in> set (lvWorkers lv') \<and> wState w \<noteq> WorkerBusy) s1" for lv' and s1 :: rstate
    by (intro phase_value alignedPlan_removes emits_rules)
  have recovered: "set (plRemove (recoveryPlan b plan)) \<subseteq> set (plRemove plan)" for b plan
    by (simp add: recoveryPlan_def)
  show ?thesis
    unfolding serveStep_def
  proof (rule inv_bind [OF keeps(1) assms(1) refreshWorkers_knows [OF assms(3)]], goal_cases)
    case (1 r s1)
    obtain lv1 b where r: "r = (lv1, b)" by (cases r)
    note ack1 = acks [OF 1(2) assms(2)]
    show ?case
      unfolding r prod.case
    proof (rule inv_bind [OF _ 1(1) verified], goal_cases)
      case 1
      show ?case by (intro keeps_rules keeps)
    next
      case 2
      then show ?case using 1(3) r by simp
    next
      case (3 ws s2)
      show ?case
        unfolding Let_def
      proof (rule inv_bind [OF keeps(3) 3(1) planned], goal_cases)
        case (1 plan s3)
        have "hostKnown (lv1\<lparr>lvWorkers := ws\<rparr>) (rxHistory s3)"
          using durable_hostKnown 3(3) 1(2) unfolding durable_def by blast
        then show ?case
          using 1 acks [OF 1(2) acks [OF 3(2) ack1]] recovered [of "lvRecoveryOnly (lv1\<lparr>lvWorkers := ws\<rparr>)" plan]
          by (intro serveRest_sound) auto
      qed
    qed
  qed
qed

lemma pollStep_sound:
  assumes "everyEvent P (rxHistory s)" and "hostKnown lv (rxHistory s)" and "poolsEnsured (lvPools lv) (rxHistory s)"
    and "lvPreviousPools lv = previousPoolsByID (loadedState (rxHistory s))"
  shows "wp (pollStep rn lv plan) sound s"
proof -
  have keeps: "keeps P (pollListeners rn lv plan)" "keeps P (processPolls previousPools ak rs)"
    "keeps P (canceledExit rn lv' plan ak stale c)" for previousPools ak rs lv' stale c
    by (intro keeps_emitted emits_rules tolerant; simp add: admits)+
  have clock: "keeps P (timeNow (rnEnv rn))" "keeps P (modifyState (\<lambda>s. s\<lparr>rxNow := t\<rparr>))" "keeps P (ctxCause (rnEnv rn))"
    "keeps P (recordProblem c [] True e)" for t c e
    by (intro keeps_emitted emits_rules emits_modifyState; simp add: admits_harmless)+
  have frames: "emits (\<lambda>e. \<not> isLoad e) (timeNow (rnEnv rn))" "emits (\<lambda>e. \<not> isLoad e) (modifyState (\<lambda>s. s\<lparr>rxNow := t\<rparr>))"
    "emits (\<lambda>e. \<not> isLoad e) (ctxCause (rnEnv rn))" "emits (\<lambda>e. \<not> isLoad e) (recordProblem c [] True e)" for t c e
    by (intro emits_rules emits_modifyState; simp)+
  have host: "hostKnown lv h" if "later (rxHistory s) h" for h
    using durable_hostKnown assms(2) that unfolding durable_def by blast
  have host': "hostKnown (applyCadence cadence lv) h" if "later (rxHistory s) h" for cadence h
    using host [OF that] by (simp add: applyCadence_def hostKnown_def Let_def)
  have fields: "lvPreviousPools (applyCadence cadence lv) = lvPreviousPools lv" "lvPools (applyCadence cadence lv) = lvPools lv"
    for cadence by (simp_all add: applyCadence_def Let_def)
  have acks: "confirmationsKnown ak h"
    if "later (rxHistory s) h" "acksKnown (lvPreviousPools lv) (lvPools lv) ak h" for ak h
    using confirmationsI [OF that(2)] assms(4) loadedState_later [OF that(1)] by simp
  have polls: "durable (\<lambda>h. \<forall>r\<in>set rs. pollKnown (lvPools lv) 0 r h)" for rs
    using durable_pollKnown unfolding durable_def by blast
  have serve: "wp (do {
      (case err of
         None \<Rightarrow> State_Monad.return ()
       | Some e \<Rightarrow> recordProblem ReconcileCheckpointError [] True (Some e));
      serveStep rn (applyCadence cadence lv) cadencePools ak polled stale
    }) sound s1"
    if "everyEvent P (rxHistory s1)" "later (rxHistory s) (rxHistory s1)"
      "acksKnown (lvPreviousPools lv) (lvPools lv) ak (rxHistory s1)" for err cadence cadencePools ak polled stale and s1 :: rstate
  proof (rule inv_frame [OF _ _ that(1)], goal_cases)
    case 1
    show ?case by (intro keeps_rules clock)
  next
    case 2
    show ?case by (intro emits_rules frames)
  next
    case (3 a s2)
    have "acksKnown (lvPreviousPools lv) (lvPools lv) ak (rxHistory s2)"
      using durable_acksKnown that(3) 3(2) unfolding durable_def by blast
    then show ?case
      using 3 acks host' later_trans [OF that(2) 3(2)] by (intro serveStep_sound) auto
  qed
  have processed: "wp (do {
      ak \<leftarrow> processPolls (lvPreviousPools (applyCadence cadence lv)) (unacknowledged (applyCadence cadence lv)) rs;
      cause \<leftarrow> ctxCause (rnEnv rn);
      case cause of
        Some c \<Rightarrow> canceledExit rn (applyCadence cadence lv) plan ak (crSuperseded cadence) c
      | None \<Rightarrow> do {
          (case crCheckpointErr cadence of
             None \<Rightarrow> State_Monad.return ()
           | Some err \<Rightarrow> recordProblem ReconcileCheckpointError [] True (Some err));
          serveStep rn (applyCadence cadence lv) (previousPoolsByID (crObserved cadence)) ak (plAdvertisedCapacity plan)
            (crSuperseded cadence)
        }
    }) sound s1"
    if "everyEvent P (rxHistory s1)" "later (rxHistory s) (rxHistory s1)"
      "\<forall>r\<in>set rs. pollKnown (lvPools lv) 0 r (rxHistory s1)" for rs cadence and s1 :: rstate
  proof (rule inv_bind [OF keeps(2) that(1) processPolls_knows [where pools = "lvPools lv"]], goal_cases)
    case 1
    show ?case by (simp add: acksKnown_def unacknowledged_def fields)
  next
    case 2
    show ?case using that(3) by (simp add: fields)
  next
    case (3 ak s2)
    show ?case
    proof (rule inv_frame [OF clock(3) frames(3) 3(1)], goal_cases)
      case (1 cause s3)
      have "acksKnown (lvPreviousPools lv) (lvPools lv) ak (rxHistory s3)"
        using durable_acksKnown 3(3) 1(2) fields unfolding durable_def by metis
      note serve [OF 1(1) later_trans [OF that(2) later_trans [OF 3(2) 1(2)]] this]
      moreover have "wp (canceledExit rn (applyCadence cadence lv) plan ak (crSuperseded cadence) c) sound s3" for c
        by (rule wp_mono [OF wp_conj [OF keepsD [OF keeps(3) 1(1)] canceledExit_fails]]) (auto simp: sound_def truthful_def)
      ultimately show ?case
        by (cases cause) (simp_all only: option.case)
    qed
  qed
  show ?thesis
    unfolding pollStep_def
  proof (rule inv_bind [OF keeps(1) assms(1) pollListeners_knows [OF assms(3)]], goal_cases)
    case (1 r s1)
    obtain rs cadence where r: "r = (rs, cadence)" by (cases r)
    have known: "\<forall>r\<in>set rs. pollKnown (lvPools lv) 0 r h" if "later (rxHistory s1) h" for h
      using 1(3) polls that unfolding r durable_def by blast
    show ?case
      unfolding r prod.case Let_def
    proof (rule inv_frame [OF clock(1) frames(1) 1(1)], goal_cases)
      case (1 t s2)
      show ?case
        by (rule inv_frame [OF clock(2) frames(2) 1(1)], rule processed)
          (use known later_trans [OF 1(2)] later_trans [OF \<open>later (rxHistory s) (rxHistory s1)\<close>] in blast)+
    qed
  qed
qed

text \<open>The rest of a step, once its listeners are ensured.\<close>

lemma plannedStep_sound:
  assumes "everyEvent P (rxHistory s)" and "hostKnown lv (rxHistory s)" and "poolsEnsured (lvPools lv) (rxHistory s)"
    and "lvPreviousPools lv = previousPoolsByID (loadedState (rxHistory s))"
  shows "wp (do {
      pre \<leftarrow> prePollStarts rn provisional lv;
      case pre of
        Inl err \<Rightarrow> State_Monad.return (zeroResult, Some err)
      | Inr (lv', refreshed) \<Rightarrow> do {
          pending \<leftarrow> readState rxPendingCapacity;
          pollStep rn lv' (pollPlanFor (lvPrevious lv') pending refreshed provisional)
        }
    }) sound s"
proof -
  have "keeps P (startDesktopIf rn wanted)" "keeps P (refreshWorkers rn listCode jobsCode lv')" for wanted listCode jobsCode lv'
    by (intro keeps_emitted emits_rules tolerant; simp add: admits)+
  then have keeps: "keeps P (prePollStarts rn provisional lv)"
    unfolding prePollStarts_def by (intro keeps_rules runStarts_keep)
  show ?thesis
  proof (rule inv_bind [OF keeps assms(1) prePollStarts_knows [OF assms(2)]], goal_cases)
    case (1 r s1)
    have "poolsEnsured (lvPools lv) (rxHistory s1)"
      using durable_poolsEnsured assms(3) 1(2) unfolding durable_def by blast
    then show ?case
      using 1 assms(4) loadedState_later [OF 1(2)]
      by (auto simp: same_defs split: sum.split intro!: pollStep_sound)
  qed
qed

lemma observedStep_sound:
  assumes "everyEvent P (rxHistory s)" and "lvPrevious lv = loadedState (rxHistory s)"
    and "lvWorkers lv = []" and "lvPools lv = []"
  shows "wp (do {
      recordLoads lv;
      lv \<leftarrow> observeHost rn lv;
      lv \<leftarrow> ensureListeners rn lv;
      hysteresis \<leftarrow> readState rxPendingCapacity;
      provisional \<leftarrow> planWith rn lv hysteresis (lvPools lv);
      pre \<leftarrow> prePollStarts rn provisional lv;
      case pre of
        Inl err \<Rightarrow> State_Monad.return (zeroResult, Some err)
      | Inr (lv', refreshed) \<Rightarrow> do {
          pending \<leftarrow> readState rxPendingCapacity;
          pollStep rn lv' (pollPlanFor (lvPrevious lv') pending refreshed provisional)
        }
    }) sound s"
proof -
  have keeps: "keeps P (recordLoads lv)" "keeps P (observeHost rn lv)" "keeps P (ensureListeners rn lv')"
    "keeps P (readState rxPendingCapacity)" "keeps P (planWith rn lv' hysteresis pools)" for lv' hysteresis pools
    by (intro keeps_emitted emits_rules tolerant; simp add: admits)+
  have frames: "emits (\<lambda>e. \<not> isLoad e) (recordLoads lv)" "emits (\<lambda>e. \<not> isLoad e) (readState rxPendingCapacity)"
    "emits (\<lambda>e. \<not> isLoad e) (planWith rn lv' hysteresis pools)" for lv' hysteresis pools
    by (intro emits_rules tolerates_later; simp)+
  show ?thesis
  proof (rule inv_frame [OF keeps(1) frames(1) assms(1)],
      rule inv_bind [OF keeps(2) _ observeHost_knows [OF assms(3)]], assumption, goal_cases)
    case (1 u s1 lv1 s2)
    have "lvPools lv1 = []"
      using 1(5) assms(4) by (simp add: same_defs)
    then show ?case
    proof (rule inv_bind [OF keeps(3) 1(3) ensureListeners_knows], goal_cases)
      case (1 lv2 s3)
      note lv2 = this
      note old = later_trans [OF \<open>later (rxHistory s) (rxHistory s1)\<close>
          later_trans [OF \<open>later (rxHistory s1) (rxHistory s2)\<close> \<open>later (rxHistory s2) (rxHistory s3)\<close>]]
      have "hostKnown lv1 (rxHistory s3)"
        using durable_hostKnown \<open>sameCore lv lv1 \<and> hostKnown lv1 (rxHistory s2)\<close> 1(2) unfolding durable_def by blast
      then have "hostKnown lv2 (rxHistory s3)"
        using 1(3) by (simp add: hostKnown_def)
      moreover have "lvPreviousPools lv2 = previousPoolsByID (loadedState (rxHistory s3))"
        using 1(3) \<open>sameCore lv lv1 \<and> hostKnown lv1 (rxHistory s2)\<close> assms(2) loadedState_later [OF old]
        by (simp add: same_defs)
      ultimately have known: "hostKnown lv2 h \<and> poolsEnsured (lvPools lv2) h \<and>
          lvPreviousPools lv2 = previousPoolsByID (loadedState h)" if "later (rxHistory s3) h" for h
        using that 1(3) durable_hostKnown durable_poolsEnsured loadedState_later [OF that] unfolding durable_def by simp
      show ?case
      proof (rule inv_frame [OF keeps(4) frames(2) 1(1)], rule inv_frame [OF keeps(5) frames(3)], assumption, goal_cases)
        case (1 hysteresis s4 provisional s5)
        then show ?case
          using known [OF later_trans [OF 1(2,4)]] by (intro plannedStep_sound) auto
      qed
    qed
  qed
qed

lemma reconcileStep_sound:
  assumes "everyEvent P (rxHistory s)"
  shows "wp (reconcileStep rn) sound s"
proof -
  have keeps: "keeps P (ctxErr (rnEnv rn))" "keeps P (loadState rn)"
    by (intro keeps_emitted emits_rules tolerant; simp add: admits admits_harmless)+
  have loaded: "wp (case loaded of Inl result \<Rightarrow> State_Monad.return result | Inr lv \<Rightarrow> do {
      recordLoads lv;
      lv \<leftarrow> observeHost rn lv;
      lv \<leftarrow> ensureListeners rn lv;
      hysteresis \<leftarrow> readState rxPendingCapacity;
      provisional \<leftarrow> planWith rn lv hysteresis (lvPools lv);
      pre \<leftarrow> prePollStarts rn provisional lv;
      case pre of
        Inl err \<Rightarrow> State_Monad.return (zeroResult, Some err)
      | Inr (lv', refreshed) \<Rightarrow> do {
          pending \<leftarrow> readState rxPendingCapacity;
          pollStep rn lv' (pollPlanFor (lvPrevious lv') pending refreshed provisional)
        }
    }) sound s1"
    if "everyEvent P (rxHistory s1)" "\<forall>lv. loaded = Inr lv \<longrightarrow>
      lvPrevious lv = loadedState (rxHistory s1) \<and> lvWorkers lv = [] \<and> lvPools lv = []" "\<forall>result. loaded = Inl result \<longrightarrow> snd result \<noteq> None" for loaded and s1 :: rstate
    using that observedStep_sound by (cases loaded) (auto simp: sound_def truthful_def simp del: wp_bind)
  show ?thesis
    unfolding reconcileStep_def wp_bind [of "ctxErr (rnEnv rn)"]
  proof (rule wp_mono [OF keepsD [OF keeps(1) assms]], goal_cases)
    case (1 cancelled s1)
    show ?case
    proof (cases cancelled)
      case None
      then show ?thesis
        unfolding option.case wp_bind [of "loadState rn"]
        by (simp only: option.case, subst wp_bind)
          (rule wp_mono [OF wp_conj [OF keepsD [OF keeps(2) 1] wp_conj [OF loadState_knows loadState_fails]]], blast intro: loaded)
    qed (use 1 in simp)
  qed
qed

text \<open>The loop of \<open>Step\<close> only reads contexts between the runs, so the result stays truthful.\<close>

definition soundly :: "outcome option \<Rightarrow> rstate \<Rightarrow> bool" where
  "soundly r s \<longleftrightarrow> everyEvent P (rxHistory s) \<and> (\<forall>result. r = Some result \<longrightarrow> truthful result (rxHistory s))"

lemma soundly_error [simp]: "soundly (Some (result, Some err)) s \<longleftrightarrow> everyEvent P (rxHistory s)"
  by (simp add: soundly_def)

lemma contexts:
  "keeps P (parentErr (rnEnv rn))" "keeps P (ctxCause (rnEnv rn))" "keeps P (timeNow (rnEnv rn))"
  "emits (\<lambda>e. \<not> isLoad e) (parentErr (rnEnv rn))" "emits (\<lambda>e. \<not> isLoad e) (ctxCause (rnEnv rn))"
  "emits (\<lambda>e. \<not> isLoad e) (timeNow (rnEnv rn))"
  unfolding parentErr_def by (intro keeps_emitted emits_rules; simp add: admits_harmless)+

lemma runOnce_sound:
  assumes "everyEvent P (rxHistory s)"
  shows "wp (runOnce rn reruns) (\<lambda>(result, _) s'. sound result s') s"
proof -
  have cause: "wp (do { cause \<leftarrow> ctxCause (rnEnv rn); State_Monad.return (result, cause) }) (\<lambda>(result, _) s'. sound result s') s1"
    if "sound result s1" for result and s1 :: rstate
    using that truthful_later unfolding sound_def
    by (intro inv_frame [OF contexts(2,5)]) auto
  show ?thesis
    unfolding runOnce_def wp_bind [of "modifyState _"] wp_modifyState wp_bind [of "reconcileStep rn"]
    by (rule wp_mono [OF reconcileStep_sound]) (use assms cause in simp_all)
qed

lemma stepLoop_sound:
  assumes "everyEvent P (rxHistory s)"
  shows "wp (stepLoop rn fuel reruns) soundly s"
  using assms
proof (induction fuel arbitrary: reruns s)
  case (Suc fuel)
  have final: "wp (do {
      parent \<leftarrow> parentErr (rnEnv rn);
      case parent of
        Some err \<Rightarrow> State_Monad.return (Some (fst result, Some err))
      | None \<Rightarrow>
          (case cause of
             None \<Rightarrow> State_Monad.return (Some result)
           | Some c \<Rightarrow>
               if errorsIs ReconcileInputsChanged c then stepLoop rn fuel (Suc reruns)
               else State_Monad.return (Some (fst result, if snd result = None then Some c else snd result)))
    }) soundly s1" if "sound result s1" for result cause and s1 :: rstate
  proof (rule inv_frame [OF contexts(1,4)], goal_cases)
    case 1
    show ?case using that by (simp add: sound_def)
  next
    case (2 parent s2)
    then have "soundly (Some result) s2"
      using that truthful_later by (auto simp: sound_def soundly_def)
    moreover have "soundly (Some (fst result, if snd result = None then Some c else snd result)) s2"
      "soundly (Some (fst result, Some c)) s2" for c
      using 2(1) truthful_caused by (simp_all add: soundly_def del: if_split)
    ultimately show ?case
      using Suc.IH [OF 2(1)] by (cases parent; cases cause) (simp_all split del: if_split add: if_split [of "\<lambda>m. wp m _ _"])
  qed
  show ?case
    unfolding stepLoop.simps
  proof (rule inv_frame [OF contexts(1,4) Suc.prems], goal_cases)
    case (1 cancelled s1)
    have "wp (runOnce rn reruns) (\<lambda>(result, cause). wp (do {
      parent \<leftarrow> parentErr (rnEnv rn);
      case parent of
        Some err \<Rightarrow> State_Monad.return (Some (fst result, Some err))
      | None \<Rightarrow>
          (case cause of
             None \<Rightarrow> State_Monad.return (Some result)
           | Some c \<Rightarrow>
               if errorsIs ReconcileInputsChanged c then stepLoop rn fuel (Suc reruns)
               else State_Monad.return (Some (fst result, if snd result = None then Some c else snd result)))
    }) soundly) s1"
      by (rule wp_mono [OF runOnce_sound [OF 1(1)]]) (auto intro: final simp del: wp_bind)
    then show ?case
      using 1 by (auto simp: wp_bind [of "runOnce rn reruns"] case_prod_unfold split: option.split simp del: wp_bind)
  qed
qed (simp add: soundly_def)

lemma StepWithin_sound:
  assumes "everyEvent P (rxHistory s)"
  shows "wp (StepWithin rn fuel) soundly s"
proof -
  have finish: "wp (do {
      finished \<leftarrow> timeNow (rnEnv rn);
      modifyState (\<lambda>s. s\<lparr>rxLastTick := timeSub finished started\<rparr>);
      State_Monad.return result
    }) soundly s1" if "soundly result s1" for result started and s1 :: rstate
    using that truthful_later unfolding soundly_def
    by (intro inv_frame [OF contexts(3,6)]) auto
  show ?thesis
    unfolding StepWithin_def
  proof (rule inv_frame [OF contexts(3,6) assms], goal_cases)
    case (1 started s1)
    show ?case
      unfolding wp_bind [of "stepLoop rn fuel 0"] by (rule wp_mono [OF stepLoop_sound [OF 1(1)] finish])
  qed
qed

lemma StepWithin_keeps: "keeps P (StepWithin rn fuel)"
  by (rule keepsI, rule wp_mono [OF StepWithin_sound]) (simp_all add: soundly_def)

lemma runSteps_keep: "keeps P (runSteps rn fuels)"
  by (induction fuels) (auto intro!: keeps_rules StepWithin_keeps)

theorem trace_admitted: "everyEvent P (controllerTrace rn fuels)"
  using keepsD [OF runSteps_keep, of newReconcilerState]
  by (simp add: controllerTrace_def newReconcilerState_def wp_def case_prod_unfold)

end

end
