(* ===== verification/Shutdown.thy ===== *)
theory Shutdown
  imports Step_Invariant
begin

text \<open>
  The graceful drain of \<open>src/internal/controller/shutdown.go\<close>. \<open>Shutdown\<close> repeats \<open>Step\<close> until the
  observed state is drained, or until three steps in a row have failed, and then closes the
  scale-set sessions and the worker runtime. A drain waits for active work without a bound, so the
  loop runs on fuel; None means that it had not returned when the fuel ran out. The context of
  \<open>Shutdown\<close> is the parent of the contexts of its steps.
\<close>

section \<open>The drain\<close>

definition shutdownDegradedStepBudget :: nat where "shutdownDegradedStepBudget = 3"

definition poolDrained :: "PoolObservation \<Rightarrow> bool" where
  "poolDrained p \<longleftrightarrow> \<not> (\<not> poCapacityAcknowledged p \<or> poMaxCapacity p \<noteq> 0 \<or> poTotalAssignedJobs p \<noteq> 0 \<or>
     poDrainServiceCapacity p \<noteq> 0 \<or> poZeroCapacityConfirmations p < 2)"

fun poolsDrained :: "string list \<Rightarrow> string list \<Rightarrow> PoolObservation list \<Rightarrow> bool" where
  "poolsDrained expected seen [] = True"
| "poolsDrained expected seen (p # ps) =
     (if poID p \<notin> set expected then False
      else if poID p \<in> set seen then False
      else if \<not> poolDrained p then False
      else poolsDrained expected (poID p # seen) ps)"

definition shutdownDrained :: "ObservedState \<Rightarrow> Target list \<Rightarrow> bool" where
  "shutdownDrained observed targets =
     (if length (osPools observed) \<noteq> length targets then False
      else if \<not> poolsDrained (map tgID targets) [] (osPools observed) then False
      else \<not> list_ex workerActive (osWorkers observed))"

text \<open>\<open>clock.Sleep\<close> under the context of \<open>Shutdown\<close>: only its own cancellation ends the sleep early.\<close>

definition shutdownSleep :: "Env \<Rightarrow> duration \<Rightarrow> goError option action" where
  "shutdownSleep env = clockSleep (parentErr env) (\<lambda>d. do {
     c \<leftarrow> ask (\<lambda>h. enTimer env h d) (Slept d);
     State_Monad.return (case c of Some (ParentCancelled err) \<Rightarrow> Some err | _ \<Rightarrow> None)
   })"

text \<open>How the loop ends: with an error of the context or of the sleep, drained, or degraded.\<close>

datatype drainEnd = DrainFailed goError | Drained | DrainDegraded

fun drainLoop :: "Reconciler \<Rightarrow> nat \<Rightarrow> nat \<Rightarrow> nat \<Rightarrow> drainEnd option action" where
  "drainLoop rn stepFuel 0 degradedSteps = State_Monad.return None"
| "drainLoop rn stepFuel (Suc fuel) degradedSteps = do {
     cancelled \<leftarrow> parentErr (rnEnv rn);
     case cancelled of
       Some err \<Rightarrow> State_Monad.return (Some (DrainFailed err))
     | None \<Rightarrow> do {
         stepped \<leftarrow> StepWithin rn stepFuel;
         case stepped of
           None \<Rightarrow> State_Monad.return None
         | Some (result, err) \<Rightarrow>
             if err = None \<and> shutdownDrained (rzObserved result) (cfTargets (rnConfig rn))
             then State_Monad.return (Some Drained)
             else if err \<noteq> None \<and> shutdownDegradedStepBudget \<le> Suc degradedSteps
             then State_Monad.return (Some DrainDegraded)
             else do {
               slept \<leftarrow> shutdownSleep (rnEnv rn) (coShutdownPollInterval (cfController (rnConfig rn)));
               case slept of
                 Some err' \<Rightarrow> State_Monad.return (Some (DrainFailed err'))
               | None \<Rightarrow> drainLoop rn stepFuel fuel (if err = None then 0 else Suc degradedSteps)
             }
       }
   }"

definition closeIf :: "(history \<Rightarrow> goError option) option \<Rightarrow> (goError option \<Rightarrow> event) \<Rightarrow> goError option action" where
  "closeIf closer ev = (case closer of None \<Rightarrow> State_Monad.return None | Some close \<Rightarrow> ask close ev)"

definition closeAll :: "Reconciler \<Rightarrow> bool \<Rightarrow> goError option action" where
  "closeAll rn degraded = do {
     scaleSets \<leftarrow> closeIf (enCloseScaleSets (rnEnv rn)) ScaleSetsClosed;
     workers \<leftarrow> closeIf (enCloseWorkers (rnEnv rn)) WorkersClosed;
     State_Monad.return
       (errorsJoin [if degraded then Some (Sentinel ShutdownDegraded) else None, scaleSets, workers])
   }"

definition ShutdownWithin :: "Reconciler \<Rightarrow> nat \<Rightarrow> nat \<Rightarrow> goError option option action" where
  "ShutdownWithin rn stepFuel fuel = do {
     BeginShutdown;
     ended \<leftarrow> drainLoop rn stepFuel fuel 0;
     case ended of
       None \<Rightarrow> State_Monad.return None
     | Some (DrainFailed err) \<Rightarrow> State_Monad.return (Some (Some err))
     | Some Drained \<Rightarrow> do { r \<leftarrow> closeAll rn False; State_Monad.return (Some r) }
     | Some DrainDegraded \<Rightarrow> do { r \<leftarrow> closeAll rn True; State_Monad.return (Some r) }
   }"

section \<open>What a drained state shows\<close>

lemma poolsDrained_iff:
  "poolsDrained expected seen ps \<longleftrightarrow>
     distinct (map poID ps) \<and> set (map poID ps) \<subseteq> set expected - set seen \<and> (\<forall>p\<in>set ps. poolDrained p)"
  by (induction ps arbitrary: seen) (auto, metis image_eqI)

text \<open>As many distinct pools as targets, each one a target: every target has its drained pool.\<close>

lemma shutdownDrained_targets:
  assumes "shutdownDrained observed targets" and "t \<in> set targets"
  shows "\<exists>p\<in>set (osPools observed). poID p = tgID t \<and> poolDrained p"
proof -
  let ?ids = "map poID (osPools observed)"
  have ps: "distinct ?ids" "set ?ids \<subseteq> set (map tgID targets)" "\<forall>p\<in>set (osPools observed). poolDrained p"
    "length ?ids = length (map tgID targets)"
    using assms(1) by (auto simp: shutdownDrained_def poolsDrained_iff split: if_splits)
  have "card (set (map tgID targets)) \<le> card (set ?ids)"
    using ps(1,4) card_length [of "map tgID targets"] by (simp add: distinct_card del: set_map)
  then have "set ?ids = set (map tgID targets)"
    using ps(2) by (intro card_seteq) auto
  then show ?thesis
    using assms(2) ps(3) by (auto simp: image_iff set_eq_iff) metis
qed

text \<open>
  The host is drained after the last step of a history: every configured target has confirmed zero
  capacity twice without an assigned job, and Docker Desktop was read as down or a listing of that
  step shows no active worker.
\<close>

definition drainedHost :: "Reconciler \<Rightarrow> history \<Rightarrow> bool" where
  "drainedHost rn h \<longleftrightarrow> (\<forall>t\<in>set (cfTargets (rnConfig rn)). zeroConfirmed h (tgID t)) \<and>
     ((\<exists>desktop. DesktopRead (Inr desktop) \<in> set (thisStep h) \<and> \<not> mayHaveManagedWorkers desktop True) \<or>
      (\<exists>listed. WorkersListed (Inr listed) \<in> set (thisStep h) \<and> \<not> containsActiveWorker listed))"

lemma drained_truthful:
  assumes "truthful (result, None) h" and "shutdownDrained (rzObserved result) (cfTargets (rnConfig rn))"
  shows "drainedHost rn h"
proof -
  have "zeroConfirmed h (tgID t)" if "t \<in> set (cfTargets (rnConfig rn))" for t
    using shutdownDrained_targets [OF assms(2) that] assms(1) by (auto simp: truthful_def poolDrained_def)
  moreover have idle: "\<not> workerActive w" if "w \<in> set (osWorkers (rzObserved result))" for w
    using assms(2) that by (auto simp: shutdownDrained_def list_ex_iff split: if_splits)
  have "inventoryCovers (osWorkers (rzObserved result)) h"
    using assms(1) by (simp add: truthful_def)
  then have "(\<exists>desktop. DesktopRead (Inr desktop) \<in> set (thisStep h) \<and> \<not> mayHaveManagedWorkers desktop True) \<or>
      (\<exists>listed. WorkersListed (Inr listed) \<in> set (thisStep h) \<and> \<not> containsActiveWorker listed)"
    unfolding inventoryCovers_def
  proof (elim disjE exE conjE, goal_cases)
    case (2 listed)
    then have "\<not> containsActiveWorker listed"
      using idle by (auto simp: containsActiveWorker_def list_ex_iff)
    then show ?case using 2(1) by blast
  qed blast
  ultimately show ?thesis
    by (simp add: drainedHost_def)
qed

lemma durable_drainedHost: "durable (drainedHost rn)"
  using durable_confirmed unfolding durable_def drainedHost_def by (meson thisStep_later)

context step_invariant
begin

lemma drainLoop_drained:
  assumes "everyEvent P (rxHistory s)"
  shows "wp (drainLoop rn stepFuel fuel degradedSteps)
    (\<lambda>r s'. everyEvent P (rxHistory s') \<and> (r = Some Drained \<longrightarrow> drainedHost rn (rxHistory s'))) s"
  using assms
proof (induction fuel arbitrary: degradedSteps s)
  case (Suc fuel)
  let ?Q = "\<lambda>r s'. everyEvent P (rxHistory s') \<and> (r = Some Drained \<longrightarrow> drainedHost rn (rxHistory s'))"
  have sleep: "keeps P (shutdownSleep (rnEnv rn) d)" "emits (\<lambda>e. \<not> isLoad e) (shutdownSleep (rnEnv rn) d)" for d
    unfolding shutdownSleep_def clockSleep_def
    by (auto intro!: keeps_rules contexts emits_rules keeps_emitted simp: admits_harmless)
  have again: "wp (do {
      slept \<leftarrow> shutdownSleep (rnEnv rn) (coShutdownPollInterval (cfController (rnConfig rn)));
      case slept of
        Some err' \<Rightarrow> State_Monad.return (Some (DrainFailed err'))
      | None \<Rightarrow> drainLoop rn stepFuel fuel n
    }) ?Q s1" if "everyEvent P (rxHistory s1)" for n and s1 :: rstate
    by (rule inv_frame [OF sleep that]) (auto intro: Suc.IH split: option.split)
  have rest: "wp (case stepped of
      None \<Rightarrow> State_Monad.return None
    | Some (result, err) \<Rightarrow>
        if err = None \<and> shutdownDrained (rzObserved result) (cfTargets (rnConfig rn))
        then State_Monad.return (Some Drained)
        else if err \<noteq> None \<and> shutdownDegradedStepBudget \<le> Suc degradedSteps
        then State_Monad.return (Some DrainDegraded)
        else do {
          slept \<leftarrow> shutdownSleep (rnEnv rn) (coShutdownPollInterval (cfController (rnConfig rn)));
          case slept of
            Some err' \<Rightarrow> State_Monad.return (Some (DrainFailed err'))
          | None \<Rightarrow> drainLoop rn stepFuel fuel (if err = None then 0 else Suc degradedSteps)
        }) ?Q s1" if "soundly stepped s1" for stepped and s1 :: rstate
    using that again [of s1] drained_truthful
    by (cases stepped) (auto simp: soundly_def simp del: wp_bind)
  show ?case
    unfolding drainLoop.simps
  proof (rule inv_frame [OF contexts(1,4) Suc.prems], goal_cases)
    case (1 cancelled s1)
    show ?case
    proof (cases cancelled)
      case None
      show ?thesis
        unfolding None option.case wp_bind [of "StepWithin rn stepFuel"]
        by (rule wp_mono [OF StepWithin_sound [OF 1(1)] rest])
    qed (use 1 in simp)
  qed
qed simp

lemma ShutdownWithin_drained:
  assumes "everyEvent P (rxHistory s)"
  shows "wp (ShutdownWithin rn stepFuel fuel) (\<lambda>r s'. r = Some None \<longrightarrow> drainedHost rn (rxHistory s')) s"
proof -
  have close: "wp (closeAll rn degraded) (\<lambda>r s'. (r = None \<longrightarrow> \<not> degraded) \<and> later (rxHistory s1) (rxHistory s')) s1"
    for degraded and s1 :: rstate
    by (auto simp: closeAll_def closeIf_def errorsJoin_None_iff later_def isLoad_def split: option.split)
  have rest: "wp (case ended of
       None \<Rightarrow> State_Monad.return None
     | Some (DrainFailed err) \<Rightarrow> State_Monad.return (Some (Some err))
     | Some Drained \<Rightarrow> do { r \<leftarrow> closeAll rn False; State_Monad.return (Some r) }
     | Some DrainDegraded \<Rightarrow> do { r \<leftarrow> closeAll rn True; State_Monad.return (Some r) })
     (\<lambda>r s'. r = Some None \<longrightarrow> drainedHost rn (rxHistory s')) s1"
    if "ended = Some Drained \<longrightarrow> drainedHost rn (rxHistory s1)" for ended and s1 :: rstate
  proof -
    have "wp (closeAll rn True) (\<lambda>r s'. r = None \<longrightarrow> drainedHost rn (rxHistory s')) s1"
      by (rule wp_mono [OF close]) auto
    moreover have "wp (closeAll rn False) (\<lambda>r s'. r = None \<longrightarrow> drainedHost rn (rxHistory s')) s1"
      if "drainedHost rn (rxHistory s1)"
      by (rule wp_mono [OF close]) (use that durable_drainedHost in \<open>auto simp: durable_def\<close>)
    ultimately show ?thesis
      using that by (simp split: option.split drainEnd.split)
  qed
  show ?thesis
    unfolding ShutdownWithin_def BeginShutdown_def wp_bind [of "tell _"] wp_tell wp_bind [of "drainLoop _ _ _ _"]
    by (rule wp_mono [OF drainLoop_drained]) (use assms rest in \<open>simp_all add: admits_harmless\<close>)
qed

end

end
