(* ===== verification/Trace_Samples.thy ===== *)
theory Trace_Samples
  imports Samples Step
begin

text \<open>
  A concrete controller for the witnesses: the sample host with adapters that answer at once and
  never fail. The desired mode, the observed state on disk and the running workers are parameters;
  the listeners report no assigned job.
\<close>

definition sampleNow :: time where "sampleNow = 62135596800 * second + 40"

definition sampleEnv :: "Mode \<Rightarrow> ObservedState \<Rightarrow> Worker list \<Rightarrow> Env" where
  "sampleEnv mode observed workers =
     \<lparr>enNow = (\<lambda>_. sampleNow), enCancel = (\<lambda>_. None), enShuttingDown = (\<lambda>_. False),
      enLoadDesired = (\<lambda>_. Inr \<lparr>dsSchemaVersion = 1, dsMode = mode, dsTemporaryCapacityOverride = None, dsUpdatedAt = 1\<rparr>),
      enSaveDesired = (\<lambda>_ _. None), enLoadObserved = (\<lambda>_. Inr observed), enQuarantine = None,
      enSaveObserved = (\<lambda>_ _. None), enInputIdle = None,
      enPower = (\<lambda>_. Inr \<lparr>pwACConnected = True, pwObservedAt = 1\<rparr>),
      enResources = (\<lambda>_. Inr (sampleSnapshot 30064771072)),
      enDesktopStatus = (\<lambda>_. Inr \<lparr>dtDesktopRunning = True, dtEngineReachable = True, dtRunningWSLCount = 1\<rparr>),
      enDesktopStart = (\<lambda>_. None), enDesktopStop = (\<lambda>_. None), enShutdownAllWSL = (\<lambda>_. None),
      enEngineMemory = (\<lambda>_. Inr 0), enListWorkers = (\<lambda>_. Inr workers),
      enLoadJobs = (\<lambda>_. Inr \<lparr>caSchemaVersion = 1, caRecords = []\<rparr>),
      enEnsure = (\<lambda>_ d _. Inr \<lparr>idScaleSetID = 1, idListenerID = sfTargetID d\<rparr>),
      enStatistics = (\<lambda>_ _ _. Inr \<lparr>statTotalAssignedJobs = 0\<rparr>),
      enCreateJIT = (\<lambda>_ _ _. Inr \<lparr>jitEncoded = ''jit'', jitRunnerID = 9\<rparr>), enRegistered = (\<lambda>_ _ _ _. Inr True),
      enRemoveRunner = (\<lambda>_ _ _. None), enStartWorker = (\<lambda>_ req. Inr (sampleWorker (swName req) (swPoolID req) WorkerStarting)),
      enRemoveIfIdle = (\<lambda>_ _. Inr True), enTimer = (\<lambda>_ _. None), enDraw = (\<lambda>_. None), enDetached = (\<lambda>_. None),
      enDetachedTimer = (\<lambda>_ _. None), enProcessCPU = (\<lambda>_. Fin 0), enTicks = (\<lambda>_. 0), enPollsReturned = (\<lambda>_. True),
      enCloseScaleSets = Some (\<lambda>_. None), enCloseWorkers = Some (\<lambda>_. None), enForceStop = None,
      enGoroutineDump = (\<lambda>_ _. Inr ''dump'')\<rparr>"

definition sampleReconciler :: "Mode \<Rightarrow> ObservedState \<Rightarrow> Worker list \<Rightarrow> Reconciler" where
  "sampleReconciler mode observed workers =
     \<lparr>rnConfig = sampleConfig\<lparr>cfPower := \<lparr>pcPolicy = PowerACOnly, pcStableACWindow = 10\<rparr>\<rparr>, rnVersion = ''1.0.0'', rnBackoff = newBackoff sampleConfig,
      rnEnv = sampleEnv mode observed workers\<rparr>"

text \<open>On mains power for long enough; each pool was last polled at capacity zero without a job.\<close>

definition sampleObserved :: ObservedState where
  "sampleObserved = zeroObservedState\<lparr>osPowerGate := \<lparr>pgACSince = Some (sampleNow - 20)\<rparr>,
     osPools := map (\<lambda>i. zeroPoolObservation\<lparr>poID := i, poScaleSetID := 1, poListenerID := i,
       poCapacityAcknowledged := True, poZeroCapacityConfirmations := 1\<rparr>) [''b'', ''a'']\<rparr>"

lemma sampleTargets_distinct: "distinct (map tgID (cfTargets (rnConfig (sampleReconciler mode observed workers))))"
  by (simp add: sampleReconciler_def sampleConfig_def sampleTarget_def)

end
