(* ===== verification/Start_Theorems.thy ===== *)
theory Start_Theorems
  imports Shutdown Trace_Samples
begin

text \<open>
  Which workers a controller starts. A container start is the one action that cannot be undone, so
  the theorem of this theory is about the whole trace of a step: whatever the adapters answer and
  whenever the step is cancelled, the events right before each start are a complete set of fresh
  readings from which the planner itself starts a worker of that pool.
\<close>

section \<open>What a planned start guarantees\<close>

lemma poolMemory_nonneg: "0 \<le> poolMemory i poolID"
  by (simp add: poolMemory_def split: option.split)

lemma plansStart_fits:
  assumes "distinct (map tgID (piTargets i))" and "plansStart (buildPlan clock i) poolID"
  shows "poolID \<in> tgID ` set (piTargets i) \<and> countBy isBusy (piWorkers i) < hostWorkerLimit i \<and>
    \<not> mbFloorBlocked (evaluateMemoryBasis i) \<and>
    (memoryObservationValid i (evaluateMemoryBasis i) \<longrightarrow>
      poolMemory i poolID \<le> uint (mbRemaining (evaluateMemoryBasis i)))"
proof -
  let ?ds = "plStart (buildPlan clock i)"
  have ok: "startsOK i (hostWorkerLimit i - countBy isBusy (piWorkers i)) ?ds"
    by (rule buildPlan_startsOK [OF assms(1)])
  obtain d where d: "d \<in> set ?ds" "sdPoolID d = poolID" "0 < sdCount d"
    using assms(2) by (auto simp: plansStart_def list_ex_iff)
  have pos: "0 < sdCount e" if "e \<in> set ?ds" for e
    using ok that by (auto simp: startsOK_def list_all_iff)
  have "sdCount d \<le> startCount ?ds"
    unfolding startCount_def using d(1) by (intro sum_list_member_le) (auto dest: pos)
  moreover have "sdCount d * poolMemory i poolID \<le> startBytes i ?ds"
    unfolding startBytes_def d(2) [symmetric] using d(1)
    by (intro sum_list_member_le [where f = "\<lambda>e. sdCount e * poolMemory i (sdPoolID e)"])
      (auto dest!: pos simp: poolMemory_nonneg)
  moreover have "poolMemory i poolID \<le> sdCount d * poolMemory i poolID"
    using d(3) mult_right_mono [of 1 "sdCount d" "poolMemory i poolID"] by (simp add: poolMemory_nonneg)
  ultimately show ?thesis
    using ok d by (auto simp: startsOK_def targetIDs_def)
qed

section \<open>Fresh readings\<close>

text \<open>The workers a listing shows once the durable job state, if it was read, marks the busy ones.\<close>

definition enrichedBy :: "history \<Rightarrow> Worker list \<Rightarrow> Worker list \<Rightarrow> bool" where
  "enrichedBy jobs listed workers \<longleftrightarrow>
     (if listed = [] then jobs = [] \<and> workers = []
      else \<exists>r. jobs = [JobsLoaded r] \<and>
        (case r of
           Inr catalog \<Rightarrow> workers = enrichWith catalog listed
         | Inl err \<Rightarrow> errorsIs JobIndexNotFound err \<and> workers = enrichWith \<lparr>caSchemaVersion = 0, caRecords = []\<rparr> listed))"

text \<open>
  The history ends with the readings of \<open>freshStartAllowed\<close>, newest first, and the input they make
  up is one from which the planner starts a worker of the pool. What that implies is spelled out:
  the pool is configured, fewer workers are busy than the host limit allows, the host is above its
  memory floor and the worker's memory fits in what the memory basis leaves.
\<close>

definition freshlyAdmitted :: "Reconciler \<Rightarrow> history \<Rightarrow> string \<Rightarrow> bool" where
  "freshlyAdmitted rn h poolID \<longleftrightarrow>
     (\<exists>now jobs listed desktop resources pwr draining loaded older workers desired sx reserved engineMemory idle.
        h = NowRead now # jobs @ WorkersListed (Inr listed) # DesktopRead (Inr desktop) #
          ResourcesRead (Inr resources) # PowerRead (Inr pwr) # ShuttingDownRead draining #
          DesiredLoaded loaded # older \<and>
        enrichedBy jobs listed workers \<and>
        (case loaded of
           Inr d \<Rightarrow> desired = drainIntent draining d
         | Inl err \<Rightarrow> errorsIs StateNotFound err \<and> dsMode desired = ModeDisabled) \<and>
        sameAdmissionIntent (sxDesired sx) desired \<and>
        (let i = startInput rn sx desired pwr (reserveStarted rn resources reserved) desktop workers
               engineMemory idle now
         in plansStart (buildPlan now i) poolID \<and>
            poolID \<in> tgID ` set (cfTargets (rnConfig rn)) \<and>
            countBy isBusy workers < hostWorkerLimit i \<and>
            \<not> mbFloorBlocked (evaluateMemoryBasis i) \<and>
            (memoryObservationValid i (evaluateMemoryBasis i) \<longrightarrow>
              poolMemory i poolID \<le> uint (mbRemaining (evaluateMemoryBasis i)))))"

definition startAdmitted :: "Reconciler \<Rightarrow> event \<Rightarrow> history \<Rightarrow> bool" where
  "startAdmitted rn e h \<longleftrightarrow> (case e of WorkerStarted req _ \<Rightarrow> freshlyAdmitted rn h (swPoolID req) | _ \<Rightarrow> True)"

text \<open>An allowed verdict extends a history with the readings that justify it.\<close>

lemma wp_enrichWorkerJobs:
  assumes "\<And>jobs workers. enrichedBy jobs listed workers \<Longrightarrow> Q (Inr workers) (s\<lparr>rxHistory := jobs @ rxHistory s\<rparr>)"
    and "\<And>err r. Q (Inl err) (s\<lparr>rxHistory := JobsLoaded r # rxHistory s\<rparr>)"
  shows "wp (enrichWorkerJobs env listed) Q s"
proof (cases "listed = []")
  case True
  then show ?thesis
    using assms(1) [of "[]" "[]"] by (simp add: enrichWorkerJobs_def enrichedBy_def)
next
  case False
  then show ?thesis
    using assms(1) [of "[JobsLoaded (enLoadJobs env (rxHistory s))]"] assms(2)
    by (auto simp: enrichWorkerJobs_def enrichedBy_def split: sum.split)
qed

lemma freshlyAdmittedI:
  assumes "h = NowRead now # jobs @ WorkersListed (Inr listed) # DesktopRead (Inr desktop) #
      ResourcesRead (Inr resources) # PowerRead (Inr pwr) # ShuttingDownRead draining # DesiredLoaded loaded # older"
    and "enrichedBy jobs listed workers"
    and "case loaded of Inr d \<Rightarrow> desired = drainIntent draining d
      | Inl err \<Rightarrow> errorsIs StateNotFound err \<and> dsMode desired = ModeDisabled"
    and "sameAdmissionIntent (sxDesired sx) desired"
    and "distinct (map tgID (cfTargets (rnConfig rn)))"
    and "plansStart (buildPlan now (startInput rn sx desired pwr (reserveStarted rn resources reserved) desktop workers
      engineMemory idle now)) poolID"
  shows "freshlyAdmitted rn h poolID"
proof -
  let ?i = "startInput rn sx desired pwr (reserveStarted rn resources reserved) desktop workers engineMemory idle now"
  have sel: "piTargets ?i = cfTargets (rnConfig rn)" "piWorkers ?i = workers"
    by (simp_all add: startInput_def)
  have "poolID \<in> tgID ` set (cfTargets (rnConfig rn)) \<and> countBy isBusy workers < hostWorkerLimit ?i \<and>
      \<not> mbFloorBlocked (evaluateMemoryBasis ?i) \<and>
      (memoryObservationValid ?i (evaluateMemoryBasis ?i) \<longrightarrow>
        poolMemory ?i poolID \<le> uint (mbRemaining (evaluateMemoryBasis ?i)))"
    using plansStart_fits [of ?i now poolID] assms(5,6) unfolding sel by blast
  then show ?thesis
    unfolding freshlyAdmitted_def Let_def using assms(1-4,6) by blast
qed

lemma judgeStart_allowed:
  assumes "distinct (map tgID (cfTargets (rnConfig rn)))"
    and "rxHistory s = jobs @ WorkersListed (Inr listed) # DesktopRead (Inr desktop) #
      ResourcesRead (Inr resources) # PowerRead (Inr pwr) # ShuttingDownRead draining # DesiredLoaded loaded # older"
    and "enrichedBy jobs listed workers" and "sameAdmissionIntent (sxDesired sx) desired"
    and "case loaded of Inr d \<Rightarrow> desired = drainIntent draining d
      | Inl err \<Rightarrow> errorsIs StateNotFound err \<and> dsMode desired = ModeDisabled"
  shows "wp (judgeStart rn poolID sx reserved desired pwr resources desktop workers)
    (\<lambda>(allowed, _) s'. allowed \<longrightarrow> freshlyAdmitted rn (rxHistory s') poolID) s"
  unfolding judgeStart_def
  by (simp add: Let_def freshlyAdmittedI [OF _ assms(3,5,4,1)] assms(2))

lemma freshStartAllowed_allowed:
  assumes "distinct (map tgID (cfTargets (rnConfig rn)))"
  shows "wp (freshStartAllowed rn poolID sx reserved)
    (\<lambda>(allowed, _) s'. allowed \<longrightarrow> freshlyAdmitted rn (rxHistory s') poolID) s"
proof -
  have intent: "case loaded of Inr d \<Rightarrow> drainIntent draining desired = drainIntent draining d
      | Inl err \<Rightarrow> errorsIs StateNotFound err \<and> dsMode (drainIntent draining desired) = ModeDisabled"
    if "(case loaded of Inl err \<Rightarrow> if errorsIs StateNotFound err then Inr (disabledIntent 0) else Inl err
      | Inr d \<Rightarrow> Inr d) = Inr desired" for loaded draining desired
    using that by (auto simp: drainIntent_def disabledIntent_def split: sum.splits if_splits)
  note judged = judgeStart_allowed [OF assms _ _ _ intent]
  show ?thesis
    unfolding freshStartAllowed_def readDesired_def
    by (auto simp: wp_orUnsafe Let_def split: sum.split intro!: wp_enrichWorkerJobs judged)
qed

section \<open>Every start of a step\<close>

lemma tolerates_startAdmitted: "tolerates (\<lambda>e. \<forall>h. startAdmitted rn e h)"
  by (auto simp: tolerates_def startAdmitted_def harmless_def split: event.splits)

lemma startAdmitted_other [simp]:
  "startAdmitted rn (ObservedLoaded ob) h" "startAdmitted rn (DesktopStarted r) h" "startAdmitted rn (DesktopStopped r) h" "startAdmitted rn (WSLShutDown r) h"
  "startAdmitted rn (Ensured i prior ident) h" "startAdmitted rn (Polled ident' capacity stats) h"
  "startAdmitted rn (JITCreated ident' name jit) h" "startAdmitted rn (RunnerRemoved poolID rid r) h"
  "startAdmitted rn (RemovedIfIdle wid removed) h"
  by (simp_all add: startAdmitted_def)

text \<open>What appends nothing but readings and the other events keeps the invariant.\<close>

lemma keeps_starts:
  assumes "emits (\<lambda>e. \<forall>h. startAdmitted rn e h) m"
  shows "keeps (startAdmitted rn) m"
  using assms by (rule keeps_emits) simp

lemma keeps_fresh:
  assumes "distinct (map tgID (cfTargets (rnConfig rn)))" and "everyEvent (startAdmitted rn) (rxHistory s)"
  shows "wp (freshStartAllowed rn poolID sx reserved)
    (\<lambda>(allowed, _) s'. everyEvent (startAdmitted rn) (rxHistory s') \<and>
       (allowed \<longrightarrow> freshlyAdmitted rn (rxHistory s') poolID)) s"
proof -
  have "wp (freshStartAllowed rn poolID sx reserved) (\<lambda>_ s'. everyEvent (startAdmitted rn) (rxHistory s')) s"
    by (intro keepsD [OF keeps_starts] emits_rules tolerates_startAdmitted assms(2))
  from wp_conj [OF this freshStartAllowed_allowed [OF assms(1)]] show ?thesis
    by (rule wp_mono) auto
qed

lemma keeps_startContainer:
  assumes "everyEvent (startAdmitted rn) (rxHistory s)" and "freshlyAdmitted rn (rxHistory s) poolID"
  shows "wp (startContainer rn poolID name jit limits reserved) (\<lambda>_ s'. everyEvent (startAdmitted rn) (rxHistory s')) s"
proof -
  have rest: "keeps (startAdmitted rn) (do {
      recordProblem WorkerStartFailed poolID True (Some startErr);
      (if \<not> RunnerStartMayBeActive startErr
       then cleanupRecording rn FailedStartCleanupError poolID jit else State_Monad.return ());
      State_Monad.return (StopPool reserved)
    })" for startErr
    by (intro keeps_starts emits_rules tolerates_startAdmitted) (simp_all add: startAdmitted_def)
  have pool: "swPoolID (startRequest rn poolID name jit limits) = poolID"
    by (simp add: startRequest_def)
  show ?thesis
    unfolding startContainer_def wp_bind wp_ask
    using assms pool keepsD [OF rest] by (auto simp: startAdmitted_def split: sum.split simp del: wp_bind)
qed

lemma keeps_startRegistered:
  assumes "distinct (map tgID (cfTargets (rnConfig rn)))"
  shows "keeps (startAdmitted rn) (startRegistered rn poolID name jit limits sx reserved)"
  unfolding startRegistered_def
proof (rule keeps_bind_known [where R = "\<lambda>(allowed, _) s'. allowed \<longrightarrow> freshlyAdmitted rn (rxHistory s') poolID"], goal_cases)
  case (1 s)
  then show ?case
    using keeps_fresh [OF assms] by (auto simp: case_prod_unfold)
next
  case (2 a s)
  have "keeps (startAdmitted rn) (do { cleanupLogging rn poolID jit; abortChanged })"
    by (intro keeps_starts emits_rules tolerates_startAdmitted) simp
  moreover have "keeps (startAdmitted rn) (do {
      cleanupRecording rn UnusedJITRunnerCleanupError poolID jit;
      State_Monad.return (StopPool reserved)
    })"
    by (intro keeps_starts emits_rules tolerates_startAdmitted) simp
  ultimately show ?case
    using 2 keeps_startContainer by (auto simp: keeps_def)
qed

lemma keeps_startWorker:
  assumes "distinct (map tgID (cfTargets (rnConfig rn)))"
  shows "keeps (startAdmitted rn) (startWorker rn poolID identity limits sx reserved)"
  unfolding startWorker_def createJITCall_def
  by (intro keeps_rules keeps_startRegistered assms keeps_starts emits_rules emits_modifyState tolerates_startAdmitted)
    (simp_all add: startAdmitted_def)

lemma keeps_executePlannedStarts:
  assumes "distinct (map tgID (cfTargets (rnConfig rn)))"
  shows "keeps (startAdmitted rn) (executePlannedStarts rn starts identities sx reserved)"
proof -
  have loop: "keeps (startAdmitted rn) (startWorkers rn poolID identity limits sx n reserved)" for poolID identity limits n reserved
    by (induction n arbitrary: reserved)
      (auto intro!: keeps_rules keeps_startWorker [OF assms] split: loopControl.split)
  show ?thesis
    by (induction starts arbitrary: reserved)
      (auto intro!: keeps_rules loop keeps_starts [OF emits_recordProblem] simp: startAdmitted_def split: option.split)
qed

text \<open>The target IDs of a valid configuration are distinct; without that nothing is claimed.\<close>

definition startInvariant :: "Reconciler \<Rightarrow> event \<Rightarrow> history \<Rightarrow> bool" where
  "startInvariant rn e h \<longleftrightarrow> (distinct (map tgID (cfTargets (rnConfig rn))) \<longrightarrow> startAdmitted rn e h)"

lemma keeps_startInvariant:
  assumes "distinct (map tgID (cfTargets (rnConfig rn))) \<Longrightarrow> keeps (startAdmitted rn) m"
  shows "keeps (startInvariant rn) m"
proof (cases "distinct (map tgID (cfTargets (rnConfig rn)))")
  case True
  then have "startInvariant rn = startAdmitted rn"
    by (simp add: startInvariant_def fun_eq_iff)
  then show ?thesis
    using assms [OF True] by simp
next
  case False
  then have "everyEvent (startInvariant rn) h" for h
    by (induction h) (simp_all add: startInvariant_def)
  then show ?thesis
    by (auto simp: keeps_def wp_def)
qed

interpretation start_trace: step_invariant rn "startInvariant rn" for rn
proof (unfold_locales, goal_cases)
  show "startInvariant rn e h" if "harmless e" for e h
    using toleratesD [OF tolerates_startAdmitted that] by (simp add: startInvariant_def)
  show "keeps (startInvariant rn) (executePlannedStarts rn starts identities sx reserved)"
    for starts identities sx reserved
    by (intro keeps_startInvariant keeps_executePlannedStarts)
  have "keeps (startInvariant rn) (retireWorkers rn jobStateKnown advertised ak removals stale)"
    for jobStateKnown advertised ak removals stale
    by (intro keeps_startInvariant keeps_starts emits_rules tolerates_startAdmitted) simp_all
  then show "wp (retireWorkers rn jobStateKnown advertised ak removals stale)
      (\<lambda>_ s'. everyEvent (startInvariant rn) (rxHistory s')) s"
    if "everyEvent (startInvariant rn) (rxHistory s)" for jobStateKnown advertised ak removals stale and s :: rstate
    using that by (rule keepsD)
  have "keeps (startInvariant rn) (gamingShutdown rn ak desktop known stopDesktop shutdownWSL)"
    for ak desktop known stopDesktop shutdownWSL
    by (intro keeps_startInvariant keeps_starts emits_rules tolerates_startAdmitted) simp_all
  then show "wp (gamingShutdown rn ak desktop known stopDesktop shutdownWSL)
      (\<lambda>_ s'. everyEvent (startInvariant rn) (rxHistory s')) s"
    if "everyEvent (startInvariant rn) (rxHistory s)" for ak desktop known stopDesktop shutdownWSL and s :: rstate
    using that by (rule keepsD)
qed (simp_all add: startInvariant_def)

text \<open>
  C2: every worker start in a controller's trace is freshly admitted. Whatever the adapters
  answer, whenever steps are cancelled and however often they are rerun, the events right before
  a container start are one complete set of successful readings (desired state, shutdown flag,
  power, resources, desktop, worker listing, job state, clock) from which the planner itself
  starts a worker of that pool.\<close>

theorem starts_freshly_admitted:
  assumes "distinct (map tgID (cfTargets (rnConfig rn)))"
  shows "\<forall>newer req answer older. controllerTrace rn fuels = newer @ WorkerStarted req answer # older \<longrightarrow>
    freshlyAdmitted rn older (swPoolID req)"
proof (intro allI impI)
  fix newer req answer older
  assume "controllerTrace rn fuels = newer @ WorkerStarted req answer # older"
  then have "startInvariant rn (WorkerStarted req answer) older"
    using start_trace.trace_admitted [of rn fuels] by (auto intro: everyEvent_split)
  then show "freshlyAdmitted rn older (swPoolID req)"
    using assms by (simp add: startInvariant_def startAdmitted_def)
qed

theorem starts_freshly_admitted_witness:
  "let rn = sampleReconciler ModeEnabled sampleObserved [] in
   \<forall>newer req answer older. controllerTrace rn [3, 3] = newer @ WorkerStarted req answer # older \<longrightarrow>
     freshlyAdmitted rn older (swPoolID req)"
  unfolding Let_def by (rule starts_freshly_admitted [OF sampleTargets_distinct])

end
