(* ===== verification/Removal_Theorems.thy ===== *)
theory Removal_Theorems
  imports Start_Theorems
begin

text \<open>
  Which registrations and containers a controller removes, and when it stops the host's engine.
  The theorems are about the whole trace, for every behaviour of the adapters: what precedes each
  removal and each stop shows that no job can be lost by it.
\<close>

section \<open>Safe removals\<close>

text \<open>
  A registration created in this step: the container that was to use it has not been started, or
  its start failed in a way that excludes a running runner.
\<close>

definition isJIT :: "event \<Rightarrow> bool" where
  "isJIT e = (case e of JITCreated _ _ _ \<Rightarrow> True | _ \<Rightarrow> False)"

definition unusedRegistration :: "history \<Rightarrow> int \<Rightarrow> bool" where
  "unusedRegistration h runnerID \<longleftrightarrow>
     (\<exists>since identity name jit older. h = since @ JITCreated identity name (Inr jit) # older \<and>
        (\<forall>e\<in>set since. \<not> isJIT e) \<and> jitRunnerID jit = runnerID \<and>
        (\<forall>req answer. WorkerStarted req answer \<in> set since \<longrightarrow>
           (\<exists>err. answer = Inl err \<and> \<not> RunnerStartMayBeActive err)))"

text \<open>
  A worker of this step's inventory that is not busy, in a pool whose listener has confirmed zero
  capacity without an assigned job in this step and in the state the step started from.
\<close>

definition quiescedWorker :: "history \<Rightarrow> string \<Rightarrow> int \<Rightarrow> Worker \<Rightarrow> bool" where
  "quiescedWorker h poolID runnerID w \<longleftrightarrow>
     listedWorker h w \<and> wPoolID w = poolID \<and> wRunnerID w = runnerID \<and> 0 < runnerID \<and>
     wState w \<noteq> WorkerBusy \<and> zeroConfirmed h poolID"

definition deregistered :: "event \<Rightarrow> string \<Rightarrow> int \<Rightarrow> bool" where
  "deregistered e poolID runnerID \<longleftrightarrow>
     e = RunnerRemoved poolID runnerID None \<or>
     (\<exists>err. e = RunnerRemoved poolID runnerID (Some err) \<and> IsKind err ErrorNotFound)"

definition removalSafe :: "event \<Rightarrow> history \<Rightarrow> bool" where
  "removalSafe e h \<longleftrightarrow>
     (case e of
        RunnerRemoved poolID runnerID _ \<Rightarrow>
          unusedRegistration h runnerID \<or> (\<exists>w. quiescedWorker h poolID runnerID w)
      | RemovedIfIdle workerID _ \<Rightarrow>
          (\<exists>w. wID w = workerID \<and> listedWorker h w \<and>
             (wState w = WorkerExited \<or> wState w = WorkerUnregistered \<or>
              quiescedWorker h (wPoolID w) (wRunnerID w) w \<and>
              (\<exists>e h'. h = e # h' \<and> deregistered e (wPoolID w) (wRunnerID w))))
      | _ \<Rightarrow> True)"

lemma tolerates_removalSafe: "tolerates (\<lambda>e. \<forall>h. removalSafe e h)"
  by (auto simp: tolerates_def removalSafe_def harmless_def split: event.splits)

lemma removalSafe_harmless [simp]: "harmless e \<Longrightarrow> removalSafe e h"
  using toleratesD [OF tolerates_removalSafe] by blast

lemma removalSafe_quiesced: "quiescedWorker h poolID runnerID w \<Longrightarrow> removalSafe (RunnerRemoved poolID runnerID r) h"
  by (auto simp: removalSafe_def)

lemma removalSafe_other [simp]:
  "removalSafe (ObservedLoaded ob) h" "removalSafe (DesktopStarted r) h" "removalSafe (DesktopStopped r) h"
  "removalSafe (WSLShutDown r) h" "removalSafe (Ensured i prior ident) h" "removalSafe (Polled ident' capacity stats) h"
  "removalSafe (JITCreated ident' name jit) h" "removalSafe (WorkerStarted req w) h"
  by (simp_all add: removalSafe_def)

lemma keeps_removals: "emits (\<lambda>e. \<forall>h. removalSafe e h) m \<Longrightarrow> keeps removalSafe m"
  by (erule keeps_emits) simp

section \<open>Cleaning up unused registrations\<close>

text \<open>
  While no further registration is created and no container is started, the last registration
  stays unused.
\<close>

definition idleEvent :: "event \<Rightarrow> bool" where
  "idleEvent e \<longleftrightarrow> \<not> isJIT e \<and> (case e of WorkerStarted _ _ \<Rightarrow> False | _ \<Rightarrow> True)"

lemma tolerates_idleEvent: "tolerates idleEvent"
  by (auto simp: tolerates_def idleEvent_def isJIT_def harmless_def split: event.splits)

lemma unusedRegistration_created: "unusedRegistration (JITCreated identity name (Inr jit) # h) (jitRunnerID jit)"
  unfolding unusedRegistration_def by (intro exI [of _ "[]"] exI conjI) auto

lemma unusedRegistration_idle:
  assumes "unusedRegistration h runnerID" and "\<forall>e\<in>set new. idleEvent e"
  shows "unusedRegistration (new @ h) runnerID"
proof -
  obtain since identity name jit older where h: "h = since @ JITCreated identity name (Inr jit) # older"
    "\<forall>e\<in>set since. \<not> isJIT e" "jitRunnerID jit = runnerID"
    "\<forall>req answer. WorkerStarted req answer \<in> set since \<longrightarrow> (\<exists>err. answer = Inl err \<and> \<not> RunnerStartMayBeActive err)"
    using assms(1) unfolding unusedRegistration_def by blast
  have "WorkerStarted req answer \<notin> set new" for req answer
    using assms(2) by (force simp: idleEvent_def)
  then have "\<forall>req answer. WorkerStarted req answer \<in> set (new @ since) \<longrightarrow>
      (\<exists>err. answer = Inl err \<and> \<not> RunnerStartMayBeActive err)"
    using h(4) by auto
  moreover have "\<forall>e\<in>set (new @ since). \<not> isJIT e"
    using assms(2) h(2) by (auto simp: idleEvent_def)
  ultimately show ?thesis
    unfolding unusedRegistration_def h(1) using h(3) by (metis append.assoc)
qed

lemma wp_unused:
  assumes "emits idleEvent m" and "keeps removalSafe m"
    and "everyEvent removalSafe (rxHistory s)" and "unusedRegistration (rxHistory s) runnerID"
  shows "wp m (\<lambda>_ s'. everyEvent removalSafe (rxHistory s') \<and> unusedRegistration (rxHistory s') runnerID) s"
  by (rule wp_mono [OF wp_conj [OF keepsD [OF assms(2,3)] wp_emits [OF assms(1)]]])
    (auto intro: unusedRegistration_idle [OF assms(4)])

text \<open>
  What an action may append while the last registration is unused: idle events that are safe
  removals after any history, and attempts to remove that registration.
\<close>

definition unusedEvent :: "int \<Rightarrow> event \<Rightarrow> bool" where
  "unusedEvent runnerID e \<longleftrightarrow>
     (\<forall>h. removalSafe e h) \<and> idleEvent e \<or> (\<exists>poolID r. e = RunnerRemoved poolID runnerID r)"

lemma tolerates_unusedEvent: "tolerates (unusedEvent runnerID)"
  using tolerates_removalSafe tolerates_idleEvent by (simp add: tolerates_def unusedEvent_def)

lemma unusedEvent_removed [simp]: "unusedEvent runnerID (RunnerRemoved poolID runnerID r)"
  by (auto simp: unusedEvent_def)

lemma wp_unusedEvents:
  assumes "emits (unusedEvent runnerID) m"
    and "everyEvent removalSafe (rxHistory s)" and "unusedRegistration (rxHistory s) runnerID"
  shows "wp m (\<lambda>_ s'. everyEvent removalSafe (rxHistory s')) s"
proof (rule wp_mono [OF wp_emits [OF assms(1)]], elim exE conjE)
  fix a s' new
  assume "rxHistory s' = new @ rxHistory s"
    and "\<forall>e\<in>set new. unusedEvent runnerID e"
  moreover have "everyEvent removalSafe (new @ rxHistory s)"
    if "\<forall>e\<in>set new. unusedEvent runnerID e" for new
    using that
  proof (induction new)
    case (Cons e new)
    have "\<forall>e\<in>set new. idleEvent e"
      using Cons.prems by (auto simp: unusedEvent_def idleEvent_def isJIT_def)
    then have "unusedRegistration (new @ rxHistory s) runnerID"
      by (rule unusedRegistration_idle [OF assms(3)])
    then show ?case
      using Cons by (auto simp: unusedEvent_def removalSafe_def)
  qed (simp add: assms(2))
  ultimately show "everyEvent removalSafe (rxHistory s')"
    by simp
qed

lemma removals_startContainer:
  assumes "everyEvent removalSafe (rxHistory s)" and "unusedRegistration (rxHistory s) (jitRunnerID jit)"
  shows "wp (startContainer rn poolID name jit limits reserved) (\<lambda>_ s'. everyEvent removalSafe (rxHistory s')) s"
proof -
  let ?req = "startRequest rn poolID name jit limits"
  let ?started = "\<lambda>answer. s\<lparr>rxHistory := WorkerStarted ?req answer # rxHistory s\<rparr>"
  have unused: "unusedRegistration (WorkerStarted ?req (Inl err) # rxHistory s) (jitRunnerID jit)"
    if "\<not> RunnerStartMayBeActive err" for err
  proof -
    obtain since identity nm j older where h: "rxHistory s = since @ JITCreated identity nm (Inr j) # older"
      "\<forall>e\<in>set since. \<not> isJIT e" "jitRunnerID j = jitRunnerID jit"
      "\<forall>req answer. WorkerStarted req answer \<in> set since \<longrightarrow> (\<exists>err. answer = Inl err \<and> \<not> RunnerStartMayBeActive err)"
      using assms(2) unfolding unusedRegistration_def by blast
    let ?since = "WorkerStarted ?req (Inl err) # since"
    have "WorkerStarted ?req (Inl err) # rxHistory s = ?since @ JITCreated identity nm (Inr j) # older"
      using h(1) by simp
    moreover have "\<forall>e\<in>set ?since. \<not> isJIT e"
      using h(2) by (auto simp: isJIT_def)
    moreover have "\<forall>req answer. WorkerStarted req answer \<in> set ?since \<longrightarrow>
        (\<exists>err. answer = Inl err \<and> \<not> RunnerStartMayBeActive err)"
      using h(4) that by auto
    ultimately show ?thesis
      unfolding unusedRegistration_def using h(3) by blast
  qed
  have cleanup: "wp (do {
      recordProblem WorkerStartFailed poolID True (Some err);
      (if \<not> RunnerStartMayBeActive err
       then cleanupRecording rn FailedStartCleanupError poolID jit else State_Monad.return ());
      State_Monad.return (StopPool reserved)
    }) (\<lambda>_ s'. everyEvent removalSafe (rxHistory s')) (?started (Inl err))" for err
  proof (cases "RunnerStartMayBeActive err")
    case True
    have "keeps removalSafe (do { recordProblem WorkerStartFailed poolID True (Some err); State_Monad.return (StopPool reserved) })"
      by (intro keeps_removals emits_rules tolerates_removalSafe) (simp add: removalSafe_def)
    from keepsD [OF this, of "?started (Inl err)"] show ?thesis
      using True assms(1) by simp
  next
    case False
    then show ?thesis
      using assms(1) unused
      by (intro wp_unusedEvents [where runnerID = "jitRunnerID jit"] emits_rules tolerates_unusedEvent)
        (auto simp: toleratesD [OF tolerates_unusedEvent])
  qed
  show ?thesis
    unfolding startContainer_def wp_bind wp_ask
    using assms(1) cleanup by (auto split: sum.split simp del: wp_bind)
qed

lemma removals_startRegistered:
  assumes "everyEvent removalSafe (rxHistory s)" and "unusedRegistration (rxHistory s) (jitRunnerID jit)"
  shows "wp (startRegistered rn poolID name jit limits sx reserved) (\<lambda>_ s'. everyEvent removalSafe (rxHistory s')) s"
proof -
  have "emits idleEvent (freshStartAllowed rn poolID sx reserved)" "keeps removalSafe (freshStartAllowed rn poolID sx reserved)"
    by (intro keeps_removals emits_rules tolerates_removalSafe tolerates_idleEvent)+
  note fresh = wp_unused [OF this assms]
  have cleanup: "wp (do { cleanupLogging rn poolID jit; abortChanged }) (\<lambda>_ s'. everyEvent removalSafe (rxHistory s')) s1"
    "wp (do { cleanupRecording rn UnusedJITRunnerCleanupError poolID jit; State_Monad.return (StopPool reserved) })
       (\<lambda>_ s'. everyEvent removalSafe (rxHistory s')) s1"
    if "everyEvent removalSafe (rxHistory s1)" "unusedRegistration (rxHistory s1) (jitRunnerID jit)" for s1 :: rstate
    using that
    by (intro wp_unusedEvents [where runnerID = "jitRunnerID jit"] emits_rules tolerates_unusedEvent; simp)+
  show ?thesis
    unfolding startRegistered_def wp_bind [of "freshStartAllowed rn poolID sx reserved"]
    by (rule wp_mono [OF fresh]) (simp add: cleanup removals_startContainer split: prod.split del: wp_bind)
qed

lemma removals_startWorker: "keeps removalSafe (startWorker rn poolID identity limits sx reserved)"
proof -
  have create: "keeps removalSafe (do {
      jit \<leftarrow> RetryValue (stepRetry (rnEnv rn)) (rnBackoff rn) Retryable (createJITCall (rnEnv rn) identity name);
      case jit of
        Inl jitErr \<Rightarrow> do { recordScaleSet JITConfigError poolID jitErr; State_Monad.return (StopPool reserved) }
      | Inr config \<Rightarrow> startRegistered rn poolID name config limits sx reserved
    })" for name
  proof (rule keeps_bind_known [where R = "\<lambda>r s'. \<forall>jit. r = Inr jit \<longrightarrow> unusedRegistration (rxHistory s') (jitRunnerID jit)"], goal_cases)
    case (1 s)
    have keeps: "keeps removalSafe (RetryValue (stepRetry (rnEnv rn)) (rnBackoff rn) Retryable (createJITCall (rnEnv rn) identity name))"
      unfolding createJITCall_def by (intro keeps_removals emits_rules tolerates_removalSafe) simp
    have created: "phase (createJITCall (rnEnv rn) identity name)
        (\<lambda>r h. \<forall>jit. r = Inr jit \<longrightarrow> unusedRegistration h (jitRunnerID jit)) s1" for s1 :: rstate
      by (simp add: phase_def createJITCall_def unusedRegistration_created)
    show ?case
      by (rule wp_mono [OF wp_conj [OF keepsD [OF keeps 1] phase_retried [OF created, unfolded phase_def]]]) simp
  next
    case (2 r s)
    have "keeps removalSafe (do { recordScaleSet JITConfigError poolID jitErr; State_Monad.return (StopPool reserved) })" for jitErr
      by (intro keeps_removals emits_rules tolerates_removalSafe) (simp add: removalSafe_def)
    from keepsD [OF this 2(1)] show ?case
      using 2 removals_startRegistered by (auto split: sum.split simp del: wp_bind)
  qed
  have "keeps removalSafe (ctxErr (rnEnv rn))" "keeps removalSafe (freshStartAllowed rn poolID sx reserved)"
    "keeps removalSafe abortChanged" "keeps removalSafe (nextRunnerName rn (sxNow sx))"
    by (intro keeps_removals emits_rules tolerates_removalSafe; simp)+
  then show ?thesis
    unfolding startWorker_def by (intro keeps_rules create keeps_modifyState) simp_all
qed

lemma removals_executePlannedStarts: "keeps removalSafe (executePlannedStarts rn starts identities sx reserved)"
proof -
  have loop: "keeps removalSafe (startWorkers rn poolID identity limits sx n reserved)" for poolID identity limits n reserved
    by (induction n arbitrary: reserved)
      (auto intro!: keeps_rules removals_startWorker split: loopControl.split)
  show ?thesis
    by (induction starts arbitrary: reserved)
      (auto intro!: keeps_rules loop keeps_removals [OF emits_recordProblem] simp: removalSafe_def split: option.split)
qed

section \<open>Retiring workers\<close>

lemma removals_removeIfIdle:
  assumes "everyEvent removalSafe (rxHistory s)" and "removalSafe (RemovedIfIdle (wID w) (Inr True)) (rxHistory s)"
  shows "wp (removeUnregistered rn w) (\<lambda>_ s'. everyEvent removalSafe (rxHistory s')) s"
    and "wp (removeQuiesced rn w) (\<lambda>_ s'. everyEvent removalSafe (rxHistory s')) s"
proof -
  have recorded: "keeps removalSafe (recordProblem code pool retryable err)" "keeps removalSafe (noteWorker code w)"
    for code pool retryable err
    by (intro keeps_removals emits_rules tolerates_removalSafe; simp)+
  have "removalSafe (RemovedIfIdle (wID w) answer) (rxHistory s)" for answer
    using assms(2) by (simp add: removalSafe_def)
  then show "wp (removeUnregistered rn w) (\<lambda>_ s'. everyEvent removalSafe (rxHistory s')) s"
    and "wp (removeQuiesced rn w) (\<lambda>_ s'. everyEvent removalSafe (rxHistory s')) s"
    unfolding removeUnregistered_def removeQuiesced_def removeIfIdle_def wp_bind wp_ask using assms(1)
    by (auto split: sum.split intro!: keepsD [OF recorded(1)] keepsD [OF recorded(2)] simp del: wp_recordProblem)
qed

lemma quiescedWorker_later: "later h h' \<Longrightarrow> quiescedWorker h poolID runnerID w \<Longrightarrow> quiescedWorker h' poolID runnerID w"
  using durable_listed durable_confirmed unfolding quiescedWorker_def durable_def by blast

text \<open>Deregistering a quiesced worker; after success the last event is the deregistration.\<close>

lemma removals_deregister:
  assumes "everyEvent removalSafe (rxHistory s)" and "quiescedWorker (rxHistory s) poolID runnerID w"
  shows "wp (deregisterRunner rn (stepRetry (rnEnv rn)) poolID runnerID)
    (\<lambda>r s'. everyEvent removalSafe (rxHistory s') \<and> later (rxHistory s) (rxHistory s') \<and>
       (r = None \<longrightarrow> (\<exists>e h'. rxHistory s' = e # h' \<and> deregistered e poolID runnerID))) s"
proof -
  let ?V = "\<lambda>r h. \<forall>v. r = Inr v \<longrightarrow> (\<exists>e h'. h = e # h' \<and> deregistered e poolID runnerID)"
  have call: "phase (removeRunnerCall (rnEnv rn) poolID runnerID) ?V s1" for s1 :: rstate
    unfolding removeRunnerCall_def phase_def by (auto simp: deregistered_def split: option.split if_splits)
  have removed: "phase (deregisterRunner rn (stepRetry (rnEnv rn)) poolID runnerID)
      (\<lambda>r h. r = None \<longrightarrow> (\<exists>e h'. h = e # h' \<and> deregistered e poolID runnerID)) s"
    unfolding deregisterRunner_def
    by (auto intro!: phase_bind [OF phase_retried [OF call]] split: sum.split)
  have "emits (\<lambda>e. (\<forall>h. removalSafe e h) \<and> \<not> isLoad e \<or> (\<exists>r. e = RunnerRemoved poolID runnerID r))
      (deregisterRunner rn (stepRetry (rnEnv rn)) poolID runnerID)"
    using tolerates_removalSafe by (intro emits_deregisterRunner) (auto simp: tolerates_def)
  note emitted = wp_emits [OF this, of s]
  have "everyEvent removalSafe (new @ rxHistory s)"
    if "\<forall>e\<in>set new. (\<forall>h. removalSafe e h) \<and> \<not> isLoad e \<or> (\<exists>r. e = RunnerRemoved poolID runnerID r)" for new
    using that
  proof (induction new)
    case (Cons e new)
    have "later (rxHistory s) (new @ rxHistory s)"
      using Cons.prems by (auto simp: later_def)
    then show ?case
      using Cons removalSafe_quiesced [OF quiescedWorker_later [OF _ assms(2)]] by auto
  qed (simp add: assms(1))
  then have "wp (deregisterRunner rn (stepRetry (rnEnv rn)) poolID runnerID) (\<lambda>_ s'. everyEvent removalSafe (rxHistory s')) s"
    by (intro wp_mono [OF emitted]) auto
  from wp_conj [OF this removed [unfolded phase_def]] show ?thesis .
qed

lemma removals_deregisterAndRemove:
  assumes "everyEvent removalSafe (rxHistory s)" and "listedWorker (rxHistory s) w" and "wState w \<noteq> WorkerBusy"
    and "zeroConfirmed (rxHistory s) (wPoolID w)"
  shows "wp (deregisterAndRemove rn st w) (\<lambda>_ s'. everyEvent removalSafe (rxHistory s')) s"
proof (cases "wRunnerID w \<le> 0 \<or> stepBudget rn \<le> rtDeregistrations st")
  case True
  have "keeps removalSafe (do { recordProblem RetirementRunnerIDMissing (wPoolID w) False None; State_Monad.return st })"
    "keeps removalSafe (do { noteCode RetirementDeferredStepBudget (wPoolID w); State_Monad.return st })"
    by (intro keeps_removals emits_rules tolerates_removalSafe; simp)+
  from this [THEN keepsD, OF assms(1)] show ?thesis
    unfolding deregisterAndRemove_def using True by (auto simp del: wp_bind)
next
  case False
  then have quiesced: "quiescedWorker (rxHistory s) (wPoolID w) (wRunnerID w) w"
    using assms(2-4) by (simp add: quiescedWorker_def)
  have failed: "keeps removalSafe (do { recordScaleSet RunnerDeregistrationError (wPoolID w) err; State_Monad.return st' })" for err st'
    by (intro keeps_removals emits_rules tolerates_removalSafe) simp
  have removed: "wp (do { removeQuiesced rn w; State_Monad.return st' }) (\<lambda>_ s'. everyEvent removalSafe (rxHistory s')) s1"
    if "everyEvent removalSafe (rxHistory s1)" "later (rxHistory s) (rxHistory s1)"
      "\<exists>e h'. rxHistory s1 = e # h' \<and> deregistered e (wPoolID w) (wRunnerID w)" for st' and s1 :: rstate
  proof -
    have "removalSafe (RemovedIfIdle (wID w) (Inr True)) (rxHistory s1)"
      using quiescedWorker_later [OF that(2) quiesced] that(3) unfolding removalSafe_def event.case
      by (auto simp: quiescedWorker_def intro!: exI [of _ w])
    from removals_removeIfIdle(2) [OF that(1) this] show ?thesis
      by simp
  qed
  show ?thesis
    unfolding deregisterAndRemove_def Let_def using False
    by (simp only: if_False de_Morgan_disj wp_bind [of "deregisterRunner rn (stepRetry (rnEnv rn)) (wPoolID w) (wRunnerID w)"])
      (rule wp_mono [OF removals_deregister [OF assms(1) quiesced]],
       auto split: option.split intro: keepsD [OF failed] removed simp del: wp_bind)
qed

lemma removals_retireWorker:
  assumes "everyEvent removalSafe (rxHistory s)" and "listedWorker (rxHistory s) w"
    and "confirmationsKnown ak (rxHistory s)"
  shows "wp (retireWorker rn jobStateKnown advertised ak st w) (\<lambda>_ s'. everyEvent removalSafe (rxHistory s')) s"
proof -
  have deferred: "keeps removalSafe (deferRecording code w retryable st')" "keeps removalSafe (deferNoting code w st')"
    for code retryable st'
    unfolding deferRecording_def deferNoting_def by (intro keeps_removals emits_rules tolerates_removalSafe; simp)+
  have removed: "wp (do { removeUnregistered rn w; State_Monad.return st }) (\<lambda>_ s'. everyEvent removalSafe (rxHistory s')) s"
    "wp (do { removeQuiesced rn w; State_Monad.return st }) (\<lambda>_ s'. everyEvent removalSafe (rxHistory s')) s"
    if "wState w = WorkerExited \<or> wState w = WorkerUnregistered"
  proof -
    have "removalSafe (RemovedIfIdle (wID w) (Inr True)) (rxHistory s)"
      using that assms(2) by (auto simp: removalSafe_def)
    from removals_removeIfIdle [OF assms(1) this]
    show "wp (do { removeUnregistered rn w; State_Monad.return st }) (\<lambda>_ s'. everyEvent removalSafe (rxHistory s')) s"
      "wp (do { removeQuiesced rn w; State_Monad.return st }) (\<lambda>_ s'. everyEvent removalSafe (rxHistory s')) s"
      by simp_all
  qed
  have deregistered: "wp (deregisterAndRemove rn st w) (\<lambda>_ s'. everyEvent removalSafe (rxHistory s')) s"
    if "wState w \<noteq> WorkerBusy" "\<not> geti (akZeroConfirmations ak) (wPoolID w) < 2"
    using that assms by (intro removals_deregisterAndRemove) (auto simp: confirmationsKnown_def)
  show ?thesis
    unfolding retireWorker_def Let_def
    by (simp add: deferred [THEN keepsD, OF assms(1)] removed deregistered del: wp_bind)
qed

lemma removals_retireWorkers:
  assumes "everyEvent removalSafe (rxHistory s)" and "removalsKnown removals (rxHistory s)"
    and "confirmationsKnown ak (rxHistory s)"
  shows "wp (retireWorkers rn jobStateKnown advertised ak removals stale) (\<lambda>_ s'. everyEvent removalSafe (rxHistory s')) s"
proof -
  have frame: "emits (\<lambda>e. \<not> isLoad e) (retireWorker rn jobStateKnown advertised ak st w)" for st w
    by (intro emits_rules tolerates_later; simp)
  have loop: "wp (retireLoop rn jobStateKnown advertised ak ws st) (\<lambda>_ s'. everyEvent removalSafe (rxHistory s')) s1"
    if "everyEvent removalSafe (rxHistory s1)" "\<forall>w\<in>set ws. listedWorker (rxHistory s1) w"
      "confirmationsKnown ak (rxHistory s1)" for ws st and s1 :: rstate
    using that
  proof (induction ws arbitrary: st s1)
    case (Cons w ws)
    have step: "wp (retireWorker rn jobStateKnown advertised ak st' w) (\<lambda>_ s'. everyEvent removalSafe (rxHistory s') \<and>
        later (rxHistory s1) (rxHistory s')) s1" for st'
      using Cons.prems by (intro wp_conj removals_retireWorker wp_later frame) auto
    have known: "\<forall>w\<in>set ws. listedWorker h w" "confirmationsKnown ak h" if "later (rxHistory s1) h" for h
      using Cons.prems(2,3) that durable_listed durable_confirmationsKnown unfolding durable_def by auto
    show ?case
      using Cons by (auto intro!: wp_mono [OF step] Cons.IH dest: known)
  qed simp
  have "removals ! i \<in> set removals" if "i \<in> set (rotation cursor (length removals))" for cursor i
    using that by (auto simp: rotation_def intro!: nth_mem mod_less_divisor)
  then have listed: "\<forall>w\<in>set (map (\<lambda>i. removals ! i) (rotation cursor (length removals))). listedWorker (rxHistory s) w" for cursor
    using assms(2) by (auto simp: removalsKnown_def)
  show ?thesis
    unfolding retireWorkers_def using assms
    by (auto intro!: wp_mono [OF loop [OF _ listed]])
qed

interpretation removal_trace: step_invariant rn removalSafe for rn
proof (unfold_locales, goal_cases)
  case (6 starts identities sx reserved)
  show ?case by (rule removals_executePlannedStarts)
next
  case (7 s removals ak jobStateKnown advertised stale)
  then show ?case by (intro removals_retireWorkers)
next
  case (8 s ak desktop known stopDesktop shutdownWSL)
  have "keeps removalSafe (gamingShutdown rn ak desktop known stopDesktop shutdownWSL)"
    by (intro keeps_removals emits_rules tolerates_removalSafe) simp_all
  then show ?case
    using 8(1) by (rule keepsD)
qed simp_all

section \<open>Stopping the host's engine\<close>

text \<open>
  No worker can be active: either the status of Docker Desktop read in this step excludes running
  containers, or the last listing, with the job state read right after it, shows no active worker
  and nothing but stopping the engine has happened since.
\<close>

definition stopping :: "event \<Rightarrow> bool" where
  "stopping e = (case e of DesktopStopped _ \<Rightarrow> True | Logged _ \<Rightarrow> True | _ \<Rightarrow> False)"

definition noActiveWorker :: "history \<Rightarrow> bool" where
  "noActiveWorker h \<longleftrightarrow>
     (\<exists>desktop. DesktopRead (Inr desktop) \<in> set (thisStep h) \<and> \<not> mayHaveManagedWorkers desktop True) \<or>
     (\<exists>since jobs listed older workers. h = since @ jobs @ WorkersListed (Inr listed) # older \<and>
        list_all stopping since \<and> enrichedBy jobs listed workers \<and> \<not> containsActiveWorker workers)"

definition stopSafe :: "Reconciler \<Rightarrow> event \<Rightarrow> history \<Rightarrow> bool" where
  "stopSafe rn e h \<longleftrightarrow>
     (case e of
        DesktopStopped _ \<Rightarrow> (\<forall>t\<in>set (cfTargets (rnConfig rn)). zeroConfirmed h (tgID t)) \<and> noActiveWorker h
      | WSLShutDown _ \<Rightarrow> (\<forall>t\<in>set (cfTargets (rnConfig rn)). zeroConfirmed h (tgID t)) \<and> noActiveWorker h
      | _ \<Rightarrow> True)"

lemma stopSafe_harmless [simp]: "harmless e \<Longrightarrow> stopSafe rn e h"
  by (auto simp: stopSafe_def harmless_def split: event.splits)

lemma stopSafe_other [simp]:
  "stopSafe rn (ObservedLoaded ob) h" "stopSafe rn (DesktopStarted r) h" "stopSafe rn (Ensured i prior ident) h"
  "stopSafe rn (Polled ident' capacity stats) h" "stopSafe rn (JITCreated ident' name jit) h"
  "stopSafe rn (WorkerStarted req w) h" "stopSafe rn (RunnerRemoved poolID rid r) h" "stopSafe rn (RemovedIfIdle wid removed) h"
  by (simp_all add: stopSafe_def)

lemma keeps_stops: "emits (\<lambda>e. \<forall>h. stopSafe rn e h) m \<Longrightarrow> keeps (stopSafe rn) m"
  by (erule keeps_emits) simp

lemma tolerates_stopSafe: "tolerates (\<lambda>e. \<forall>h. stopSafe rn e h)"
  using stopSafe_harmless by (auto simp: tolerates_def)

text \<open>The facts that justify a stop survive what stopping the engine itself appends.\<close>

definition stopReady :: "Reconciler \<Rightarrow> history \<Rightarrow> bool" where
  "stopReady rn h \<longleftrightarrow> (\<forall>t\<in>set (cfTargets (rnConfig rn)). zeroConfirmed h (tgID t)) \<and> noActiveWorker h"

lemma stopReady_Cons:
  assumes "stopping e" and "stopReady rn h"
  shows "stopReady rn (e # h)"
proof -
  have later: "later h (e # h)"
    using assms(1) by (auto simp: stopping_def isLoad_def split: event.splits)
  have "noActiveWorker (e # h)"
    using assms(2) unfolding stopReady_def noActiveWorker_def
  proof (elim conjE disjE exE, goal_cases)
    case (1 desktop)
    then show ?case using thisStep_later [OF later] by blast
  next
    case (2 since jobs listed older workers)
    then have "e # h = (e # since) @ jobs @ WorkersListed (Inr listed) # older" "list_all stopping (e # since)"
      using assms(1) by simp_all
    then show ?case using 2 by blast
  qed
  then show ?thesis
    using assms(2) durable_confirmed later unfolding stopReady_def durable_def by blast
qed

lemma stops_stopHost:
  assumes "everyEvent (stopSafe rn) (rxHistory s)" and "stopReady rn (rxHistory s)"
  shows "wp (stopHost rn stopDesktop shutdownWSL) (\<lambda>_ s'. everyEvent (stopSafe rn) (rxHistory s')) s"
proof -
  have stop: "stopSafe rn (DesktopStopped r) h" "stopSafe rn (WSLShutDown r) h" if "stopReady rn h" for r h
    using that by (simp_all add: stopSafe_def stopReady_def)
  have logged: "stopping (Logged l)" "stopping (DesktopStopped r)" for l r
    by (simp_all add: stopping_def)
  show ?thesis
    unfolding stopHost_def
    using assms by (auto simp: stop stopReady_Cons logged split: option.split)
qed

lemma stops_gamingShutdown:
  assumes "everyEvent (stopSafe rn) (rxHistory s)" and "confirmationsKnown ak (rxHistory s)"
    and "desktopSeen desktop known (rxHistory s)"
  shows "wp (gamingShutdown rn ak desktop known stopDesktop shutdownWSL) (\<lambda>_ s'. everyEvent (stopSafe rn) (rxHistory s')) s"
proof (cases "(stopDesktop \<or> shutdownWSL) \<and>
    allTargetsStablyZero (cfTargets (rnConfig rn)) (akZeroAcknowledged ak) (akZeroConfirmations ak)")
  case False
  have "keeps (stopSafe rn) (noteCode GamingZeroUnconfirmed [])"
    by (intro keeps_stops emits_rules tolerates_stopSafe) simp
  then show ?thesis
    unfolding gamingShutdown_def using False assms(1) by (auto intro: keepsD)
next
  case True
  have zero: "\<forall>t\<in>set (cfTargets (rnConfig rn)). zeroConfirmed (new @ rxHistory s) (tgID t)"
    if "\<forall>e\<in>set new. \<not> isLoad e" for new
  proof -
    have "later (rxHistory s) (new @ rxHistory s)"
      using that by (auto simp: later_def)
    then have "confirmationsKnown ak (new @ rxHistory s)"
      using durable_confirmationsKnown assms(2) unfolding durable_def by blast
    then show ?thesis
      using True by (auto simp: allTargetsStablyZero_def confirmationsKnown_def list_all_iff)
  qed
  have recorded: "keeps (stopSafe rn) (recordProblem code [] retryable err)" for code retryable err
    by (intro keeps_stops emits_rules tolerates_stopSafe) simp
  have rest: "wp (case enriched of
      Inl err \<Rightarrow> recordProblem GamingJobIndexError [] True (Some err)
    | Inr current \<Rightarrow>
        if containsActiveWorker current then recordProblem GamingActiveRace [] False None
        else stopHost rn stopDesktop shutdownWSL) (\<lambda>_ s'. everyEvent (stopSafe rn) (rxHistory s')) s1"
    if "everyEvent (stopSafe rn) (rxHistory s1)"
      "\<forall>current. enriched = Inr current \<and> \<not> containsActiveWorker current \<longrightarrow> stopReady rn (rxHistory s1)" for enriched and s1 :: rstate
    using that by (auto split: sum.split intro: keepsD [OF recorded] stops_stopHost simp del: wp_recordProblem)
  have none: "stopReady rn (rxHistory s)" if "\<not> mayHaveManagedWorkers desktop known"
  proof -
    have "noActiveWorker (rxHistory s)"
      using that assms(3) by (auto simp: noActiveWorker_def desktopSeen_def mayHaveManagedWorkers_def)
    then show ?thesis
      using zero [of "[]"] by (simp add: stopReady_def)
  qed
  have idle: "stopReady rn (jobs @ WorkersListed (Inr listed) # rxHistory s)"
    if "enrichedBy jobs listed workers" "\<not> containsActiveWorker workers" for jobs listed workers
  proof -
    have "noActiveWorker (jobs @ WorkersListed (Inr listed) # rxHistory s)"
      unfolding noActiveWorker_def using that
      by - (rule disjI2, rule exI [of _ "[]"], rule exI [of _ jobs], rule exI [of _ listed], auto)
    moreover have "\<forall>e\<in>set (jobs @ [WorkersListed (Inr listed)]). \<not> isLoad e"
      using that(1) by (auto simp: enrichedBy_def split: if_splits)
    ultimately show ?thesis
      using zero [of "jobs @ [WorkersListed (Inr listed)]"] by (simp add: stopReady_def)
  qed
  have jobs: "everyEvent (stopSafe rn) (jobs @ h)" if "enrichedBy jobs listed workers" "everyEvent (stopSafe rn) h"
    for jobs listed workers h
    using that by (auto simp: enrichedBy_def split: if_splits)
  have listed: "wp (do { enriched \<leftarrow> enrichWorkerJobs (rnEnv rn) workers; case enriched of
      Inl err \<Rightarrow> recordProblem GamingJobIndexError [] True (Some err)
    | Inr current \<Rightarrow>
        if containsActiveWorker current then recordProblem GamingActiveRace [] False None
        else stopHost rn stopDesktop shutdownWSL }) (\<lambda>_ s'. everyEvent (stopSafe rn) (rxHistory s'))
      (s\<lparr>rxHistory := WorkersListed (Inr workers) # rxHistory s\<rparr>)" for workers
    unfolding wp_bind using assms(1) by (intro wp_enrichWorkerJobs rest) (auto simp: jobs idle)
  have unlisted: "wp (do { enriched \<leftarrow> enrichWorkerJobs (rnEnv rn) []; case enriched of
      Inl err \<Rightarrow> recordProblem GamingJobIndexError [] True (Some err)
    | Inr current \<Rightarrow>
        if containsActiveWorker current then recordProblem GamingActiveRace [] False None
        else stopHost rn stopDesktop shutdownWSL }) (\<lambda>_ s'. everyEvent (stopSafe rn) (rxHistory s')) s"
    if "\<not> mayHaveManagedWorkers desktop known"
    using rest [OF assms(1), of "Inr []"] none [OF that] by (simp add: enrichWorkerJobs_def)
  show ?thesis
    unfolding gamingShutdown_def using True assms(1)
    by (auto simp: listed unlisted wp_bind [of "listWorkers (rnEnv rn)"] split: sum.split
        intro: keepsD [OF recorded] simp del: wp_bind wp_recordProblem)
qed

interpretation stop_trace: step_invariant rn "stopSafe rn" for rn
proof (unfold_locales, goal_cases)
  case (6 starts identities sx reserved)
  show ?case by (intro keeps_stops emits_rules tolerates_stopSafe) simp_all
next
  case (7 s removals ak jobStateKnown advertised stale)
  have "keeps (stopSafe rn) (retireWorkers rn jobStateKnown advertised ak removals stale)"
    by (intro keeps_stops emits_rules tolerates_stopSafe) simp_all
  then show ?case
    using 7(1) by (rule keepsD)
next
  case (8 s ak desktop known stopDesktop shutdownWSL)
  then show ?case by (intro stops_gamingShutdown)
qed simp_all

section \<open>The safety theorems\<close>



text \<open>
  C3: Docker Desktop is stopped and WSL is shut down only when every configured target has
  confirmed zero capacity and no assigned job, in this step and in the state it started from, and
  no worker can be active: the last listing with its job state shows none, or the engine was read
  as not running.\<close>

theorem engine_stops_safe:
  "\<forall>newer e older. controllerTrace rn fuels = newer @ e # older \<and>
     (\<exists>answer. e = DesktopStopped answer \<or> e = WSLShutDown answer) \<longrightarrow>
     (\<forall>t\<in>set (cfTargets (rnConfig rn)). zeroConfirmed older (tgID t)) \<and> noActiveWorker older"
proof (intro allI impI, elim conjE)
  fix newer e older
  assume split: "controllerTrace rn fuels = newer @ e # older"
    and stop: "\<exists>answer. e = DesktopStopped answer \<or> e = WSLShutDown answer"
  have "stopSafe rn e older"
    using stop_trace.trace_admitted [of rn fuels] unfolding split by (rule everyEvent_split)
  then show "(\<forall>t\<in>set (cfTargets (rnConfig rn)). zeroConfirmed older (tgID t)) \<and> noActiveWorker older"
    using stop by (auto simp: stopSafe_def)
qed

theorem engine_stops_safe_witness:
  "let rn = sampleReconciler ModeGaming sampleObserved [] in
   \<forall>newer e older. controllerTrace rn [3] = newer @ e # older \<and>
     (\<exists>answer. e = DesktopStopped answer \<or> e = WSLShutDown answer) \<longrightarrow>
     (\<forall>t\<in>set (cfTargets (rnConfig rn)). zeroConfirmed older (tgID t)) \<and> noActiveWorker older"
  unfolding Let_def by (rule engine_stops_safe)

end
