(* ===== verification/Shutdown_Theorems.thy ===== *)
theory Shutdown_Theorems
  imports Removal_Theorems
begin

text \<open>
  A shutdown that returns without an error has drained the host. The witness runs the drain of an
  idle controller, without targets and with Docker Desktop stopped, phase by phase: each lemma
  \<open>idle_\<dots>\<close> computes what one phase of that step leaves behind.
\<close>

section \<open>The theorem\<close>

text \<open>A new reconciler takes some steps and is then shut down.\<close>

definition shutdownRun :: "Reconciler \<Rightarrow> nat list \<Rightarrow> nat \<Rightarrow> nat \<Rightarrow> goError option option \<times> rstate" where
  "shutdownRun rn fuels stepFuel fuel =
     run_state (do { _ \<leftarrow> runSteps rn fuels; ShutdownWithin rn stepFuel fuel }) newReconcilerState"

lemma wp_shutdownRun:
  "wp (runSteps rn fuels) (\<lambda>_. wp (ShutdownWithin rn stepFuel fuel) Q) newReconcilerState \<longleftrightarrow>
     Q (fst (shutdownRun rn fuels stepFuel fuel)) (snd (shutdownRun rn fuels stepFuel fuel))"
  by (simp add: wp_def shutdownRun_def case_prod_unfold)


section \<open>An idle controller\<close>

definition idleEnv :: Env where
  "idleEnv = (sampleEnv ModeDisabled zeroObservedState [])\<lparr>enDesktopStatus := \<lambda>_. Inr \<lparr>dtDesktopRunning = False, dtEngineReachable = False, dtRunningWSLCount = 0\<rparr>\<rparr>"

definition idleRn :: Reconciler where
  "idleRn = (sampleReconciler ModeDisabled zeroObservedState [])
     \<lparr>rnConfig := sampleConfig\<lparr>cfGitHub := (cfGitHub sampleConfig)\<lparr>ghTargets := []\<rparr>\<rparr>,
      rnEnv := idleEnv\<rparr>"

lemma idleEnv_sel [simp]:
  "enNow idleEnv h = sampleNow" "enCancel idleEnv h = None" "enShuttingDown idleEnv h = False"
  "enLoadDesired idleEnv h = Inr \<lparr>dsSchemaVersion = 1, dsMode = ModeDisabled, dsTemporaryCapacityOverride = None, dsUpdatedAt = 1\<rparr>"
  "enLoadObserved idleEnv h = Inr zeroObservedState" "enSaveObserved idleEnv h ob = None" "enInputIdle idleEnv = None"
  "enPower idleEnv h = Inr \<lparr>pwACConnected = True, pwObservedAt = 1\<rparr>"
  "enResources idleEnv h = Inr (sampleSnapshot 30064771072)"
  "enDesktopStatus idleEnv h = Inr \<lparr>dtDesktopRunning = False, dtEngineReachable = False, dtRunningWSLCount = 0\<rparr>"
  "enDesktopStart idleEnv h = None" "enDesktopStop idleEnv h = None" "enShutdownAllWSL idleEnv h = None"
  "enCloseScaleSets idleEnv = Some (\<lambda>_. None)" "enCloseWorkers idleEnv = Some (\<lambda>_. None)"
  by (simp_all add: idleEnv_def sampleEnv_def)

lemma idleEnv_fun [simp]: "enCancel idleEnv = (\<lambda>_. None)"  "enPower idleEnv = (\<lambda>_. Inr \<lparr>pwACConnected = True, pwObservedAt = 1\<rparr>)"
  by (simp_all add: idleEnv_def sampleEnv_def)

lemma idleRn_sel [simp]: "rnEnv idleRn = idleEnv" "cfTargets (rnConfig idleRn) = []"
  by (simp_all add: idleRn_def)

lemma plan_none: "cfTargets (piConfig i) = [] \<Longrightarrow> plStart (buildPlan clock i) = []"
  using buildPlan_startsOK [of i clock] by (cases "plStart (buildPlan clock i)") (auto simp: startsOK_def targetIDs_def)

lemma plan_none_remove: "piWorkers i = [] \<Longrightarrow> plRemove (buildPlan clock i) = []"
  using buildPlan_removes_listed [of "hd (plRemove (buildPlan clock i))" clock i] by (cases "plRemove (buildPlan clock i)") auto
section \<open>Its run\<close>

lemma context_same: "rxContext s = None \<Longrightarrow> s\<lparr>rxContext := None\<rparr> = s" for s :: rstate
  by (cases s) simp

lemma wp_ctx: assumes "rxContext s = None"
  shows "wp (ctxErr idleEnv) Q s = Q None (s\<lparr>rxHistory := ContextRead None # rxHistory s\<rparr>)"
    "wp (ctxCause idleEnv) Q s = Q None (s\<lparr>rxHistory := ContextRead None # rxHistory s\<rparr>)"
    "wp (parentErr idleEnv) Q s = Q None (s\<lparr>rxHistory := ContextRead None # rxHistory s\<rparr>)"
  using assms by (simp_all add: ctxErr_def ctxCause_def parentErr_def latchContext_def context_same)

definition quiet :: "rstate \<Rightarrow> bool" where "quiet s \<longleftrightarrow> rxContext s = None \<and> rxErrors s = []"

definition idleLv :: "Locals \<Rightarrow> bool" where
  "idleLv lv \<longleftrightarrow> lvWorkers lv = [] \<and> lvPools lv = [] \<and> dsMode (lvDesired lv) = ModeDisabled \<and> lvDesiredErr lv = None \<and>
     lvObservedErr lv = None \<and> \<not> lvRecoveryOnly lv \<and> \<not> lvObservationFailed lv"

definition downLv :: "Locals \<Rightarrow> bool" where
  "downLv lv \<longleftrightarrow> lvDesktopKnown lv \<and> \<not> dtDesktopRunning (lvDesktop lv) \<and> \<not> dtEngineReachable (lvDesktop lv)"

lemma idle_loadState: "rxContext s = None \<Longrightarrow> wp (loadState idleRn) (\<lambda>r s'. quiet s' \<and> (\<exists>lv. r = Inr lv \<and> idleLv lv)) s"
  by (simp add: loadState_def loadIntent_def loadPrevious_def timeNow_def ShuttingDown_def drainIntent_def zeroLocals_def
      checkpointAgeAt_def Let_def quiet_def idleLv_def)

lemma idle_observeHost: "quiet s \<Longrightarrow> idleLv lv \<Longrightarrow> wp (observeHost idleRn lv) (\<lambda>lv' s'. quiet s' \<and> idleLv lv' \<and> downLv lv') s"
  unfolding quiet_def idleLv_def downLv_def
  by (simp add: observeHost_def observePresence_def readInputIdle_def noteInteractiveCap_def observePower_def
    watcherForcedZero_def observeDesktop_def bootstrapDesktop_def probeEngineMemory_def
    observeResources_def observeInventory_def mayHaveManagedWorkers_def observeJobs_def enrichWorkerJobs_def invalidateResources_def
    timeNow_def ShuttingDown_def writeLog_def Let_def)

lemma idle_ensure: "quiet s \<Longrightarrow> idleLv lv \<Longrightarrow> downLv lv \<Longrightarrow> wp (ensureListeners idleRn lv) (\<lambda>lv' s'. quiet s' \<and> idleLv lv' \<and> downLv lv') s"
  by (simp add: ensureListeners_def noteCode_def clearStaleHandshake_def writeLog_def quiet_def idleLv_def downLv_def)

lemma idle_plan: "quiet s \<Longrightarrow> idleLv lv \<Longrightarrow> wp (planWith idleRn lv hy pools) (\<lambda>p s'. quiet s' \<and> plStart p = [] \<and> plRemove p = []) s"
  by (simp add: planWith_def plan_none plan_none_remove quiet_def idleLv_def)

lemma idle_desktop: "quiet s \<Longrightarrow> wp (startDesktopIf idleRn b) (\<lambda>_ s'. quiet s') s"
  by (simp add: startDesktopIf_def startDesktop_def quiet_def)

lemma idle_pre: "quiet s \<Longrightarrow> idleLv lv \<Longrightarrow> downLv lv \<Longrightarrow> plStart p = [] \<Longrightarrow>
   wp (prePollStarts idleRn p lv) (\<lambda>r s'. quiet s' \<and> r = Inr (lv, True)) s"
  unfolding prePollStarts_def by (auto simp: idleLv_def intro!: wp_mono [OF idle_desktop])

lemma idle_poll: "quiet s \<Longrightarrow> idleLv lv \<Longrightarrow>
   wp (pollListeners idleRn lv p) (\<lambda>(rs, c) s'. quiet s' \<and> rs = [] \<and> crCheckpointErr c = None) s"
  by (simp add: pollListeners_def containsReadyPool_def takeCheckpoint_def controllerCost_def timeNow_def Let_def quiet_def idleLv_def split: prod.split)

lemma idle_gaming: "quiet s \<Longrightarrow> downLv lv \<Longrightarrow> wp (gamingShutdown idleRn ak (lvDesktop lv) (lvDesktopKnown lv) a b) (\<lambda>_ s'. quiet s') s"
  by (simp add: gamingShutdown_def allTargetsStablyZero_def mayHaveManagedWorkers_def enrichWorkerJobs_def containsActiveWorker_def stopHost_def quiet_def downLv_def)

lemma idle_finish: "quiet s \<Longrightarrow> idleLv lv \<Longrightarrow> wp (finishStep idleRn lv c ak polled stale)
   (\<lambda>r s'. quiet s' \<and> snd r = None \<and> osPools (rzObserved (fst r)) = [] \<and> osWorkers (rzObserved (fst r)) = []) s"
  by (simp add: finishStep_def finalDesktop_def finalWorkers_def mayHaveManagedWorkers_def reportStep_def alignedPlan_def planWith_def
    noteClamped_def timeNow_def controllerCost_def persistObserved_def noteStaleHandshake_def clearStaleHandshake_def
    observedState_def errorsJoin_def Let_def quiet_def idleLv_def List.map_filter_simps)

lemma idle_retire: "quiet s \<Longrightarrow> wp (retireWorkers idleRn k adv ak [] stale) (\<lambda>_ s'. quiet s') s"
  by (simp add: retireWorkers_def rotation_def quiet_def)

lemma idle_aligned: "quiet s \<Longrightarrow> idleLv lv \<Longrightarrow> wp (alignedPlan idleRn lv ak) (\<lambda>p s'. quiet s' \<and> plStart p = [] \<and> plRemove p = []) s"
  unfolding alignedPlan_def wp_bind by (rule wp_mono [OF idle_plan]) auto

lemma idle_serve: "quiet s \<Longrightarrow> idleLv lv \<Longrightarrow> downLv lv \<Longrightarrow> wp (serveStep idleRn lv c ak polled stale)
   (\<lambda>r s'. quiet s' \<and> snd r = None \<and> osPools (rzObserved (fst r)) = [] \<and> osWorkers (rzObserved (fst r)) = []) s"
proof -
  assume q: "quiet s" and i: "idleLv lv" and d: "downLv lv"
  have refresh: "refreshWorkers idleRn x y lv = State_Monad.return (lv, True)" for x y
    using d by (simp add: refreshWorkers_def mayHaveManagedWorkers_def downLv_def)
  have verify: "(if k then verifyRegistrations idleRn pools (lvWorkers lv) else State_Monad.return (lvWorkers lv)) = State_Monad.return []" for k pools
    using i by (simp add: idleLv_def verifyRegistrations_def registrationCandidates_def List.map_filter_simps)
  have same: "lv\<lparr>lvWorkers := []\<rparr> = lv"
    using i by (cases lv) (simp add: idleLv_def)
  have starts: "runStarts idleRn lv [] ids pools = readState rxNow \<bind> (\<lambda>_. State_Monad.return (Inr (lvReserved lv)))" for ids pools
    by (simp add: runStarts_def)
  have rec: "recoveryPlan (lvRecoveryOnly lv) p = p" for p
    using i by (simp add: recoveryPlan_def idleLv_def)
  show ?thesis
    unfolding serveStep_def refresh
    apply (simp add: verify same rec del: wp_bind)
    apply (subst wp_bind, rule wp_mono [OF idle_aligned [OF q i]])
    apply (subst wp_bind, rule wp_mono [OF idle_desktop], blast)
    apply (subst wp_bind, simp only:, rule wp_mono [OF idle_retire], blast)
    apply (simp add: starts del: wp_bind)
    apply (simp add: wp_bind [of "readState _"] wp_bind [of "gamingShutdown _ _ _ _ _ _"] del: wp_bind)
    apply (rule wp_mono [OF idle_gaming [OF _ d]], assumption)
    apply (rule idle_finish [OF _ i], assumption)
    done
qed

lemma idle_pollStep: "quiet s \<Longrightarrow> idleLv lv \<Longrightarrow> downLv lv \<Longrightarrow> wp (pollStep idleRn lv p)
   (\<lambda>r s'. quiet s' \<and> snd r = None \<and> osPools (rzObserved (fst r)) = [] \<and> osWorkers (rzObserved (fst r)) = []) s"
proof -
  assume q: "quiet s" and i: "idleLv lv" and d: "downLv lv"
  have cad: "idleLv (applyCadence c lv)" "downLv (applyCadence c lv)" for c
    using i d by (simp_all add: applyCadence_def idleLv_def downLv_def Let_def)
  have keep: "quiet (s1\<lparr>rxHistory := h\<rparr>)" "quiet (s1\<lparr>rxNow := t, rxHistory := h\<rparr>)" if "quiet s1" for s1 h t
    using that by (simp_all add: quiet_def)
  show ?thesis
    unfolding pollStep_def wp_bind [of "pollListeners _ _ _"]
  proof (rule wp_mono [OF idle_poll [OF q i]], goal_cases)
    case (1 r s1)
    obtain c where r: "r = ([], c)" "quiet s1" "crCheckpointErr c = None"
      using 1 by (cases r) auto
    then have "rxContext s1 = None" by (simp add: quiet_def)
    then show ?case
      using r idle_serve [OF keep(2) cad]
      by (simp add: Let_def timeNow_def wp_ctx)
  qed
qed

lemma idle_reconcile: "rxContext s = None \<Longrightarrow> wp (reconcileStep idleRn)
   (\<lambda>r s'. quiet s' \<and> snd r = None \<and> osPools (rzObserved (fst r)) = [] \<and> osWorkers (rzObserved (fst r)) = []) s"
proof -
  assume c: "rxContext s = None"
  have loads: "recordLoads lv = State_Monad.return () \<bind> (\<lambda>_. State_Monad.return ())" if "idleLv lv" for lv
    using that by (simp add: recordLoads_def idleLv_def)
  have rest: "wp (do {
      lv \<leftarrow> observeHost idleRn lv;
      lv \<leftarrow> ensureListeners idleRn lv;
      hysteresis \<leftarrow> readState rxPendingCapacity;
      provisional \<leftarrow> planWith idleRn lv hysteresis (lvPools lv);
      pre \<leftarrow> prePollStarts idleRn provisional lv;
      case pre of
        Inl err \<Rightarrow> State_Monad.return (zeroResult, Some err)
      | Inr (lv', refreshed) \<Rightarrow> do {
          pending \<leftarrow> readState rxPendingCapacity;
          pollStep idleRn lv' (pollPlanFor (lvPrevious lv') pending refreshed provisional)
        }
    }) (\<lambda>r s'. quiet s' \<and> snd r = None \<and> osPools (rzObserved (fst r)) = [] \<and> osWorkers (rzObserved (fst r)) = []) s1"
    if q: "quiet s1" and i: "idleLv lv" for lv s1
    apply (subst wp_bind, rule wp_mono [OF idle_observeHost [OF q i]])
    apply (subst wp_bind, rule wp_mono [OF idle_ensure], blast, blast, blast)
    apply (subst wp_bind, simp only: wp_readState)
    apply (subst wp_bind, rule wp_mono [OF idle_plan], blast, blast)
    apply (subst wp_bind, rule wp_mono [OF idle_pre], blast, blast, blast, blast)
    apply (auto simp: wp_bind [of "readState _"] intro!: idle_pollStep simp del: wp_bind)
    done
  show ?thesis
    unfolding reconcileStep_def wp_bind [of "ctxErr _"] idleRn_sel wp_ctx(1) [OF c] option.case
    apply (subst wp_bind, rule wp_mono [OF idle_loadState], simp add: c)
    apply (auto simp: loads rest simp del: wp_bind)
    done
qed

lemma idle_StepWithin: "rxContext s = None \<Longrightarrow> wp (StepWithin idleRn 1)
   (\<lambda>r s'. rxContext s' = None \<and> (\<exists>result. r = Some (result, None) \<and> osPools (rzObserved result) = [] \<and> osWorkers (rzObserved result) = [])) s"
proof -
  assume c: "rxContext s = None"
  have once: "wp (runOnce idleRn n) (\<lambda>(r, cause) s'. rxContext s' = None \<and> cause = None \<and> snd r = None \<and>
      osPools (rzObserved (fst r)) = [] \<and> osWorkers (rzObserved (fst r)) = []) s1" for n s1
    unfolding runOnce_def wp_bind [of "modifyState _"] wp_modifyState wp_bind [of "reconcileStep _"]
    by (rule wp_mono [OF idle_reconcile]) (auto simp: wp_ctx quiet_def)
  show ?thesis
    unfolding StepWithin_def One_nat_def stepLoop.simps
    using c by (auto simp: timeNow_def wp_ctx wp_bind [of "runOnce _ _"] intro!: wp_mono [OF once])
qed

lemma idle_shutdown: "wp (ShutdownWithin idleRn 1 1) (\<lambda>r _. r = Some None) newReconcilerState"
proof -
  have loop: "wp (drainLoop idleRn 1 1 0) (\<lambda>r _. r = Some Drained) s" if "rxContext s = None" for s
    unfolding One_nat_def drainLoop.simps
    using that by (auto simp: wp_ctx shutdownDrained_def intro!: wp_mono [OF idle_StepWithin [unfolded One_nat_def]])
  show ?thesis
    unfolding ShutdownWithin_def BeginShutdown_def wp_bind [of "tell _"] wp_tell wp_bind [of "drainLoop _ _ _ _"]
    by (rule wp_mono [OF loop]) (simp_all add: newReconcilerState_def closeAll_def closeIf_def errorsJoin_def List.map_filter_simps)
qed


end
