(* ===== verification/Spec2Isabelle.thy ===== *)
theory Spec2Isabelle
  imports Gate_Theorems Plan_Theorems Capacity_Theorems Retry_Theorems Store_Theorems Job_Theorems Shutdown_Theorems
begin

text \<open>
  A verification library for the ci-runner host controller.
\<close>

end
